(* ===== verification/Prelude.thy ===== *)
theory Prelude
  imports Main "HOL-Library.Word"
begin

text \<open>
  What every component shares: the machine integers and byte strings, the C++ exceptions as
  values of a sum type, and \<open>std::unordered_map\<close> as an association list whose keys are compared
  by a given equality. The laws of the map are proved once, in the locale \<open>key_equality\<close>,
  whose assumptions are what the standard library asks of a key equality; the components
  interpret it for their keys.
\<close>

section \<open>Machine types\<close>

type_synonym u8 = "8 word"
type_synonym u32 = "32 word"
type_synonym bytes = "8 word list"

section \<open>Collections of rewrite rules\<close>

named_theorems gw_unfold "definitions of small accessors and helpers, unfolded in component proofs"
named_theorems map_laws "laws of the unordered maps, for the keys the program uses"

section \<open>Exceptions\<close>

text \<open>
  An operation that can throw returns \<open>Inl\<close> of the exception, or \<open>Inr\<close> of its result.
  \<open>Undefined_behaviour\<close> marks a step the C++ standard gives no meaning to (the front of an
  empty queue).
\<close>

datatype exn =
    Out_of_range
  | Bad_alloc
  | Buffer_not_allocated
  | Buffer_too_small
  | Runtime_error
  | Invalid_argument
  | Module_binary_error
  | Json_error
  | Cmdline_error
  | Undefined_behaviour

definition bindE :: "exn + 'a \<Rightarrow> ('a \<Rightarrow> exn + 'b) \<Rightarrow> exn + 'b" where
  "bindE m f = (case m of Inl e \<Rightarrow> Inl e | Inr x \<Rightarrow> f x)"

lemma bindE_simps [simp]:
  "bindE (Inl e) f = Inl e"
  "bindE (Inr x) f = f x"
  by (simp_all add: bindE_def)

lemma bindE_assoc: "bindE (bindE m f) g = bindE m (\<lambda>x. bindE (f x) g)"
  by (cases m) simp_all

lemma bindE_eq_Inr_iff: "bindE m f = Inr y \<longleftrightarrow> (\<exists>x. m = Inr x \<and> f x = Inr y)"
  by (cases m) simp_all

lemma bindE_InrE:
  assumes "bindE m f = Inr y"
  obtains x where "m = Inr x" and "f x = Inr y"
  using assms by (auto simp: bindE_eq_Inr_iff)

lemma bindE_cong [fundef_cong]:
  "m = m' \<Longrightarrow> (\<And>x. m' = Inr x \<Longrightarrow> f x = g x) \<Longrightarrow> bindE m f = bindE m' g"
  by (cases m') simp_all

text \<open>Total correctness: the computation does not throw, and its result satisfies \<open>P\<close>.\<close>

definition returns :: "exn + 'a \<Rightarrow> ('a \<Rightarrow> bool) \<Rightarrow> bool" where
  "returns m P \<longleftrightarrow> (\<exists>x. m = Inr x \<and> P x)"

lemma returns_simps [simp]:
  "returns (Inr x) P = P x"
  "\<not> returns (Inl e) P"
  by (simp_all add: returns_def)

lemma returns_bind: "returns m P \<Longrightarrow> (\<And>x. P x \<Longrightarrow> returns (f x) Q) \<Longrightarrow> returns (bindE m f) Q"
  by (auto simp: returns_def)

lemma returns_bind_eq: "m = Inr x \<Longrightarrow> returns (f x) Q \<Longrightarrow> returns (bindE m f) Q"
  by simp

lemma returns_mono: "returns m P \<Longrightarrow> (\<And>x. P x \<Longrightarrow> Q x) \<Longrightarrow> returns m Q"
  by (auto simp: returns_def)

lemma returns_conj: "returns m P \<Longrightarrow> (\<And>x. m = Inr x \<Longrightarrow> Q x) \<Longrightarrow> returns m (\<lambda>x. P x \<and> Q x)"
  by (auto simp: returns_def)

section \<open>Unordered maps\<close>

text \<open>
  \<open>std::unordered_map\<close> with the key equality as first argument. The list order stands for the
  iteration order, which the standard leaves open. \<open>um_put\<close> is assignment through
  \<open>operator[]\<close>: the stored key of an existing entry is kept. \<open>um_modify\<close> is mutation through a
  reference to an existing entry.
\<close>

fun um_find :: "('k \<Rightarrow> 'k \<Rightarrow> bool) \<Rightarrow> 'k \<Rightarrow> ('k \<times> 'v) list \<Rightarrow> 'v option" where
  "um_find eq k [] = None"
| "um_find eq k ((k', v) # m) = (if eq k' k then Some v else um_find eq k m)"

definition um_contains :: "('k \<Rightarrow> 'k \<Rightarrow> bool) \<Rightarrow> 'k \<Rightarrow> ('k \<times> 'v) list \<Rightarrow> bool" where
  "um_contains eq k m \<longleftrightarrow> um_find eq k m \<noteq> None"

definition um_at :: "('k \<Rightarrow> 'k \<Rightarrow> bool) \<Rightarrow> 'k \<Rightarrow> ('k \<times> 'v) list \<Rightarrow> exn + 'v" where
  "um_at eq k m = (case um_find eq k m of None \<Rightarrow> Inl Out_of_range | Some v \<Rightarrow> Inr v)"

fun um_put :: "('k \<Rightarrow> 'k \<Rightarrow> bool) \<Rightarrow> 'k \<Rightarrow> 'v \<Rightarrow> ('k \<times> 'v) list \<Rightarrow> ('k \<times> 'v) list" where
  "um_put eq k v [] = [(k, v)]"
| "um_put eq k v ((k', v') # m) =
     (if eq k' k then (k', v) # m else (k', v') # um_put eq k v m)"

definition um_try_emplace ::
  "('k \<Rightarrow> 'k \<Rightarrow> bool) \<Rightarrow> 'k \<Rightarrow> 'v \<Rightarrow> ('k \<times> 'v) list \<Rightarrow> ('k \<times> 'v) list" where
  "um_try_emplace eq k v m = (if um_contains eq k m then m else m @ [(k, v)])"

fun um_modify ::
  "('k \<Rightarrow> 'k \<Rightarrow> bool) \<Rightarrow> 'k \<Rightarrow> ('v \<Rightarrow> 'v) \<Rightarrow> ('k \<times> 'v) list \<Rightarrow> ('k \<times> 'v) list" where
  "um_modify eq k f [] = []"
| "um_modify eq k f ((k', v) # m) =
     (if eq k' k then (k', f v) # m else (k', v) # um_modify eq k f m)"

definition um_erase :: "('k \<Rightarrow> 'k \<Rightarrow> bool) \<Rightarrow> 'k \<Rightarrow> ('k \<times> 'v) list \<Rightarrow> ('k \<times> 'v) list" where
  "um_erase eq k m = filter (\<lambda>(k', _). \<not> eq k' k) m"

definition um_keys :: "('k \<times> 'v) list \<Rightarrow> 'k list" where
  "um_keys m = map fst m"

lemma um_contains_simps [simp]:
  "\<not> um_contains eq k []"
  "um_contains eq k ((k', v) # m) \<longleftrightarrow> eq k' k \<or> um_contains eq k m"
  by (simp_all add: um_contains_def)

text \<open>No two entries have equal keys: what the container maintains.\<close>

definition um_distinct :: "('k \<Rightarrow> 'k \<Rightarrow> bool) \<Rightarrow> ('k \<times> 'v) list \<Rightarrow> bool" where
  "um_distinct eq m \<longleftrightarrow> sorted_wrt (\<lambda>a b. \<not> eq (fst a) (fst b)) m"

text \<open>A predicate of every entry, its key included.\<close>

definition um_all :: "('k \<Rightarrow> 'v \<Rightarrow> bool) \<Rightarrow> ('k \<times> 'v) list \<Rightarrow> bool" where
  "um_all P m = list_all (\<lambda>(k, v). P k v) m"

lemma um_all_simps [simp]:
  "um_all P []"
  "um_all P ((k, v) # m) \<longleftrightarrow> P k v \<and> um_all P m"
  "um_all P (m @ m') \<longleftrightarrow> um_all P m \<and> um_all P m'"
  by (simp_all add: um_all_def)

lemma um_all_put:
  "P k v \<Longrightarrow> (\<And>k'. eq k' k \<Longrightarrow> P k' v) \<Longrightarrow> um_all P m \<Longrightarrow> um_all P (um_put eq k v m)"
  by (induction eq k v m rule: um_put.induct) auto

lemma um_all_modify:
  "(\<And>k' v. eq k' k \<Longrightarrow> um_find eq k m = Some v \<Longrightarrow> P k' v \<Longrightarrow> P k' (f v)) \<Longrightarrow> um_all P m \<Longrightarrow>
   um_all P (um_modify eq k f m)"
  by (induction eq k f m rule: um_modify.induct) auto

lemma um_all_try_emplace: "P k v \<Longrightarrow> um_all P m \<Longrightarrow> um_all P (um_try_emplace eq k v m)"
  by (simp add: um_try_emplace_def)

lemma um_all_erase: "um_all P m \<Longrightarrow> um_all P (um_erase eq k m)"
  by (auto simp: um_all_def um_erase_def list_all_iff)

lemma um_all_mono: "um_all P m \<Longrightarrow> (\<And>k v. P k v \<Longrightarrow> Q k v) \<Longrightarrow> um_all Q m"
  by (auto simp: um_all_def list_all_iff)

lemma um_all_find:
  assumes "um_all P m" and "um_find eq k m = Some v"
  obtains k' where "eq k' k" and "P k' v"
  using assms by (induction eq k m rule: um_find.induct) (auto split: if_splits)

lemma um_keys_simps [simp]:
  "um_keys [] = []"
  "um_keys ((k, v) # m) = k # um_keys m"
  "um_keys (m @ m') = um_keys m @ um_keys m'"
  by (simp_all add: um_keys_def)

lemma um_keys_modify [simp]: "um_keys (um_modify eq k f m) = um_keys m"
  by (induction eq k f m rule: um_modify.induct) auto

lemma length_um_modify [simp]: "length (um_modify eq k f m) = length m"
  by (induction eq k f m rule: um_modify.induct) auto

lemma um_modify_modify:
  "um_modify eq k f (um_modify eq k g m) = um_modify eq k (\<lambda>v. f (g v)) m"
  by (induction eq k g m rule: um_modify.induct) auto

lemma um_modify_same:
  "um_find eq k m = Some v \<Longrightarrow> f v = v \<Longrightarrow> um_modify eq k f m = m"
  by (induction eq k f m rule: um_modify.induct) (auto split: if_splits)

lemma um_modify_at:
  "um_find eq k m = Some v \<Longrightarrow> f v = g v \<Longrightarrow> um_modify eq k f m = um_modify eq k g m"
  by (induction eq k f m rule: um_modify.induct) (auto split: if_splits)

lemma um_find_distinct:
  "um_distinct eq m \<Longrightarrow> (\<And>k. eq k k) \<Longrightarrow> (k, v) \<in> set m \<Longrightarrow> um_find eq k m = Some v"
  by (induction m) (auto simp: um_distinct_def)

lemma um_distinct_keys: "um_distinct (=) m \<Longrightarrow> distinct (um_keys m)"
  by (induction m) (auto simp: um_distinct_def um_keys_def)

lemma map_um_find_keys:
  assumes "um_distinct (=) m"
  shows "map (\<lambda>k. case um_find (=) k m of None \<Rightarrow> z | Some v \<Rightarrow> g v) (um_keys m) =
    map (\<lambda>(k, v). g v) m"
  using um_find_distinct [OF assms refl] by (auto simp: um_keys_def)

lemma um_find_in: "um_find eq k m = Some v \<Longrightarrow> \<exists>k'. (k', v) \<in> set m \<and> eq k' k"
  by (induction eq k m rule: um_find.induct) (auto split: if_splits)

text \<open>Modifying every entry through its key is modifying every entry.\<close>

lemma um_modify_all:
  assumes "um_distinct eq m" and "\<And>k. eq k k"
  shows "fold (\<lambda>k. um_modify eq k f) (um_keys m) m = map (\<lambda>(k, v). (k, f v)) m"
proof -
  have skip: "fold (\<lambda>k. um_modify eq k f) ks ((k, v) # m') = (k, v) # fold (\<lambda>k. um_modify eq k f) ks m'"
    if "\<forall>k' \<in> set ks. \<not> eq k k'" for ks k and v :: 'b and m'
    using that by (induction ks arbitrary: m') auto
  show ?thesis
    using assms(1)
  proof (induction m)
    case (Cons e m)
    then show ?case
      using assms(2) skip [of "um_keys m" "fst e" "f (snd e)" m]
      by (cases e) (auto simp: um_distinct_def um_keys_def)
  qed simp
qed

lemma um_find_append:
  "um_find eq k (m @ m') = (case um_find eq k m of None \<Rightarrow> um_find eq k m' | Some v \<Rightarrow> Some v)"
  by (induction eq k m rule: um_find.induct) auto

locale key_equality =
  fixes eq :: "'k \<Rightarrow> 'k \<Rightarrow> bool"
  assumes eq_refl: "eq a a"
    and eq_sym: "eq a b \<Longrightarrow> eq b a"
    and eq_trans: "eq a b \<Longrightarrow> eq b c \<Longrightarrow> eq a c"
begin

lemma eq_cong: "eq a b \<Longrightarrow> eq a c = eq b c"
  using eq_sym eq_trans by blast

lemma eq_right: "eq a b \<Longrightarrow> eq c a = eq c b"
  using eq_sym eq_trans by blast

lemma eq_join: "eq a b \<Longrightarrow> eq a c \<Longrightarrow> eq b c"
  using eq_sym eq_trans by blast

lemma find_cong: "eq a b \<Longrightarrow> um_find eq a m = um_find eq b m"
  by (induction m) (auto simp: eq_right)

lemma find_put: "um_find eq k' (um_put eq k v m) = (if eq k k' then Some v else um_find eq k' m)"
  by (induction m) (auto simp: eq_right dest: eq_join)

lemma find_modify:
  "um_find eq k' (um_modify eq k f m) =
     (if eq k k' then map_option f (um_find eq k' m) else um_find eq k' m)"
  by (induction m) (auto simp: eq_right dest: eq_join)

lemma find_erase: "um_find eq k' (um_erase eq k m) = (if eq k k' then None else um_find eq k' m)"
  by (induction m) (auto simp: um_erase_def eq_right dest: eq_join)

lemma find_try_emplace:
  "um_find eq k' (um_try_emplace eq k v m) =
     (if eq k k' \<and> \<not> um_contains eq k m then Some v else um_find eq k' m)"
  using find_cong [of k k' m]
  by (auto simp: um_try_emplace_def um_contains_def um_find_append split: option.splits)

lemma contains_put: "um_contains eq k' (um_put eq k v m) \<longleftrightarrow> eq k k' \<or> um_contains eq k' m"
  by (simp add: um_contains_def find_put)

lemma contains_modify [simp]: "um_contains eq k' (um_modify eq k f m) \<longleftrightarrow> um_contains eq k' m"
  by (simp add: um_contains_def find_modify)

lemma contains_erase: "um_contains eq k' (um_erase eq k m) \<longleftrightarrow> \<not> eq k k' \<and> um_contains eq k' m"
  by (simp add: um_contains_def find_erase)

lemma contains_try_emplace:
  "um_contains eq k' (um_try_emplace eq k v m) \<longleftrightarrow> eq k k' \<or> um_contains eq k' m"
  using find_cong [of k k' m] by (auto simp: um_contains_def find_try_emplace)

lemma contains_keys: "um_contains eq k m \<longleftrightarrow> (\<exists>k' \<in> set (um_keys m). eq k' k)"
  by (induction m) (auto simp: um_contains_def)

lemma keys_put: "x \<in> set (um_keys (um_put eq k v m)) \<Longrightarrow> x = k \<or> x \<in> set (um_keys m)"
  by (induction m) (auto split: if_splits)

lemma distinct_put: "um_distinct eq m \<Longrightarrow> um_distinct eq (um_put eq k v m)"
proof (induction m)
  case Nil
  then show ?case by (simp add: um_distinct_def)
next
  case (Cons e m)
  obtain k' v' where e: "e = (k', v')" by (cases e)
  have fresh: "\<not> eq k' (fst b)" if "b \<in> set (um_put eq k v m)" and "\<not> eq k' k" for b
    using keys_put [of "fst b" k v m] that Cons.prems
    by (auto simp: um_keys_def um_distinct_def e)
  show ?case using Cons fresh by (auto simp: um_distinct_def e)
qed

lemma distinct_modify: "um_distinct eq m \<Longrightarrow> um_distinct eq (um_modify eq k f m)"
proof (induction m)
  case (Cons e m)
  obtain k' v' where e: "e = (k', v')" by (cases e)
  have "fst ` set (um_modify eq k f m) = fst ` set m"
    using arg_cong [OF um_keys_modify [of eq k f m], of set] by (simp add: um_keys_def)
  then have "\<not> eq k' (fst b)" if "b \<in> set (um_modify eq k f m)" for b
    using that Cons.prems by (force simp: um_distinct_def e)
  then show ?case using Cons by (auto simp: um_distinct_def e)
qed (simp add: um_distinct_def)

lemma distinct_erase: "um_distinct eq m \<Longrightarrow> um_distinct eq (um_erase eq k m)"
  by (auto simp: um_distinct_def um_erase_def intro: sorted_wrt_filter)

lemma distinct_try_emplace: "um_distinct eq m \<Longrightarrow> um_distinct eq (um_try_emplace eq k v m)"
  by (auto simp: um_distinct_def um_try_emplace_def sorted_wrt_append contains_keys um_keys_def)

lemmas find_laws = find_put find_modify find_erase find_try_emplace
lemmas contains_laws = contains_put contains_modify contains_erase contains_try_emplace
lemmas distinct_laws = distinct_put distinct_modify distinct_erase distinct_try_emplace

end

text \<open>Maps keyed by a module number use the integers' own equality.\<close>

abbreviation (input) num_eq :: "int \<Rightarrow> int \<Rightarrow> bool" where
  "num_eq \<equiv> (=)"

interpretation num: key_equality num_eq
  by unfold_locales auto

declare num.find_laws [map_laws] num.contains_laws [map_laws]

end
