(* ===== verification/Constants.thy ===== *)
theory Constants
  imports Prelude
begin

text \<open>
  The compile-time constants of include/bringauto/settings/Constants.hpp the modelled code
  reads, at the values the header gives them.
\<close>

definition header_size :: nat where
  "header_size = 4"

definition buffer_length :: nat where
  "buffer_length = 1024"

definition max_external_commands :: nat where
  "max_external_commands = 3"

definition max_external_queue_size :: nat where
  "max_external_queue_size = 500"

definition status_aggregation_timeout_max_count :: int where
  "status_aggregation_timeout_max_count = 2"

text \<open>The options of an MQTT connection: durations in seconds and, for the time to connect, in milliseconds.\<close>

definition status_response_timeout :: nat where
  "status_response_timeout = 30"

definition mqtt_keepalive :: nat where
  "mqtt_keepalive = status_response_timeout div 2"

definition mqtt_automatic_reconnect :: bool where
  "mqtt_automatic_reconnect = True"

definition mqtt_connect_timeout :: nat where
  "mqtt_connect_timeout = 600"

definition mqtt_max_inflight :: nat where
  "mqtt_max_inflight = 20"

text \<open>The start of a module binary, in milliseconds.\<close>

definition aeron_client_startup_timeout :: nat where
  "aeron_client_startup_timeout = 10000"

definition module_binary_poll_interval :: nat where
  "module_binary_poll_interval = 10"

text \<open>The keys and values of the configuration, the command line and the enumeration names (\<open>class Constants\<close>).\<close>

definition CONFIG_PATH :: string where
  "CONFIG_PATH = ''config-path''"

definition LOGGING :: string where
  "LOGGING = ''logging''"

definition LOGGING_CONSOLE :: string where
  "LOGGING_CONSOLE = ''console''"

definition LOGGING_FILE :: string where
  "LOGGING_FILE = ''file''"

definition LOG_LEVEL :: string where
  "LOG_LEVEL = ''level''"

definition LOG_USE :: string where
  "LOG_USE = ''use''"

definition LOG_PATH :: string where
  "LOG_PATH = ''path''"

definition LOG_LEVEL_DEBUG :: string where
  "LOG_LEVEL_DEBUG = ''DEBUG''"

definition LOG_LEVEL_INFO :: string where
  "LOG_LEVEL_INFO = ''INFO''"

definition LOG_LEVEL_WARNING :: string where
  "LOG_LEVEL_WARNING = ''WARNING''"

definition LOG_LEVEL_ERROR :: string where
  "LOG_LEVEL_ERROR = ''ERROR''"

definition LOG_LEVEL_CRITICAL :: string where
  "LOG_LEVEL_CRITICAL = ''CRITICAL''"

definition LOG_CONNECTION_STATE_NOT_INITIALIZED :: string where
  "LOG_CONNECTION_STATE_NOT_INITIALIZED = ''not initialized''"

definition LOG_CONNECTION_STATE_NOT_CONNECTED :: string where
  "LOG_CONNECTION_STATE_NOT_CONNECTED = ''not connected''"

definition LOG_CONNECTION_STATE_CONNECTING :: string where
  "LOG_CONNECTION_STATE_CONNECTING = ''connecting''"

definition LOG_CONNECTION_STATE_CONNECTED :: string where
  "LOG_CONNECTION_STATE_CONNECTED = ''connected''"

definition LOG_CONNECTION_STATE_CLOSING :: string where
  "LOG_CONNECTION_STATE_CLOSING = ''closing''"

definition HELP :: string where
  "HELP = ''help''"

definition PORT :: string where
  "PORT = ''port''"

definition MODULE_PATHS :: string where
  "MODULE_PATHS = ''module-paths''"

definition MODULE_BINARY_PATH :: string where
  "MODULE_BINARY_PATH = ''module-binary-path''"

definition INTERNAL_SERVER_SETTINGS :: string where
  "INTERNAL_SERVER_SETTINGS = ''internal-server-settings''"

definition EXTERNAL_CONNECTION :: string where
  "EXTERNAL_CONNECTION = ''external-connection''"

definition VEHICLE_NAME :: string where
  "VEHICLE_NAME = ''vehicle-name''"

definition COMPANY :: string where
  "COMPANY = ''company''"

definition EXTERNAL_ENDPOINTS :: string where
  "EXTERNAL_ENDPOINTS = ''endpoints''"

definition SERVER_IP :: string where
  "SERVER_IP = ''server-ip''"

definition PROTOCOL_TYPE :: string where
  "PROTOCOL_TYPE = ''protocol-type''"

definition MQTT :: string where
  "MQTT = ''MQTT''"

definition QUIC :: string where
  "QUIC = ''QUIC''"

definition DUMMY :: string where
  "DUMMY = ''DUMMY''"

definition MQTT_SETTINGS :: string where
  "MQTT_SETTINGS = ''mqtt-settings''"

definition QUIC_SETTINGS :: string where
  "QUIC_SETTINGS = ''quic-settings''"

definition SSL :: string where
  "SSL = ''ssl''"

definition CA_FILE :: string where
  "CA_FILE = ''ca-file''"

definition CLIENT_CERT :: string where
  "CLIENT_CERT = ''client-cert''"

definition CLIENT_KEY :: string where
  "CLIENT_KEY = ''client-key''"

definition ALPN :: string where
  "ALPN = ''alpn''"

definition STREAM_MODE :: string where
  "STREAM_MODE = ''stream-mode''"

definition MODULES :: string where
  "MODULES = ''modules''"

lemmas constant_strings [simp] =
  CONFIG_PATH_def LOGGING_def LOGGING_CONSOLE_def LOGGING_FILE_def LOG_LEVEL_def LOG_USE_def LOG_PATH_def
  LOG_LEVEL_DEBUG_def LOG_LEVEL_INFO_def LOG_LEVEL_WARNING_def LOG_LEVEL_ERROR_def LOG_LEVEL_CRITICAL_def
  LOG_CONNECTION_STATE_NOT_INITIALIZED_def LOG_CONNECTION_STATE_NOT_CONNECTED_def
  LOG_CONNECTION_STATE_CONNECTING_def LOG_CONNECTION_STATE_CONNECTED_def LOG_CONNECTION_STATE_CLOSING_def
  HELP_def PORT_def MODULE_PATHS_def MODULE_BINARY_PATH_def INTERNAL_SERVER_SETTINGS_def
  EXTERNAL_CONNECTION_def VEHICLE_NAME_def COMPANY_def EXTERNAL_ENDPOINTS_def SERVER_IP_def PROTOCOL_TYPE_def
  MQTT_def QUIC_def DUMMY_def MQTT_SETTINGS_def QUIC_SETTINGS_def SSL_def CA_FILE_def CLIENT_CERT_def
  CLIENT_KEY_def ALPN_def STREAM_MODE_def MODULES_def

text \<open>The length of a session id (include/bringauto/external_client/connection/ExternalConnection.hpp).\<close>

definition KEY_LENGTH :: nat where
  "KEY_LENGTH = 8"

end
