(* ===== verification/Logging.thy ===== *)
theory Logging
  imports Prelude
begin

text \<open>
  The wrapper around the logger (LoggerWrapper.hpp, LoggerId.hpp) and \<open>initLogger\<close> of main.cpp. The logger
  itself is a library; what it is called with is a list of calls, the newest last. The verbosities are
  ordered as the library's enumeration declares them, by an instance of \<open>linorder\<close>.
\<close>

datatype logger_verbosity = V_Debug | V_Info | V_Warning | V_Error | V_Critical

fun verbosity_rank :: "logger_verbosity \<Rightarrow> nat" where
  "verbosity_rank V_Debug = 0"
| "verbosity_rank V_Info = 1"
| "verbosity_rank V_Warning = 2"
| "verbosity_rank V_Error = 3"
| "verbosity_rank V_Critical = 4"

lemma verbosity_rank_inject: "verbosity_rank v = verbosity_rank w \<longleftrightarrow> v = w"
  by (cases v; cases w) simp_all

instantiation logger_verbosity :: linorder
begin

definition less_eq_logger_verbosity :: "logger_verbosity \<Rightarrow> logger_verbosity \<Rightarrow> bool" where
  "less_eq_logger_verbosity v w \<longleftrightarrow> verbosity_rank v \<le> verbosity_rank w"

definition less_logger_verbosity :: "logger_verbosity \<Rightarrow> logger_verbosity \<Rightarrow> bool" where
  "less_logger_verbosity v w \<longleftrightarrow> verbosity_rank v < verbosity_rank w"

instance
  by standard (auto simp: less_eq_logger_verbosity_def less_logger_verbosity_def
      simp flip: verbosity_rank_inject)

end

record console_settings =
  cs_use :: bool
  cs_level :: logger_verbosity

record file_settings =
  fs_use :: bool
  fs_level :: logger_verbosity
  fs_path :: string

record logging_settings =
  ls_console :: console_settings
  ls_file :: file_settings

text \<open>\<open>AddFileSink\<close> has the directory, the name, the verbosity, the size limit and the number of rotated files.\<close>

datatype logger_call =
    AddConsoleSink logger_verbosity
  | AddFileSink string string logger_verbosity nat nat
  | LoggerInit string logger_verbosity
  | BaseLog logger_verbosity string

definition toLoggerVerbosity :: "string \<Rightarrow> logger_verbosity" where
  "toLoggerVerbosity verbosityString =
     (if verbosityString = ''INFO'' then V_Info
      else if verbosityString = ''WARNING'' then V_Warning
      else if verbosityString = ''ERROR'' then V_Error
      else if verbosityString = ''CRITICAL'' then V_Critical
      else V_Debug)"

text \<open>What the build accepts as the minimum (LoggerId.cpp): exactly the names the conversion tells apart.\<close>

definition stringsEqual :: "string \<Rightarrow> string \<Rightarrow> bool" where
  "stringsEqual str1 str2 \<longleftrightarrow> str1 = str2"

definition minimum_verbosity_valid :: "string \<Rightarrow> bool" where
  "minimum_verbosity_valid minimum \<longleftrightarrow>
     stringsEqual minimum ''DEBUG'' \<or> stringsEqual minimum ''INFO'' \<or> stringsEqual minimum ''WARNING'' \<or>
     stringsEqual minimum ''ERROR'' \<or> stringsEqual minimum ''CRITICAL''"

lemma toLoggerVerbosity_simps:
  "toLoggerVerbosity ''DEBUG'' = V_Debug" "toLoggerVerbosity ''INFO'' = V_Info"
  "toLoggerVerbosity ''WARNING'' = V_Warning" "toLoggerVerbosity ''ERROR'' = V_Error"
  "toLoggerVerbosity ''CRITICAL'' = V_Critical"
  by (simp_all add: toLoggerVerbosity_def)

lemma minimum_verbosity_one_name:
  assumes "minimum_verbosity_valid a" and "minimum_verbosity_valid b" and "toLoggerVerbosity a = toLoggerVerbosity b"
  shows "a = b"
  using assms(1) [unfolded minimum_verbosity_valid_def stringsEqual_def]
    assms(2) [unfolded minimum_verbosity_valid_def stringsEqual_def] assms(3)
  by (elim disjE) (simp_all only: toLoggerVerbosity_simps logger_verbosity.distinct)

lemma minimum_verbosity_every_level: "\<exists>a. minimum_verbosity_valid a \<and> toLoggerVerbosity a = v"
  unfolding minimum_verbosity_valid_def stringsEqual_def
  by (cases v) (blast intro: toLoggerVerbosity_simps)+

text \<open>\<open>verbosity\<close> is the template parameter of the wrapper.\<close>

definition lw_addSink :: "logger_call \<Rightarrow> logger_call list \<Rightarrow> logger_call list" where
  "lw_addSink sink calls = calls @ [sink]"

definition lw_init :: "logger_verbosity \<Rightarrow> string \<Rightarrow> logger_call list \<Rightarrow> logger_call list" where
  "lw_init verbosity loggerName calls = calls @ [LoggerInit loggerName verbosity]"

definition lw_log :: "logger_verbosity \<Rightarrow> logger_verbosity \<Rightarrow> string \<Rightarrow> logger_call list \<Rightarrow> logger_call list" where
  "lw_log verbosity dynVerbosity message calls =
     (if verbosity > dynVerbosity then calls else calls @ [BaseLog dynVerbosity message])"

definition lw_logDebug :: "logger_verbosity \<Rightarrow> string \<Rightarrow> logger_call list \<Rightarrow> logger_call list" where
  "lw_logDebug verbosity message calls =
     (if verbosity > V_Debug then calls else calls @ [BaseLog V_Debug message])"

definition lw_logInfo :: "logger_verbosity \<Rightarrow> string \<Rightarrow> logger_call list \<Rightarrow> logger_call list" where
  "lw_logInfo verbosity message calls =
     (if verbosity > V_Info then calls else calls @ [BaseLog V_Info message])"

definition lw_logWarning :: "logger_verbosity \<Rightarrow> string \<Rightarrow> logger_call list \<Rightarrow> logger_call list" where
  "lw_logWarning verbosity message calls =
     (if verbosity > V_Warning then calls else calls @ [BaseLog V_Warning message])"

definition lw_logError :: "logger_verbosity \<Rightarrow> string \<Rightarrow> logger_call list \<Rightarrow> logger_call list" where
  "lw_logError verbosity message calls =
     (if verbosity > V_Error then calls else calls @ [BaseLog V_Error message])"

definition lw_logCritical :: "logger_verbosity \<Rightarrow> string \<Rightarrow> logger_call list \<Rightarrow> logger_call list" where
  "lw_logCritical verbosity message calls =
     (if verbosity > V_Critical then calls else calls @ [BaseLog V_Critical message])"

definition initLogger :: "logger_verbosity \<Rightarrow> logging_settings \<Rightarrow> logger_call list \<Rightarrow> logger_call list" where
  "initLogger verbosity settings calls =
     (let calls = (if cs_use (ls_console settings)
                   then lw_addSink (AddConsoleSink (cs_level (ls_console settings))) calls else calls);
          calls = (if fs_use (ls_file settings)
                   then lw_addSink (AddFileSink (fs_path (ls_file settings)) ''ModuleGateway.log''
                          (fs_level (ls_file settings)) (50 * 1024 * 1024) 5) calls else calls)
      in lw_init verbosity ''ModuleGateway'' calls)"

text \<open>The five named functions are \<open>log\<close> at their level, and a message passes from the minimum up.\<close>

lemma lw_log_levels:
  "lw_logDebug v = lw_log v V_Debug" "lw_logInfo v = lw_log v V_Info" "lw_logWarning v = lw_log v V_Warning"
  "lw_logError v = lw_log v V_Error" "lw_logCritical v = lw_log v V_Critical"
  by (simp_all add: fun_eq_iff lw_log_def lw_logDebug_def lw_logInfo_def lw_logWarning_def lw_logError_def
      lw_logCritical_def)

lemma lw_log_mono: "v \<le> w \<Longrightarrow> w \<le> level \<Longrightarrow> lw_log v level = lw_log w level"
  by (auto simp: fun_eq_iff lw_log_def)

end
