(* ===== verification/Settings.thy ===== *)
theory Settings
  imports Constants Logging
begin

text \<open>
  The settings structures (Settings.hpp, ExternalConnectionSettings.hpp, LoggingSettings.hpp) the
  components read, and the connection states (ConnectionState.hpp).
\<close>

datatype protocol_type = PT_INVALID | PT_MQTT | PT_QUIC | PT_DUMMY

record external_connection_settings =
  es_protocolType :: protocol_type
  es_protocolSettings :: "(string \<times> string) list"
  es_serverIp :: string
  es_port :: nat
  es_modules :: "int list"

record settings =
  set_port :: nat
  set_company :: string
  set_vehicleName :: string
  set_modulePaths :: "(int \<times> string) list"
  set_moduleBinaryPath :: string
  set_externalConnectionSettingsList :: "external_connection_settings list"
  set_loggingSettings :: logging_settings

datatype connection_state =
    St_NOT_INITIALIZED
  | St_NOT_CONNECTED
  | St_CONNECTING
  | St_CONNECTED
  | St_CLOSING

end
