(* ===== verification/Fleet_Protocol.thy ===== *)
theory Fleet_Protocol
  imports Prelude
begin

text \<open>
  What the gateway uses of the fleet protocol, whose headers and generated protobuf classes
  are not part of the repository. The numeric return codes are a parameter of the model (the
  record \<open>error_codes\<close>); what the code relies on of them is the predicate \<open>codes_ok\<close>. The
  protobuf messages are records with the fields the source reads and writes, a \<open>oneof\<close> is a
  datatype with a constructor for the unset state, and reading an unset message field gives the
  default instance, as the protobuf accessors do. Parsing and serialising are parameters
  of the operations that use them.
\<close>

section \<open>Return codes\<close>

record error_codes =
  OK :: int
  NOT_OK :: int
  DEVICE_NOT_REGISTERED :: int
  DEVICE_NOT_SUPPORTED :: int
  NO_MESSAGE_AVAILABLE :: int
  COMMAND_INVALID :: int
  STATUS_INVALID :: int

text \<open>
  The code compares return values with the symbolic names, tests \<open>connectResult != 0\<close> for
  failure and tells a count from an error by its sign.
\<close>

definition codes_ok :: "error_codes \<Rightarrow> bool" where
  "codes_ok c \<longleftrightarrow>
     OK c = 0 \<and>
     list_all (\<lambda>x. x < 0)
       [NOT_OK c, DEVICE_NOT_REGISTERED c, DEVICE_NOT_SUPPORTED c, NO_MESSAGE_AVAILABLE c,
        COMMAND_INVALID c, STATUS_INVALID c] \<and>
     distinct
       [NOT_OK c, DEVICE_NOT_REGISTERED c, DEVICE_NOT_SUPPORTED c, NO_MESSAGE_AVAILABLE c,
        COMMAND_INVALID c, STATUS_INVALID c]"

lemma codes_okD:
  assumes "codes_ok c"
  shows "OK c = 0" "NOT_OK c < 0" "DEVICE_NOT_REGISTERED c < 0" "DEVICE_NOT_SUPPORTED c < 0"
    "NO_MESSAGE_AVAILABLE c < 0" "COMMAND_INVALID c < 0" "STATUS_INVALID c < 0"
  using assms by (simp_all add: codes_ok_def)

lemma codes_ok_distinct:
  assumes "codes_ok c"
  shows "NOT_OK c \<noteq> OK c" "DEVICE_NOT_REGISTERED c \<noteq> OK c" "DEVICE_NOT_SUPPORTED c \<noteq> OK c"
    "NO_MESSAGE_AVAILABLE c \<noteq> OK c" "COMMAND_INVALID c \<noteq> OK c" "STATUS_INVALID c \<noteq> OK c"
    "OK c \<noteq> NOT_OK c" "OK c \<noteq> DEVICE_NOT_REGISTERED c" "OK c \<noteq> DEVICE_NOT_SUPPORTED c"
    "OK c \<noteq> NO_MESSAGE_AVAILABLE c" "OK c \<noteq> COMMAND_INVALID c" "OK c \<noteq> STATUS_INVALID c"
    "NO_MESSAGE_AVAILABLE c \<noteq> DEVICE_NOT_REGISTERED c"
    "COMMAND_INVALID c \<noteq> NO_MESSAGE_AVAILABLE c"
  using assms by (auto simp: codes_ok_def)

text \<open>One concrete choice of codes, for closed examples.\<close>

definition sample_codes :: error_codes where
  "sample_codes = \<lparr>OK = 0, NOT_OK = - 1, DEVICE_NOT_REGISTERED = - 11,
     DEVICE_NOT_SUPPORTED = - 12, NO_MESSAGE_AVAILABLE = - 13, COMMAND_INVALID = - 14,
     STATUS_INVALID = - 15\<rparr>"

lemma sample_codes_ok: "codes_ok sample_codes"
  by (simp add: codes_ok_def sample_codes_def)

lemma sample_codes_simps [simp]:
  "OK sample_codes = 0" "NOT_OK sample_codes = - 1" "DEVICE_NOT_REGISTERED sample_codes = - 11"
  "DEVICE_NOT_SUPPORTED sample_codes = - 12" "NO_MESSAGE_AVAILABLE sample_codes = - 13"
  "COMMAND_INVALID sample_codes = - 14" "STATUS_INVALID sample_codes = - 15"
  by (simp_all add: sample_codes_def)

section \<open>Internal protocol\<close>

record ip_device =
  ip_module :: int
  ip_devicetype :: u32
  ip_devicerole :: string
  ip_devicename :: string
  ip_priority :: u32

definition default_ip_device :: ip_device where
  "default_ip_device = \<lparr>ip_module = 0, ip_devicetype = 0, ip_devicerole = [], ip_devicename = [],
     ip_priority = 0\<rparr>"

record device_status =
  st_device :: ip_device
  st_statusdata :: bytes

record device_connect =
  cn_device :: ip_device

record device_command =
  cmd_device :: ip_device
  cmd_commanddata :: bytes

datatype connect_response_type =
    CR_OK
  | CR_MODULE_NOT_SUPPORTED
  | CR_DEVICE_NOT_SUPPORTED
  | CR_ALREADY_CONNECTED
  | CR_HIGHER_PRIORITY_ALREADY_CONNECTED

record device_connect_response =
  cr_responsetype :: connect_response_type
  cr_device :: ip_device

datatype internal_client =
    IC_unset
  | IC_DeviceConnect device_connect
  | IC_DeviceStatus device_status

datatype internal_server_msg =
    IS_unset
  | IS_DeviceConnectResponse device_connect_response
  | IS_DeviceCommand device_command

fun has_devicestatus :: "internal_client \<Rightarrow> bool" where
  "has_devicestatus (IC_DeviceStatus _) = True"
| "has_devicestatus _ = False"

fun has_deviceconnect :: "internal_client \<Rightarrow> bool" where
  "has_deviceconnect (IC_DeviceConnect _) = True"
| "has_deviceconnect _ = False"

fun devicestatus :: "internal_client \<Rightarrow> device_status" where
  "devicestatus (IC_DeviceStatus s) = s"
| "devicestatus _ = \<lparr>st_device = default_ip_device, st_statusdata = []\<rparr>"

fun deviceconnect :: "internal_client \<Rightarrow> device_connect" where
  "deviceconnect (IC_DeviceConnect c) = c"
| "deviceconnect _ = \<lparr>cn_device = default_ip_device\<rparr>"

section \<open>External protocol\<close>

datatype ext_device_state = CONNECTING | RUNNING | DISCONNECT | ERROR

record ext_status =
  xs_sessionid :: string
  xs_devicestate :: ext_device_state
  xs_messagecounter :: u32
  xs_devicestatus :: device_status
  xs_errormessage :: bytes

record ext_connect =
  xn_sessionid :: string
  xn_company :: string
  xn_vehiclename :: string
  xn_devices :: "ip_device list"

datatype command_response_type = CMD_OK | CMD_DEVICE_NOT_SUPPORTED | CMD_DEVICE_NOT_CONNECTED

record ext_command_response =
  xr_sessionid :: string
  xr_type :: command_response_type
  xr_messagecounter :: u32

datatype external_client_msg =
    EC_Connect ext_connect
  | EC_Status ext_status
  | EC_CommandResponse ext_command_response

datatype ext_connect_response_type = XCR_OK | XCR_ALREADY_LOGGED

record ext_connect_response =
  xcr_sessionid :: string
  xcr_type :: ext_connect_response_type

datatype status_response_type = SR_OK | SR_OTHER

record ext_status_response =
  sr_sessionid :: string
  sr_type :: status_response_type
  sr_messagecounter :: u32

record ext_command =
  xc_sessionid :: string
  xc_messagecounter :: u32
  xc_devicecommand :: device_command

datatype external_server_msg =
    ES_unset
  | ES_ConnectResponse ext_connect_response
  | ES_StatusResponse ext_status_response
  | ES_Command ext_command

end
