(* ===== verification/Device.thy ===== *)
theory Device
  imports Fleet_Protocol
begin

text \<open>
  Device identifications (DeviceIdentification.hpp and .cpp): their construction, the
  comparison that every container of devices uses as key equality, and the conversion back to
  the protobuf device. The comparison looks at module, type and role only. The theory
  interprets the unordered-map laws for this key equality.
\<close>

record device_identification =
  di_module :: int
  di_deviceType :: u32
  di_deviceRole :: string
  di_deviceName :: string
  di_priority :: u32

type_synonym 'v device_map = "(device_identification \<times> 'v) list"

definition device_of_ip :: "ip_device \<Rightarrow> device_identification" where
  "device_of_ip device =
     \<lparr>di_module = ip_module device, di_deviceType = ip_devicetype device,
      di_deviceRole = ip_devicerole device, di_deviceName = ip_devicename device,
      di_priority = ip_priority device\<rparr>"

definition assign_ip :: "device_identification \<Rightarrow> ip_device \<Rightarrow> device_identification" where
  "assign_ip self device =
     self\<lparr>di_module := ip_module device, di_deviceType := ip_devicetype device,
       di_deviceRole := ip_devicerole device, di_deviceName := ip_devicename device,
       di_priority := ip_priority device\<rparr>"

definition isSame :: "device_identification \<Rightarrow> device_identification \<Rightarrow> bool" where
  "isSame self toCompare \<longleftrightarrow>
     di_module self = di_module toCompare \<and>
     di_deviceType self = di_deviceType toCompare \<and>
     di_deviceRole self = di_deviceRole toCompare"

definition device_eq :: "device_identification \<Rightarrow> device_identification \<Rightarrow> bool" where
  "device_eq self deviceId \<longleftrightarrow>
     di_module self = di_module deviceId \<and>
     di_deviceType self = di_deviceType deviceId \<and>
     di_deviceRole self = di_deviceRole deviceId"

definition convertToIPDevice :: "device_identification \<Rightarrow> ip_device" where
  "convertToIPDevice self =
     \<lparr>ip_module = di_module self, ip_devicetype = di_deviceType self,
      ip_devicerole = di_deviceRole self, ip_devicename = di_deviceName self,
      ip_priority = di_priority self\<rparr>"

text \<open>
  The hash of a device; \<open>combine\<close> is \<open>boost::hash_combine\<close> and \<open>hi\<close>, \<open>hu\<close>, \<open>hs\<close> the
  \<open>std::hash\<close> of the three field types.
\<close>

definition device_hash ::
  "('h \<Rightarrow> 'h \<Rightarrow> 'h) \<Rightarrow> 'h \<Rightarrow> (int \<Rightarrow> 'h) \<Rightarrow> (u32 \<Rightarrow> 'h) \<Rightarrow> (string \<Rightarrow> 'h) \<Rightarrow> device_identification \<Rightarrow> 'h" where
  "device_hash combine zero hi hu hs k =
     (let seed = zero;
          seed = combine seed (hi (di_module k));
          seed = combine seed (hu (di_deviceType k))
      in combine seed (hs (di_deviceRole k)))"

section \<open>Laws\<close>

lemma device_of_ip_simps [simp]:
  "di_module (device_of_ip d) = ip_module d"
  "di_deviceType (device_of_ip d) = ip_devicetype d"
  "di_deviceRole (device_of_ip d) = ip_devicerole d"
  "di_deviceName (device_of_ip d) = ip_devicename d"
  "di_priority (device_of_ip d) = ip_priority d"
  by (simp_all add: device_of_ip_def)

lemma assign_ip_eq [simp]: "assign_ip self d = device_of_ip d"
  by (simp add: assign_ip_def device_of_ip_def)

lemma device_of_ip_convert [simp]: "device_of_ip (convertToIPDevice d) = d"
  by (simp add: device_of_ip_def convertToIPDevice_def)

lemma convert_device_of_ip [simp]: "convertToIPDevice (device_of_ip d) = d"
  by (simp add: device_of_ip_def convertToIPDevice_def)

lemma convertToIPDevice_simps [simp]:
  "ip_module (convertToIPDevice d) = di_module d"
  "ip_devicetype (convertToIPDevice d) = di_deviceType d"
  by (simp_all add: convertToIPDevice_def)

lemma isSame_device_eq: "isSame = device_eq"
  by (simp add: isSame_def device_eq_def fun_eq_iff)

lemma device_eq_refl [simp]: "device_eq d d"
  by (simp add: device_eq_def)

lemma device_eq_commute: "device_eq a b = device_eq b a"
  by (auto simp: device_eq_def)

lemma device_eq_type: "device_eq a b \<Longrightarrow> di_deviceType a = di_deviceType b"
  by (simp add: device_eq_def)

lemma device_eq_module: "device_eq a b \<Longrightarrow> di_module a = di_module b"
  by (simp add: device_eq_def)

interpretation dev: key_equality device_eq
  by unfold_locales (auto simp: device_eq_def)

declare dev.find_laws [map_laws] dev.contains_laws [map_laws]

end
