(* ===== verification/Buffers.thy ===== *)
theory Buffers
  imports Device
begin

text \<open>
  Buffers (include/bringauto/modules/Buffer.hpp) and the construction of protocol messages from
  them (ProtobufUtils.cpp). A buffer is the raw C struct: a pointer, \<open>None\<close> for null or the
  bytes it points to, and a size. The shared pointer only decides when the memory is freed; the
  gateway writes a buffer's bytes only right after it constructed it, so a buffer is a value.
\<close>

section \<open>The buffer\<close>

record buffer =
  raw_data :: "bytes option"
  size_in_bytes :: nat

definition empty_buffer :: buffer where
  "empty_buffer = \<lparr>raw_data = None, size_in_bytes = 0\<rparr>"

definition isAllocated :: "buffer \<Rightarrow> bool" where
  "isAllocated b \<longleftrightarrow> raw_data b \<noteq> None \<and> size_in_bytes b > 0"

definition isEmpty :: "buffer \<Rightarrow> bool" where
  "isEmpty b \<longleftrightarrow> size_in_bytes b = 0"

definition getStructBuffer :: "buffer \<Rightarrow> exn + buffer" where
  "getStructBuffer b = (if \<not> isAllocated b then Inl Buffer_not_allocated else Inr b)"

text \<open>The bytes \<open>set_statusdata(data, size)\<close> and its kin copy out of a raw buffer.\<close>

definition raw_bytes :: "buffer \<Rightarrow> bytes" where
  "raw_bytes b = (case raw_data b of None \<Rightarrow> [] | Some bs \<Rightarrow> take (size_in_bytes b) bs)"

text \<open>The pointer addresses at least as many bytes as the size says.\<close>

definition buffer_wf :: "buffer \<Rightarrow> bool" where
  "buffer_wf b \<longleftrightarrow> (case raw_data b of None \<Rightarrow> True | Some bs \<Rightarrow> length bs = size_in_bytes b)"

lemma not_isAllocated_empty [simp]: "\<not> isAllocated empty_buffer"
  by (simp add: isAllocated_def empty_buffer_def)

lemma isEmpty_empty [simp]: "isEmpty empty_buffer"
  by (simp add: isEmpty_def empty_buffer_def)

lemma raw_bytes_empty [simp]: "raw_bytes empty_buffer = []"
  by (simp add: raw_bytes_def empty_buffer_def)

lemma isAllocated_not_isEmpty: "isAllocated b \<Longrightarrow> \<not> isEmpty b"
  by (simp add: isAllocated_def isEmpty_def)

lemma getStructBuffer_allocated [simp]: "isAllocated b \<Longrightarrow> getStructBuffer b = Inr b"
  by (simp add: getStructBuffer_def)

section \<open>Building messages\<close>

definition createInternalServerConnectResponseMessage ::
  "ip_device \<Rightarrow> connect_response_type \<Rightarrow> internal_server_msg" where
  "createInternalServerConnectResponseMessage device resType =
     IS_DeviceConnectResponse \<lparr>cr_responsetype = resType, cr_device = device\<rparr>"

definition createInternalServerCommandMessage :: "ip_device \<Rightarrow> buffer \<Rightarrow> internal_server_msg" where
  "createInternalServerCommandMessage device command =
     IS_DeviceCommand
       \<lparr>cmd_device = device,
        cmd_commanddata = (if isAllocated command then raw_bytes command else [])\<rparr>"

definition createInternalClientStatusMessage :: "ip_device \<Rightarrow> buffer \<Rightarrow> internal_client" where
  "createInternalClientStatusMessage device status =
     IC_DeviceStatus
       \<lparr>st_device = device,
        st_statusdata = (if isAllocated status then raw_bytes status else [])\<rparr>"

definition createDeviceStatus :: "device_identification \<Rightarrow> buffer \<Rightarrow> device_status" where
  "createDeviceStatus deviceId status =
     \<lparr>st_device = convertToIPDevice deviceId,
      st_statusdata = (if isAllocated status then raw_bytes status else [])\<rparr>"

definition createExternalClientConnect ::
  "string \<Rightarrow> string \<Rightarrow> string \<Rightarrow> device_identification list \<Rightarrow> external_client_msg" where
  "createExternalClientConnect sessionId company vehicleName devices =
     EC_Connect
       \<lparr>xn_sessionid = sessionId, xn_company = company, xn_vehiclename = vehicleName,
        xn_devices = map convertToIPDevice devices\<rparr>"

text \<open>The status part of the message; the source reads it back with \<open>externalMessage.status()\<close>.\<close>

definition createExternalClientStatus ::
  "string \<Rightarrow> ext_device_state \<Rightarrow> u32 \<Rightarrow> device_status \<Rightarrow> buffer \<Rightarrow> ext_status" where
  "createExternalClientStatus sessionId deviceState messageCounter deviceStatus errorMessage =
     \<lparr>xs_sessionid = sessionId, xs_devicestate = deviceState,
      xs_messagecounter = messageCounter, xs_devicestatus = deviceStatus,
      xs_errormessage = (if isAllocated errorMessage then raw_bytes errorMessage else [])\<rparr>"

definition createExternalClientCommandResponse ::
  "string \<Rightarrow> command_response_type \<Rightarrow> u32 \<Rightarrow> external_client_msg" where
  "createExternalClientCommandResponse sessionId type messageCounter =
     EC_CommandResponse
       \<lparr>xr_sessionid = sessionId, xr_type = type, xr_messagecounter = messageCounter\<rparr>"

section \<open>Copying message data into a buffer\<close>

text \<open>
  \<open>memcpy\<close> of \<open>src\<close> to the start of the buffer's memory; the bytes behind it stay.
\<close>

definition memcpy_to :: "buffer \<Rightarrow> bytes \<Rightarrow> buffer" where
  "memcpy_to b src =
     b\<lparr>raw_data := map_option (\<lambda>old. src @ drop (length src) old) (raw_data b)\<rparr>"

definition copyStatusToBuffer :: "device_status \<Rightarrow> buffer \<Rightarrow> exn + buffer" where
  "copyStatusToBuffer status b =
     (if \<not> isAllocated b then Inl Buffer_not_allocated
      else if length (st_statusdata status) > size_in_bytes b then Inl Buffer_too_small
      else Inr (memcpy_to b (st_statusdata status)))"

definition copyCommandToBuffer :: "device_command \<Rightarrow> buffer \<Rightarrow> exn + buffer" where
  "copyCommandToBuffer command b =
     (if \<not> isAllocated b then Inl Buffer_not_allocated
      else if length (cmd_commanddata command) > size_in_bytes b then Inl Buffer_too_small
      else Inr (memcpy_to b (cmd_commanddata command)))"

lemma size_memcpy_to [simp]: "size_in_bytes (memcpy_to b src) = size_in_bytes b"
  by (simp add: memcpy_to_def)

lemma isAllocated_memcpy_to [simp]: "isAllocated (memcpy_to b src) = isAllocated b"
  by (simp add: isAllocated_def memcpy_to_def)

lemma raw_bytes_memcpy_to:
  "isAllocated b \<Longrightarrow> length src = size_in_bytes b \<Longrightarrow> raw_bytes (memcpy_to b src) = src"
  by (auto simp: raw_bytes_def memcpy_to_def isAllocated_def)

lemma buffer_wf_memcpy_to:
  "buffer_wf b \<Longrightarrow> length src \<le> size_in_bytes b \<Longrightarrow> buffer_wf (memcpy_to b src)"
  by (auto simp: buffer_wf_def memcpy_to_def split: option.splits)

lemma copyStatusToBuffer_exact:
  assumes "isAllocated b" and "size_in_bytes b = length (st_statusdata s)"
  shows "copyStatusToBuffer s b = Inr (memcpy_to b (st_statusdata s))"
    and "raw_bytes (memcpy_to b (st_statusdata s)) = st_statusdata s"
  using assms by (simp_all add: copyStatusToBuffer_def raw_bytes_memcpy_to)

lemma copyCommandToBuffer_exact:
  assumes "isAllocated b" and "size_in_bytes b = length (cmd_commanddata s)"
  shows "copyCommandToBuffer s b = Inr (memcpy_to b (cmd_commanddata s))"
    and "raw_bytes (memcpy_to b (cmd_commanddata s)) = cmd_commanddata s"
  using assms by (simp_all add: copyCommandToBuffer_def raw_bytes_memcpy_to)

text \<open>The payload a status message built from a buffer carries.\<close>

lemma createDeviceStatus_data:
  "st_statusdata (createDeviceStatus d b) = (if isAllocated b then raw_bytes b else [])"
  by (simp add: createDeviceStatus_def)

end
