(* ===== verification/Atomic_Queue.thy ===== *)
theory Atomic_Queue
  imports Buffers
begin

text \<open>
  The thread-safe queue (include/bringauto/structures/AtomicQueue.hpp) and the two kinds of
  messages the components exchange through it. Every operation holds the queue's mutex, so it is
  one atomic step on the list of queued values. A waiting consumer is released by a push
  or by its timeout; \<open>waitForValueWithTimeout\<close> returns whether the queue is empty then.
\<close>

section \<open>The queue\<close>

type_synonym 'a atomic_queue = "'a list"

definition pushAndNotify :: "'a \<Rightarrow> 'a atomic_queue \<Rightarrow> 'a atomic_queue" where
  "pushAndNotify value q = q @ [value]"

definition aq_push :: "'a \<Rightarrow> 'a atomic_queue \<Rightarrow> 'a atomic_queue" where
  "aq_push value q = q @ [value]"

definition aq_pop :: "'a atomic_queue \<Rightarrow> exn + 'a atomic_queue" where
  "aq_pop q = (case q of [] \<Rightarrow> Inl Undefined_behaviour | _ # q' \<Rightarrow> Inr q')"

definition aq_empty :: "'a atomic_queue \<Rightarrow> bool" where
  "aq_empty q \<longleftrightarrow> q = []"

definition aq_front :: "'a atomic_queue \<Rightarrow> exn + 'a" where
  "aq_front q = (case q of [] \<Rightarrow> Inl Undefined_behaviour | x # _ \<Rightarrow> Inr x)"

definition aq_size :: "'a atomic_queue \<Rightarrow> nat" where
  "aq_size q = length q"

text \<open>The wait ends when \<open>arrived\<close> has been pushed by the producers, possibly nothing.\<close>

definition waitForValueWithTimeout :: "'a list \<Rightarrow> 'a atomic_queue \<Rightarrow> bool \<times> 'a atomic_queue" where
  "waitForValueWithTimeout arrived q = (let q' = q @ arrived in (q' = [], q'))"

text \<open>
  What the components rely on: a first-in first-out queue, described by the list of values it
  holds.
\<close>

locale fifo_queue =
  fixes enq :: "'a \<Rightarrow> 'q \<Rightarrow> 'q"
    and deq :: "'q \<Rightarrow> exn + 'q"
    and front :: "'q \<Rightarrow> exn + 'a"
    and is_empty :: "'q \<Rightarrow> bool"
    and contents :: "'q \<Rightarrow> 'a list"
  assumes contents_enq: "contents (enq x q) = contents q @ [x]"
    and empty_iff: "is_empty q \<longleftrightarrow> contents q = []"
    and front_nonempty: "contents q \<noteq> [] \<Longrightarrow> front q = Inr (hd (contents q))"
    and deq_nonempty: "contents q \<noteq> [] \<Longrightarrow> \<exists>q'. deq q = Inr q' \<and> contents q' = tl (contents q)"
begin

lemma enq_not_empty: "\<not> is_empty (enq x q)"
  by (simp add: empty_iff contents_enq)

lemma front_enq: "front (enq x q) = (if is_empty q then Inr x else front q)"
  using front_nonempty [of q] front_nonempty [of "enq x q"]
  by (simp add: contents_enq empty_iff hd_append)

lemma deq_enq_empty:
  assumes "is_empty q"
  shows "\<exists>q'. deq (enq x q) = Inr q' \<and> is_empty q'"
  using deq_nonempty [of "enq x q"] assms by (auto simp: contents_enq empty_iff)

text \<open>Taking a value out commutes with putting one in behind it.\<close>

lemma deq_enq:
  assumes "\<not> is_empty q" and "deq q = Inr q'"
  shows "\<exists>q''. deq (enq x q) = Inr q'' \<and> contents q'' = contents q' @ [x]"
  using deq_nonempty [of "enq x q"] deq_nonempty [of q] assms
  by (auto simp: contents_enq empty_iff)

end

interpretation aq: fifo_queue pushAndNotify aq_pop aq_front aq_empty "\<lambda>q. q"
  by unfold_locales (auto simp: pushAndNotify_def aq_pop_def aq_front_def aq_empty_def
      split: list.splits)

lemma aq_simps [simp]:
  "aq_pop (x # q) = Inr q"
  "aq_front (x # q) = Inr x"
  "aq_pop [] = Inl Undefined_behaviour"
  "aq_front [] = Inl Undefined_behaviour"
  by (simp_all add: aq_pop_def aq_front_def)

section \<open>Messages from the internal client\<close>

record internal_client_message =
  icm_message :: internal_client
  icm_disconnect :: bool
  icm_commandForward :: bool
  icm_deviceId :: device_identification

definition default_device_identification :: device_identification where
  "default_device_identification = \<lparr>di_module = 0, di_deviceType = 0, di_deviceRole = [],
     di_deviceName = [], di_priority = 0\<rparr>"

definition InternalClientMessage_dev :: "device_identification \<Rightarrow> internal_client_message" where
  "InternalClientMessage_dev deviceId =
     \<lparr>icm_message = IC_unset, icm_disconnect = True, icm_commandForward = False,
      icm_deviceId = deviceId\<rparr>"

definition InternalClientMessage :: "bool \<Rightarrow> internal_client \<Rightarrow> internal_client_message" where
  "InternalClientMessage disconnect message =
     \<lparr>icm_message = message, icm_disconnect = disconnect, icm_commandForward = False,
      icm_deviceId = default_device_identification\<rparr>"

definition makeCommandForward :: "device_identification \<Rightarrow> internal_client_message" where
  "makeCommandForward deviceId =
     \<lparr>icm_message = IC_unset, icm_disconnect = False, icm_commandForward = True,
      icm_deviceId = deviceId\<rparr>"

section \<open>Messages from the module handler\<close>

record module_handler_message =
  mhm_message :: internal_server_msg
  mhm_disconnect :: bool
  mhm_deviceId :: device_identification

definition ModuleHandlerMessage_dev :: "device_identification \<Rightarrow> module_handler_message" where
  "ModuleHandlerMessage_dev deviceId =
     \<lparr>mhm_message = IS_unset, mhm_disconnect = True, mhm_deviceId = deviceId\<rparr>"

definition ModuleHandlerMessage :: "bool \<Rightarrow> internal_server_msg \<Rightarrow> module_handler_message" where
  "ModuleHandlerMessage disconnect message =
     \<lparr>mhm_message = message, mhm_disconnect = disconnect,
      mhm_deviceId = default_device_identification\<rparr>"

lemma internal_client_message_simps [simp]:
  "icm_disconnect (InternalClientMessage b m) = b"
  "icm_message (InternalClientMessage b m) = m"
  "icm_disconnect (InternalClientMessage_dev d)"
  "icm_deviceId (InternalClientMessage_dev d) = d"
  "icm_deviceId (makeCommandForward d) = d"
  "\<not> icm_disconnect (makeCommandForward d)"
  by (simp_all add: InternalClientMessage_def InternalClientMessage_dev_def makeCommandForward_def)

lemma module_handler_message_simps [simp]:
  "mhm_disconnect (ModuleHandlerMessage b m) = b"
  "mhm_message (ModuleHandlerMessage b m) = m"
  "mhm_disconnect (ModuleHandlerMessage_dev d)"
  "mhm_deviceId (ModuleHandlerMessage_dev d) = d"
  by (simp_all add: ModuleHandlerMessage_def ModuleHandlerMessage_dev_def)

end
