(* ===== verification/Library_Handler.thy ===== *)
theory Library_Handler
  imports Atomic_Queue Constants
begin

text \<open>
  The interface to a device module (IModuleManagerLibraryHandler.hpp) and its two
  implementations: ModuleManagerLibraryHandlerLocal calls the C functions of a shared library,
  ModuleManagerLibraryHandlerAsync calls a module binary through an executor that may time out.
  The C functions and the executor are third-party code: they are the records
  \<open>module_library\<close> and \<open>aeron_client\<close>, arbitrary functions of their arguments. The virtual
  functions of the interface are the fields of the record \<open>handler\<close>; what every client relies
  on is the locale \<open>library_handler\<close>, interpreted for both implementations.
\<close>

section \<open>The interface\<close>

record handler =
  lib_getModuleNumber :: int
  lib_isDeviceTypeSupported :: "u32 \<Rightarrow> int"
  lib_sendStatusCondition :: "buffer \<Rightarrow> buffer \<Rightarrow> u32 \<Rightarrow> int"
  lib_generateCommand :: "buffer \<Rightarrow> buffer \<Rightarrow> buffer \<Rightarrow> u32 \<Rightarrow> exn + int \<times> buffer"
  lib_aggregateStatus :: "buffer \<Rightarrow> buffer \<Rightarrow> u32 \<Rightarrow> exn + int \<times> buffer"
  lib_aggregateError :: "buffer \<Rightarrow> buffer \<Rightarrow> u32 \<Rightarrow> exn + int \<times> buffer"
  lib_generateFirstCommand :: "u32 \<Rightarrow> exn + int \<times> buffer"
  lib_statusDataValid :: "buffer \<Rightarrow> u32 \<Rightarrow> int"
  lib_commandDataValid :: "buffer \<Rightarrow> u32 \<Rightarrow> int"
  lib_forwardCommandOnReceive :: "u32 \<Rightarrow> int"
  lib_constructBuffer :: "nat \<Rightarrow> exn + buffer"

text \<open>A buffer as an argument of a C function: the null struct unless it is allocated.\<close>

definition raw_arg :: "buffer \<Rightarrow> buffer" where
  "raw_arg b = (if isAllocated b then b else empty_buffer)"

section \<open>The local handler\<close>

text \<open>The symbols of a shared object, as \<open>dlsym\<close> finds them; \<open>None\<close> is a missing symbol.\<close>

record shared_object =
  so_is_device_type_supported :: "(u32 \<Rightarrow> int) option"
  so_get_module_number :: "int option"
  so_generate_first_command :: "(u32 \<Rightarrow> int \<times> buffer) option"
  so_status_data_valid :: "(buffer \<Rightarrow> u32 \<Rightarrow> int) option"
  so_command_data_valid :: "(buffer \<Rightarrow> u32 \<Rightarrow> int) option"
  so_send_status_condition :: "(buffer \<Rightarrow> buffer \<Rightarrow> u32 \<Rightarrow> int) option"
  so_aggregate_status :: "(buffer \<Rightarrow> buffer \<Rightarrow> u32 \<Rightarrow> int \<times> buffer) option"
  so_generate_command :: "(buffer \<Rightarrow> buffer \<Rightarrow> buffer \<Rightarrow> u32 \<Rightarrow> int \<times> buffer) option"
  so_aggregate_error :: "(buffer \<Rightarrow> buffer \<Rightarrow> u32 \<Rightarrow> int \<times> buffer) option"
  so_allocate :: "(buffer \<Rightarrow> nat \<Rightarrow> int \<times> buffer) option"
  so_deallocate :: "unit option"
  so_forward_command_on_receive :: "(u32 \<Rightarrow> int) option"

text \<open>
  The function members of the handler after loading. A C function that fills a buffer through a
  pointer starts from the null struct and returns its code and the struct it left.
\<close>

record module_library =
  ml_isDeviceTypeSupported :: "u32 \<Rightarrow> int"
  ml_getModuleNumber :: int
  ml_generateFirstCommand :: "u32 \<Rightarrow> int \<times> buffer"
  ml_statusDataValid :: "buffer \<Rightarrow> u32 \<Rightarrow> int"
  ml_commandDataValid :: "buffer \<Rightarrow> u32 \<Rightarrow> int"
  ml_sendStatusCondition :: "buffer \<Rightarrow> buffer \<Rightarrow> u32 \<Rightarrow> int"
  ml_aggregateStatus :: "buffer \<Rightarrow> buffer \<Rightarrow> u32 \<Rightarrow> int \<times> buffer"
  ml_generateCommand :: "buffer \<Rightarrow> buffer \<Rightarrow> buffer \<Rightarrow> u32 \<Rightarrow> int \<times> buffer"
  ml_aggregateError :: "buffer \<Rightarrow> buffer \<Rightarrow> u32 \<Rightarrow> int \<times> buffer"
  ml_allocate :: "buffer \<Rightarrow> nat \<Rightarrow> int \<times> buffer"
  ml_forwardCommandOnReceive :: "(u32 \<Rightarrow> int) option"

definition checkFunction :: "'f option \<Rightarrow> exn + 'f" where
  "checkFunction symbol = (case symbol of None \<Rightarrow> Inl Runtime_error | Some f \<Rightarrow> Inr f)"

definition checkOptionalFunction :: "'f option \<Rightarrow> 'f option" where
  "checkOptionalFunction symbol = symbol"

definition loc_loadLibrary :: "shared_object option \<Rightarrow> exn + module_library" where
  "loc_loadLibrary module =
     (case module of
        None \<Rightarrow> Inl Runtime_error
      | Some so \<Rightarrow>
          bindE (checkFunction (so_is_device_type_supported so)) (\<lambda>f1.
          bindE (checkFunction (so_get_module_number so)) (\<lambda>f2.
          bindE (checkFunction (so_generate_first_command so)) (\<lambda>f3.
          bindE (checkFunction (so_status_data_valid so)) (\<lambda>f4.
          bindE (checkFunction (so_command_data_valid so)) (\<lambda>f5.
          bindE (checkFunction (so_send_status_condition so)) (\<lambda>f6.
          bindE (checkFunction (so_aggregate_status so)) (\<lambda>f7.
          bindE (checkFunction (so_generate_command so)) (\<lambda>f8.
          bindE (checkFunction (so_aggregate_error so)) (\<lambda>f9.
          bindE (checkFunction (so_allocate so)) (\<lambda>f10.
          bindE (checkFunction (so_deallocate so)) (\<lambda>f11.
            Inr \<lparr>ml_isDeviceTypeSupported = f1, ml_getModuleNumber = f2,
                 ml_generateFirstCommand = f3, ml_statusDataValid = f4,
                 ml_commandDataValid = f5, ml_sendStatusCondition = f6,
                 ml_aggregateStatus = f7, ml_generateCommand = f8, ml_aggregateError = f9,
                 ml_allocate = f10,
                 ml_forwardCommandOnReceive = checkOptionalFunction (so_forward_command_on_receive so)\<rparr>))))))))))))"

definition loc_constructBuffer :: "error_codes \<Rightarrow> module_library \<Rightarrow> nat \<Rightarrow> exn + buffer" where
  "loc_constructBuffer c ml sz =
     (if sz = 0 then Inr empty_buffer
      else let buff = empty_buffer\<lparr>size_in_bytes := sz\<rparr>;
               (ret, buff) = ml_allocate ml buff sz
           in if ret \<noteq> OK c then Inl Bad_alloc else Inr buff)"

definition constructBufferByTakeOwnership :: "buffer \<Rightarrow> exn + buffer" where
  "constructBufferByTakeOwnership b =
     (if raw_data b = None then Inl Buffer_not_allocated else Inr b)"

definition loc_sendStatusCondition :: "module_library \<Rightarrow> buffer \<Rightarrow> buffer \<Rightarrow> u32 \<Rightarrow> int" where
  "loc_sendStatusCondition ml current_status new_status device_type =
     ml_sendStatusCondition ml (raw_arg current_status) (raw_arg new_status) device_type"

definition loc_generateCommand ::
  "error_codes \<Rightarrow> module_library \<Rightarrow> buffer \<Rightarrow> buffer \<Rightarrow> buffer \<Rightarrow> u32 \<Rightarrow> exn + int \<times> buffer" where
  "loc_generateCommand c ml new_status current_status current_command device_type =
     (let (ret, raw_buffer) = ml_generateCommand ml (raw_arg new_status) (raw_arg current_status)
            (raw_arg current_command) device_type
      in if ret = OK c
         then bindE (constructBufferByTakeOwnership raw_buffer) (\<lambda>b. Inr (ret, b))
         else bindE (loc_constructBuffer c ml 0) (\<lambda>b. Inr (ret, b)))"

definition loc_aggregateStatus ::
  "error_codes \<Rightarrow> module_library \<Rightarrow> buffer \<Rightarrow> buffer \<Rightarrow> u32 \<Rightarrow> exn + int \<times> buffer" where
  "loc_aggregateStatus c ml current_status new_status device_type =
     (let (ret, raw_buffer) = ml_aggregateStatus ml (raw_arg current_status) (raw_arg new_status)
            device_type
      in if ret = OK c
         then bindE (constructBufferByTakeOwnership raw_buffer) (\<lambda>b. Inr (ret, b))
         else Inr (ret, current_status))"

definition loc_aggregateError ::
  "error_codes \<Rightarrow> module_library \<Rightarrow> buffer \<Rightarrow> buffer \<Rightarrow> u32 \<Rightarrow> exn + int \<times> buffer" where
  "loc_aggregateError c ml current_error_message status device_type =
     (let (ret, raw_buffer) = ml_aggregateError ml (raw_arg current_error_message)
            (raw_arg status) device_type
      in if ret = OK c
         then bindE (constructBufferByTakeOwnership raw_buffer) (\<lambda>b. Inr (ret, b))
         else bindE (loc_constructBuffer c ml 0) (\<lambda>b. Inr (ret, b)))"

definition loc_generateFirstCommand ::
  "error_codes \<Rightarrow> module_library \<Rightarrow> u32 \<Rightarrow> exn + int \<times> buffer" where
  "loc_generateFirstCommand c ml device_type =
     (let (ret, raw_buffer) = ml_generateFirstCommand ml device_type
      in if ret = OK c
         then bindE (constructBufferByTakeOwnership raw_buffer) (\<lambda>b. Inr (ret, b))
         else bindE (loc_constructBuffer c ml 0) (\<lambda>b. Inr (ret, b)))"

definition loc_statusDataValid :: "module_library \<Rightarrow> buffer \<Rightarrow> u32 \<Rightarrow> int" where
  "loc_statusDataValid ml status device_type = ml_statusDataValid ml (raw_arg status) device_type"

definition loc_commandDataValid :: "module_library \<Rightarrow> buffer \<Rightarrow> u32 \<Rightarrow> int" where
  "loc_commandDataValid ml command device_type =
     ml_commandDataValid ml (raw_arg command) device_type"

definition loc_forwardCommandOnReceive :: "error_codes \<Rightarrow> module_library \<Rightarrow> u32 \<Rightarrow> int" where
  "loc_forwardCommandOnReceive c ml device_type =
     (case ml_forwardCommandOnReceive ml of None \<Rightarrow> NOT_OK c | Some f \<Rightarrow> f device_type)"

definition local_handler :: "error_codes \<Rightarrow> module_library \<Rightarrow> handler" where
  "local_handler c ml =
     \<lparr>lib_getModuleNumber = ml_getModuleNumber ml,
      lib_isDeviceTypeSupported = ml_isDeviceTypeSupported ml,
      lib_sendStatusCondition = loc_sendStatusCondition ml,
      lib_generateCommand = loc_generateCommand c ml,
      lib_aggregateStatus = loc_aggregateStatus c ml,
      lib_aggregateError = loc_aggregateError c ml,
      lib_generateFirstCommand = loc_generateFirstCommand c ml,
      lib_statusDataValid = loc_statusDataValid ml,
      lib_commandDataValid = loc_commandDataValid ml,
      lib_forwardCommandOnReceive = loc_forwardCommandOnReceive c ml,
      lib_constructBuffer = loc_constructBuffer c ml\<rparr>"

section \<open>The asynchronous handler\<close>

text \<open>
  The executor's calls; \<open>None\<close> is a call that timed out. A function that returns a buffer
  returns its code with it.
\<close>

record aeron_client =
  ac_getModuleNumber :: "int option"
  ac_isDeviceTypeSupported :: "u32 \<Rightarrow> int option"
  ac_sendStatusCondition :: "buffer \<Rightarrow> buffer \<Rightarrow> u32 \<Rightarrow> int option"
  ac_generateCommand :: "buffer \<Rightarrow> buffer \<Rightarrow> buffer \<Rightarrow> u32 \<Rightarrow> (int \<times> buffer) option"
  ac_aggregateStatus :: "buffer \<Rightarrow> buffer \<Rightarrow> u32 \<Rightarrow> (int \<times> buffer) option"
  ac_aggregateError :: "buffer \<Rightarrow> buffer \<Rightarrow> u32 \<Rightarrow> (int \<times> buffer) option"
  ac_generateFirstCommand :: "u32 \<Rightarrow> (int \<times> buffer) option"
  ac_statusDataValid :: "buffer \<Rightarrow> u32 \<Rightarrow> int option"
  ac_commandDataValid :: "buffer \<Rightarrow> u32 \<Rightarrow> int option"

definition value_or :: "'a option \<Rightarrow> 'a \<Rightarrow> 'a" where
  "value_or r d = (case r of None \<Rightarrow> d | Some x \<Rightarrow> x)"

text \<open>
  The start of a module binary as its library sees it: whether the process could be started and is valid, and for every round
  of the start-up loop whether the module answered and whether the process runs. The clock counts
  milliseconds from the start of the loop; \<open>bs_delay\<close> is the time a round takes beside the sleep before it, which lasts
  at least as long as asked for.
\<close>

record binary_start =
  bs_started :: bool
  bs_valid :: bool
  bs_reply :: "nat \<Rightarrow> int option"
  bs_running :: "nat \<Rightarrow> bool"
  bs_delay :: "nat \<Rightarrow> nat"

text \<open>Round \<open>i\<close> of the loop; \<open>now\<close> is the clock when the deadline is checked.\<close>

function asy_poll :: "binary_start \<Rightarrow> nat \<Rightarrow> nat \<Rightarrow> exn + unit" where
  "asy_poll b i now =
     (if bs_reply b i \<noteq> None then Inr ()
      else if \<not> bs_running b i then Inl Module_binary_error
      else if now \<ge> aeron_client_startup_timeout then Inl Module_binary_error
      else asy_poll b (Suc i) (now + module_binary_poll_interval + bs_delay b (Suc i)))"
  by pat_completeness auto

termination asy_poll
  by (relation "measure (\<lambda>(_, _, now). aeron_client_startup_timeout - now)")
    (simp_all add: module_binary_poll_interval_def)

declare asy_poll.simps [simp del]

definition asy_loadLibrary ::
  "(string \<Rightarrow> string list \<Rightarrow> binary_start) \<Rightarrow> string \<Rightarrow> string \<Rightarrow> exn + unit" where
  "asy_loadLibrary child moduleBinaryPath path =
     (let b = child moduleBinaryPath [''-m'', path]
      in if \<not> bs_started b then Inl Module_binary_error
         else if \<not> bs_valid b then Inl Module_binary_error
         else asy_poll b 0 (bs_delay b 0))"

definition asy_constructBuffer :: "nat \<Rightarrow> exn + buffer" where
  "asy_constructBuffer sz =
     (if sz = 0 then Inr empty_buffer
      else Inr \<lparr>raw_data = Some (replicate sz 0), size_in_bytes = sz\<rparr>)"

definition asy_constructBuffer_span :: "bytes \<Rightarrow> exn + buffer" where
  "asy_constructBuffer_span data =
     (if data = [] then asy_constructBuffer 0
      else bindE (asy_constructBuffer (length data)) (\<lambda>buff.
             bindE (getStructBuffer buff) (\<lambda>raw. Inr (memcpy_to raw data))))"

text \<open>The common tail of the calls that return a buffer: \<open>failed\<close> is the buffer on failure.\<close>

definition asy_returned :: "error_codes \<Rightarrow> buffer \<Rightarrow> (int \<times> buffer) option \<Rightarrow> exn + int \<times> buffer" where
  "asy_returned c failed ret =
     (case ret of
        None \<Rightarrow> Inr (NOT_OK c, failed)
      | Some (returnCode, b) \<Rightarrow>
          if returnCode = OK c
          then bindE (asy_constructBuffer_span (raw_bytes b)) (\<lambda>r. Inr (returnCode, r))
          else Inr (returnCode, failed))"

definition asy_getModuleNumber :: "error_codes \<Rightarrow> aeron_client \<Rightarrow> int" where
  "asy_getModuleNumber c ac = value_or (ac_getModuleNumber ac) (NOT_OK c)"

definition asy_isDeviceTypeSupported :: "error_codes \<Rightarrow> aeron_client \<Rightarrow> u32 \<Rightarrow> int" where
  "asy_isDeviceTypeSupported c ac device_type =
     value_or (ac_isDeviceTypeSupported ac device_type) (NOT_OK c)"

definition asy_sendStatusCondition ::
  "error_codes \<Rightarrow> aeron_client \<Rightarrow> buffer \<Rightarrow> buffer \<Rightarrow> u32 \<Rightarrow> int" where
  "asy_sendStatusCondition c ac current_status new_status device_type =
     value_or (ac_sendStatusCondition ac (raw_arg current_status) (raw_arg new_status) device_type)
       (NOT_OK c)"

definition asy_generateCommand ::
  "error_codes \<Rightarrow> aeron_client \<Rightarrow> buffer \<Rightarrow> buffer \<Rightarrow> buffer \<Rightarrow> u32 \<Rightarrow> exn + int \<times> buffer" where
  "asy_generateCommand c ac new_status current_status current_command device_type =
     asy_returned c empty_buffer
       (ac_generateCommand ac (raw_arg new_status) (raw_arg current_status)
          (raw_arg current_command) device_type)"

definition asy_aggregateStatus ::
  "error_codes \<Rightarrow> aeron_client \<Rightarrow> buffer \<Rightarrow> buffer \<Rightarrow> u32 \<Rightarrow> exn + int \<times> buffer" where
  "asy_aggregateStatus c ac current_status new_status device_type =
     asy_returned c current_status
       (ac_aggregateStatus ac (raw_arg current_status) (raw_arg new_status) device_type)"

definition asy_aggregateError ::
  "error_codes \<Rightarrow> aeron_client \<Rightarrow> buffer \<Rightarrow> buffer \<Rightarrow> u32 \<Rightarrow> exn + int \<times> buffer" where
  "asy_aggregateError c ac current_error_message status device_type =
     asy_returned c empty_buffer
       (ac_aggregateError ac (raw_arg current_error_message) (raw_arg status) device_type)"

definition asy_generateFirstCommand ::
  "error_codes \<Rightarrow> aeron_client \<Rightarrow> u32 \<Rightarrow> exn + int \<times> buffer" where
  "asy_generateFirstCommand c ac device_type =
     asy_returned c empty_buffer (ac_generateFirstCommand ac device_type)"

definition asy_statusDataValid :: "error_codes \<Rightarrow> aeron_client \<Rightarrow> buffer \<Rightarrow> u32 \<Rightarrow> int" where
  "asy_statusDataValid c ac status device_type =
     value_or (ac_statusDataValid ac (raw_arg status) device_type) (NOT_OK c)"

definition asy_commandDataValid :: "error_codes \<Rightarrow> aeron_client \<Rightarrow> buffer \<Rightarrow> u32 \<Rightarrow> int" where
  "asy_commandDataValid c ac command device_type =
     value_or (ac_commandDataValid ac (raw_arg command) device_type) (NOT_OK c)"

definition asy_forwardCommandOnReceive :: "error_codes \<Rightarrow> u32 \<Rightarrow> int" where
  "asy_forwardCommandOnReceive c device_type = NOT_OK c"

definition async_handler :: "error_codes \<Rightarrow> aeron_client \<Rightarrow> handler" where
  "async_handler c ac =
     \<lparr>lib_getModuleNumber = asy_getModuleNumber c ac,
      lib_isDeviceTypeSupported = asy_isDeviceTypeSupported c ac,
      lib_sendStatusCondition = asy_sendStatusCondition c ac,
      lib_generateCommand = asy_generateCommand c ac,
      lib_aggregateStatus = asy_aggregateStatus c ac,
      lib_aggregateError = asy_aggregateError c ac,
      lib_generateFirstCommand = asy_generateFirstCommand c ac,
      lib_statusDataValid = asy_statusDataValid c ac,
      lib_commandDataValid = asy_commandDataValid c ac,
      lib_forwardCommandOnReceive = asy_forwardCommandOnReceive c,
      lib_constructBuffer = asy_constructBuffer\<rparr>"

section \<open>Message data as a buffer\<close>

text \<open>
  The lines every receiver of a status starts with: construct a buffer of the data's size and,
  unless it is empty, copy the data into it.
\<close>

definition status_to_buffer :: "handler \<Rightarrow> device_status \<Rightarrow> exn + buffer" where
  "status_to_buffer h status =
     bindE (lib_constructBuffer h (length (st_statusdata status))) (\<lambda>statusBuffer.
       if \<not> isEmpty statusBuffer then copyStatusToBuffer status statusBuffer
       else Inr statusBuffer)"

section \<open>What every client relies on\<close>

text \<open>
  The contract of the interface: an empty request gives the empty buffer, and a call that does
  not return \<open>OK\<close> leaves the current status (\<open>aggregateStatus\<close>) or the empty buffer (the other
  three) in its output.
\<close>

locale library_handler =
  fixes c :: error_codes
    and h :: handler
  assumes construct_zero: "lib_constructBuffer h 0 = Inr empty_buffer"
    and aggregate_failed:
      "lib_aggregateStatus h cur new t = Inr (rc, b) \<Longrightarrow> rc \<noteq> OK c \<Longrightarrow> b = cur"
    and command_failed:
      "lib_generateCommand h new cur cmd t = Inr (rc, b) \<Longrightarrow> rc \<noteq> OK c \<Longrightarrow> b = empty_buffer"
    and error_failed:
      "lib_aggregateError h err new t = Inr (rc, b) \<Longrightarrow> rc \<noteq> OK c \<Longrightarrow> b = empty_buffer"
    and first_failed:
      "lib_generateFirstCommand h t = Inr (rc, b) \<Longrightarrow> rc \<noteq> OK c \<Longrightarrow> b = empty_buffer"
begin

lemma status_to_buffer_no_data:
  "st_statusdata s = [] \<Longrightarrow> status_to_buffer h s = Inr empty_buffer"
  by (simp add: status_to_buffer_def construct_zero)

end

text \<open>A handler whose buffers have the requested size and never fail to be made.\<close>

locale copying_handler = library_handler +
  assumes construct_size:
    "0 < n \<Longrightarrow> \<exists>b. lib_constructBuffer h n = Inr b \<and> isAllocated b \<and> size_in_bytes b = n"
begin

lemma status_to_buffer_data:
  "\<exists>b. status_to_buffer h s = Inr b \<and> raw_bytes b = st_statusdata s \<and>
       isAllocated b = (st_statusdata s \<noteq> [])"
proof (cases "st_statusdata s = []")
  case True
  then show ?thesis by (simp add: status_to_buffer_no_data)
next
  case False
  with construct_size [of "length (st_statusdata s)"]
  obtain b where b: "lib_constructBuffer h (length (st_statusdata s)) = Inr b"
    "isAllocated b" "size_in_bytes b = length (st_statusdata s)" by auto
  note copied = copyStatusToBuffer_exact [OF b(2,3)]
  from b copied False show ?thesis
    by (simp add: status_to_buffer_def isAllocated_not_isEmpty)
qed

end

lemma loc_constructBuffer_zero: "loc_constructBuffer c ml 0 = Inr empty_buffer"
  by (simp add: loc_constructBuffer_def)

lemma asy_returned_failed:
  "asy_returned c failed ret = Inr (rc, b) \<Longrightarrow> rc \<noteq> OK c \<Longrightarrow> b = failed"
  by (auto simp: asy_returned_def bindE_eq_Inr_iff split: option.splits if_splits prod.splits)

interpretation loc: library_handler c "local_handler c ml" for c ml
  by unfold_locales
    (auto simp: local_handler_def loc_constructBuffer_zero loc_aggregateStatus_def
      loc_generateCommand_def loc_aggregateError_def loc_generateFirstCommand_def
      bindE_eq_Inr_iff split: prod.splits if_splits)

interpretation asy: copying_handler c "async_handler c ac" for c ac
  by unfold_locales
    (auto simp: async_handler_def asy_constructBuffer_def asy_aggregateStatus_def
      asy_generateCommand_def asy_aggregateError_def asy_generateFirstCommand_def isAllocated_def
      dest: asy_returned_failed)

text \<open>
  The local handler makes buffers of the requested size if the library's \<open>allocate\<close> does what
  the fleet protocol asks of it.
\<close>

definition allocate_ok :: "error_codes \<Rightarrow> module_library \<Rightarrow> bool" where
  "allocate_ok c ml \<longleftrightarrow>
     (\<forall>n > 0. \<exists>bs. ml_allocate ml (empty_buffer\<lparr>size_in_bytes := n\<rparr>) n =
                  (OK c, \<lparr>raw_data = Some bs, size_in_bytes = n\<rparr>))"

lemma local_copying_handler:
  assumes "allocate_ok c ml"
  shows "copying_handler c (local_handler c ml)"
proof unfold_locales
  fix n :: nat
  assume "0 < n"
  with assms obtain bs where "ml_allocate ml (empty_buffer\<lparr>size_in_bytes := n\<rparr>) n =
      (OK c, \<lparr>raw_data = Some bs, size_in_bytes = n\<rparr>)"
    unfolding allocate_ok_def by blast
  with \<open>0 < n\<close> show "\<exists>b. lib_constructBuffer (local_handler c ml) n = Inr b \<and> isAllocated b \<and>
      size_in_bytes b = n"
    by (simp add: local_handler_def loc_constructBuffer_def isAllocated_def)
qed

text \<open>
  A handler whose calls never throw. The one of a module binary is such a handler, whatever the binary
  does; the one of a shared library is, if every function that answers \<open>OK\<close> has allocated its buffer.
\<close>

locale steady_handler = copying_handler +
  assumes aggregateStatus_returns: "\<exists>rc b. lib_aggregateStatus h cur new t = Inr (rc, b)"
    and generateCommand_returns: "\<exists>rc b. lib_generateCommand h new cur cmd t = Inr (rc, b)"
    and aggregateError_returns: "\<exists>rc b. lib_aggregateError h err new t = Inr (rc, b)"
    and generateFirstCommand_returns: "\<exists>rc b. lib_generateFirstCommand h t = Inr (rc, b)"
begin

lemma status_to_buffer_returns: "\<exists>b. status_to_buffer h s = Inr b"
  using status_to_buffer_data by blast

lemma command_to_buffer_returns:
  assumes "cmd_commanddata cmd \<noteq> []"
  shows "\<exists>b b'. lib_constructBuffer h (length (cmd_commanddata cmd)) = Inr b \<and>
    copyCommandToBuffer cmd b = Inr b'"
proof -
  obtain b where b: "lib_constructBuffer h (length (cmd_commanddata cmd)) = Inr b"
    "isAllocated b" "size_in_bytes b = length (cmd_commanddata cmd)"
    using construct_size assms by blast
  then show ?thesis using copyCommandToBuffer_exact [OF b(2,3)] by blast
qed

end

lemma asy_constructBuffer_span_returns: "\<exists>b. asy_constructBuffer_span bs = Inr b"
  by (simp add: asy_constructBuffer_span_def asy_constructBuffer_def getStructBuffer_def isAllocated_def)

lemma asy_returned_returns: "\<exists>rc b. asy_returned c failed ret = Inr (rc, b)"
proof (cases ret)
  case (Some r)
  obtain rc b where r: "r = (rc, b)" by (cases r)
  obtain b' where "asy_constructBuffer_span (raw_bytes b) = Inr b'"
    using asy_constructBuffer_span_returns by blast
  then show ?thesis using Some r by (simp add: asy_returned_def)
qed (simp add: asy_returned_def)

interpretation asy: steady_handler c "async_handler c ac" for c ac
  by unfold_locales
    (simp_all add: async_handler_def asy_aggregateStatus_def asy_generateCommand_def asy_aggregateError_def
      asy_generateFirstCommand_def asy_returned_returns)

definition allocated_if_OK :: "error_codes \<Rightarrow> int \<times> buffer \<Rightarrow> bool" where
  "allocated_if_OK c r \<longleftrightarrow> fst r = OK c \<longrightarrow> raw_data (snd r) \<noteq> None"

definition results_allocated :: "error_codes \<Rightarrow> module_library \<Rightarrow> bool" where
  "results_allocated c ml \<longleftrightarrow>
     (\<forall>cur new t. allocated_if_OK c (ml_aggregateStatus ml cur new t)) \<and>
     (\<forall>new cur cmd t. allocated_if_OK c (ml_generateCommand ml new cur cmd t)) \<and>
     (\<forall>err new t. allocated_if_OK c (ml_aggregateError ml err new t)) \<and>
     (\<forall>t. allocated_if_OK c (ml_generateFirstCommand ml t))"

lemma allocated_returns:
  assumes "allocated_if_OK c r"
  shows "\<exists>rc b. (case r of (ret, raw) \<Rightarrow>
      if ret = OK c then bindE (constructBufferByTakeOwnership raw) (\<lambda>b. Inr (ret, b)) else Inr (ret, failed)) =
      Inr (rc, b)"
    and "\<exists>rc b. (case r of (ret, raw) \<Rightarrow>
      if ret = OK c then bindE (constructBufferByTakeOwnership raw) (\<lambda>b. Inr (ret, b))
      else bindE (loc_constructBuffer c ml 0) (\<lambda>b. Inr (ret, b))) = Inr (rc, b)"
  using assms
  by (cases r, auto simp: allocated_if_OK_def constructBufferByTakeOwnership_def loc_constructBuffer_zero)+

lemma local_steady_handler:
  assumes "allocate_ok c ml" and "results_allocated c ml"
  shows "steady_handler c (local_handler c ml)"
proof (rule steady_handler.intro [OF local_copying_handler [OF assms(1)]], unfold_locales)
  fix cur new cmd :: buffer and t
  note defs = local_handler_def loc_aggregateStatus_def loc_generateCommand_def loc_aggregateError_def
    loc_generateFirstCommand_def
  show "\<exists>rc b. lib_aggregateStatus (local_handler c ml) cur new t = Inr (rc, b)"
    "\<exists>rc b. lib_generateCommand (local_handler c ml) new cur cmd t = Inr (rc, b)"
    "\<exists>rc b. lib_aggregateError (local_handler c ml) cur new t = Inr (rc, b)"
    "\<exists>rc b. lib_generateFirstCommand (local_handler c ml) t = Inr (rc, b)"
    using assms(2) by (simp_all add: defs results_allocated_def allocated_returns)
qed

section \<open>A sample module\<close>

text \<open>
  A small but complete module for closed examples: it knows the device types 1 (push-only) and
  2, sends a status when it differs from the current one, aggregates to the new status, answers
  with the current command, and collects errors by appending the status bytes.
\<close>

definition sample_module :: module_library where
  "sample_module =
     \<lparr>ml_isDeviceTypeSupported = (\<lambda>t. if t = 1 \<or> t = 2 then 0 else - 1),
      ml_getModuleNumber = 7,
      ml_generateFirstCommand = (\<lambda>_. (0, \<lparr>raw_data = Some [0], size_in_bytes = 1\<rparr>)),
      ml_statusDataValid = (\<lambda>b _. if isAllocated b then 0 else - 1),
      ml_commandDataValid = (\<lambda>b _. if isAllocated b then 0 else - 1),
      ml_sendStatusCondition = (\<lambda>cur new _. if raw_bytes cur \<noteq> raw_bytes new then 0 else - 1),
      ml_aggregateStatus = (\<lambda>_ new _. (0, new)),
      ml_generateCommand = (\<lambda>_ _ cmd _. (0,
         if isAllocated cmd then cmd else \<lparr>raw_data = Some [0], size_in_bytes = 1\<rparr>)),
      ml_aggregateError = (\<lambda>err new _. (0,
         \<lparr>raw_data = Some (raw_bytes err @ raw_bytes new),
          size_in_bytes = length (raw_bytes err @ raw_bytes new)\<rparr>)),
      ml_allocate = (\<lambda>b n. (0, \<lparr>raw_data = Some (replicate n 0), size_in_bytes = n\<rparr>)),
      ml_forwardCommandOnReceive = Some (\<lambda>t. if t = 1 then 0 else - 1)\<rparr>"

definition sample_handler :: handler where
  "sample_handler = local_handler sample_codes sample_module"

definition sample_buffer :: "bytes \<Rightarrow> buffer" where
  "sample_buffer bs = \<lparr>raw_data = Some bs, size_in_bytes = length bs\<rparr>"

lemma isAllocated_sample_buffer [simp]: "isAllocated (sample_buffer bs) \<longleftrightarrow> bs \<noteq> []"
  by (simp add: isAllocated_def sample_buffer_def)

lemma raw_bytes_sample_buffer [simp]: "raw_bytes (sample_buffer bs) = bs"
  by (simp add: raw_bytes_def sample_buffer_def)

lemma raw_arg_simps [simp]: "isAllocated b \<Longrightarrow> raw_arg b = b" "raw_arg empty_buffer = empty_buffer"
  by (simp_all add: raw_arg_def)

lemma raw_bytes_arg [simp]: "raw_bytes (raw_arg b) = (if isAllocated b then raw_bytes b else [])"
  by (simp add: raw_arg_def)

lemma isAllocated_raw_arg [simp]: "isAllocated (raw_arg b) = isAllocated b"
  by (simp add: raw_arg_def)

lemma isAllocated_raw_data: "isAllocated b \<Longrightarrow> raw_data b \<noteq> None"
  by (simp add: isAllocated_def)

text \<open>How the sample module answers.\<close>

lemma sample_handler_simps:
  "lib_isDeviceTypeSupported sample_handler t = (if t = 1 \<or> t = 2 then 0 else - 1)"
  "lib_sendStatusCondition sample_handler cur new t =
     (if raw_bytes (raw_arg cur) \<noteq> raw_bytes (raw_arg new) then 0 else - 1)"
  "isAllocated new \<Longrightarrow> lib_aggregateStatus sample_handler cur new t = Inr (0, new)"
  "lib_generateCommand sample_handler new cur cmd t =
     Inr (0, if isAllocated cmd then cmd else sample_buffer [0])"
  "lib_aggregateError sample_handler err new t =
     Inr (0, sample_buffer (raw_bytes (raw_arg err) @ raw_bytes (raw_arg new)))"
  "lib_generateFirstCommand sample_handler t = Inr (0, sample_buffer [0])"
  "lib_statusDataValid sample_handler b t = (if isAllocated b then 0 else - 1)"
  "lib_commandDataValid sample_handler b t = (if isAllocated b then 0 else - 1)"
  "lib_forwardCommandOnReceive sample_handler t = (if t = 1 then 0 else - 1)"
  "lib_constructBuffer sample_handler n =
     Inr (if n = 0 then empty_buffer else sample_buffer (replicate n 0))"
  "lib_getModuleNumber sample_handler = 7"
  by (auto simp: sample_handler_def local_handler_def sample_module_def sample_buffer_def
      loc_sendStatusCondition_def loc_aggregateStatus_def loc_generateCommand_def
      loc_aggregateError_def loc_generateFirstCommand_def loc_statusDataValid_def
      loc_commandDataValid_def loc_forwardCommandOnReceive_def loc_constructBuffer_def
      constructBufferByTakeOwnership_def 
      dest: isAllocated_raw_data)

end
