(* ===== verification/Device_State.thy ===== *)
theory Device_State
  imports Constants Library_Handler
begin

text \<open>
  The state the status aggregator keeps per device (StatusAggregatorDeviceState.hpp and .cpp)
  and the timer it owns (ThreadTimer.hpp and .cpp). The lemmas show what the queue of external
  commands promises: it never holds more than \<open>max_external_commands\<close>, keeps the most recent
  ones, and hands them out in the order they came; an exhausted queue repeats the last command
  for a pull device and gives nothing for a push-only device.
\<close>

section \<open>The timer\<close>

text \<open>
  The Boost timer is seen through its flag \<open>tt_armed\<close>: a wait is outstanding. Setting an
  expiry time or cancelling aborts the outstanding wait.
\<close>

record thread_timer =
  tt_end :: bool
  tt_armed :: bool
  tt_deviceId :: device_identification

definition ThreadTimer :: "device_identification \<Rightarrow> thread_timer" where
  "ThreadTimer deviceId = \<lparr>tt_end = False, tt_armed = False, tt_deviceId = deviceId\<rparr>"

definition tt_start :: "thread_timer \<Rightarrow> thread_timer" where
  "tt_start t = t\<lparr>tt_end := False, tt_armed := True\<rparr>"

definition tt_stop :: "thread_timer \<Rightarrow> thread_timer" where
  "tt_stop t = t\<lparr>tt_end := True, tt_armed := False\<rparr>"

definition tt_restart :: "thread_timer \<Rightarrow> thread_timer" where
  "tt_restart t = tt_start (tt_stop t)"

text \<open>
  The completion handler of a wait: the device the callback is called on, if it is, and the
  timer afterwards. \<open>aborted\<close> is the error code of a cancelled wait.
\<close>

definition tt_tick :: "bool \<Rightarrow> thread_timer \<Rightarrow> device_identification option \<times> thread_timer" where
  "tt_tick aborted t =
     (if aborted \<or> tt_end t then (None, t)
      else (Some (tt_deviceId t), t\<lparr>tt_armed := True\<rparr>))"

lemma tt_start_simps [simp]:
  "tt_armed (tt_start t)" "\<not> tt_end (tt_start t)" "tt_deviceId (tt_start t) = tt_deviceId t"
  by (simp_all add: tt_start_def)

lemma tt_restart_simps [simp]:
  "tt_armed (tt_restart t)" "\<not> tt_end (tt_restart t)"
  "tt_deviceId (tt_restart t) = tt_deviceId t"
  by (simp_all add: tt_restart_def tt_stop_def)

lemma tt_stopped_tick: "tt_tick aborted (tt_stop t) = (None, tt_stop t)"
  by (simp add: tt_tick_def tt_stop_def)

lemma tt_aborted_tick: "tt_tick True t = (None, t)"
  by (simp add: tt_tick_def)

section \<open>The state of a device\<close>

record device_state =
  ds_timer :: thread_timer
  ds_aggregatedMessages :: "buffer list"
  ds_status :: buffer
  ds_defaultCommand :: buffer
  ds_externalCommandQueue :: "buffer list"
  ds_forwardCommandImmediately :: bool

definition StatusAggregatorDeviceState ::
  "device_identification \<Rightarrow> buffer \<Rightarrow> buffer \<Rightarrow> device_state" where
  "StatusAggregatorDeviceState deviceId command status =
     \<lparr>ds_timer = tt_start (ThreadTimer deviceId), ds_aggregatedMessages = [],
      ds_status = status, ds_defaultCommand = command, ds_externalCommandQueue = [],
      ds_forwardCommandImmediately = False\<rparr>"

definition ds_setStatus :: "buffer \<Rightarrow> device_state \<Rightarrow> device_state" where
  "ds_setStatus statusBuffer s = s\<lparr>ds_status := statusBuffer\<rparr>"

definition ds_getStatus :: "device_state \<Rightarrow> buffer" where
  "ds_getStatus s = ds_status s"

definition ds_setStatusAndResetTimer :: "buffer \<Rightarrow> device_state \<Rightarrow> device_state" where
  "ds_setStatusAndResetTimer statusBuffer s =
     (let s = ds_setStatus statusBuffer s in s\<lparr>ds_timer := tt_restart (ds_timer s)\<rparr>)"

definition ds_setDefaultCommand :: "buffer \<Rightarrow> device_state \<Rightarrow> device_state" where
  "ds_setDefaultCommand commandBuffer s = s\<lparr>ds_defaultCommand := commandBuffer\<rparr>"

definition ds_consumeCommand :: "device_state \<Rightarrow> buffer option \<times> device_state" where
  "ds_consumeCommand s =
     (case ds_externalCommandQueue s of
        cmd # rest \<Rightarrow>
          (Some cmd, s\<lparr>ds_defaultCommand := cmd, ds_externalCommandQueue := rest\<rparr>)
      | [] \<Rightarrow>
          if ds_forwardCommandImmediately s then (None, s)
          else (Some (ds_defaultCommand s), s))"

definition ds_addExternalCommand ::
  "error_codes \<Rightarrow> buffer \<Rightarrow> device_state \<Rightarrow> int \<times> device_state" where
  "ds_addExternalCommand c commandBuffer s =
     (let s = s\<lparr>ds_externalCommandQueue := ds_externalCommandQueue s @ [commandBuffer]\<rparr>
      in if length (ds_externalCommandQueue s) > max_external_commands
         then (NOT_OK c, s\<lparr>ds_externalCommandQueue := tl (ds_externalCommandQueue s)\<rparr>)
         else (OK c, s))"

definition ds_enableImmediateCommandForwarding :: "device_state \<Rightarrow> device_state" where
  "ds_enableImmediateCommandForwarding s = s\<lparr>ds_forwardCommandImmediately := True\<rparr>"

definition ds_isForwardCommandImmediately :: "device_state \<Rightarrow> bool" where
  "ds_isForwardCommandImmediately s = ds_forwardCommandImmediately s"

section \<open>Invariant\<close>

text \<open>
  The command queue is within its bound, and the timer runs: it has an outstanding wait and is
  not marked as ended.
\<close>

definition ds_inv :: "device_state \<Rightarrow> bool" where
  "ds_inv s \<longleftrightarrow>
     length (ds_externalCommandQueue s) \<le> max_external_commands \<and>
     tt_armed (ds_timer s) \<and> \<not> tt_end (ds_timer s)"

lemma ds_inv_init [simp]: "ds_inv (StatusAggregatorDeviceState d command status)"
  by (simp add: ds_inv_def StatusAggregatorDeviceState_def)

lemma ds_inv_setters [simp]:
  "ds_inv s \<Longrightarrow> ds_inv (ds_setStatus b s)"
  "ds_inv s \<Longrightarrow> ds_inv (ds_setStatusAndResetTimer b s)"
  "ds_inv s \<Longrightarrow> ds_inv (ds_setDefaultCommand b s)"
  "ds_inv s \<Longrightarrow> ds_inv (ds_enableImmediateCommandForwarding s)"
  "ds_inv s \<Longrightarrow> ds_inv (s\<lparr>ds_aggregatedMessages := q\<rparr>)"
  by (simp_all add: ds_inv_def ds_setStatus_def ds_setStatusAndResetTimer_def
      ds_setDefaultCommand_def ds_enableImmediateCommandForwarding_def)

lemma ds_inv_consumeCommand: "ds_inv s \<Longrightarrow> ds_inv (snd (ds_consumeCommand s))"
  by (auto simp: ds_inv_def ds_consumeCommand_def split: list.splits)

lemma ds_inv_addExternalCommand: "ds_inv s \<Longrightarrow> ds_inv (snd (ds_addExternalCommand c b s))"
  by (auto simp: ds_inv_def ds_addExternalCommand_def Let_def)

text \<open>Which fields the operations leave alone.\<close>

lemma ds_setters_timer [simp]:
  "ds_timer (ds_setStatus b s) = ds_timer s"
  "tt_deviceId (ds_timer (ds_setStatusAndResetTimer b s)) = tt_deviceId (ds_timer s)"
  "ds_timer (ds_setDefaultCommand b s) = ds_timer s"
  "ds_timer (ds_enableImmediateCommandForwarding s) = ds_timer s"
  "tt_deviceId (ds_timer (StatusAggregatorDeviceState d command status)) = d"
  by (simp_all add: ds_setStatus_def ds_setStatusAndResetTimer_def ds_setDefaultCommand_def
      ds_enableImmediateCommandForwarding_def StatusAggregatorDeviceState_def ThreadTimer_def)

lemma ds_consumeCommand_keeps [simp]:
  "ds_timer (snd (ds_consumeCommand s)) = ds_timer s"
  "ds_status (snd (ds_consumeCommand s)) = ds_status s"
  "ds_aggregatedMessages (snd (ds_consumeCommand s)) = ds_aggregatedMessages s"
  by (auto simp: ds_consumeCommand_def split: list.splits)

lemma ds_addExternalCommand_keeps [simp]:
  "ds_timer (snd (ds_addExternalCommand c b s)) = ds_timer s"
  "ds_status (snd (ds_addExternalCommand c b s)) = ds_status s"
  "ds_aggregatedMessages (snd (ds_addExternalCommand c b s)) = ds_aggregatedMessages s"
  by (simp_all add: ds_addExternalCommand_def Let_def)

section \<open>The command queue\<close>

definition keep_last :: "nat \<Rightarrow> 'a list \<Rightarrow> 'a list" where
  "keep_last n xs = drop (length xs - n) xs"

lemma length_keep_last [simp]: "length (keep_last n xs) = min n (length xs)"
  by (simp add: keep_last_def)

lemma keep_last_short [simp]: "length xs \<le> n \<Longrightarrow> keep_last n xs = xs"
  by (simp add: keep_last_def)

lemma keep_last_snoc: "keep_last n (keep_last n xs @ ys) = keep_last n (xs @ ys)"
proof (cases "length xs \<le> n")
  case False
  define k where "k = length xs - n"
  have k: "k \<le> length xs" "length (drop k xs) = n" "length xs + length ys - n = length ys + k"
    using False by (auto simp: k_def)
  have "keep_last n (keep_last n xs @ ys) = drop (length ys) (drop k xs @ ys)"
    using k(2) by (simp add: keep_last_def k_def [symmetric])
  also have "\<dots> = drop (length ys) (drop k (xs @ ys))"
    using k(1) by simp
  also have "\<dots> = keep_last n (xs @ ys)"
    using k(3) by (simp only: keep_last_def drop_drop length_append)
  finally show ?thesis .
qed simp

text \<open>
  One command arriving: the queue keeps the last \<open>max_external_commands\<close> of what it held and
  the new one, the code tells whether one was dropped, and nothing else of the state changes.
\<close>

lemma ds_addExternalCommand_eq:
  assumes "length (ds_externalCommandQueue s) \<le> max_external_commands"
  shows "ds_addExternalCommand c b s =
     (if length (ds_externalCommandQueue s) = max_external_commands then NOT_OK c else OK c,
      s\<lparr>ds_externalCommandQueue :=
          keep_last max_external_commands (ds_externalCommandQueue s @ [b])\<rparr>)"
  using assms
  by (cases "ds_externalCommandQueue s")
    (auto simp: ds_addExternalCommand_def max_external_commands_def keep_last_def)

text \<open>A burst of commands, and a device asking for its command again and again.\<close>

fun add_commands :: "error_codes \<Rightarrow> buffer list \<Rightarrow> device_state \<Rightarrow> device_state" where
  "add_commands c [] s = s"
| "add_commands c (b # bs) s = add_commands c bs (snd (ds_addExternalCommand c b s))"

fun consume_commands :: "nat \<Rightarrow> device_state \<Rightarrow> buffer option list \<times> device_state" where
  "consume_commands 0 s = ([], s)"
| "consume_commands (Suc n) s =
     (let (r, s) = ds_consumeCommand s; (rs, s) = consume_commands n s in (r # rs, s))"

lemma add_commands_eq:
  assumes "length (ds_externalCommandQueue s) \<le> max_external_commands"
  shows "add_commands c bs s =
     s\<lparr>ds_externalCommandQueue :=
        keep_last max_external_commands (ds_externalCommandQueue s @ bs)\<rparr>"
  using assms
proof (induction bs arbitrary: s)
  case Nil
  then show ?case by simp
next
  case (Cons b bs)
  then show ?case
    by (simp add: ds_addExternalCommand_eq keep_last_snoc max_external_commands_def)
qed

lemma ds_consumeCommand_Cons:
  "ds_externalCommandQueue s = b # q \<Longrightarrow>
   ds_consumeCommand s = (Some b, s\<lparr>ds_defaultCommand := b, ds_externalCommandQueue := q\<rparr>)"
  by (simp add: ds_consumeCommand_def)

lemma consume_commands_queue:
  assumes "n \<le> length (ds_externalCommandQueue s)"
  shows "consume_commands n s =
     (map Some (take n (ds_externalCommandQueue s)),
      s\<lparr>ds_defaultCommand :=
          (if n = 0 then ds_defaultCommand s else ds_externalCommandQueue s ! (n - 1)),
        ds_externalCommandQueue := drop n (ds_externalCommandQueue s)\<rparr>)"
  using assms
proof (induction n arbitrary: s)
  case 0
  then show ?case by simp
next
  case (Suc n)
  then obtain b q where q: "ds_externalCommandQueue s = b # q"
    by (cases "ds_externalCommandQueue s") auto
  let ?s = "s\<lparr>ds_defaultCommand := b, ds_externalCommandQueue := q\<rparr>"
  have "consume_commands n ?s =
     (map Some (take n q),
      ?s\<lparr>ds_defaultCommand := (if n = 0 then b else q ! (n - 1)),
         ds_externalCommandQueue := drop n q\<rparr>)"
    using Suc.IH [of ?s] Suc.prems q by simp
  then show ?case
    using q by (cases n) (simp_all add: ds_consumeCommand_Cons)
qed

text \<open>
  Commands sent to a device while it is silent are delivered, when it asks, oldest first and
  each once; of a burst longer than the queue only the last \<open>max_external_commands\<close> arrive.
  When the queue is used up, a pull device gets the last command again and a push-only device
  gets nothing.
\<close>

lemma commands_delivered_in_order:
  assumes "ds_externalCommandQueue s = []" and "bs \<noteq> []"
    and "n = min max_external_commands (length bs)"
  shows "\<exists>s'. consume_commands n (add_commands c bs s) =
           (map Some (keep_last max_external_commands bs), s') \<and>
         fst (ds_consumeCommand s') =
           (if ds_forwardCommandImmediately s then None else Some (last bs))"
proof -
  have n: "length (keep_last max_external_commands bs) = n" "n \<noteq> 0"
    using assms(2,3) by (simp_all add: max_external_commands_def)
  have "length bs - max_external_commands + (n - 1) = length bs - 1"
    using assms(2,3) by (auto simp: max_external_commands_def min_def)
  then have "keep_last max_external_commands bs ! (n - 1) = last bs"
    using assms(2) by (simp add: keep_last_def last_conv_nth)
  then show ?thesis
    using assms(1) n
    by (simp add: add_commands_eq consume_commands_queue ds_consumeCommand_def)
qed

text \<open>A burst of four commands for a push-only device: the first is lost.\<close>

end
