(* ===== verification/Module_Library.thy ===== *)
theory Module_Library
  imports Settings Status_Aggregator
begin

text \<open>
  The library of loaded modules (ModuleLibrary.hpp and .cpp): the handlers by module number and
  the status aggregators of the modules that have an external endpoint. A handler pointer may
  be null, since \<open>operator[]\<close> of the map makes such an entry. A status aggregator
  is kept with the handler it was built with (\<open>module_\<close>).
\<close>

type_synonym module_handlers = "(int \<times> handler option) list"
type_synonym status_aggregators = "(int \<times> (handler \<times> status_aggregator)) list"

record gw_modules =
  ml_moduleLibraryHandlers :: module_handlers
  ml_statusAggregators :: status_aggregators

definition ModuleLibrary :: gw_modules where
  "ModuleLibrary = \<lparr>ml_moduleLibraryHandlers = [], ml_statusAggregators = []\<rparr>"

text \<open>Calling a method through a handler pointer; a null pointer has no method.\<close>

definition deref :: "'a option \<Rightarrow> exn + 'a" where
  "deref p = (case p of None \<Rightarrow> Inl Undefined_behaviour | Some x \<Rightarrow> Inr x)"

definition handler_at :: "int \<Rightarrow> module_handlers \<Rightarrow> exn + handler" where
  "handler_at moduleNumber hs = bindE (um_at num_eq moduleNumber hs) deref"

text \<open>
  One library of the configuration: \<open>load\<close> is \<open>loadLibrary\<close> of the chosen kind of handler on
  the path, which throws or gives the handler.
\<close>

fun ml_loadLibraries ::
  "(int \<Rightarrow> string \<Rightarrow> exn + handler) \<Rightarrow> (int \<times> string) list \<Rightarrow> gw_modules \<Rightarrow> exn + gw_modules" where
  "ml_loadLibraries load [] lib = Inr lib"
| "ml_loadLibraries load ((key, path) # libPaths) lib =
     bindE (load key path) (\<lambda>h.
       let moduleNumber = lib_getModuleNumber h
       in if moduleNumber \<noteq> key then Inl Runtime_error
          else ml_loadLibraries load libPaths (lib\<lparr>ml_moduleLibraryHandlers :=
                 um_try_emplace num_eq key (Some h) (ml_moduleLibraryHandlers lib)\<rparr>))"

fun ml_initStatusAggregators_loop ::
  "external_connection_settings list \<Rightarrow> module_handlers \<Rightarrow> status_aggregators \<Rightarrow>
   exn + status_aggregators" where
  "ml_initStatusAggregators_loop endpoints [] aggs = Inr aggs"
| "ml_initStatusAggregators_loop endpoints ((key, libraryHandler) # rest) aggs =
     bindE (deref libraryHandler) (\<lambda>h.
       let moduleNumber = sa_get_module_number h
       in if um_contains num_eq moduleNumber aggs
          then ml_initStatusAggregators_loop endpoints rest aggs
          else if list_ex (\<lambda>connection. moduleNumber \<in> set (es_modules connection)) endpoints
          then ml_initStatusAggregators_loop endpoints rest
                 (um_try_emplace num_eq moduleNumber (h, StatusAggregator) aggs)
          else ml_initStatusAggregators_loop endpoints rest aggs)"

definition ml_initStatusAggregators ::
  "external_connection_settings list \<Rightarrow> gw_modules \<Rightarrow> exn + gw_modules" where
  "ml_initStatusAggregators endpoints lib =
     bindE (ml_initStatusAggregators_loop endpoints (ml_moduleLibraryHandlers lib)
              (ml_statusAggregators lib))
       (\<lambda>aggs. Inr (lib\<lparr>ml_statusAggregators := aggs\<rparr>))"

text \<open>The destructor.\<close>

definition ml_destroy :: "error_codes \<Rightarrow> gw_modules \<Rightarrow> gw_modules" where
  "ml_destroy c lib = lib\<lparr>ml_statusAggregators :=
     map (\<lambda>(key, h, sa). (key, h, snd (sa_destroy_status_aggregator c h sa)))
       (ml_statusAggregators lib)\<rparr>"

section \<open>Lemmas\<close>

lemma handler_at_Inr_iff:
  "handler_at m hs = Inr h \<longleftrightarrow> um_find num_eq m hs = Some (Some h)"
  by (auto simp: handler_at_def um_at_def deref_def split: option.splits)

text \<open>
  After loading, each loaded module stands under its own number: the entry of key \<open>k\<close> is a
  handler whose \<open>getModuleNumber\<close> is \<open>k\<close>.
\<close>

definition handlers_ok :: "module_handlers \<Rightarrow> bool" where
  "handlers_ok hs \<longleftrightarrow> um_distinct num_eq hs \<and>
     um_all (\<lambda>k p. \<exists>h. p = Some h \<and> lib_getModuleNumber h = k) hs"

lemma handlers_ok_Nil [simp]: "handlers_ok []"
  by (simp add: handlers_ok_def um_distinct_def)

lemma handlers_ok_emplace:
  "handlers_ok hs \<Longrightarrow> handlers_ok (um_try_emplace num_eq (lib_getModuleNumber h) (Some h) hs)"
  by (auto simp: handlers_ok_def intro: num.distinct_try_emplace um_all_try_emplace)

lemma ml_loadLibraries_ok:
  assumes "ml_loadLibraries load libPaths lib = Inr lib'" and "handlers_ok (ml_moduleLibraryHandlers lib)"
  shows "handlers_ok (ml_moduleLibraryHandlers lib') \<and>
     (\<forall>k. um_contains num_eq k (ml_moduleLibraryHandlers lib') \<longleftrightarrow>
        um_contains num_eq k libPaths \<or> um_contains num_eq k (ml_moduleLibraryHandlers lib)) \<and>
     ml_statusAggregators lib' = ml_statusAggregators lib"
  using assms
proof (induction load libPaths lib rule: ml_loadLibraries.induct)
  case (1 load lib)
  then show ?case by (simp add: um_contains_def)
next
  case (2 load key path libPaths lib)
  then obtain h where h: "load key path = Inr h" "lib_getModuleNumber h = key"
    "ml_loadLibraries load libPaths (lib\<lparr>ml_moduleLibraryHandlers :=
       um_try_emplace num_eq key (Some h) (ml_moduleLibraryHandlers lib)\<rparr>) = Inr lib'"
    by (auto simp: bindE_eq_Inr_iff Let_def split: if_splits)
  have "handlers_ok (um_try_emplace num_eq key (Some h) (ml_moduleLibraryHandlers lib))"
    using handlers_ok_emplace [OF "2.prems"(2), of h] h(2) by simp
  with "2.IH" [OF h(1) refl] h show ?case
    by (auto simp: map_laws)
qed

text \<open>Every aggregator stands under its module's number and belongs to an endpoint.\<close>

definition aggregators_ok ::
  "external_connection_settings list \<Rightarrow> status_aggregators \<Rightarrow> bool" where
  "aggregators_ok endpoints aggs \<longleftrightarrow> um_distinct num_eq aggs \<and>
     um_all (\<lambda>k (h, sa). lib_getModuleNumber h = k \<and>
       list_ex (\<lambda>e. k \<in> set (es_modules e)) endpoints) aggs"

lemma ml_initStatusAggregators_loop_ok:
  assumes "um_all (\<lambda>k p. \<exists>h. p = Some h \<and> lib_getModuleNumber h = k) hs"
    and "aggregators_ok endpoints aggs"
  shows "\<exists>aggs'. ml_initStatusAggregators_loop endpoints hs aggs = Inr aggs' \<and>
     aggregators_ok endpoints aggs' \<and>
     (\<forall>k. um_contains num_eq k aggs' \<longleftrightarrow> um_contains num_eq k aggs \<or>
        (um_contains num_eq k hs \<and> list_ex (\<lambda>e. k \<in> set (es_modules e)) endpoints))"
  using assms
proof (induction endpoints hs aggs rule: ml_initStatusAggregators_loop.induct)
  case (1 endpoints aggs)
  then show ?case by (simp add: um_contains_def)
next
  case (2 endpoints key p rest aggs)
  then obtain h where h: "p = Some h" "lib_getModuleNumber h = key" by auto
  have rest: "um_all (\<lambda>k p. \<exists>h. p = Some h \<and> lib_getModuleNumber h = k) rest"
    using 2(4) by simp
  show ?case
  proof (cases "um_contains num_eq key aggs \<or> \<not> list_ex (\<lambda>e. key \<in> set (es_modules e)) endpoints")
    case True
    then show ?thesis
      using 2(1,3) [OF _ refl] rest 2(5) h
      by (auto simp: deref_def sa_get_module_number_def)
  next
    case False
    let ?aggs = "um_try_emplace num_eq key (h, StatusAggregator) aggs"
    have "aggregators_ok endpoints ?aggs"
      using 2(5) False h
      by (auto simp: aggregators_ok_def intro!: num.distinct_try_emplace um_all_try_emplace)
    then show ?thesis
      using 2(2) [OF _ refl] rest h False
      by (auto simp: deref_def sa_get_module_number_def map_laws)
  qed
qed

text \<open>
  Start-up from a configuration succeeds only if every library reports the module number it
  is configured under; then every module has a non-null handler that stands under its own
  number, and exactly the modules that some external endpoint lists get a status aggregator.
\<close>

lemma modules_loaded:
  assumes "ml_loadLibraries load libPaths ModuleLibrary = Inr lib"
  shows "handlers_ok (ml_moduleLibraryHandlers lib) \<and>
    (\<exists>lib'. ml_initStatusAggregators endpoints lib = Inr lib' \<and>
       aggregators_ok endpoints (ml_statusAggregators lib') \<and>
       (\<forall>k. um_contains num_eq k (ml_statusAggregators lib') \<longleftrightarrow>
          um_contains num_eq k libPaths \<and> list_ex (\<lambda>e. k \<in> set (es_modules e)) endpoints))"
proof -
  have loaded: "handlers_ok (ml_moduleLibraryHandlers lib)" "ml_statusAggregators lib = []"
    "\<And>k. um_contains num_eq k (ml_moduleLibraryHandlers lib) \<longleftrightarrow> um_contains num_eq k libPaths"
    using ml_loadLibraries_ok [OF assms] by (simp_all add: ModuleLibrary_def um_contains_def)
  have "aggregators_ok endpoints []" by (simp add: aggregators_ok_def um_distinct_def)
  from ml_initStatusAggregators_loop_ok [OF _ this] loaded(1)
  obtain aggs where "ml_initStatusAggregators_loop endpoints (ml_moduleLibraryHandlers lib) [] = Inr aggs"
    "aggregators_ok endpoints aggs"
    "\<And>k. um_contains num_eq k aggs \<longleftrightarrow> um_contains num_eq k ([] :: status_aggregators) \<or>
        (um_contains num_eq k (ml_moduleLibraryHandlers lib) \<and>
         list_ex (\<lambda>e. k \<in> set (es_modules e)) endpoints)"
    unfolding handlers_ok_def by blast
  then show ?thesis
    using loaded by (simp add: ml_initStatusAggregators_def um_contains_def)
qed

definition sample_endpoint :: external_connection_settings where
  "sample_endpoint = \<lparr>es_protocolType = PT_DUMMY, es_protocolSettings = [], es_serverIp = ''host'',
     es_port = 1883, es_modules = [7]\<rparr>"

end
