(* ===== verification/Error_Aggregator.thy ===== *)
theory Error_Aggregator
  imports Library_Handler
begin

text \<open>
  The error aggregator of one module on one external connection (ErrorAggregator.hpp and .cpp).
  While the connection is down it keeps, per device, the last status and the error message the
  module aggregates from the statuses that could not be delivered. The lemmas show that what it
  answers is a function of the history of statuses of the device asked about: the last of them,
  and the fold of the module's \<open>aggregateError\<close> over all of them.
\<close>

section \<open>State\<close>

record error_state =
  ea_errorMessage :: buffer
  ea_lastStatus :: buffer

text \<open>\<open>ea_module\<close> is \<open>module_\<close>, null until \<open>init_error_aggregator\<close>.\<close>

record error_aggregator =
  ea_module :: "handler option"
  ea_devices :: "error_state device_map"

definition ErrorAggregator :: error_aggregator where
  "ErrorAggregator = \<lparr>ea_module = None, ea_devices = []\<rparr>"

definition empty_error_state :: error_state where
  "empty_error_state = \<lparr>ea_errorMessage = empty_buffer, ea_lastStatus = empty_buffer\<rparr>"

section \<open>Operations\<close>

definition ea_init_error_aggregator ::
  "error_codes \<Rightarrow> handler option \<Rightarrow> error_aggregator \<Rightarrow> int \<times> error_aggregator" where
  "ea_init_error_aggregator c library ea = (OK c, ea\<lparr>ea_module := library\<rparr>)"

definition ea_clear_error_aggregator ::
  "error_codes \<Rightarrow> error_aggregator \<Rightarrow> int \<times> error_aggregator" where
  "ea_clear_error_aggregator c ea =
     (OK c, ea\<lparr>ea_devices := map (\<lambda>(device, s). (device,
        s\<lparr>ea_errorMessage := empty_buffer, ea_lastStatus := empty_buffer\<rparr>)) (ea_devices ea)\<rparr>)"

definition ea_destroy_error_aggregator ::
  "error_codes \<Rightarrow> error_aggregator \<Rightarrow> int \<times> error_aggregator" where
  "ea_destroy_error_aggregator c ea = (OK c, snd (ea_clear_error_aggregator c ea))"

definition ea_is_device_type_supported :: "u32 \<Rightarrow> error_aggregator \<Rightarrow> exn + int" where
  "ea_is_device_type_supported device_type ea =
     (case ea_module ea of
        None \<Rightarrow> Inl Undefined_behaviour
      | Some h \<Rightarrow> Inr (lib_isDeviceTypeSupported h device_type))"

definition ea_get_module_number :: "error_aggregator \<Rightarrow> exn + int" where
  "ea_get_module_number ea =
     (case ea_module ea of
        None \<Rightarrow> Inl Undefined_behaviour
      | Some h \<Rightarrow> Inr (lib_getModuleNumber h))"

text \<open>
  The call of \<open>aggregateError\<close> through \<open>module_\<close>, which the support check has found to be set.
\<close>

definition ea_aggregateError ::
  "buffer \<Rightarrow> buffer \<Rightarrow> u32 \<Rightarrow> error_aggregator \<Rightarrow> exn + int \<times> buffer" where
  "ea_aggregateError currentError status device_type ea =
     (case ea_module ea of
        None \<Rightarrow> Inl Undefined_behaviour
      | Some h \<Rightarrow> lib_aggregateError h currentError status device_type)"

definition ea_add_status_to_error_aggregator ::
  "error_codes \<Rightarrow> buffer \<Rightarrow> device_identification \<Rightarrow> error_aggregator \<Rightarrow>
   exn + int \<times> error_aggregator" where
  "ea_add_status_to_error_aggregator c status device ea =
     (let device_type = di_deviceType device
      in bindE (ea_is_device_type_supported device_type ea) (\<lambda>supported.
         if supported = NOT_OK c then Inr (DEVICE_NOT_SUPPORTED c, ea)
         else
           let ea = (if \<not> um_contains device_eq device (ea_devices ea)
                     then ea\<lparr>ea_devices := um_try_emplace device_eq device empty_error_state
                            (ea_devices ea)\<rparr>
                     else ea);
               ea = ea\<lparr>ea_devices := um_modify device_eq device (\<lambda>s. s\<lparr>ea_lastStatus := status\<rparr>)
                      (ea_devices ea)\<rparr>;
               currentError = (case um_find device_eq device (ea_devices ea) of
                                 None \<Rightarrow> empty_buffer | Some s \<Rightarrow> ea_errorMessage s)
           in bindE (ea_aggregateError currentError status device_type ea)
                (\<lambda>(rc, errorMessageBuffer).
                  if rc \<noteq> OK c then Inr (NOT_OK c, ea)
                  else Inr (OK c, ea\<lparr>ea_devices := um_modify device_eq device
                         (\<lambda>s. s\<lparr>ea_errorMessage := errorMessageBuffer\<rparr>) (ea_devices ea)\<rparr>))))"

definition ea_get_last_status ::
  "error_codes \<Rightarrow> buffer \<Rightarrow> device_identification \<Rightarrow> error_aggregator \<Rightarrow> int \<times> buffer" where
  "ea_get_last_status c status device ea =
     (case um_find device_eq device (ea_devices ea) of
        None \<Rightarrow> (DEVICE_NOT_REGISTERED c, status)
      | Some s \<Rightarrow> (OK c, ea_lastStatus s))"

definition ea_get_error ::
  "error_codes \<Rightarrow> buffer \<Rightarrow> device_identification \<Rightarrow> error_aggregator \<Rightarrow> int \<times> buffer" where
  "ea_get_error c error device ea =
     (case um_find device_eq device (ea_devices ea) of
        None \<Rightarrow> (DEVICE_NOT_REGISTERED c, error)
      | Some s \<Rightarrow>
          let currentError = ea_errorMessage s
          in if \<not> isAllocated currentError then (NO_MESSAGE_AVAILABLE c, error)
             else (OK c, currentError))"

section \<open>Adding a status\<close>

text \<open>What the module makes of the error message so far and one more status.\<close>

definition next_error :: "error_codes \<Rightarrow> handler \<Rightarrow> u32 \<Rightarrow> buffer \<Rightarrow> buffer \<Rightarrow> buffer" where
  "next_error c h t status err =
     (case lib_aggregateError h err status t of
        Inl _ \<Rightarrow> err
      | Inr (rc, b) \<Rightarrow> if rc = OK c then b else err)"

definition error_state_of :: "error_aggregator \<Rightarrow> device_identification \<Rightarrow> error_state" where
  "error_state_of ea d =
     (case um_find device_eq d (ea_devices ea) of None \<Rightarrow> empty_error_state | Some s \<Rightarrow> s)"

text \<open>
  Adding a status without an exception: the module is kept, other devices are not touched, and
  the device holds the status and the next error message.
\<close>

definition ea_updated ::
  "error_codes \<Rightarrow> handler \<Rightarrow> buffer \<Rightarrow> device_identification \<Rightarrow> error_aggregator \<Rightarrow> error_state" where
  "ea_updated c h status d ea =
     \<lparr>ea_errorMessage =
        next_error c h (di_deviceType d) status (ea_errorMessage (error_state_of ea d)),
      ea_lastStatus = status\<rparr>"

lemma ea_add_status_Inr:
  assumes "ea_add_status_to_error_aggregator c status d ea = Inr (rc, ea')"
    and "ea_module ea = Some h" and "lib_isDeviceTypeSupported h (di_deviceType d) \<noteq> NOT_OK c"
  shows "ea_module ea' = Some h"
    and "um_find device_eq d' (ea_devices ea') =
      (if device_eq d d' then Some (ea_updated c h status d ea)
       else um_find device_eq d' (ea_devices ea))"
proof -
  define ea1 where "ea1 = (if \<not> um_contains device_eq d (ea_devices ea)
    then ea\<lparr>ea_devices := um_try_emplace device_eq d empty_error_state (ea_devices ea)\<rparr> else ea)"
  define ea2 where "ea2 = ea1\<lparr>ea_devices :=
    um_modify device_eq d (\<lambda>s. s\<lparr>ea_lastStatus := status\<rparr>) (ea_devices ea1)\<rparr>"
  have ea2: "ea_module ea2 = Some h" "um_find device_eq d' (ea_devices ea2) =
      (if device_eq d d' then Some ((error_state_of ea d)\<lparr>ea_lastStatus := status\<rparr>)
       else um_find device_eq d' (ea_devices ea))" for d'
    using assms(2) dev.find_cong [of d d' "ea_devices ea"]
    by (auto simp: ea2_def ea1_def map_laws error_state_of_def um_contains_def split: option.splits)
  obtain rc' b where b: "lib_aggregateError h (ea_errorMessage (error_state_of ea d)) status
      (di_deviceType d) = Inr (rc', b)"
    and ea': "ea' = (if rc' \<noteq> OK c then ea2 else ea2\<lparr>ea_devices := um_modify device_eq d
        (\<lambda>s. s\<lparr>ea_errorMessage := b\<rparr>) (ea_devices ea2)\<rparr>)"
    using assms ea2
    unfolding ea_add_status_to_error_aggregator_def ea_aggregateError_def Let_def
      ea_is_device_type_supported_def ea1_def [symmetric] ea2_def [symmetric]
    by (auto simp: bindE_eq_Inr_iff split: if_splits)
  show "ea_module ea' = Some h" by (simp add: ea' ea2)
  show "um_find device_eq d' (ea_devices ea') =
      (if device_eq d d' then Some (ea_updated c h status d ea)
       else um_find device_eq d' (ea_devices ea))"
    by (simp add: ea' ea2 map_laws ea_updated_def next_error_def b)
qed

section \<open>The history of a device\<close>

text \<open>A run of additions, of any devices, that throws nothing.\<close>

fun ea_add_all ::
  "error_codes \<Rightarrow> (device_identification \<times> buffer) list \<Rightarrow> error_aggregator \<Rightarrow>
   exn + error_aggregator" where
  "ea_add_all c [] ea = Inr ea"
| "ea_add_all c ((d, status) # rest) ea =
     bindE (ea_add_status_to_error_aggregator c status d ea) (\<lambda>(_, ea). ea_add_all c rest ea)"

definition statuses_of ::
  "device_identification \<Rightarrow> (device_identification \<times> buffer) list \<Rightarrow> buffer list" where
  "statuses_of d history = map snd (filter (\<lambda>(d', _). device_eq d' d) history)"

lemma statuses_of_simps [simp]:
  "statuses_of d [] = []"
  "statuses_of d ((d', status) # rest) =
     (if device_eq d' d then status # statuses_of d rest else statuses_of d rest)"
  "statuses_of d (xs @ ys) = statuses_of d xs @ statuses_of d ys"
  by (simp_all add: statuses_of_def)

definition supports_all :: "error_codes \<Rightarrow> handler \<Rightarrow> (device_identification \<times> 'a) list \<Rightarrow> bool" where
  "supports_all c h history =
     list_all (\<lambda>(d, _). lib_isDeviceTypeSupported h (di_deviceType d) \<noteq> NOT_OK c) history"

lemma supports_all_simps [simp]:
  "supports_all c h []"
  "supports_all c h ((d, x) # rest) \<longleftrightarrow>
     lib_isDeviceTypeSupported h (di_deviceType d) \<noteq> NOT_OK c \<and> supports_all c h rest"
  by (simp_all add: supports_all_def)

lemma error_state_of_add:
  assumes "ea_add_status_to_error_aggregator c status d ea = Inr (rc, ea')"
    and "ea_module ea = Some h" and "lib_isDeviceTypeSupported h (di_deviceType d) \<noteq> NOT_OK c"
  shows "error_state_of ea' d' =
     (if device_eq d d' then ea_updated c h status d ea else error_state_of ea d')"
  using ea_add_status_Inr(2) [OF assms] by (simp add: error_state_of_def)

lemma ea_updated_cong:
  "device_eq d d' \<Longrightarrow> ea_updated c h status d ea = ea_updated c h status d' ea"
  using dev.find_cong [of d d' "ea_devices ea"]
  by (simp add: ea_updated_def error_state_of_def device_eq_type)

lemma ea_add_all_Inr:
  assumes "ea_add_all c history ea = Inr ea'" and "ea_module ea = Some h"
    and "supports_all c h history"
  shows "ea_module ea' = Some h"
    and "um_contains device_eq d (ea_devices ea') \<longleftrightarrow>
       statuses_of d history \<noteq> [] \<or> um_contains device_eq d (ea_devices ea)"
    and "error_state_of ea' d =
       \<lparr>ea_errorMessage = fold (next_error c h (di_deviceType d)) (statuses_of d history)
           (ea_errorMessage (error_state_of ea d)),
        ea_lastStatus = (if statuses_of d history = [] then ea_lastStatus (error_state_of ea d)
                         else last (statuses_of d history))\<rparr>"
proof -
  have "ea_module ea' = Some h \<and>
    (um_contains device_eq d (ea_devices ea') \<longleftrightarrow>
       statuses_of d history \<noteq> [] \<or> um_contains device_eq d (ea_devices ea)) \<and>
    error_state_of ea' d =
       \<lparr>ea_errorMessage = fold (next_error c h (di_deviceType d)) (statuses_of d history)
           (ea_errorMessage (error_state_of ea d)),
        ea_lastStatus = (if statuses_of d history = [] then ea_lastStatus (error_state_of ea d)
                         else last (statuses_of d history))\<rparr>"
    using assms
  proof (induction c history ea rule: ea_add_all.induct)
    case (1 c ea)
    then show ?case by simp
  next
    case (2 c d' status rest ea)
    then obtain rc ea1 where
      add: "ea_add_status_to_error_aggregator c status d' ea = Inr (rc, ea1)"
      and rest: "ea_add_all c rest ea1 = Inr ea'"
      by (auto simp: bindE_eq_Inr_iff)
    have supp: "lib_isDeviceTypeSupported h (di_deviceType d') \<noteq> NOT_OK c" "supports_all c h rest"
      using 2(4) by simp_all
    note one = ea_add_status_Inr(1) [OF add 2(3) supp(1)]
      ea_add_status_Inr(2) [OF add 2(3) supp(1), of d]
      error_state_of_add [OF add 2(3) supp(1), of d]
    have st: "error_state_of ea1 d =
        (if device_eq d' d then ea_updated c h status d ea else error_state_of ea d)"
      using one(3) ea_updated_cong [of d' d c h status ea] by simp
    show ?case
      using 2(1) [OF add refl rest one(1) supp(2)] one(2) st
      by (auto simp: um_contains_def ea_updated_def)
  qed
  then show "ea_module ea' = Some h"
    and "um_contains device_eq d (ea_devices ea') \<longleftrightarrow>
       statuses_of d history \<noteq> [] \<or> um_contains device_eq d (ea_devices ea)"
    and "error_state_of ea' d =
       \<lparr>ea_errorMessage = fold (next_error c h (di_deviceType d)) (statuses_of d history)
           (ea_errorMessage (error_state_of ea d)),
        ea_lastStatus = (if statuses_of d history = [] then ea_lastStatus (error_state_of ea d)
                         else last (statuses_of d history))\<rparr>"
    by simp_all
qed

lemma ea_getters:
  "ea_get_last_status c b d ea =
     (if um_contains device_eq d (ea_devices ea) then (OK c, ea_lastStatus (error_state_of ea d))
      else (DEVICE_NOT_REGISTERED c, b))"
  "ea_get_error c b d ea =
     (if um_contains device_eq d (ea_devices ea)
      then if isAllocated (ea_errorMessage (error_state_of ea d))
           then (OK c, ea_errorMessage (error_state_of ea d)) else (NO_MESSAGE_AVAILABLE c, b)
      else (DEVICE_NOT_REGISTERED c, b))"
  by (auto simp: ea_get_last_status_def ea_get_error_def um_contains_def error_state_of_def
      split: option.splits)

text \<open>
  C23: what the error aggregator answers about a device depends on the statuses of that device
  alone, however those of other devices are interleaved: the last one, and as error message
  the fold of the module's error aggregation over all of them, in the order they came. A device
  without a status is not registered.
\<close>

theorem error_aggregator_history:
  assumes "ea_add_all c history (snd (ea_init_error_aggregator c (Some h) ErrorAggregator)) = Inr ea"
    and "supports_all c h history"
    and "err = fold (next_error c h (di_deviceType d)) (statuses_of d history) empty_buffer"
  shows "ea_get_last_status c b d ea =
      (if statuses_of d history = [] then (DEVICE_NOT_REGISTERED c, b)
       else (OK c, last (statuses_of d history))) \<and>
    ea_get_error c b d ea =
      (if statuses_of d history = [] then (DEVICE_NOT_REGISTERED c, b)
       else if isAllocated err then (OK c, err) else (NO_MESSAGE_AVAILABLE c, b))"
  using ea_add_all_Inr(2,3) [OF assms(1) _ assms(2), of d] assms(3)
  by (auto simp: ea_getters ea_init_error_aggregator_def ErrorAggregator_def error_state_of_def
      empty_error_state_def um_contains_def)

definition sample_history :: "(device_identification \<times> buffer) list" where
  "sample_history =
     [(default_device_identification\<lparr>di_deviceType := 1\<rparr>, sample_buffer [1]),
      (default_device_identification\<lparr>di_deviceType := 2\<rparr>, sample_buffer [2]),
      (default_device_identification\<lparr>di_deviceType := 1\<rparr>, sample_buffer [3])]"

lemma sample_add_all:
  "\<exists>ea. ea_add_all sample_codes sample_history
     (snd (ea_init_error_aggregator sample_codes (Some sample_handler) ErrorAggregator)) = Inr ea"
  by (simp add: sample_history_def ea_init_error_aggregator_def ErrorAggregator_def Let_def
      ea_add_status_to_error_aggregator_def ea_is_device_type_supported_def ea_aggregateError_def
      sample_handler_simps default_device_identification_def)

theorem error_aggregator_history_witness:
  "\<exists>ea. ea_add_all sample_codes sample_history
     (snd (ea_init_error_aggregator sample_codes (Some sample_handler) ErrorAggregator)) = Inr ea \<and>
   ea_get_last_status sample_codes empty_buffer
     (default_device_identification\<lparr>di_deviceType := 1\<rparr>) ea = (0, sample_buffer [3]) \<and>
   ea_get_error sample_codes empty_buffer
     (default_device_identification\<lparr>di_deviceType := 1\<rparr>) ea = (0, sample_buffer [1, 3])"
proof -
  obtain ea where ea: "ea_add_all sample_codes sample_history
     (snd (ea_init_error_aggregator sample_codes (Some sample_handler) ErrorAggregator)) = Inr ea"
    using sample_add_all by blast
  have "supports_all sample_codes sample_handler sample_history"
    by (simp add: sample_history_def sample_handler_simps)
  from error_aggregator_history [OF ea this refl, of empty_buffer
      "default_device_identification\<lparr>di_deviceType := 1\<rparr>"] ea
  show ?thesis
    by (simp add: sample_history_def default_device_identification_def device_eq_def
        next_error_def sample_handler_simps)
qed

text \<open>
  Clearing keeps every device registered: afterwards its last status is the empty buffer with
  the code \<open>OK\<close>, and there is no error message. \<open>get_last_status\<close> never answers
  \<open>NO_MESSAGE_AVAILABLE\<close>, which the header lists for a device without a status.
\<close>

lemma cleared_last_status_is_empty:
  "let ea' = snd (ea_clear_error_aggregator c ea)
   in ea_get_last_status c b d ea' =
        (if um_contains device_eq d (ea_devices ea) then (OK c, empty_buffer)
         else (DEVICE_NOT_REGISTERED c, b)) \<and>
      ea_get_error c b d ea' =
        (if um_contains device_eq d (ea_devices ea) then (NO_MESSAGE_AVAILABLE c, b)
         else (DEVICE_NOT_REGISTERED c, b))"
proof -
  have "um_find device_eq d (map (\<lambda>(k, s). (k, s\<lparr>ea_errorMessage := empty_buffer,
      ea_lastStatus := empty_buffer\<rparr>)) m) = map_option (\<lambda>_. empty_error_state) (um_find device_eq d m)"
    for m :: "error_state device_map"
    by (induction m) (auto simp: empty_error_state_def)
  then show ?thesis
    by (auto simp: ea_clear_error_aggregator_def ea_getters error_state_of_def um_contains_def
        empty_error_state_def split: option.splits)
qed

end
