(* ===== verification/Sent_Messages.thy ===== *)
theory Sent_Messages
  imports Error_Aggregator "HOL-Library.Multiset"
begin

text \<open>
  The statuses sent to the external server and not acknowledged yet (NotAckedStatus and
  SentMessagesHandler under external_client/connection/messages). The lemmas show that each
  sent status is acknowledged once, in whatever order the responses come, and that however
  many response timers expire, the reconnect callback is called at most once until the
  timers are cleared.
\<close>

section \<open>A status that waits for its response\<close>

text \<open>\<open>na_waiting\<close> is the outstanding wait of the response timer.\<close>

record not_acked_status =
  na_status :: ext_status
  na_waiting :: bool

definition NotAckedStatus :: "ext_status \<Rightarrow> not_acked_status" where
  "NotAckedStatus status = \<lparr>na_status = status, na_waiting = False\<rparr>"

definition na_startTimer :: "not_acked_status \<Rightarrow> not_acked_status" where
  "na_startTimer n = n\<lparr>na_waiting := True\<rparr>"

definition na_cancelTimer :: "not_acked_status \<Rightarrow> not_acked_status" where
  "na_cancelTimer n = n\<lparr>na_waiting := False\<rparr>"

text \<open>
  The timeout handler: whether it calls \<open>endConnectionFunc\<close>, and \<open>responseHandled_\<close> afterwards.
\<close>

definition na_timeoutHandler :: "bool \<Rightarrow> bool \<times> bool" where
  "na_timeoutHandler responseHandled =
     (if responseHandled then (False, responseHandled) else (True, True))"

definition na_getDevice :: "not_acked_status \<Rightarrow> ip_device" where
  "na_getDevice n = st_device (xs_devicestatus (na_status n))"

section \<open>The handler\<close>

record sent_messages_handler =
  sm_notAckedStatuses :: "not_acked_status list"
  sm_connectedDevices :: "device_identification list"
  sm_responseHandled :: bool

definition SentMessagesHandler :: sent_messages_handler where
  "SentMessagesHandler = \<lparr>sm_notAckedStatuses = [], sm_connectedDevices = [],
     sm_responseHandled = False\<rparr>"

definition sm_addNotAckedStatus :: "ext_status \<Rightarrow> sent_messages_handler \<Rightarrow> sent_messages_handler" where
  "sm_addNotAckedStatus status sm =
     sm\<lparr>sm_notAckedStatuses :=
          sm_notAckedStatuses sm @ [na_startTimer (NotAckedStatus status)]\<rparr>"

definition sm_isAnyDeviceConnected :: "sent_messages_handler \<Rightarrow> bool" where
  "sm_isAnyDeviceConnected sm \<longleftrightarrow> sm_connectedDevices sm \<noteq> []"

definition sm_allStatusesAcked :: "sent_messages_handler \<Rightarrow> bool" where
  "sm_allStatusesAcked sm \<longleftrightarrow> sm_notAckedStatuses sm = []"

definition sm_getStatusCounter :: "ext_status \<Rightarrow> u32" where
  "sm_getStatusCounter status = xs_messagecounter status"

definition sm_getStatusResponseCounter :: "ext_status_response \<Rightarrow> u32" where
  "sm_getStatusResponseCounter statusResponse = sr_messagecounter statusResponse"

text \<open>The loop of \<open>acknowledgeStatus\<close>: the vector without the first status of that counter.\<close>

fun sm_erase_acked :: "u32 \<Rightarrow> not_acked_status list \<Rightarrow> not_acked_status list option" where
  "sm_erase_acked responseCounter [] = None"
| "sm_erase_acked responseCounter (n # rest) =
     (if sm_getStatusCounter (na_status n) = responseCounter then Some rest
      else map_option ((#) n) (sm_erase_acked responseCounter rest))"

definition sm_acknowledgeStatus ::
  "error_codes \<Rightarrow> ext_status_response \<Rightarrow> sent_messages_handler \<Rightarrow> int \<times> sent_messages_handler" where
  "sm_acknowledgeStatus c statusResponse sm =
     (case sm_erase_acked (sm_getStatusResponseCounter statusResponse) (sm_notAckedStatuses sm) of
        None \<Rightarrow> (NOT_OK c, sm)
      | Some rest \<Rightarrow>
          let sm = sm\<lparr>sm_notAckedStatuses := rest\<rparr>
          in if \<not> sm_isAnyDeviceConnected sm \<and> sm_allStatusesAcked sm then (NOT_OK c, sm)
             else (OK c, sm))"

definition sm_clearAllTimers :: "sent_messages_handler \<Rightarrow> sent_messages_handler" where
  "sm_clearAllTimers sm =
     sm\<lparr>sm_notAckedStatuses := map na_cancelTimer (sm_notAckedStatuses sm),
        sm_responseHandled := False\<rparr>"

definition sm_clearAll :: "sent_messages_handler \<Rightarrow> sent_messages_handler" where
  "sm_clearAll sm = (sm_clearAllTimers sm)\<lparr>sm_notAckedStatuses := []\<rparr>"

definition sm_addDeviceAsConnected ::
  "device_identification \<Rightarrow> sent_messages_handler \<Rightarrow> sent_messages_handler" where
  "sm_addDeviceAsConnected device sm =
     sm\<lparr>sm_connectedDevices := sm_connectedDevices sm @ [device]\<rparr>"

text \<open>\<open>std::find\<close> and \<open>erase\<close>: the first equal device goes.\<close>

fun erase_first :: "device_identification \<Rightarrow> device_identification list \<Rightarrow> device_identification list" where
  "erase_first device [] = []"
| "erase_first device (d # ds) = (if device_eq d device then ds else d # erase_first device ds)"

definition sm_deleteConnectedDevice ::
  "device_identification \<Rightarrow> sent_messages_handler \<Rightarrow> sent_messages_handler" where
  "sm_deleteConnectedDevice device sm =
     sm\<lparr>sm_connectedDevices := erase_first device (sm_connectedDevices sm)\<rparr>"

definition sm_isDeviceConnected :: "device_identification \<Rightarrow> sent_messages_handler \<Rightarrow> bool" where
  "sm_isDeviceConnected device sm \<longleftrightarrow>
     list_ex (\<lambda>connectedDevice. device_eq device connectedDevice) (sm_connectedDevices sm)"

text \<open>
  The response timer of the \<open>i\<close>-th status expires: whether the reconnect callback is called, and
  the handler afterwards. A cancelled wait does nothing.
\<close>

definition sm_timer_expires :: "nat \<Rightarrow> sent_messages_handler \<Rightarrow> bool \<times> sent_messages_handler" where
  "sm_timer_expires i sm =
     (if i < length (sm_notAckedStatuses sm) \<and> na_waiting (sm_notAckedStatuses sm ! i)
      then let (called, handled) = na_timeoutHandler (sm_responseHandled sm)
           in (called, sm\<lparr>sm_notAckedStatuses := (sm_notAckedStatuses sm)
                  [i := (sm_notAckedStatuses sm ! i)\<lparr>na_waiting := False\<rparr>],
                sm_responseHandled := handled\<rparr>)
      else (False, sm))"

section \<open>Acknowledgement\<close>

definition counters :: "sent_messages_handler \<Rightarrow> u32 list" where
  "counters sm = map (\<lambda>n. xs_messagecounter (na_status n)) (sm_notAckedStatuses sm)"

lemma counters_add [simp]:
  "counters (sm_addNotAckedStatus status sm) = counters sm @ [xs_messagecounter status]"
  by (simp add: counters_def sm_addNotAckedStatus_def na_startTimer_def NotAckedStatus_def)

lemma sm_erase_acked_counters:
  "map_option (map (\<lambda>n. xs_messagecounter (na_status n))) (sm_erase_acked k ns) =
     (if k \<in> set (map (\<lambda>n. xs_messagecounter (na_status n)) ns)
      then Some (remove1 k (map (\<lambda>n. xs_messagecounter (na_status n)) ns)) else None)"
proof (induction ns)
  case (Cons n ns)
  then show ?case
    by (cases "sm_erase_acked k ns") (auto simp: sm_getStatusCounter_def split: if_splits)
qed simp

text \<open>
  One response: it is accepted if a status with its counter waits, that status is forgotten,
  and \<open>NOT_OK\<close> tells that there was none or that it was the last one and no device is left.
\<close>

lemma sm_acknowledge_counters:
  assumes "sm_acknowledgeStatus c r sm = (rc, sm')"
  shows "counters sm' = remove1 (sr_messagecounter r) (counters sm)"
    and "sm_connectedDevices sm' = sm_connectedDevices sm"
    and "codes_ok c \<Longrightarrow> rc = OK c \<longleftrightarrow> sr_messagecounter r \<in> set (counters sm) \<and>
       (sm_connectedDevices sm \<noteq> [] \<or> counters sm' \<noteq> [])"
  using assms sm_erase_acked_counters [of "sr_messagecounter r" "sm_notAckedStatuses sm"]
    codes_ok_distinct [of c]
  by (auto simp: sm_acknowledgeStatus_def sm_getStatusResponseCounter_def counters_def
      sm_isAnyDeviceConnected_def sm_allStatusesAcked_def remove1_idem Let_def
      split: option.splits if_splits)

fun sm_acknowledge_all ::
  "error_codes \<Rightarrow> ext_status_response list \<Rightarrow> sent_messages_handler \<Rightarrow> int list \<times> sent_messages_handler" where
  "sm_acknowledge_all c [] sm = ([], sm)"
| "sm_acknowledge_all c (r # rs) sm =
     (let (rc, sm) = sm_acknowledgeStatus c r sm; (rcs, sm) = sm_acknowledge_all c rs sm
      in (rc # rcs, sm))"

text \<open>
  C21: if the responses carry the counters of the statuses that wait, each once and in any order,
  then every one is accepted with \<open>OK\<close>, except that the last one yields \<open>NOT_OK\<close> when no
  device is connected any more (the signal to disconnect), and no status is left waiting. A
  further response with any counter is refused.
\<close>

theorem responses_in_any_order:
  assumes "codes_ok c" and "mset (map sr_messagecounter rs) = mset (counters sm)" and "rs \<noteq> []"
    and "sm_acknowledge_all c rs sm = (rcs, sm')"
  shows "rcs = replicate (length rs - 1) (OK c) @
           [if sm_connectedDevices sm = [] then NOT_OK c else OK c] \<and>
         sm_allStatusesAcked sm' \<and> fst (sm_acknowledgeStatus c r sm') = NOT_OK c"
proof -
  have "rcs = replicate (length rs - 1) (OK c) @
      [if sm_connectedDevices sm = [] then NOT_OK c else OK c] \<and> sm_notAckedStatuses sm' = []"
    using assms
  proof (induction rs arbitrary: sm rcs)
    case Nil
    then show ?case by simp
  next
    case (Cons r rs)
    obtain rc sm1 where one: "sm_acknowledgeStatus c r sm = (rc, sm1)" by fastforce
    obtain rcs1 where rest: "sm_acknowledge_all c rs sm1 = (rcs1, sm')" "rcs = rc # rcs1"
      using Cons.prems(4) one by (auto split: prod.splits)
    note ack = sm_acknowledge_counters [OF one]
    have mem: "sr_messagecounter r \<in> set (counters sm)"
      using Cons.prems(2) by (metis list.set_intros(1) list.simps(9) set_mset_mset)
    have perm: "mset (map sr_messagecounter rs) = mset (counters sm1)"
      using Cons.prems(2) mem
      by (simp add: ack(1)) (metis add_mset_remove_trivial)
    show ?case
    proof (cases "rs = []")
      case True
      then have "counters sm1 = []" using perm by simp
      moreover have "rc = OK c \<or> rc = NOT_OK c"
        using one by (auto simp: sm_acknowledgeStatus_def Let_def split: option.splits if_splits)
      ultimately show ?thesis
        using True rest ack(3) [OF Cons.prems(1)] mem codes_ok_distinct(1) [OF Cons.prems(1)]
        by (auto simp: counters_def)
    next
      case False
      then have "counters sm1 \<noteq> []" using perm by auto
      then have "rc = OK c" using ack(3) [OF Cons.prems(1)] mem by simp
      moreover have "length rs = Suc (length rs - 1)" using False by (cases rs) auto
      ultimately show ?thesis
        using Cons.IH [OF Cons.prems(1) perm False rest(1)] rest(2) ack(2)
        by (metis append_Cons length_Cons diff_Suc_1 replicate_Suc)
    qed
  qed
  then show ?thesis
    by (simp add: sm_allStatusesAcked_def sm_acknowledgeStatus_def)
qed

section \<open>Time-outs of responses\<close>

datatype sm_event =
    Sent ext_status
  | Response ext_status_response
  | Expires nat

text \<open>How often the reconnect callback is called in a run without a reconnect.\<close>

fun sm_run ::
  "error_codes \<Rightarrow> sm_event list \<Rightarrow> sent_messages_handler \<Rightarrow> nat \<times> sent_messages_handler" where
  "sm_run c [] sm = (0, sm)"
| "sm_run c (Sent s # es) sm = sm_run c es (sm_addNotAckedStatus s sm)"
| "sm_run c (Response r # es) sm = sm_run c es (snd (sm_acknowledgeStatus c r sm))"
| "sm_run c (Expires i # es) sm =
     (let (called, sm) = sm_timer_expires i sm; (n, sm) = sm_run c es sm
      in ((if called then 1 else 0) + n, sm))"

lemma sm_acknowledge_handled [simp]:
  "sm_responseHandled (snd (sm_acknowledgeStatus c r sm)) = sm_responseHandled sm"
  by (auto simp: sm_acknowledgeStatus_def Let_def split: option.splits)

lemma sm_run_calls:
  "sm_run c es sm = (n, sm') \<Longrightarrow>
   n = (if sm_responseHandled sm' \<and> \<not> sm_responseHandled sm then 1 else 0) \<and>
   (sm_responseHandled sm \<longrightarrow> sm_responseHandled sm')"
proof (induction c es sm arbitrary: n rule: sm_run.induct)
  case (2 c s es sm)
  then show ?case by (simp add: sm_addNotAckedStatus_def)
next
  case (4 c i es sm)
  obtain called sm1 where one: "sm_timer_expires i sm = (called, sm1)" by fastforce
  obtain m where rest: "sm_run c es sm1 = (m, sm')" "n = (if called then 1 else 0) + m"
    using "4.prems" one by (auto split: prod.splits)
  show ?case
    using "4.IH" [OF one [symmetric] refl rest(1)] rest(2) one
    by (auto simp: sm_timer_expires_def na_timeoutHandler_def split: if_splits)
qed simp_all

text \<open>
  From the moment the timers were cleared, however many statuses are sent, answered or time
  out, the reconnect callback is called at most once; it has been called exactly if the
  handler is marked as handled, and then no further time-out calls it.
\<close>

lemma reconnect_requested_once:
  assumes "sm_run c es (sm_clearAllTimers sm) = (n, sm')"
  shows "n = (if sm_responseHandled sm' then 1 else 0) \<and>
    (n = 1 \<longrightarrow> fst (sm_run c es' sm') = 0)"
proof -
  obtain m sm'' where "sm_run c es' sm' = (m, sm'')" by fastforce
  with sm_run_calls [OF assms] sm_run_calls [OF this] show ?thesis
    by (simp add: sm_clearAllTimers_def split: if_splits)
qed

definition sample_status :: "u32 \<Rightarrow> ext_status" where
  "sample_status k = \<lparr>xs_sessionid = [], xs_devicestate = RUNNING, xs_messagecounter = k,
     xs_devicestatus = \<lparr>st_device = default_ip_device, st_statusdata = []\<rparr>, xs_errormessage = []\<rparr>"

definition sample_response :: "u32 \<Rightarrow> ext_status_response" where
  "sample_response k = \<lparr>sr_sessionid = [], sr_type = SR_OK, sr_messagecounter = k\<rparr>"

theorem responses_in_any_order_witness:
  "let sm = sm_addNotAckedStatus (sample_status 2) (sm_addNotAckedStatus (sample_status 1)
              SentMessagesHandler)
   in fst (sm_acknowledge_all sample_codes [sample_response 2, sample_response 1] sm) = [0, - 1]"
proof -
  let ?sm = "sm_addNotAckedStatus (sample_status 2) (sm_addNotAckedStatus (sample_status 1)
              SentMessagesHandler)"
  have "mset (map sr_messagecounter [sample_response 2, sample_response 1]) = mset (counters ?sm)"
    by (simp add: sample_response_def sample_status_def)
      (simp add: counters_def SentMessagesHandler_def)
  from responses_in_any_order [OF sample_codes_ok this _ prod.collapse [symmetric]] show ?thesis
    by (simp add: SentMessagesHandler_def sm_addNotAckedStatus_def)
qed

section \<open>Connected devices\<close>

text \<open>How often a device is on the list of connected devices.\<close>

definition connected_count :: "device_identification \<Rightarrow> sent_messages_handler \<Rightarrow> nat" where
  "connected_count d sm = length (filter (\<lambda>d'. device_eq d' d) (sm_connectedDevices sm))"

lemma isDeviceConnected_count: "sm_isDeviceConnected d sm \<longleftrightarrow> 0 < connected_count d sm"
  by (auto simp: sm_isDeviceConnected_def connected_count_def list_ex_iff device_eq_commute
      filter_empty_conv)

lemma count_erase_first:
  "length (filter (\<lambda>d'. device_eq d' d) (erase_first k ds)) =
     (if device_eq k d then length (filter (\<lambda>d'. device_eq d' d) ds) - 1
      else length (filter (\<lambda>d'. device_eq d' d) ds))"
proof (induction ds)
  case (Cons x ds)
  then show ?case
    using dev.eq_right [of k d x] dev.eq_cong [of x k d] by (cases "device_eq k d") auto
qed simp

lemma connected_count_ops:
  "connected_count d (sm_addDeviceAsConnected k sm) =
     connected_count d sm + (if device_eq k d then 1 else 0)"
  "connected_count d (sm_deleteConnectedDevice k sm) =
     (if device_eq k d then connected_count d sm - 1 else connected_count d sm)"
  "connected_count d (sm_addNotAckedStatus s sm) = connected_count d sm"
  "connected_count d (sm_clearAllTimers sm) = connected_count d sm"
  "connected_count d (sm_clearAll sm) = connected_count d sm"
  by (simp_all add: connected_count_def sm_addDeviceAsConnected_def sm_deleteConnectedDevice_def
      count_erase_first sm_addNotAckedStatus_def sm_clearAllTimers_def sm_clearAll_def)

end
