(* ===== verification/External_Connection.thy ===== *)
theory External_Connection
  imports Comm_Channel Module_Library Sent_Messages
begin

text \<open>
  One connection to an external server (ExternalConnection.hpp and .cpp): sending statuses, the
  three-step connect sequence, commands from the server, the receiving loop, and the error
  aggregators that keep what could not be delivered. The surroundings of a connection (return
  codes, channel, settings, module handlers) are the record \<open>connection_env\<close>. The state
  holds what the connection has pushed on the two queues it shares with the external client;
  the client takes it from there.
\<close>

section \<open>State\<close>

record 'c connection_env =
  env_codes :: error_codes
  env_channel :: "'c channel"
  env_settings :: external_connection_settings
  env_company :: string
  env_vehicleName :: string
  env_handlers :: module_handlers

text \<open>
  \<open>xcn_listening\<close> is \<open>listeningThread.joinable()\<close>; an entry of \<open>xcn_reconnectQueue\<close> is the
  \<open>reconnect\<close> flag of an item for this connection.
\<close>

record 'c external_connection =
  xcn_stopReceiving :: bool
  xcn_clientMessageCounter :: u32
  xcn_serverMessageCounter :: u32
  xcn_sessionId :: string
  xcn_channel :: 'c
  xcn_listening :: bool
  xcn_state :: connection_state
  xcn_sent :: sent_messages_handler
  xcn_errorAggregators :: "(int \<times> error_aggregator) list"
  xcn_commandQueue :: "device_command atomic_queue"
  xcn_reconnectQueue :: "bool atomic_queue"

definition ExternalConnection :: "'c \<Rightarrow> 'c external_connection" where
  "ExternalConnection channel =
     \<lparr>xcn_stopReceiving = False, xcn_clientMessageCounter = 0, xcn_serverMessageCounter = 0,
      xcn_sessionId = [], xcn_channel = channel, xcn_listening = False,
      xcn_state = St_NOT_INITIALIZED, xcn_sent = SentMessagesHandler,
      xcn_errorAggregators = [], xcn_commandQueue = [], xcn_reconnectQueue = []\<rparr>"

text \<open>
  \<open>init\<close>: the loop over the modules of the endpoint. \<open>operator[]\<close> on the handlers makes a null
  entry where there is none, so the handlers are a result too.
\<close>

fun xcn_init ::
  "error_codes \<Rightarrow> int list \<Rightarrow> module_handlers \<Rightarrow> 'c external_connection \<Rightarrow>
   module_handlers \<times> 'c external_connection" where
  "xcn_init c [] handlers xcn = (handlers, xcn)"
| "xcn_init c (moduleNum # modules) handlers xcn =
     (let handlers = um_try_emplace num_eq moduleNum None handlers;
          library = (case um_find num_eq moduleNum handlers of None \<Rightarrow> None | Some p \<Rightarrow> p);
          ea = snd (ea_init_error_aggregator c library ErrorAggregator)
      in xcn_init c modules handlers
           (xcn\<lparr>xcn_errorAggregators := um_put num_eq moduleNum ea (xcn_errorAggregators xcn)\<rparr>))"

section \<open>Sending over the channel\<close>

definition xcn_channel_send ::
  "'c connection_env \<Rightarrow> external_client_msg \<Rightarrow> 'c external_connection \<Rightarrow>
   bool \<times> 'c external_connection" where
  "xcn_channel_send env message xcn =
     (let (ok, channel) = ch_sendMessage (env_channel env) message (xcn_channel xcn)
      in (ok, xcn\<lparr>xcn_channel := channel\<rparr>))"

definition xcn_channel_receive ::
  "'c connection_env \<Rightarrow> 'c external_connection \<Rightarrow>
   external_server_msg option \<times> 'c external_connection" where
  "xcn_channel_receive env xcn =
     (let (message, channel) = ch_receiveMessage (env_channel env) (xcn_channel xcn)
      in (message, xcn\<lparr>xcn_channel := channel\<rparr>))"

section \<open>Statuses that were not delivered\<close>

definition xcn_status_buffer :: "device_status \<Rightarrow> module_handlers \<Rightarrow> exn + buffer" where
  "xcn_status_buffer status handlers =
     bindE (handler_at (ip_module (st_device status)) handlers) (\<lambda>h. status_to_buffer h status)"

text \<open>The loop of \<open>fillErrorAggregatorWithNotAckedStatusesImpl\<close>.\<close>

fun xcn_fill_loop ::
  "error_codes \<Rightarrow> module_handlers \<Rightarrow> not_acked_status list \<Rightarrow> (int \<times> error_aggregator) list \<Rightarrow>
   exn + (int \<times> error_aggregator) list" where
  "xcn_fill_loop c handlers [] errorAggregators = Inr errorAggregators"
| "xcn_fill_loop c handlers (notAckedStatus # rest) errorAggregators =
     (let device = na_getDevice notAckedStatus
      in bindE (xcn_status_buffer (xs_devicestatus (na_status notAckedStatus)) handlers)
           (\<lambda>statusBuffer.
         case um_find num_eq (ip_module device) errorAggregators of
           None \<Rightarrow> xcn_fill_loop c handlers rest errorAggregators
         | Some ea \<Rightarrow>
             bindE (ea_add_status_to_error_aggregator c statusBuffer (device_of_ip device) ea)
               (\<lambda>(_, ea). xcn_fill_loop c handlers rest
                  (um_modify num_eq (ip_module device) (\<lambda>_. ea) errorAggregators))))"

definition xcn_fillErrorAggregatorWithNotAckedStatusesImpl ::
  "'c connection_env \<Rightarrow> 'c external_connection \<Rightarrow> exn + 'c external_connection" where
  "xcn_fillErrorAggregatorWithNotAckedStatusesImpl env xcn =
     bindE (xcn_fill_loop (env_codes env) (env_handlers env) (sm_notAckedStatuses (xcn_sent xcn))
              (xcn_errorAggregators xcn))
       (\<lambda>errorAggregators. Inr (xcn\<lparr>xcn_errorAggregators := errorAggregators,
          xcn_sent := sm_clearAll (xcn_sent xcn)\<rparr>))"

definition xcn_fillErrorAggregatorWithNotAckedStatuses ::
  "'c connection_env \<Rightarrow> 'c external_connection \<Rightarrow> exn + 'c external_connection" where
  "xcn_fillErrorAggregatorWithNotAckedStatuses env xcn =
     xcn_fillErrorAggregatorWithNotAckedStatusesImpl env xcn"

definition xcn_fillErrorAggregator ::
  "'c connection_env \<Rightarrow> device_status \<Rightarrow> 'c external_connection \<Rightarrow> exn + 'c external_connection" where
  "xcn_fillErrorAggregator env deviceStatus xcn =
     (let moduleNum = ip_module (st_device deviceStatus)
      in if \<not> um_contains num_eq moduleNum (xcn_errorAggregators xcn) then Inr xcn
         else
           bindE (xcn_fillErrorAggregatorWithNotAckedStatusesImpl env xcn) (\<lambda>xcn.
           bindE (xcn_status_buffer deviceStatus (env_handlers env)) (\<lambda>statusBuffer.
           bindE (um_at num_eq moduleNum (xcn_errorAggregators xcn)) (\<lambda>ea.
           bindE (ea_add_status_to_error_aggregator (env_codes env) statusBuffer
                    (device_of_ip (st_device deviceStatus)) ea) (\<lambda>(_, ea).
             Inr (xcn\<lparr>xcn_errorAggregators :=
                    um_modify num_eq moduleNum (\<lambda>_. ea) (xcn_errorAggregators xcn)\<rparr>))))))"

section \<open>Disconnecting\<close>

definition xcn_cancelPendingConnect ::
  "'c connection_env \<Rightarrow> 'c external_connection \<Rightarrow> 'c external_connection" where
  "xcn_cancelPendingConnect env xcn =
     xcn\<lparr>xcn_channel := ch_closeConnection (env_channel env)
           (ch_cancelReceive (env_channel env) (xcn_channel xcn))\<rparr>"

definition xcn_deinitializeConnection ::
  "'c connection_env \<Rightarrow> bool \<Rightarrow> 'c external_connection \<Rightarrow> exn + 'c external_connection" where
  "xcn_deinitializeConnection env completeDisconnect xcn =
     (let xcn = xcn\<lparr>xcn_state := St_NOT_INITIALIZED, xcn_clientMessageCounter := 0,
                  xcn_serverMessageCounter := 0, xcn_sent := sm_clearAllTimers (xcn_sent xcn),
                  xcn_stopReceiving := True,
                  xcn_channel := ch_closeConnection (env_channel env) (xcn_channel xcn),
                  xcn_listening := False\<rparr>
      in if \<not> completeDisconnect then xcn_fillErrorAggregatorWithNotAckedStatuses env xcn
         else Inr (xcn\<lparr>xcn_errorAggregators :=
                map (\<lambda>(k, ea). (k, snd (ea_destroy_error_aggregator (env_codes env) ea)))
                  (xcn_errorAggregators xcn)\<rparr>))"

section \<open>Sending a status\<close>

definition xcn_getNextStatusCounter :: "'c external_connection \<Rightarrow> u32 \<times> 'c external_connection" where
  "xcn_getNextStatusCounter xcn =
     (let n = xcn_clientMessageCounter xcn + 1 in (n, xcn\<lparr>xcn_clientMessageCounter := n\<rparr>))"

text \<open>
  The part of \<open>sendStatus\<close> before the \<open>switch\<close>: a device the error aggregator does not know is
  registered there with its status, and its state becomes \<open>CONNECTING\<close>.
\<close>

definition xcn_register_device ::
  "'c connection_env \<Rightarrow> device_status \<Rightarrow> ext_device_state \<Rightarrow> error_aggregator \<Rightarrow>
   exn + ext_device_state \<times> error_aggregator" where
  "xcn_register_device env status deviceState ea =
     (let deviceId = device_of_ip (st_device status);
          isRegistered = fst (ea_get_last_status (env_codes env) empty_buffer deviceId ea)
      in bindE (handler_at (ip_module (st_device status)) (env_handlers env)) (\<lambda>h.
         if isRegistered = DEVICE_NOT_REGISTERED (env_codes env) then
           bindE (status_to_buffer h status) (\<lambda>statusBuffer.
           bindE (ea_add_status_to_error_aggregator (env_codes env) statusBuffer deviceId ea)
             (\<lambda>(_, ea). Inr (CONNECTING, ea)))
         else Inr (deviceState, ea)))"

text \<open>The \<open>switch\<close>: the device state that is sent and the connected devices.\<close>

definition xcn_device_state ::
  "device_identification \<Rightarrow> ext_device_state \<Rightarrow> sent_messages_handler \<Rightarrow>
   ext_device_state \<times> sent_messages_handler" where
  "xcn_device_state deviceId deviceState sm =
     (case deviceState of
        CONNECTING \<Rightarrow> (deviceState, sm_addDeviceAsConnected deviceId sm)
      | RUNNING \<Rightarrow>
          if \<not> sm_isDeviceConnected deviceId sm
          then (CONNECTING, sm_addDeviceAsConnected deviceId sm)
          else (deviceState, sm)
      | DISCONNECT \<Rightarrow> (deviceState, sm_deleteConnectedDevice deviceId sm)
      | ERROR \<Rightarrow> (deviceState, sm))"

text \<open>The rest of \<open>sendStatus\<close>, from the \<open>switch\<close> on.\<close>

definition xcn_transmit ::
  "'c connection_env \<Rightarrow> device_status \<Rightarrow> ext_device_state \<Rightarrow> buffer \<Rightarrow> 'c external_connection \<Rightarrow>
   exn + 'c external_connection" where
  "xcn_transmit env status deviceState errorMessage xcn =
     (let (deviceState, sm) = xcn_device_state (device_of_ip (st_device status)) deviceState
            (xcn_sent xcn);
          (counter, xcn) = xcn_getNextStatusCounter xcn;
          extStatus = createExternalClientStatus (xcn_sessionId xcn) deviceState counter status
            errorMessage;
          (ok, xcn) = xcn_channel_send env (EC_Status extStatus)
            (xcn\<lparr>xcn_sent := sm_addNotAckedStatus extStatus sm\<rparr>)
      in if \<not> ok then xcn_deinitializeConnection env False xcn else Inr xcn)"

definition xcn_sendStatus ::
  "'c connection_env \<Rightarrow> device_status \<Rightarrow> ext_device_state \<Rightarrow> buffer \<Rightarrow> 'c external_connection \<Rightarrow>
   exn + 'c external_connection" where
  "xcn_sendStatus env status deviceState errorMessage xcn =
     (case um_find num_eq (ip_module (st_device status)) (xcn_errorAggregators xcn) of
        None \<Rightarrow> Inr xcn
      | Some ea \<Rightarrow>
          bindE (xcn_register_device env status deviceState ea) (\<lambda>(deviceState, ea).
            xcn_transmit env status deviceState errorMessage
              (xcn\<lparr>xcn_errorAggregators :=
                 um_modify num_eq (ip_module (st_device status)) (\<lambda>_. ea)
                   (xcn_errorAggregators xcn)\<rparr>)))"

section \<open>Commands\<close>

text \<open>The order check: the first command of a session may carry any counter.\<close>

definition xcn_in_order :: "u32 \<Rightarrow> 'c external_connection \<Rightarrow> bool" where
  "xcn_in_order messageCounter xcn \<longleftrightarrow>
     xcn_serverMessageCounter xcn = 0 \<or> xcn_serverMessageCounter xcn + 1 = messageCounter"

definition xcn_handleCommand ::
  "'c connection_env \<Rightarrow> ext_command \<Rightarrow> 'c external_connection \<Rightarrow>
   exn + int \<times> 'c external_connection" where
  "xcn_handleCommand env commandMessage xcn =
     (let c = env_codes env; messageCounter = xc_messagecounter commandMessage
      in if xc_sessionid commandMessage \<noteq> xcn_sessionId xcn then Inr (COMMAND_INVALID c, xcn)
         else if \<not> xcn_in_order messageCounter xcn then Inr (COMMAND_INVALID c, xcn)
         else
           let xcn = xcn\<lparr>xcn_serverMessageCounter := messageCounter\<rparr>;
               deviceId = device_of_ip (cmd_device (xc_devicecommand commandMessage))
           in case um_find num_eq (di_module deviceId) (xcn_errorAggregators xcn) of
                None \<Rightarrow> Inr (NOT_OK c, xcn)
              | Some ea \<Rightarrow>
                  bindE (if sm_isDeviceConnected deviceId (xcn_sent xcn)
                         then Inr (CMD_OK, xcn\<lparr>xcn_commandQueue :=
                                pushAndNotify (xc_devicecommand commandMessage)
                                  (xcn_commandQueue xcn)\<rparr>)
                         else bindE (ea_is_device_type_supported (di_deviceType deviceId) ea)
                           (\<lambda>supported.
                             if supported \<noteq> OK c then Inr (CMD_DEVICE_NOT_SUPPORTED, xcn)
                             else Inr (CMD_DEVICE_NOT_CONNECTED, xcn)))
                    (\<lambda>(responseType, xcn).
                      let response = createExternalClientCommandResponse (xcn_sessionId xcn)
                            responseType messageCounter
                      in Inr (OK c, snd (xcn_channel_send env response xcn))))"

section \<open>The connect sequence\<close>

definition session_chars :: string where
  "session_chars =
     ''0123456789'' @ ''abcdefghijklmnopqrstuvwxyz'' @ ''ABCDEFGHIJKLMNOPQRSTUVWXYZ''"

text \<open>\<open>pick i\<close> is the \<open>i\<close>-th draw of the uniform distribution over the indices of the characters.\<close>

definition xcn_generateSessionId ::
  "(nat \<Rightarrow> nat) \<Rightarrow> 'c external_connection \<Rightarrow> 'c external_connection" where
  "xcn_generateSessionId pick xcn =
     xcn\<lparr>xcn_sessionId := map (\<lambda>i. session_chars ! pick i) [0..<KEY_LENGTH]\<rparr>"

definition xcn_connectMessageHandle ::
  "'c connection_env \<Rightarrow> (nat \<Rightarrow> nat) \<Rightarrow> device_identification list \<Rightarrow> 'c external_connection \<Rightarrow>
   int \<times> 'c external_connection" where
  "xcn_connectMessageHandle env pick devices xcn =
     (let c = env_codes env;
          xcn = xcn_generateSessionId pick xcn;
          connectMessage = createExternalClientConnect (xcn_sessionId xcn) (env_company env)
            (env_vehicleName env) devices;
          (sent, xcn) = xcn_channel_send env connectMessage xcn
      in if \<not> sent then (NOT_OK c, xcn)
         else
           let (connectResponseMsg, xcn) = xcn_channel_receive env xcn
           in case connectResponseMsg of
                None \<Rightarrow> (NO_MESSAGE_AVAILABLE c, xcn)
              | Some (ES_ConnectResponse response) \<Rightarrow>
                  if xcr_sessionid response \<noteq> xcn_sessionId xcn then (NOT_OK c, xcn)
                  else if xcr_type response = XCR_ALREADY_LOGGED then (NOT_OK c, xcn)
                  else (OK c, xcn)
              | Some _ \<Rightarrow> (NOT_OK c, xcn))"

text \<open>The first loop of \<open>statusMessageHandle\<close>; the code \<open>OK\<close> stands for its end.\<close>

fun xcn_send_last_statuses ::
  "'c connection_env \<Rightarrow> device_identification list \<Rightarrow> 'c external_connection \<Rightarrow>
   exn + int \<times> 'c external_connection" where
  "xcn_send_last_statuses env [] xcn = Inr (OK (env_codes env), xcn)"
| "xcn_send_last_statuses env (device # devices) xcn =
     (let c = env_codes env;
          xcn = xcn\<lparr>xcn_errorAggregators := um_try_emplace num_eq (di_module device) ErrorAggregator
                  (xcn_errorAggregators xcn)\<rparr>
      in bindE (um_at num_eq (di_module device) (xcn_errorAggregators xcn)) (\<lambda>ea.
         let (lastErrorStatusRc, errorBuffer) = ea_get_error c empty_buffer device ea
         in if lastErrorStatusRc = DEVICE_NOT_REGISTERED c then Inr (DEVICE_NOT_REGISTERED c, xcn)
            else
              let (lastStatusRc, statusBuffer) = ea_get_last_status c empty_buffer device ea
              in if lastStatusRc \<noteq> OK c then Inr (NO_MESSAGE_AVAILABLE c, xcn)
                 else
                   bindE (xcn_sendStatus env (createDeviceStatus device statusBuffer) CONNECTING
                            errorBuffer xcn)
                     (\<lambda>xcn. xcn_send_last_statuses env devices xcn)))"

text \<open>The second loop: one status response per device.\<close>

fun xcn_receive_responses ::
  "'c connection_env \<Rightarrow> nat \<Rightarrow> 'c external_connection \<Rightarrow> int \<times> 'c external_connection" where
  "xcn_receive_responses env 0 xcn = (OK (env_codes env), xcn)"
| "xcn_receive_responses env (Suc n) xcn =
     (let c = env_codes env; (statusResponseMsg, xcn) = xcn_channel_receive env xcn
      in case statusResponseMsg of
           None \<Rightarrow> (NO_MESSAGE_AVAILABLE c, xcn)
         | Some (ES_StatusResponse response) \<Rightarrow>
             if sr_type response \<noteq> SR_OK then (STATUS_INVALID c, xcn)
             else if sr_sessionid response \<noteq> xcn_sessionId xcn then (STATUS_INVALID c, xcn)
             else xcn_receive_responses env n
                    (xcn\<lparr>xcn_sent := snd (sm_acknowledgeStatus c response (xcn_sent xcn))\<rparr>)
         | Some _ \<Rightarrow> (STATUS_INVALID c, xcn))"

definition xcn_statusMessageHandle ::
  "'c connection_env \<Rightarrow> device_identification list \<Rightarrow> 'c external_connection \<Rightarrow>
   exn + int \<times> 'c external_connection" where
  "xcn_statusMessageHandle env devices xcn =
     bindE (xcn_send_last_statuses env devices xcn) (\<lambda>(rc, xcn).
       if rc \<noteq> OK (env_codes env) then Inr (rc, xcn)
       else Inr (xcn_receive_responses env (length devices) xcn))"

text \<open>\<open>commandMessageHandle\<close>, one command per device.\<close>

fun xcn_commandMessageHandle ::
  "'c connection_env \<Rightarrow> nat \<Rightarrow> 'c external_connection \<Rightarrow> exn + int \<times> 'c external_connection" where
  "xcn_commandMessageHandle env 0 xcn = Inr (OK (env_codes env), xcn)"
| "xcn_commandMessageHandle env (Suc n) xcn =
     (let c = env_codes env; (commandMsg, xcn) = xcn_channel_receive env xcn
      in case commandMsg of
           None \<Rightarrow> Inr (NO_MESSAGE_AVAILABLE c, xcn)
         | Some (ES_Command command) \<Rightarrow>
             bindE (xcn_handleCommand env command xcn) (\<lambda>(rc, xcn).
               if rc \<noteq> OK c then Inr (NOT_OK c, xcn) else xcn_commandMessageHandle env n xcn)
         | Some _ \<Rightarrow> Inr (COMMAND_INVALID c, xcn))"

definition xcn_clear_error_aggregators ::
  "error_codes \<Rightarrow> (int \<times> error_aggregator) list \<Rightarrow> (int \<times> error_aggregator) list" where
  "xcn_clear_error_aggregators c errorAggregators =
     map (\<lambda>(k, ea). (k, snd (ea_clear_error_aggregator c ea))) errorAggregators"

text \<open>
  The three steps of \<open>initializeConnection\<close>; a step that does not return \<open>OK\<close> ends the sequence.
\<close>

definition xcn_connect_sequence ::
  "'c connection_env \<Rightarrow> (nat \<Rightarrow> nat) \<Rightarrow> device_identification list \<Rightarrow> 'c external_connection \<Rightarrow>
   exn + int \<times> 'c external_connection" where
  "xcn_connect_sequence env pick connectedDevices xcn =
     (let c = env_codes env;
          (rc, xcn) = xcn_connectMessageHandle env pick connectedDevices xcn
      in if rc \<noteq> OK c then Inr (NOT_OK c, xcn)
         else
           bindE (xcn_statusMessageHandle env connectedDevices xcn) (\<lambda>(rc, xcn).
             if rc \<noteq> OK c then Inr (NOT_OK c, xcn)
             else
               bindE (xcn_commandMessageHandle env (length connectedDevices) xcn) (\<lambda>(rc, xcn).
                 if rc \<noteq> OK c then Inr (NOT_OK c, xcn) else Inr (OK c, xcn))))"

definition xcn_initializeConnection ::
  "'c connection_env \<Rightarrow> (nat \<Rightarrow> nat) \<Rightarrow> device_identification list \<Rightarrow> 'c external_connection \<Rightarrow>
   exn + int \<times> 'c external_connection" where
  "xcn_initializeConnection env pick connectedDevices xcn =
     (let c = env_codes env;
          xcn = (if xcn_state xcn = St_NOT_INITIALIZED
                 then xcn\<lparr>xcn_state := St_NOT_CONNECTED\<rparr> else xcn);
          (opened, channel) = ch_initializeConnection (env_channel env) (xcn_channel xcn);
          xcn = xcn\<lparr>xcn_channel := channel\<rparr>
      in case opened of
           Inl _ \<Rightarrow> Inr (NOT_OK c, xcn)
         | Inr _ \<Rightarrow>
             bindE (xcn_connect_sequence env pick connectedDevices (xcn\<lparr>xcn_state := St_CONNECTING\<rparr>))
               (\<lambda>(rc, xcn).
                 if rc \<noteq> OK c then Inr (NOT_OK c, xcn\<lparr>xcn_state := St_NOT_CONNECTED\<rparr>)
                 else Inr (OK c, xcn\<lparr>xcn_listening := True, xcn_state := St_CONNECTED,
                        xcn_errorAggregators :=
                          xcn_clear_error_aggregators c (xcn_errorAggregators xcn)\<rparr>)))"

section \<open>The receiving loop\<close>

text \<open>One round of \<open>receivingHandlerLoop\<close>: whether the loop goes on, and the connection.\<close>

definition xcn_receive_round ::
  "'c connection_env \<Rightarrow> 'c external_connection \<Rightarrow> exn + bool \<times> 'c external_connection" where
  "xcn_receive_round env xcn =
     (let c = env_codes env;
          reconnect = (\<lambda>flag xcn. (False, xcn\<lparr>xcn_reconnectQueue :=
                         pushAndNotify flag (xcn_reconnectQueue xcn)\<rparr>))
      in if xcn_stopReceiving xcn then Inr (False, xcn)
         else if xcn_state xcn = St_CONNECTING then Inr (True, xcn)
         else
           let (serverMessage, xcn) = xcn_channel_receive env xcn;
               (notified, channel) =
                 ch_consumeServerDisconnectNotification (env_channel env) (xcn_channel xcn);
               xcn = xcn\<lparr>xcn_channel := channel\<rparr>
           in if notified then Inr (reconnect False xcn)
              else case serverMessage of
                None \<Rightarrow> Inr (True, xcn)
              | Some message \<Rightarrow>
                  if xcn_state xcn = St_NOT_CONNECTED then Inr (True, xcn)
                  else (case message of
                    ES_Command command \<Rightarrow>
                      bindE (xcn_handleCommand env command xcn) (\<lambda>(rc, xcn).
                        if rc \<noteq> OK c then Inr (reconnect True xcn) else Inr (True, xcn))
                  | ES_StatusResponse response \<Rightarrow>
                      let (rc, sm) = sm_acknowledgeStatus c response (xcn_sent xcn);
                          xcn = xcn\<lparr>xcn_sent := sm\<rparr>
                      in if rc \<noteq> OK c then Inr (reconnect False xcn) else Inr (True, xcn)
                  | _ \<Rightarrow> Inr (reconnect True xcn)))"

text \<open>The loop, for at most \<open>fuel\<close> rounds.\<close>

fun xcn_receive_rounds ::
  "'c connection_env \<Rightarrow> nat \<Rightarrow> 'c external_connection \<Rightarrow> exn + 'c external_connection" where
  "xcn_receive_rounds env 0 xcn = Inr xcn"
| "xcn_receive_rounds env (Suc fuel) xcn =
     bindE (xcn_receive_round env xcn) (\<lambda>(goes_on, xcn).
       if goes_on then xcn_receive_rounds env fuel xcn else Inr xcn)"

definition xcn_receivingHandlerLoop ::
  "'c connection_env \<Rightarrow> nat \<Rightarrow> 'c external_connection \<Rightarrow> exn + 'c external_connection" where
  "xcn_receivingHandlerLoop env fuel xcn =
     xcn_receive_rounds env fuel (xcn\<lparr>xcn_stopReceiving := False\<rparr>)"

text \<open>
  The response timer of the \<open>i\<close>-th waiting status expires; the callback the constructor gives to the
  messages handler asks for a reconnect.
\<close>

definition xcn_responseTimeout :: "nat \<Rightarrow> 'c external_connection \<Rightarrow> 'c external_connection" where
  "xcn_responseTimeout i xcn =
     (let (called, sm) = sm_timer_expires i (xcn_sent xcn);
          xcn = xcn\<lparr>xcn_sent := sm\<rparr>
      in if called then xcn\<lparr>xcn_reconnectQueue := pushAndNotify True (xcn_reconnectQueue xcn)\<rparr> else xcn)"

section \<open>The devices of the connection\<close>

fun xcn_forceAggregationOnAllDevices ::
  "error_codes \<Rightarrow> device_identification list \<Rightarrow> 'c external_connection \<Rightarrow> status_aggregators \<Rightarrow>
   exn + device_identification list \<times> status_aggregators" where
  "xcn_forceAggregationOnAllDevices c [] xcn aggs = Inr ([], aggs)"
| "xcn_forceAggregationOnAllDevices c (device # connectedDevices) xcn aggs =
     bindE (um_at num_eq (di_module device) (xcn_errorAggregators xcn)) (\<lambda>ea.
       if fst (ea_get_last_status c empty_buffer device ea) = OK c
       then xcn_forceAggregationOnAllDevices c connectedDevices xcn aggs
       else
         bindE (um_at num_eq (di_module device) aggs) (\<lambda>(h, sa).
           let sa = snd (sa_force_aggregation_on_device c h device sa)
           in bindE (xcn_forceAggregationOnAllDevices c connectedDevices xcn
                       (um_modify num_eq (di_module device) (\<lambda>_. (h, sa)) aggs))
                (\<lambda>(forcedDevices, aggs). Inr (device # forcedDevices, aggs))))"

fun xcn_getAllConnectedDevices ::
  "int list \<Rightarrow> status_aggregators \<Rightarrow> device_identification list" where
  "xcn_getAllConnectedDevices [] aggs = []"
| "xcn_getAllConnectedDevices (moduleNumber # modules) aggs =
     (case um_find num_eq moduleNumber aggs of
        None \<Rightarrow> xcn_getAllConnectedDevices modules aggs
      | Some (h, sa) \<Rightarrow>
          let (ret, unique_devices) = sa_get_unique_devices [] sa
          in if ret \<le> 0 then xcn_getAllConnectedDevices modules aggs
             else unique_devices @ xcn_getAllConnectedDevices modules aggs)"

definition xcn_getState :: "'c external_connection \<Rightarrow> connection_state" where
  "xcn_getState xcn = xcn_state xcn"

definition xcn_setNotInitialized :: "'c external_connection \<Rightarrow> 'c external_connection" where
  "xcn_setNotInitialized xcn = xcn\<lparr>xcn_state := St_NOT_INITIALIZED\<rparr>"

definition xcn_isModuleSupported :: "int \<Rightarrow> 'c external_connection \<Rightarrow> bool" where
  "xcn_isModuleSupported moduleNum xcn \<longleftrightarrow> um_contains num_eq moduleNum (xcn_errorAggregators xcn)"

end
