(* ===== verification/External_Client.thy ===== *)
theory External_Client
  imports External_Connection
begin

text \<open>
  The external client (ExternalClient.hpp and .cpp): it owns the connections to the external
  servers, takes aggregated statuses from the module handler and sends each over the connection
  of its module, starts the connect sequences, and hands the servers' commands to the status
  aggregators. Connections are named by their position in the list. What other threads put on
  the queues during a wait, and when the gateway is stopped, are arguments (\<open>connect_script\<close>).
\<close>

section \<open>State\<close>

text \<open>
  An entry of \<open>xl_timerHandlers\<close> is the handler of an outstanding wait on \<open>timer_\<close>: its
  connection, and whether the wait was aborted. The connections push commands and reconnect
  items on the two shared queues; \<open>xl_store\<close> moves what a connection has pushed there.
\<close>

record 'c external_client =
  xl_insideConnectSequence :: bool
  xl_externalConnectionMap :: "(int \<times> nat) list"
  xl_externalConnectionsList :: "('c connection_env \<times> 'c external_connection) list"
  xl_toExternalQueue :: "internal_client_message atomic_queue"
  xl_fromExternalQueue :: "device_command atomic_queue"
  xl_commandForwardingQueue :: "internal_client_message atomic_queue"
  xl_reconnectQueue :: "(nat \<times> bool) atomic_queue"
  xl_library :: gw_modules
  xl_timerHandlers :: "(nat \<times> bool) list"
  xl_stopped :: bool

definition ExternalClient :: "gw_modules \<Rightarrow> 'c external_client" where
  "ExternalClient moduleLibrary =
     \<lparr>xl_insideConnectSequence = False, xl_externalConnectionMap = [],
      xl_externalConnectionsList = [], xl_toExternalQueue = [], xl_fromExternalQueue = [],
      xl_commandForwardingQueue = [], xl_reconnectQueue = [], xl_library = moduleLibrary,
      xl_timerHandlers = [], xl_stopped = False\<rparr>"

text \<open>A connection sees the library's handlers as they are now.\<close>

definition xl_env :: "nat \<Rightarrow> 'c external_client \<Rightarrow> 'c connection_env" where
  "xl_env cid xl = (fst (xl_externalConnectionsList xl ! cid))
     \<lparr>env_handlers := ml_moduleLibraryHandlers (xl_library xl)\<rparr>"

definition xl_conn :: "nat \<Rightarrow> 'c external_client \<Rightarrow> 'c external_connection" where
  "xl_conn cid xl = snd (xl_externalConnectionsList xl ! cid)"

definition xl_store :: "nat \<Rightarrow> 'c external_connection \<Rightarrow> 'c external_client \<Rightarrow> 'c external_client" where
  "xl_store cid xcn xl = xl
     \<lparr>xl_externalConnectionsList := (xl_externalConnectionsList xl)
        [cid := (fst (xl_externalConnectionsList xl ! cid),
                 xcn\<lparr>xcn_commandQueue := [], xcn_reconnectQueue := []\<rparr>)],
      xl_fromExternalQueue := xl_fromExternalQueue xl @ xcn_commandQueue xcn,
      xl_reconnectQueue := xl_reconnectQueue xl @ map (Pair cid) (xcn_reconnectQueue xcn)\<rparr>"

definition xl_on ::
  "nat \<Rightarrow> ('c connection_env \<Rightarrow> 'c external_connection \<Rightarrow> exn + 'c external_connection) \<Rightarrow>
   'c external_client \<Rightarrow> exn + 'c external_client" where
  "xl_on cid f xl = bindE (f (xl_env cid xl) (xl_conn cid xl)) (\<lambda>xcn. Inr (xl_store cid xcn xl))"

section \<open>Commands for the devices\<close>

definition xl_handleCommand ::
  "error_codes \<Rightarrow> device_command \<Rightarrow> 'c external_client \<Rightarrow> exn + 'c external_client" where
  "xl_handleCommand c deviceCommand xl =
     (let device = cmd_device deviceCommand; moduleNumber = ip_module device;
          commandData = cmd_commanddata deviceCommand
      in case um_find num_eq moduleNumber (ml_statusAggregators (xl_library xl)) of
           None \<Rightarrow> Inr xl
         | Some (h, sa) \<Rightarrow>
             if commandData = [] then Inr xl
             else
               bindE (handler_at moduleNumber (ml_moduleLibraryHandlers (xl_library xl)))
                 (\<lambda>moduleLibraryHandler.
               bindE (lib_constructBuffer moduleLibraryHandler (length commandData)) (\<lambda>commandBuffer.
               bindE (copyCommandToBuffer deviceCommand commandBuffer) (\<lambda>commandBuffer.
                 let deviceId = device_of_ip device;
                     (ret, sa) = sa_update_command c h commandBuffer deviceId sa;
                     xl = xl\<lparr>xl_library := xl_library xl\<lparr>ml_statusAggregators :=
                            um_modify num_eq moduleNumber (\<lambda>_. (h, sa))
                              (ml_statusAggregators (xl_library xl))\<rparr>\<rparr>
                 in if ret = OK c \<and>
                       lib_forwardCommandOnReceive moduleLibraryHandler (di_deviceType deviceId) = OK c
                    then Inr (xl\<lparr>xl_commandForwardingQueue :=
                           pushAndNotify (makeCommandForward deviceId) (xl_commandForwardingQueue xl)\<rparr>)
                    else Inr xl))))"

text \<open>One round of \<open>handleCommands\<close>.\<close>

definition xl_handleCommands_round ::
  "error_codes \<Rightarrow> device_command list \<Rightarrow> 'c external_client \<Rightarrow> exn + 'c external_client" where
  "xl_handleCommands_round c arrived xl =
     (let (timedOut, q) = waitForValueWithTimeout arrived (xl_fromExternalQueue xl);
          xl = xl\<lparr>xl_fromExternalQueue := q\<rparr>
      in if timedOut then Inr xl
         else
           bindE (aq_front (xl_fromExternalQueue xl)) (\<lambda>message.
           bindE (xl_handleCommand c message xl) (\<lambda>xl.
           bindE (aq_pop (xl_fromExternalQueue xl)) (\<lambda>q.
             Inr (xl\<lparr>xl_fromExternalQueue := q\<rparr>)))))"

section \<open>Start and end\<close>

text \<open>The channel of an endpoint; the MQTT and QUIC channels are parameters.\<close>

record 'c channel_factory =
  cf_mqtt :: "external_connection_settings \<Rightarrow> 'c channel \<times> 'c"
  cf_quic :: "external_connection_settings \<Rightarrow> 'c channel \<times> 'c"
  cf_dummy :: "external_connection_settings \<Rightarrow> 'c channel \<times> 'c"

definition xl_make_channel ::
  "'c channel_factory \<Rightarrow> external_connection_settings \<Rightarrow> exn + 'c channel \<times> 'c" where
  "xl_make_channel cf connectionSettings =
     (case es_protocolType connectionSettings of
        PT_MQTT \<Rightarrow> Inr (cf_mqtt cf connectionSettings)
      | PT_QUIC \<Rightarrow> Inr (cf_quic cf connectionSettings)
      | PT_DUMMY \<Rightarrow> Inr (cf_dummy cf connectionSettings)
      | PT_INVALID \<Rightarrow> Inl Invalid_argument)"

definition xl_initConnection ::
  "error_codes \<Rightarrow> settings \<Rightarrow> 'c channel \<times> 'c \<Rightarrow> external_connection_settings \<Rightarrow>
   'c external_client \<Rightarrow> 'c external_client" where
  "xl_initConnection c gw channel connectionSettings xl =
     (let cid = length (xl_externalConnectionsList xl);
          (handlers, xcn) = xcn_init c (es_modules connectionSettings)
            (ml_moduleLibraryHandlers (xl_library xl)) (ExternalConnection (snd channel));
          env = \<lparr>env_codes = c, env_channel = fst channel, env_settings = connectionSettings,
            env_company = set_company gw, env_vehicleName = set_vehicleName gw, env_handlers = handlers\<rparr>
      in xl\<lparr>xl_externalConnectionsList := xl_externalConnectionsList xl @ [(env, xcn)],
            xl_library := xl_library xl\<lparr>ml_moduleLibraryHandlers := handlers\<rparr>,
            xl_externalConnectionMap :=
              fold (\<lambda>moduleNumber. um_try_emplace num_eq moduleNumber cid)
                (es_modules connectionSettings) (xl_externalConnectionMap xl)\<rparr>)"

fun xl_initConnections ::
  "error_codes \<Rightarrow> settings \<Rightarrow> 'c channel_factory \<Rightarrow> external_connection_settings list \<Rightarrow>
   'c external_client \<Rightarrow> exn + 'c external_client" where
  "xl_initConnections c gw cf [] xl = Inr xl"
| "xl_initConnections c gw cf (connectionSettings # rest) xl =
     bindE (xl_make_channel cf connectionSettings) (\<lambda>channel.
       xl_initConnections c gw cf rest (xl_initConnection c gw channel connectionSettings xl))"

fun xl_destroy_loop :: "nat list \<Rightarrow> 'c external_client \<Rightarrow> exn + 'c external_client" where
  "xl_destroy_loop [] xl = Inr xl"
| "xl_destroy_loop (cid # cids) xl =
     bindE (xl_on cid (\<lambda>env. xcn_deinitializeConnection env True) xl) (xl_destroy_loop cids)"

definition xl_destroy :: "'c external_client \<Rightarrow> exn + 'c external_client" where
  "xl_destroy xl = xl_destroy_loop [0..<length (xl_externalConnectionsList xl)] xl"

section \<open>Statuses for the servers\<close>

abbreviation message_module :: "internal_client_message \<Rightarrow> int" where
  "message_module m \<equiv> ip_module (st_device (devicestatus (icm_message m)))"

text \<open>
  \<open>sendStatus\<close>, whose argument \<open>start\<close> is \<open>startExternalConnectSequence\<close>: whether a
  reconnect is expected, and the client.
\<close>

definition xl_sendStatus ::
  "(nat \<Rightarrow> 'c external_client \<Rightarrow> exn + 'c external_client) \<Rightarrow> internal_client_message \<Rightarrow>
   'c external_client \<Rightarrow> exn + bool \<times> 'c external_client" where
  "xl_sendStatus start internalMessage xl =
     (let deviceStatus = devicestatus (icm_message internalMessage)
      in case um_find num_eq (message_module internalMessage) (xl_externalConnectionMap xl) of
           None \<Rightarrow> Inr (True, xl)
         | Some cid \<Rightarrow>
             if xcn_getState (xl_conn cid xl) \<noteq> St_CONNECTED then
               bindE (xl_on cid (\<lambda>env. xcn_fillErrorAggregator env deviceStatus) xl) (\<lambda>xl.
                 if xcn_getState (xl_conn cid xl) = St_NOT_INITIALIZED then
                   if xl_insideConnectSequence xl then Inr (True, xl)
                   else bindE (start cid xl) (\<lambda>xl. Inr (True, xl))
                 else Inr (True, xl))
             else if icm_disconnect internalMessage then
               bindE (xl_on cid (\<lambda>env. xcn_sendStatus env deviceStatus DISCONNECT empty_buffer) xl)
                 (\<lambda>xl. Inr (False, xl))
             else
               bindE (xl_on cid (\<lambda>env. xcn_sendStatus env deviceStatus RUNNING empty_buffer) xl)
                 (\<lambda>xl. Inr (True, xl)))"

text \<open>
  Inside a connect sequence \<open>sendStatus\<close> never starts another one, so what it would start does
  not matter there (\<open>xl_sendStatus_inside\<close>).
\<close>

definition xl_no_start :: "nat \<Rightarrow> 'c external_client \<Rightarrow> exn + 'c external_client" where
  "xl_no_start cid xl = Inl Undefined_behaviour"

lemma xl_sendStatus_inside:
  assumes "xl_insideConnectSequence xl"
  shows "xl_sendStatus start m xl = xl_sendStatus xl_no_start m xl"
proof -
  have "bindE (xl_on cid f xl) (\<lambda>xl. if xcn_getState (xl_conn cid xl) = St_NOT_INITIALIZED
        then if xl_insideConnectSequence xl then Inr (True, xl) else bindE (g xl) (\<lambda>xl. Inr (True, xl))
        else Inr (True, xl)) = bindE (xl_on cid f xl) (\<lambda>xl. Inr (True, xl))" for cid f g
    using assms by (cases "f (xl_env cid xl) (xl_conn cid xl)") (simp_all add: xl_on_def xl_store_def)
  then show ?thesis by (simp add: xl_sendStatus_def Let_def split: option.split)
qed

text \<open>A message taken off the queue while \<open>cid\<close> is being connected.\<close>

definition xl_feed ::
  "nat \<Rightarrow> internal_client_message \<Rightarrow> 'c external_client \<Rightarrow> exn + 'c external_client" where
  "xl_feed cid internalMessage xl =
     (if xcn_isModuleSupported (message_module internalMessage) (xl_conn cid xl)
      then xl_on cid (\<lambda>env. xcn_fillErrorAggregator env (devicestatus (icm_message internalMessage))) xl
      else bindE (xl_sendStatus xl_no_start internalMessage xl) (\<lambda>(_, xl). Inr xl))"

section \<open>The connect sequence\<close>

text \<open>The first loop of \<open>startExternalConnectSequence\<close>, over the messages in the queue.\<close>

fun xl_drainQueue ::
  "nat \<Rightarrow> internal_client_message list \<Rightarrow> 'c external_client \<Rightarrow> exn + 'c external_client" where
  "xl_drainQueue cid [] xl = Inr (xl\<lparr>xl_toExternalQueue := []\<rparr>)"
| "xl_drainQueue cid (m # ms) xl =
     (if icm_disconnect m then Inr (xl\<lparr>xl_toExternalQueue := m # ms\<rparr>)
      else bindE (xl_feed cid m (xl\<lparr>xl_toExternalQueue := ms\<rparr>)) (xl_drainQueue cid ms))"

text \<open>Erasing the device that \<open>std::ranges::find\<close> finds.\<close>

fun erase_device :: "device_identification \<Rightarrow> device_identification list \<Rightarrow> device_identification list" where
  "erase_device d [] = []"
| "erase_device d (x # xs) = (if device_eq x d then xs else x # erase_device d xs)"

definition xl_forced_message ::
  "nat \<Rightarrow> internal_client_message \<Rightarrow> device_identification list \<Rightarrow> 'c external_client \<Rightarrow>
   exn + device_identification list \<times> 'c external_client" where
  "xl_forced_message cid m forcedDevices xl =
     (let deviceStatus = devicestatus (icm_message m);
          deviceId = device_of_ip (st_device deviceStatus)
      in if xcn_isModuleSupported (message_module m) (xl_conn cid xl) then
           if \<not> list_ex (\<lambda>d. device_eq d deviceId) forcedDevices
           then Inr (forcedDevices,
                  xl\<lparr>xl_toExternalQueue := pushAndNotify m (xl_toExternalQueue xl)\<rparr>)
           else bindE (xl_on cid (\<lambda>env. xcn_fillErrorAggregator env deviceStatus) xl)
                  (\<lambda>xl. Inr (erase_device deviceId forcedDevices, xl))
         else bindE (xl_sendStatus xl_no_start m xl) (\<lambda>(_, xl). Inr (forcedDevices, xl)))"

text \<open>
  The loop that waits for the forced statuses. Each element of \<open>rounds\<close> is what arrives on the queue
  during the wait of one round; the gateway is stopped after the last of them.
\<close>

fun xl_forcedLoop ::
  "nat \<Rightarrow> internal_client_message list list \<Rightarrow> device_identification list \<Rightarrow> 'c external_client \<Rightarrow>
   exn + 'c external_client" where
  "xl_forcedLoop cid rounds [] xl = Inr xl"
| "xl_forcedLoop cid [] (d # ds) xl = Inr (xl\<lparr>xl_stopped := True\<rparr>)"
| "xl_forcedLoop cid (arrived # rounds) (d # ds) xl =
     (if xl_stopped xl then Inr xl
      else
        let (timedOut, q) = waitForValueWithTimeout arrived (xl_toExternalQueue xl)
        in if timedOut then xl_forcedLoop cid rounds (d # ds) (xl\<lparr>xl_toExternalQueue := q\<rparr>)
           else
             bindE (xl_forced_message cid (hd q) (d # ds) (xl\<lparr>xl_toExternalQueue := tl q\<rparr>))
               (\<lambda>(forcedDevices, xl). xl_forcedLoop cid rounds forcedDevices xl))"

text \<open>
  \<open>drainQueueDuringConnect\<close>: the rounds of the loop that run before the background thread is done.
\<close>

fun xl_drainQueueDuringConnect ::
  "nat \<Rightarrow> internal_client_message list list \<Rightarrow> 'c external_client \<Rightarrow> exn + 'c external_client" where
  "xl_drainQueueDuringConnect cid [] xl = Inr xl"
| "xl_drainQueueDuringConnect cid (arrived # rounds) xl =
     (if xl_stopped xl \<or> xcn_getState (xl_conn cid xl) = St_CONNECTED then Inr xl
      else
        let (timedOut, q) = waitForValueWithTimeout arrived (xl_toExternalQueue xl);
            xl = xl\<lparr>xl_toExternalQueue := q\<rparr>
        in if timedOut then xl_drainQueueDuringConnect cid rounds xl
           else if icm_disconnect (hd q) then Inr xl
           else
             bindE (xl_feed cid (hd q) (xl\<lparr>xl_toExternalQueue := tl q\<rparr>))
               (xl_drainQueueDuringConnect cid rounds))"

text \<open>
  The surroundings of one connect sequence: the draws of the session id, the rounds of the two
  loops, and whether the background thread is done when the gateway is stopped.
\<close>

record connect_script =
  sc_pick :: "nat \<Rightarrow> nat"
  sc_forced :: "internal_client_message list list"
  sc_connect :: "internal_client_message list list"
  sc_done :: bool

text \<open>The part before the background thread; \<open>xl_connectedDevices\<close> is computed in it.\<close>

definition xl_connectedDevices :: "nat \<Rightarrow> 'c external_client \<Rightarrow> device_identification list" where
  "xl_connectedDevices cid xl =
     xcn_getAllConnectedDevices (es_modules (env_settings (xl_env cid xl)))
       (ml_statusAggregators (xl_library xl))"

definition xl_force ::
  "error_codes \<Rightarrow> nat \<Rightarrow> device_identification list \<Rightarrow> 'c external_client \<Rightarrow>
   exn + device_identification list \<times> 'c external_client" where
  "xl_force c cid connectedDevices xl =
     bindE (xcn_forceAggregationOnAllDevices c connectedDevices (xl_conn cid xl)
              (ml_statusAggregators (xl_library xl)))
       (\<lambda>(forcedDevices, aggs). Inr (forcedDevices,
          xl\<lparr>xl_library := xl_library xl\<lparr>ml_statusAggregators := aggs\<rparr>\<rparr>))"

definition xl_prepare ::
  "error_codes \<Rightarrow> connect_script \<Rightarrow> nat \<Rightarrow> 'c external_client \<Rightarrow>
   exn + device_identification list \<times> 'c external_client" where
  "xl_prepare c sc cid xl =
     bindE (xl_drainQueue cid (xl_toExternalQueue xl) (xl\<lparr>xl_insideConnectSequence := True\<rparr>)) (\<lambda>xl.
       let connectedDevices = xl_connectedDevices cid xl
       in bindE (xl_force c cid connectedDevices xl) (\<lambda>(forcedDevices, xl).
          bindE (xl_forcedLoop cid (sc_forced sc) forcedDevices xl) (\<lambda>xl.
          bindE (xl_on cid xcn_fillErrorAggregatorWithNotAckedStatuses xl) (\<lambda>xl.
            Inr (connectedDevices, xl)))))"

text \<open>
  Arming the reconnect timer: \<open>expires_from_now\<close> aborts every outstanding wait on it; the
  handler of an aborted wait runs too, and does not look at the error code.
\<close>

definition xl_armTimer :: "nat \<Rightarrow> 'c external_client \<Rightarrow> 'c external_client" where
  "xl_armTimer cid xl = xl\<lparr>xl_timerHandlers :=
     map (\<lambda>(k, _). (k, True)) (xl_timerHandlers xl) @ [(cid, False)]\<rparr>"

definition xl_timerHandler :: "nat \<Rightarrow> 'c external_client \<Rightarrow> 'c external_client" where
  "xl_timerHandler i xl =
     (if i < length (xl_timerHandlers xl)
      then xl\<lparr>xl_reconnectQueue := pushAndNotify (fst (xl_timerHandlers xl ! i), True)
                (xl_reconnectQueue xl),
              xl_timerHandlers := take i (xl_timerHandlers xl) @ drop (Suc i) (xl_timerHandlers xl)\<rparr>
      else xl)"

text \<open>
  The background thread's \<open>initializeConnection\<close> is one step, after the rounds of the drain; when
  the gateway is stopped before the thread is done, the connection is cancelled first.
\<close>

definition xl_connect ::
  "connect_script \<Rightarrow> nat \<Rightarrow> device_identification list \<Rightarrow> 'c external_client \<Rightarrow>
   exn + int \<times> 'c external_client" where
  "xl_connect sc cid connectedDevices xl =
     bindE (xl_drainQueueDuringConnect cid (sc_connect sc) xl) (\<lambda>xl.
       let xcn = (if xl_stopped xl \<and> \<not> sc_done sc
                  then xcn_cancelPendingConnect (xl_env cid xl) (xl_conn cid xl) else xl_conn cid xl)
       in bindE (xcn_initializeConnection (xl_env cid xl) (sc_pick sc) connectedDevices xcn)
            (\<lambda>(connectResult, xcn). Inr (connectResult, xl_store cid xcn xl)))"

definition xl_startExternalConnectSequence ::
  "error_codes \<Rightarrow> connect_script \<Rightarrow> nat \<Rightarrow> 'c external_client \<Rightarrow> exn + 'c external_client" where
  "xl_startExternalConnectSequence c sc cid xl =
     bindE (xl_prepare c sc cid xl) (\<lambda>(connectedDevices, xl).
     bindE (xl_connect sc cid connectedDevices xl) (\<lambda>(connectResult, xl).
       let xl = (if connectResult \<noteq> 0 \<and> \<not> xl_stopped xl then xl_armTimer cid xl else xl)
       in Inr (xl\<lparr>xl_insideConnectSequence := False\<rparr>)))"

section \<open>The loop\<close>

definition xl_handleReconnect ::
  "error_codes \<Rightarrow> connect_script \<Rightarrow> nat \<times> bool \<Rightarrow> 'c external_client \<Rightarrow> exn + 'c external_client" where
  "xl_handleReconnect c sc item xl =
     (case item of (cid, reconnect) \<Rightarrow>
        bindE (xl_on cid (\<lambda>env. xcn_deinitializeConnection env False) xl) (\<lambda>xl.
          if reconnect then xl_startExternalConnectSequence c sc cid xl
          else Inr (xl_store cid (xcn_setNotInitialized (xl_conn cid xl)) xl)))"

text \<open>One round of \<open>handleAggregatedMessages\<close>, with a script for each connect sequence it may start.\<close>

definition xl_handleAggregatedMessages_round ::
  "error_codes \<Rightarrow> connect_script \<Rightarrow> connect_script \<Rightarrow> internal_client_message list \<Rightarrow>
   'c external_client \<Rightarrow> exn + 'c external_client" where
  "xl_handleAggregatedMessages_round c sc1 sc2 arrived xl =
     bindE (case xl_reconnectQueue xl of
              [] \<Rightarrow> Inr xl
            | item # _ \<Rightarrow>
                bindE (xl_handleReconnect c sc1 item xl) (\<lambda>xl.
                bindE (aq_pop (xl_reconnectQueue xl)) (\<lambda>q. Inr (xl\<lparr>xl_reconnectQueue := q\<rparr>))))
       (\<lambda>xl.
          let (timedOut, q) = waitForValueWithTimeout arrived (xl_toExternalQueue xl)
          in if timedOut then Inr (xl\<lparr>xl_toExternalQueue := q\<rparr>)
             else
               bindE (xl_sendStatus (xl_startExternalConnectSequence c sc2) (hd q)
                        (xl\<lparr>xl_toExternalQueue := tl q\<rparr>))
                 (\<lambda>(_, xl). Inr xl))"

end
