(* ===== verification/External_Connection_Laws.thy ===== *)
theory External_Connection_Laws
  imports External_Connection
begin

text \<open>
  What an external connection guarantees: the shape of every status it sends, the order of the
  commands it accepts, what a disconnect keeps of the statuses that were not acknowledged, and
  the outcome of the connect sequence, for any channel and for the dummy channel.
\<close>

section \<open>Sending a status\<close>

lemma xcn_channel_send_eq:
  "xcn_channel_send env m xcn =
     (fst (ch_sendMessage (env_channel env) m (xcn_channel xcn)),
      xcn\<lparr>xcn_channel := snd (ch_sendMessage (env_channel env) m (xcn_channel xcn))\<rparr>)"
  by (simp add: xcn_channel_send_def split: prod.splits)

lemma xcn_channel_receive_eq:
  "xcn_channel_receive env xcn =
     (fst (ch_receiveMessage (env_channel env) (xcn_channel xcn)),
      xcn\<lparr>xcn_channel := snd (ch_receiveMessage (env_channel env) (xcn_channel xcn))\<rparr>)"
  by (simp add: xcn_channel_receive_def split: prod.splits)

text \<open>
  The connection as \<open>sendStatus\<close> leaves it when the channel took the message \<open>s\<close>, and the
  connection at the moment of sending.
\<close>

definition xcn_sending ::
  "device_status \<Rightarrow> error_aggregator \<Rightarrow> sent_messages_handler \<Rightarrow> ext_status \<Rightarrow>
   'c external_connection \<Rightarrow> 'c external_connection" where
  "xcn_sending status ea sm s xcn =
     xcn\<lparr>xcn_errorAggregators :=
           um_modify num_eq (ip_module (st_device status)) (\<lambda>_. ea) (xcn_errorAggregators xcn),
         xcn_clientMessageCounter := xcn_clientMessageCounter xcn + 1,
         xcn_sent := sm_addNotAckedStatus s sm\<rparr>"

lemma xcn_sendStatus_cases:
  assumes "xcn_sendStatus env status ds err xcn = Inr xcn'"
  obtains
    (unknown_module) "um_find num_eq (ip_module (st_device status)) (xcn_errorAggregators xcn) = None"
      "xcn' = xcn"
  | (sent) ea ds1 ea' ds2 sm s ok ch where
      "um_find num_eq (ip_module (st_device status)) (xcn_errorAggregators xcn) = Some ea"
      "xcn_register_device env status ds ea = Inr (ds1, ea')"
      "xcn_device_state (device_of_ip (st_device status)) ds1 (xcn_sent xcn) = (ds2, sm)"
      "s = createExternalClientStatus (xcn_sessionId xcn) ds2 (xcn_clientMessageCounter xcn + 1)
             status err"
      "ch_sendMessage (env_channel env) (EC_Status s) (xcn_channel xcn) = (ok, ch)"
      "(if ok then Inr ((xcn_sending status ea' sm s xcn)\<lparr>xcn_channel := ch\<rparr>)
        else xcn_deinitializeConnection env False
          ((xcn_sending status ea' sm s xcn)\<lparr>xcn_channel := ch\<rparr>)) = Inr xcn'"
proof (cases "um_find num_eq (ip_module (st_device status)) (xcn_errorAggregators xcn)")
  case None
  then have "xcn' = xcn" using assms by (simp add: xcn_sendStatus_def)
  then show ?thesis by (rule unknown_module [OF None])
next
  case (Some ea)
  then obtain ds1 ea' where reg: "xcn_register_device env status ds ea = Inr (ds1, ea')"
    using assms by (auto simp: xcn_sendStatus_def bindE_eq_Inr_iff)
  obtain ds2 sm where sw:
    "xcn_device_state (device_of_ip (st_device status)) ds1 (xcn_sent xcn) = (ds2, sm)"
    by fastforce
  define s where "s = createExternalClientStatus (xcn_sessionId xcn) ds2
    (xcn_clientMessageCounter xcn + 1) status err"
  obtain ok ch where send: "ch_sendMessage (env_channel env) (EC_Status s) (xcn_channel xcn) = (ok, ch)"
    by fastforce
  have "(if ok then Inr ((xcn_sending status ea' sm s xcn)\<lparr>xcn_channel := ch\<rparr>)
        else xcn_deinitializeConnection env False
          ((xcn_sending status ea' sm s xcn)\<lparr>xcn_channel := ch\<rparr>)) = Inr xcn'"
    using assms Some reg sw send
    by (cases ok) (simp_all add: xcn_sendStatus_def xcn_transmit_def xcn_getNextStatusCounter_def
        xcn_channel_send_eq s_def [symmetric] xcn_sending_def Let_def)
  then show ?thesis using sent [OF Some reg sw s_def send] by blast
qed

text \<open>Is the device known to the error aggregator of its module?\<close>

definition xcn_registered :: "device_identification \<Rightarrow> 'c external_connection \<Rightarrow> bool" where
  "xcn_registered d xcn \<longleftrightarrow>
     (case um_find num_eq (di_module d) (xcn_errorAggregators xcn) of
        None \<Rightarrow> False | Some ea \<Rightarrow> um_contains device_eq d (ea_devices ea))"

text \<open>The device state the server is told.\<close>

definition told_state ::
  "ext_device_state \<Rightarrow> device_identification \<Rightarrow> 'c external_connection \<Rightarrow> ext_device_state" where
  "told_state ds d xcn =
     (if \<not> xcn_registered d xcn then CONNECTING
      else if ds = RUNNING \<and> \<not> sm_isDeviceConnected d (xcn_sent xcn) then CONNECTING else ds)"

lemma xcn_register_device_Inr:
  assumes "xcn_register_device env status ds ea = Inr (ds', ea')" and "codes_ok (env_codes env)"
    and "d = device_of_ip (st_device status)"
  shows "ds' = (if um_contains device_eq d (ea_devices ea) then ds else CONNECTING)"
    and "um_contains device_eq d (ea_devices ea) \<Longrightarrow> ea' = ea"
  using assms codes_ok_distinct(8) [OF assms(2)]
  by (auto simp: xcn_register_device_def bindE_eq_Inr_iff ea_getters Let_def split: if_splits)

lemma xcn_device_state_eq:
  assumes "xcn_device_state d ds sm = (ds', sm')"
  shows "ds' = (if ds = RUNNING \<and> \<not> sm_isDeviceConnected d sm then CONNECTING else ds)"
    and "sm_notAckedStatuses sm' = sm_notAckedStatuses sm"
    and "connected_count d' sm' =
       (if \<not> device_eq d d' then connected_count d' sm
        else if ds' = CONNECTING then connected_count d' sm + 1
        else if ds' = DISCONNECT then connected_count d' sm - 1
        else connected_count d' sm)"
  using assms
  by (auto simp: xcn_device_state_def connected_count_ops split: ext_device_state.splits if_splits)
     (simp_all add: sm_addDeviceAsConnected_def sm_deleteConnectedDevice_def)

text \<open>
  C17: if the channel takes the message, \<open>sendStatus\<close> sends exactly one status: with the session's
  id, the next message counter (modulo 2^32) and the data it was given, and it remembers it as not
  acknowledged. A device the connection does not know, or a running one that is not connected, is
  announced as \<open>CONNECTING\<close>; so \<open>RUNNING\<close> is only sent for a device that is connected. The
  connected devices follow what was sent: \<open>CONNECTING\<close> adds the device, \<open>DISCONNECT\<close> removes one
  occurrence, and other devices are not touched.
\<close>

theorem sent_status_shape:
  assumes "codes_ok (env_codes env)"
    and "xcn_isModuleSupported (ip_module (st_device status)) xcn"
    and "d = device_of_ip (st_device status)"
    and "s = createExternalClientStatus (xcn_sessionId xcn) (told_state ds d xcn)
           (xcn_clientMessageCounter xcn + 1) status err"
    and "fst (ch_sendMessage (env_channel env) (EC_Status s) (xcn_channel xcn))"
    and "xcn_sendStatus env status ds err xcn = Inr xcn'"
  shows "xcn_channel xcn' = snd (ch_sendMessage (env_channel env) (EC_Status s) (xcn_channel xcn)) \<and>
    xcn_clientMessageCounter xcn' = xcn_clientMessageCounter xcn + 1 \<and>
    sm_notAckedStatuses (xcn_sent xcn') =
      sm_notAckedStatuses (xcn_sent xcn) @ [na_startTimer (NotAckedStatus s)] \<and>
    connected_count d' (xcn_sent xcn') =
      (if \<not> device_eq d d' then connected_count d' (xcn_sent xcn)
       else if told_state ds d xcn = CONNECTING then connected_count d' (xcn_sent xcn) + 1
       else if told_state ds d xcn = DISCONNECT then connected_count d' (xcn_sent xcn) - 1
       else connected_count d' (xcn_sent xcn))"
  using assms(6)
proof (cases rule: xcn_sendStatus_cases)
  case unknown_module
  then show ?thesis using assms(2) by (simp add: xcn_isModuleSupported_def um_contains_def)
next
  case (sent ea ds1 ea' ds2 sm s' ok ch)
  note reg = xcn_register_device_Inr [OF sent(2) assms(1,3)]
  note sw = xcn_device_state_eq [OF sent(3) [folded assms(3)]]
  have reg_iff: "xcn_registered d xcn \<longleftrightarrow> um_contains device_eq d (ea_devices ea)"
    using sent(1) assms(3) by (simp add: xcn_registered_def)
  have told: "ds2 = told_state ds d xcn"
    using reg(1) sw(1) by (simp add: told_state_def reg_iff)
  then have "s' = s" using sent(4) assms(4) by simp
  then have "ok" using assms(5) sent(5) by simp
  then show ?thesis
    using sent(5,6) \<open>s' = s\<close> sw(2) sw(3) [of d'] told
    by (auto simp: xcn_sending_def sm_addNotAckedStatus_def connected_count_def)
qed

section \<open>Commands\<close>

fun xcn_handle_commands ::
  "'c connection_env \<Rightarrow> ext_command list \<Rightarrow> 'c external_connection \<Rightarrow>
   exn + int list \<times> 'c external_connection" where
  "xcn_handle_commands env [] xcn = Inr ([], xcn)"
| "xcn_handle_commands env (cmd # cmds) xcn =
     bindE (xcn_handleCommand env cmd xcn) (\<lambda>(rc, xcn).
     bindE (xcn_handle_commands env cmds xcn) (\<lambda>(rcs, xcn). Inr (rc # rcs, xcn)))"

text \<open>A command that is not refused belongs to the session, is in order, and is counted.\<close>

lemma xcn_handleCommand_counted:
  assumes "xcn_handleCommand env cmd xcn = Inr (rc, xcn')" and "rc \<noteq> COMMAND_INVALID (env_codes env)"
  shows "xc_sessionid cmd = xcn_sessionId xcn" and "xcn_in_order (xc_messagecounter cmd) xcn"
    and "xcn_serverMessageCounter xcn' = xc_messagecounter cmd"
    and "xcn_sessionId xcn' = xcn_sessionId xcn"
  using assms
  by (auto simp: xcn_handleCommand_def Let_def bindE_eq_Inr_iff xcn_channel_send_eq
      split: if_splits option.splits)




section \<open>What a disconnect keeps\<close>

text \<open>The history a list of not acknowledged statuses adds to the aggregator of module \<open>m\<close>.\<close>

definition history_of ::
  "handler \<Rightarrow> int \<Rightarrow> not_acked_status list \<Rightarrow> (device_identification \<times> buffer) list \<Rightarrow> bool" where
  "history_of h m ns history \<longleftrightarrow>
     list_all2 (\<lambda>n (d, b). d = device_of_ip (na_getDevice n) \<and>
         status_to_buffer h (xs_devicestatus (na_status n)) = Inr b)
       (filter (\<lambda>n. ip_module (na_getDevice n) = m) ns) history"

lemma xcn_fill_loop_module:
  assumes "xcn_fill_loop c handlers ns eas = Inr eas'" and "um_find num_eq m eas = Some ea"
    and "um_find num_eq m handlers = Some (Some h)"
  shows "\<exists>ea' history. um_find num_eq m eas' = Some ea' \<and> ea_add_all c history ea = Inr ea' \<and>
    history_of h m ns history"
  using assms(1,2)
proof (induction ns arbitrary: eas ea)
  case Nil
  then have "ea_add_all c [] ea = Inr ea \<and> history_of h m [] []" by (simp add: history_of_def)
  then show ?case using Nil by (auto intro: exI [of _ "[]"])
next
  case (Cons n ns)
  let ?d = "na_getDevice n"
  obtain b where b: "xcn_status_buffer (xs_devicestatus (na_status n)) handlers = Inr b"
    using Cons.prems(1) by (auto simp: Let_def bindE_eq_Inr_iff)
  show ?case
  proof (cases "um_find num_eq (ip_module ?d) eas")
    case None
    then have "xcn_fill_loop c handlers ns eas = Inr eas'" "ip_module ?d \<noteq> m"
      using Cons.prems b by (auto simp: Let_def)
    then show ?thesis using Cons.IH [of eas ea] Cons.prems(2) by (simp add: history_of_def)
  next
    case (Some ea0)
    then obtain rc ea1 where add:
      "ea_add_status_to_error_aggregator c b (device_of_ip ?d) ea0 = Inr (rc, ea1)"
      "xcn_fill_loop c handlers ns (um_modify num_eq (ip_module ?d) (\<lambda>_. ea1) eas) = Inr eas'"
      using Cons.prems(1) b by (auto simp: Let_def bindE_eq_Inr_iff)
    show ?thesis
    proof (cases "ip_module ?d = m")
      case True
      have ea0: "ea0 = ea" using Some Cons.prems(2) True by simp
      have "status_to_buffer h (xs_devicestatus (na_status n)) = Inr b"
        using b assms(3) True by (auto simp: xcn_status_buffer_def bindE_eq_Inr_iff
            handler_at_Inr_iff na_getDevice_def)
      moreover obtain ea' history where "um_find num_eq m eas' = Some ea'"
        "ea_add_all c history ea1 = Inr ea'" "history_of h m ns history"
        using Cons.IH [OF add(2)] True Some by (auto simp: map_laws)
      moreover from this(2) have "ea_add_all c ((device_of_ip ?d, b) # history) ea = Inr ea'"
        using add(1) ea0 by simp
      ultimately show ?thesis
        using True by (intro exI [of _ ea'] exI [of _ "(device_of_ip ?d, b) # history"])
          (simp add: history_of_def)
    next
      case False
      then show ?thesis
        using Cons.IH [OF add(2)] Cons.prems(2) by (auto simp: map_laws history_of_def)
    qed
  qed
qed

text \<open>The statuses of one device among those that were not acknowledged.\<close>

definition undelivered :: "device_identification \<Rightarrow> not_acked_status list \<Rightarrow> device_status list" where
  "undelivered d ns =
     map (\<lambda>n. xs_devicestatus (na_status n))
       (filter (\<lambda>n. device_eq (device_of_ip (na_getDevice n)) d) ns)"

lemma history_of_undelivered:
  assumes "history_of h (di_module d) ns history"
  shows "list_all2 (\<lambda>s b. status_to_buffer h s = Inr b) (undelivered d ns) (statuses_of d history)"
  using assms
proof (induction ns arbitrary: history)
  case (Cons n ns)
  show ?case
  proof (cases "ip_module (na_getDevice n) = di_module d")
    case True
    with Cons.prems obtain b history' where h: "history = (device_of_ip (na_getDevice n), b) # history'"
      "status_to_buffer h (xs_devicestatus (na_status n)) = Inr b"
      "history_of h (di_module d) ns history'"
      by (auto simp: history_of_def list_all2_Cons1)
    with Cons.IH [OF h(3)] show ?thesis by (simp add: undelivered_def)
  next
    case False
    then have "\<not> device_eq (device_of_ip (na_getDevice n)) d"
      using device_eq_module [of "device_of_ip (na_getDevice n)" d] by auto
    with Cons False show ?thesis by (simp add: undelivered_def history_of_def)
  qed
qed (simp add: history_of_def undelivered_def)

definition types_supported :: "error_codes \<Rightarrow> handler \<Rightarrow> int \<Rightarrow> not_acked_status list \<Rightarrow> bool" where
  "types_supported c h m ns =
     list_all (\<lambda>n. ip_module (na_getDevice n) = m \<longrightarrow>
       lib_isDeviceTypeSupported h (ip_devicetype (na_getDevice n)) \<noteq> NOT_OK c) ns"

lemma history_supports:
  assumes "types_supported c h m ns" and "history_of h m ns history"
  shows "supports_all c h history"
  using assms
proof (induction ns arbitrary: history)
  case (Cons n ns)
  then show ?case
    by (cases "ip_module (na_getDevice n) = m")
      (auto simp: history_of_def types_supported_def list_all2_Cons1)
qed (simp add: history_of_def)

lemma status_buffers_data:
  assumes "copying_handler c h" and "list_all2 (\<lambda>s b. status_to_buffer h s = Inr b) ss bs"
  shows "map raw_bytes bs = map st_statusdata ss"
  using assms(2)
proof induction
  case (Cons s ss b bs)
  then show ?case using copying_handler.status_to_buffer_data [OF assms(1), of s] by auto
qed simp

text \<open>
  C14: a disconnect that is not final loses no status. Afterwards nothing is waiting for an
  acknowledgement, the counters start anew and the state is \<open>NOT_INITIALIZED\<close>; the statuses of
  each device that were not acknowledged, in the order they were sent, have been aggregated into
  the device's error message, and the last of them is the device's last status.
\<close>

theorem undelivered_statuses_kept:
  assumes "xcn_deinitializeConnection env False xcn = Inr xcn'"
    and "um_find num_eq (di_module d) (xcn_errorAggregators xcn) = Some ea"
    and "ea_module ea = Some h"
    and "um_find num_eq (di_module d) (env_handlers env) = Some (Some h)"
    and "copying_handler (env_codes env) h"
    and "types_supported (env_codes env) h (di_module d) (sm_notAckedStatuses (xcn_sent xcn))"
    and "undelivered d (sm_notAckedStatuses (xcn_sent xcn)) \<noteq> []"
  shows "sm_notAckedStatuses (xcn_sent xcn') = [] \<and> xcn_clientMessageCounter xcn' = 0 \<and>
    xcn_state xcn' = St_NOT_INITIALIZED \<and>
    (\<exists>ea' bs. um_find num_eq (di_module d) (xcn_errorAggregators xcn') = Some ea' \<and>
       map raw_bytes bs =
         map st_statusdata (undelivered d (sm_notAckedStatuses (xcn_sent xcn))) \<and>
       ea_get_last_status (env_codes env) b d ea' = (OK (env_codes env), last bs) \<and>
       ea_errorMessage (error_state_of ea' d) =
         fold (next_error (env_codes env) h (di_deviceType d)) bs (ea_errorMessage (error_state_of ea d)))"
proof -
  let ?c = "env_codes env" and ?ns = "sm_notAckedStatuses (xcn_sent xcn)"
  let ?ns' = "map na_cancelTimer ?ns"
  obtain eas where eas: "xcn_fill_loop ?c (env_handlers env) ?ns' (xcn_errorAggregators xcn) = Inr eas"
    "xcn_errorAggregators xcn' = eas"
    and rest: "sm_notAckedStatuses (xcn_sent xcn') = []" "xcn_clientMessageCounter xcn' = 0"
      "xcn_state xcn' = St_NOT_INITIALIZED"
    using assms(1)
    by (auto simp: xcn_deinitializeConnection_def xcn_fillErrorAggregatorWithNotAckedStatuses_def
        xcn_fillErrorAggregatorWithNotAckedStatusesImpl_def bindE_eq_Inr_iff sm_clearAllTimers_def
        sm_clearAll_def)
  obtain ea' history where ea': "um_find num_eq (di_module d) eas = Some ea'"
    "ea_add_all ?c history ea = Inr ea'" "history_of h (di_module d) ?ns' history"
    using xcn_fill_loop_module [OF eas(1) assms(2,4)] by blast
  have und: "undelivered d ?ns' = undelivered d ?ns"
    by (simp add: undelivered_def filter_map comp_def na_cancelTimer_def na_getDevice_def)
  have rel: "list_all2 (\<lambda>s b. status_to_buffer h s = Inr b) (undelivered d ?ns) (statuses_of d history)"
    using history_of_undelivered [OF ea'(3)] by (simp add: und)
  then have ne: "statuses_of d history \<noteq> []" using assms(7) by auto
  have "types_supported ?c h (di_module d) ?ns'"
    using assms(6) by (simp add: types_supported_def list.pred_map comp_def na_cancelTimer_def
        na_getDevice_def)
  note supp = history_supports [OF this ea'(3)]
  from ea_add_all_Inr(2,3) [OF ea'(2) assms(3) supp, of d] ne
  have "ea_get_last_status ?c b d ea' = (OK ?c, last (statuses_of d history))"
    "ea_errorMessage (error_state_of ea' d) =
       fold (next_error ?c h (di_deviceType d)) (statuses_of d history) (ea_errorMessage (error_state_of ea d))"
    by (simp_all add: ea_getters)
  with rest eas(2) ea'(1) status_buffers_data [OF assms(5) rel] show ?thesis by blast
qed


section \<open>The connect sequence\<close>

text \<open>Nothing a session does after its first step changes its id.\<close>

lemma xcn_handleCommand_session:
  assumes "xcn_handleCommand env cmd xcn = Inr (rc, xcn')"
  shows "xcn_sessionId xcn' = xcn_sessionId xcn"
  using assms
  by (auto simp: xcn_handleCommand_def Let_def bindE_eq_Inr_iff xcn_channel_send_eq
      split: if_splits option.splits)

lemma xcn_commandMessageHandle_session:
  "xcn_commandMessageHandle env n xcn = Inr (rc, xcn') \<Longrightarrow> xcn_sessionId xcn' = xcn_sessionId xcn"
proof (induction n arbitrary: xcn)
  case (Suc n)
  let ?x = "xcn\<lparr>xcn_channel := snd (ch_receiveMessage (env_channel env) (xcn_channel xcn))\<rparr>"
  show ?case
  proof (cases "fst (ch_receiveMessage (env_channel env) (xcn_channel xcn))")
    case None
    then show ?thesis using Suc.prems by (auto simp: xcn_channel_receive_eq)
  next
    case (Some m)
    show ?thesis
    proof (cases m)
      case (ES_Command cmd)
      then obtain r x where "xcn_handleCommand env cmd ?x = Inr (r, x)"
        "xcn' = x \<or> xcn_commandMessageHandle env n x = Inr (rc, xcn')"
        using Suc.prems Some
        by (auto simp: xcn_channel_receive_eq bindE_eq_Inr_iff Let_def split: if_splits)
      then show ?thesis using Suc.IH [of x] xcn_handleCommand_session [of env cmd ?x r x] by auto
    qed (use Suc.prems Some in \<open>auto simp: xcn_channel_receive_eq\<close>)
  qed
qed simp

lemma xcn_receive_responses_session:
  "xcn_receive_responses env n xcn = (rc, xcn') \<Longrightarrow> xcn_sessionId xcn' = xcn_sessionId xcn"
  by (induction n arbitrary: xcn)
    (auto simp: xcn_channel_receive_eq Let_def split: option.splits external_server_msg.splits if_splits)

lemma xcn_deinitializeConnection_session:
  "xcn_deinitializeConnection env full xcn = Inr xcn' \<Longrightarrow> xcn_sessionId xcn' = xcn_sessionId xcn"
  by (auto simp: xcn_deinitializeConnection_def xcn_fillErrorAggregatorWithNotAckedStatuses_def
      xcn_fillErrorAggregatorWithNotAckedStatusesImpl_def bindE_eq_Inr_iff Let_def split: if_splits)

lemma xcn_sendStatus_session:
  assumes "xcn_sendStatus env status ds err xcn = Inr xcn'"
  shows "xcn_sessionId xcn' = xcn_sessionId xcn"
  using assms
proof (cases rule: xcn_sendStatus_cases)
  case (sent ea ds1 ea' ds2 sm s ok ch)
  then show ?thesis
    by (auto simp: xcn_sending_def dest: xcn_deinitializeConnection_session split: if_splits)
qed simp

lemma xcn_send_last_statuses_session:
  "xcn_send_last_statuses env devices xcn = Inr (rc, xcn') \<Longrightarrow> xcn_sessionId xcn' = xcn_sessionId xcn"
proof (induction devices arbitrary: xcn)
  case (Cons d devices)
  let ?x = "xcn\<lparr>xcn_errorAggregators := um_try_emplace num_eq (di_module d) ErrorAggregator
              (xcn_errorAggregators xcn)\<rparr>"
  obtain ea where ea: "um_at num_eq (di_module d) (xcn_errorAggregators ?x) = Inr ea"
    using Cons.prems by (auto simp: Let_def bindE_eq_Inr_iff)
  obtain r1 b1 r2 b2 where "ea_get_error (env_codes env) empty_buffer d ea = (r1, b1)"
    "ea_get_last_status (env_codes env) empty_buffer d ea = (r2, b2)" by fastforce
  then have "xcn' = ?x \<or> (\<exists>b1 b2 x. xcn_sendStatus env b1 CONNECTING b2 ?x = Inr x \<and>
      xcn_send_last_statuses env devices x = Inr (rc, xcn'))"
    using Cons.prems ea by (auto simp: Let_def bindE_eq_Inr_iff split: if_splits)
  then show ?case
  proof (elim disjE exE conjE)
    fix b1 b2 x
    assume "xcn_sendStatus env b1 CONNECTING b2 ?x = Inr x"
      and "xcn_send_last_statuses env devices x = Inr (rc, xcn')"
    then show ?thesis using Cons.IH [of x] xcn_sendStatus_session [of env b1 CONNECTING b2 ?x x] by simp
  qed simp
qed simp

text \<open>Every character of a session id is one of \<open>session_chars\<close>, and there are \<open>KEY_LENGTH\<close>.\<close>

definition session_id_ok :: "string \<Rightarrow> bool" where
  "session_id_ok sid \<longleftrightarrow> length sid = KEY_LENGTH \<and> set sid \<subseteq> set session_chars"

lemma xcn_connectMessageHandle_session:
  assumes "xcn_connectMessageHandle env pick devices xcn = (rc, xcn')"
    and "\<forall>i. pick i < length session_chars"
  shows "session_id_ok (xcn_sessionId xcn')"
proof -
  have "xcn_sessionId xcn' = xcn_sessionId (xcn_generateSessionId pick xcn)"
    using assms(1)
    by (auto simp: xcn_connectMessageHandle_def Let_def xcn_channel_send_eq xcn_channel_receive_eq
        split: if_splits option.splits external_server_msg.splits)
  then show ?thesis using assms(2) by (auto simp: session_id_ok_def xcn_generateSessionId_def)
qed

lemma xcn_connect_sequence_OK:
  assumes "xcn_connect_sequence env pick devices xcn = Inr (OK (env_codes env), xcn')"
    and "codes_ok (env_codes env)"
  obtains x1 x2 where
    "xcn_connectMessageHandle env pick devices xcn = (OK (env_codes env), x1)"
    "xcn_statusMessageHandle env devices x1 = Inr (OK (env_codes env), x2)"
    "xcn_commandMessageHandle env (length devices) x2 = Inr (OK (env_codes env), xcn')"
proof -
  obtain r1 x1 where 1: "xcn_connectMessageHandle env pick devices xcn = (r1, x1)" by fastforce
  have r1: "r1 = OK (env_codes env)"
    using assms(1) 1 codes_ok_distinct(1) [OF assms(2)]
    by (auto simp: xcn_connect_sequence_def Let_def split: if_splits)
  then obtain r2 x2 where 2: "xcn_statusMessageHandle env devices x1 = Inr (r2, x2)"
    using assms(1) 1 by (auto simp: xcn_connect_sequence_def Let_def bindE_eq_Inr_iff)
  have r2: "r2 = OK (env_codes env)"
    using assms(1) 1 2 r1 codes_ok_distinct(1) [OF assms(2)]
    by (auto simp: xcn_connect_sequence_def Let_def split: if_splits)
  then obtain r3 x3 where 3: "xcn_commandMessageHandle env (length devices) x2 = Inr (r3, x3)"
    using assms(1) 1 2 r1 by (auto simp: xcn_connect_sequence_def Let_def bindE_eq_Inr_iff)
  have "r3 = OK (env_codes env)" "x3 = xcn'"
    using assms(1) 1 2 3 r1 r2 codes_ok_distinct(1) [OF assms(2)]
    by (auto simp: xcn_connect_sequence_def Let_def split: if_splits)
  then show ?thesis using that 1 2 3 r1 r2 by blast
qed

lemma xcn_connect_sequence_session:
  assumes "xcn_connect_sequence env pick devices xcn = Inr (OK (env_codes env), xcn')"
    and "codes_ok (env_codes env)" and "\<forall>i. pick i < length session_chars"
  shows "session_id_ok (xcn_sessionId xcn')"
proof -
  obtain x1 x2 where x: "xcn_connectMessageHandle env pick devices xcn = (OK (env_codes env), x1)"
    "xcn_statusMessageHandle env devices x1 = Inr (OK (env_codes env), x2)"
    "xcn_commandMessageHandle env (length devices) x2 = Inr (OK (env_codes env), xcn')"
    by (rule xcn_connect_sequence_OK [OF assms(1,2)])
  have "xcn_sessionId x2 = xcn_sessionId x1"
    using x(2) by (auto simp: xcn_statusMessageHandle_def bindE_eq_Inr_iff
        dest!: xcn_send_last_statuses_session xcn_receive_responses_session split: if_splits)
  then show ?thesis
    using xcn_connectMessageHandle_session [OF x(1) assms(3)]
      xcn_commandMessageHandle_session [OF x(3)] by simp
qed

lemma cleared_aggregators:
  assumes "um_find num_eq m (xcn_clear_error_aggregators c eas) = Some ea"
  shows "list_all (\<lambda>(_, s). s = empty_error_state) (ea_devices ea)"
proof -
  obtain ea0 where "ea = snd (ea_clear_error_aggregator c ea0)"
    using assms
    by (induction eas) (auto simp: xcn_clear_error_aggregators_def split: if_splits)
  then show ?thesis
    by (auto simp: ea_clear_error_aggregator_def list_all_iff empty_error_state_def)
qed



section \<open>Channels that cannot connect\<close>

lemma xcn_initializeConnection_refused:
  assumes "ch_initializeConnection (env_channel env) (xcn_channel xcn) = (Inr (), ch)"
    and "xcn_connectMessageHandle env pick devices
           (xcn\<lparr>xcn_channel := ch, xcn_state := St_CONNECTING\<rparr>) = (rc, x)" and "rc \<noteq> OK (env_codes env)"
  shows "xcn_initializeConnection env pick devices xcn =
    Inr (NOT_OK (env_codes env), x\<lparr>xcn_state := St_NOT_CONNECTED\<rparr>) \<or>
    NOT_OK (env_codes env) = OK (env_codes env)"
  using assms
  by (cases "xcn_state xcn = St_NOT_INITIALIZED")
    (auto simp: xcn_initializeConnection_def xcn_connect_sequence_def Let_def)

context mute_channel
begin

lemma connect_message_refused:
  assumes "env_channel env = ch" and "codes_ok (env_codes env)"
  shows "fst (xcn_connectMessageHandle env pick devices xcn) \<noteq> OK (env_codes env)"
  using assms receive_mute codes_ok_distinct [OF assms(2)]
  by (simp add: xcn_connectMessageHandle_def Let_def xcn_channel_send_eq xcn_channel_receive_eq)

end

context guarded_channel
begin

lemma connect_message_not_sent:
  assumes "env_channel env = ch" and "codes_ok (env_codes env)" and "\<not> alive (xcn_channel xcn)"
  shows "fst (xcn_connectMessageHandle env pick devices xcn) = NOT_OK (env_codes env)"
proof -
  have "\<not> alive (xcn_channel (xcn_generateSessionId pick xcn))"
    using assms(3) by (simp add: xcn_generateSessionId_def)
  from send_dead [OF this] show ?thesis
    using assms(1) by (simp add: xcn_connectMessageHandle_def Let_def xcn_channel_send_eq)
qed

end

text \<open>
  A connection over the dummy channel never completes a connect sequence: every attempt
  returns \<open>NOT_OK\<close> and leaves the connection \<open>NOT_CONNECTED\<close>.
\<close>

lemma dummy_never_connects:
  assumes "env_channel env = dummy_channel" and "codes_ok (env_codes env)"
  shows "\<exists>xcn'. xcn_initializeConnection env pick devices xcn = Inr (NOT_OK (env_codes env), xcn') \<and>
    xcn_state xcn' = St_NOT_CONNECTED"
proof -
  let ?x = "xcn\<lparr>xcn_channel := True, xcn_state := St_CONNECTING\<rparr>"
  obtain rc x where one: "xcn_connectMessageHandle env pick devices ?x = (rc, x)" by fastforce
  have "ch_initializeConnection (env_channel env) (xcn_channel xcn) = (Inr (), True)"
    by (simp add: assms(1) dummy_channel_def dummy_initializeConnection_def)
  from xcn_initializeConnection_refused [OF this one]
    dummy.connect_message_refused [OF assms, of pick devices ?x] one codes_ok_distinct(1) [OF assms(2)]
  show ?thesis by auto
qed

section \<open>Connected devices over a reconnect\<close>

lemma xcn_fill_loop_contains:
  "xcn_fill_loop c handlers ns eas = Inr eas' \<Longrightarrow> um_contains num_eq m eas' = um_contains num_eq m eas"
proof (induction ns arbitrary: eas)
  case (Cons n ns)
  show ?case
  proof (cases "um_find num_eq (ip_module (na_getDevice n)) eas")
    case None
    then show ?thesis using Cons by (auto simp: Let_def bindE_eq_Inr_iff)
  next
    case (Some ea)
    then obtain ea1 where
      "xcn_fill_loop c handlers ns (um_modify num_eq (ip_module (na_getDevice n)) (\<lambda>_. ea1) eas) = Inr eas'"
      using Cons.prems by (auto simp: Let_def bindE_eq_Inr_iff)
    from Cons.IH [OF this] show ?thesis by simp
  qed
qed simp

lemma xcn_deinitializeConnection_keeps:
  assumes "xcn_deinitializeConnection env False xcn = Inr xcn'"
  shows "connected_count d (xcn_sent xcn') = connected_count d (xcn_sent xcn)"
    and "xcn_isModuleSupported m xcn' = xcn_isModuleSupported m xcn"
  using assms
  by (auto simp: xcn_deinitializeConnection_def xcn_fillErrorAggregatorWithNotAckedStatuses_def
      xcn_fillErrorAggregatorWithNotAckedStatusesImpl_def bindE_eq_Inr_iff connected_count_ops
      xcn_isModuleSupported_def xcn_fill_loop_contains)

lemma xcn_sendStatus_connected:
  assumes "xcn_sendStatus env status ds err xcn = Inr xcn'" and "codes_ok (env_codes env)"
    and "d = device_of_ip (st_device status)"
    and "xcn_isModuleSupported (ip_module (st_device status)) xcn"
  shows "connected_count d (xcn_sent xcn') =
     (if told_state ds d xcn = CONNECTING then connected_count d (xcn_sent xcn) + 1
      else if told_state ds d xcn = DISCONNECT then connected_count d (xcn_sent xcn) - 1
      else connected_count d (xcn_sent xcn))"
    and "xcn_isModuleSupported m xcn' = xcn_isModuleSupported m xcn"
proof -
  have "connected_count d (xcn_sent xcn') =
     (if told_state ds d xcn = CONNECTING then connected_count d (xcn_sent xcn) + 1
      else if told_state ds d xcn = DISCONNECT then connected_count d (xcn_sent xcn) - 1
      else connected_count d (xcn_sent xcn)) \<and>
    xcn_isModuleSupported m xcn' = xcn_isModuleSupported m xcn"
    using assms(1)
  proof (cases rule: xcn_sendStatus_cases)
    case unknown_module
    then show ?thesis using assms(4) by (simp add: xcn_isModuleSupported_def um_contains_def)
  next
    case (sent ea ds1 ea' ds2 sm s ok ch)
    note reg = xcn_register_device_Inr [OF sent(2) assms(2,3)]
    note sw = xcn_device_state_eq [OF sent(3) [folded assms(3)]]
    have "ds2 = told_state ds d xcn"
      using reg(1) sw(1) sent(1) assms(3) by (simp add: told_state_def xcn_registered_def)
    then show ?thesis
      using sent(6) sw(3) [of d] xcn_deinitializeConnection_keeps(1) [of env _ xcn' d]
        xcn_deinitializeConnection_keeps(2) [of env _ xcn' m]
      by (cases ok) (auto simp: xcn_sending_def connected_count_ops xcn_isModuleSupported_def)
  qed
  then show "connected_count d (xcn_sent xcn') =
     (if told_state ds d xcn = CONNECTING then connected_count d (xcn_sent xcn) + 1
      else if told_state ds d xcn = DISCONNECT then connected_count d (xcn_sent xcn) - 1
      else connected_count d (xcn_sent xcn))"
    and "xcn_isModuleSupported m xcn' = xcn_isModuleSupported m xcn" by simp_all
qed

text \<open>
  C39: a disconnect does not forget the connected devices, and the connect sequence announces each
  of them again. So a device that was connected before a reconnect is on the list twice
  afterwards, and when it disconnects it still counts as connected: commands for it are
  accepted and the connection is not given up when the last device has gone.
\<close>

theorem reconnect_leaves_device_connected:
  assumes "codes_ok (env_codes env)" and "d = device_of_ip (st_device status)"
    and "st_device status' = st_device status"
    and "xcn_isModuleSupported (ip_module (st_device status)) xcn"
    and "sm_isDeviceConnected d (xcn_sent xcn)"
    and "xcn_deinitializeConnection env False xcn = Inr x1"
    and "xcn_sendStatus env status CONNECTING err x1 = Inr x2"
    and "xcn_sendStatus env status' DISCONNECT err' x2 = Inr x3"
  shows "sm_isDeviceConnected d (xcn_sent x3)"
proof -
  note kept = xcn_deinitializeConnection_keeps [OF assms(6)]
  have sup1: "xcn_isModuleSupported (ip_module (st_device status)) x1" using kept(2) assms(4) by simp
  have "told_state CONNECTING d x1 = CONNECTING" by (simp add: told_state_def)
  with xcn_sendStatus_connected [OF assms(7,1,2) sup1] kept(1) assms(5)
  have two: "2 \<le> connected_count d (xcn_sent x2)"
    by (simp add: isDeviceConnected_count)
  have "d = device_of_ip (st_device status')" using assms(2,3) by simp
  moreover have "xcn_isModuleSupported (ip_module (st_device status')) x2"
    using xcn_sendStatus_connected(2) [OF assms(7,1,2) sup1] sup1 assms(3) by simp
  ultimately have "connected_count d (xcn_sent x2) - 1 \<le> connected_count d (xcn_sent x3)"
    using xcn_sendStatus_connected(1) [OF assms(8,1)] by (auto split: if_splits)
  then show ?thesis using two by (simp add: isDeviceConnected_count)
qed

end
