(* ===== verification/External_Client_Laws.thy ===== *)
theory External_Client_Laws
  imports External_Client External_Connection_Laws
begin

text \<open>
  The external client keeps its routing in order: every module of an endpoint is routed to a
  connection that serves it, whatever the connections, the timer and the other threads do, and no
  connect sequence runs inside another. What an operation of a connection has to keep for that is the
  locale \<open>connection_operation\<close>, interpreted for each operation the client calls.
\<close>

section \<open>What an operation of a connection keeps\<close>

lemma um_contains_map [simp]:
  "um_contains eq k (map (\<lambda>(k, v). (k, f v)) m) = um_contains eq k m"
  by (induction m) auto

locale connection_operation =
  fixes f :: "'c connection_env \<Rightarrow> 'c external_connection \<Rightarrow> exn + 'c external_connection"
  assumes keeps_modules: "f env xcn = Inr xcn' \<Longrightarrow> xcn_isModuleSupported m xcn \<Longrightarrow>
    xcn_isModuleSupported m xcn'"
begin

lemma all_modules: "f env xcn = Inr xcn' \<Longrightarrow> \<forall>m. xcn_isModuleSupported m xcn \<longrightarrow> xcn_isModuleSupported m xcn'"
  using keeps_modules by blast

end

lemma xcn_fillImpl_modules:
  assumes "xcn_fillErrorAggregatorWithNotAckedStatusesImpl env xcn = Inr xcn'"
  shows "xcn_isModuleSupported m xcn' = xcn_isModuleSupported m xcn"
  using assms xcn_fill_loop_contains
  by (fastforce simp: xcn_fillErrorAggregatorWithNotAckedStatusesImpl_def bindE_eq_Inr_iff
      xcn_isModuleSupported_def)

lemma xcn_fill_modules:
  assumes "xcn_fillErrorAggregator env status xcn = Inr xcn'"
  shows "xcn_isModuleSupported m xcn' = xcn_isModuleSupported m xcn"
  using assms xcn_fillImpl_modules
  by (fastforce simp: xcn_fillErrorAggregator_def Let_def bindE_eq_Inr_iff xcn_isModuleSupported_def
      split: if_splits)

lemma xcn_deinit_modules:
  assumes "xcn_deinitializeConnection env full xcn = Inr xcn'"
  shows "xcn_isModuleSupported m xcn' = xcn_isModuleSupported m xcn"
proof (cases full)
  case True
  then show ?thesis using assms
    by (auto simp: xcn_deinitializeConnection_def Let_def xcn_isModuleSupported_def)
next
  case False
  then have "xcn_deinitializeConnection env False xcn = Inr xcn'" using assms by simp
  then show ?thesis by (rule xcn_deinitializeConnection_keeps(2))
qed

lemma xcn_sendStatus_modules:
  assumes "xcn_sendStatus env status ds err xcn = Inr xcn'"
  shows "xcn_isModuleSupported m xcn' = xcn_isModuleSupported m xcn"
proof -
  have "xcn_isModuleSupported m y = xcn_isModuleSupported m x"
    if "xcn_transmit env status ds' err x = Inr y" for ds' and x y
    using that xcn_deinit_modules [of env False _ y m]
    by (auto simp: xcn_transmit_def xcn_getNextStatusCounter_def xcn_channel_send_eq Let_def
        xcn_isModuleSupported_def split: prod.splits if_splits)
  then show ?thesis
    using assms
    by (fastforce simp: xcn_sendStatus_def bindE_eq_Inr_iff xcn_isModuleSupported_def split: option.splits)
qed

interpretation fill_notAcked: connection_operation xcn_fillErrorAggregatorWithNotAckedStatuses
  by unfold_locales (simp add: xcn_fillErrorAggregatorWithNotAckedStatuses_def xcn_fillImpl_modules)

interpretation fill: connection_operation "\<lambda>env. xcn_fillErrorAggregator env status"
  by unfold_locales (simp add: xcn_fill_modules)

interpretation deinit: connection_operation "\<lambda>env. xcn_deinitializeConnection env full"
  by unfold_locales (simp add: xcn_deinit_modules)

interpretation send: connection_operation "\<lambda>env. xcn_sendStatus env status ds err"
  by unfold_locales (simp add: xcn_sendStatus_modules)

text \<open>The connect sequence, and one round of the receiving loop.\<close>

lemma xcn_handleCommand_modules:
  assumes "xcn_handleCommand env cmd xcn = Inr (rc, xcn')"
  shows "xcn_isModuleSupported m xcn' = xcn_isModuleSupported m xcn"
  using assms
  by (auto simp: xcn_handleCommand_def Let_def bindE_eq_Inr_iff xcn_channel_send_eq
      xcn_isModuleSupported_def split: if_splits option.splits)

lemma xcn_send_last_statuses_modules:
  "xcn_send_last_statuses env devices xcn = Inr (rc, xcn') \<Longrightarrow> xcn_isModuleSupported m xcn \<Longrightarrow>
   xcn_isModuleSupported m xcn'"
proof (induction devices arbitrary: xcn)
  case (Cons d devices)
  let ?x = "xcn\<lparr>xcn_errorAggregators := um_try_emplace num_eq (di_module d) ErrorAggregator
    (xcn_errorAggregators xcn)\<rparr>"
  have sup: "xcn_isModuleSupported m ?x"
    using Cons.prems(2) by (simp add: xcn_isModuleSupported_def num.contains_try_emplace)
  obtain ea where ea: "um_at num_eq (di_module d) (xcn_errorAggregators ?x) = Inr ea"
    using Cons.prems by (auto simp: Let_def bindE_eq_Inr_iff)
  obtain r1 b1 r2 b2 where "ea_get_error (env_codes env) empty_buffer d ea = (r1, b1)"
    "ea_get_last_status (env_codes env) empty_buffer d ea = (r2, b2)" by fastforce
  then have "xcn' = ?x \<or> (\<exists>b1 b2 x. xcn_sendStatus env b1 CONNECTING b2 ?x = Inr x \<and>
      xcn_send_last_statuses env devices x = Inr (rc, xcn'))"
    using Cons.prems ea by (auto simp: Let_def bindE_eq_Inr_iff split: if_splits)
  then show ?case
  proof (elim disjE exE conjE)
    fix b1 b2 x
    assume "xcn_sendStatus env b1 CONNECTING b2 ?x = Inr x"
      and "xcn_send_last_statuses env devices x = Inr (rc, xcn')"
    then show ?thesis using Cons.IH [of x] xcn_sendStatus_modules [of env b1 CONNECTING b2 ?x x m] sup by simp
  qed (use sup in simp)
qed simp

lemma xcn_receive_responses_modules:
  "xcn_receive_responses env n xcn = (rc, xcn') \<Longrightarrow>
   xcn_isModuleSupported m xcn' = xcn_isModuleSupported m xcn"
  by (induction n arbitrary: xcn)
    (auto simp: xcn_channel_receive_eq Let_def xcn_isModuleSupported_def
      split: option.splits external_server_msg.splits if_splits)

lemma xcn_commandMessageHandle_modules:
  "xcn_commandMessageHandle env n xcn = Inr (rc, xcn') \<Longrightarrow>
   xcn_isModuleSupported m xcn' = xcn_isModuleSupported m xcn"
proof (induction n arbitrary: xcn)
  case (Suc n)
  let ?x = "xcn\<lparr>xcn_channel := snd (ch_receiveMessage (env_channel env) (xcn_channel xcn))\<rparr>"
  have sup: "xcn_isModuleSupported m ?x = xcn_isModuleSupported m xcn"
    by (simp add: xcn_isModuleSupported_def)
  show ?case
  proof (cases "fst (ch_receiveMessage (env_channel env) (xcn_channel xcn))")
    case None
    then show ?thesis using Suc.prems sup by (auto simp: xcn_channel_receive_eq)
  next
    case (Some msg)
    show ?thesis
    proof (cases msg)
      case (ES_Command cmd)
      then obtain r x where "xcn_handleCommand env cmd ?x = Inr (r, x)"
        "xcn' = x \<or> xcn_commandMessageHandle env n x = Inr (rc, xcn')"
        using Suc.prems Some
        by (auto simp: xcn_channel_receive_eq bindE_eq_Inr_iff Let_def split: if_splits)
      then show ?thesis
        using Suc.IH [of x] xcn_handleCommand_modules [of env cmd ?x r x m] sup by auto
    qed (use Suc.prems Some sup in \<open>auto simp: xcn_channel_receive_eq\<close>)
  qed
qed simp

lemma xcn_connectMessageHandle_modules:
  "xcn_isModuleSupported m (snd (xcn_connectMessageHandle env pick devices xcn)) =
   xcn_isModuleSupported m xcn"
  by (auto simp: xcn_connectMessageHandle_def Let_def xcn_channel_send_eq xcn_channel_receive_eq
      xcn_generateSessionId_def xcn_isModuleSupported_def
      split: option.splits external_server_msg.splits)

lemma xcn_statusMessageHandle_modules:
  assumes "xcn_statusMessageHandle env devices xcn = Inr (rc, xcn')" and "xcn_isModuleSupported m xcn"
  shows "xcn_isModuleSupported m xcn'"
proof -
  obtain r x where x: "xcn_send_last_statuses env devices xcn = Inr (r, x)"
    and rest: "(if r \<noteq> OK (env_codes env) then (r, x)
      else xcn_receive_responses env (length devices) x) = (rc, xcn')"
    using assms(1) by (auto simp: xcn_statusMessageHandle_def bindE_eq_Inr_iff split: if_splits)
  have "xcn_isModuleSupported m x" by (rule xcn_send_last_statuses_modules [OF x assms(2)])
  then show ?thesis
    using rest xcn_receive_responses_modules [of env "length devices" x rc xcn' m]
    by (auto split: if_splits)
qed

lemma xcn_connect_sequence_modules:
  assumes "xcn_connect_sequence env pick devices xcn = Inr (rc, xcn')" and "xcn_isModuleSupported m xcn"
  shows "xcn_isModuleSupported m xcn'"
proof -
  obtain r x where x: "xcn_connectMessageHandle env pick devices xcn = (r, x)" by fastforce
  then have sup: "xcn_isModuleSupported m x"
    using xcn_connectMessageHandle_modules [of m env pick devices xcn] assms(2) by simp
  consider "xcn' = x" | r2 y where "xcn_statusMessageHandle env devices x = Inr (r2, y)" "xcn' = y"
    | r2 y r3 z where "xcn_statusMessageHandle env devices x = Inr (r2, y)"
      "xcn_commandMessageHandle env (length devices) y = Inr (r3, z)" "xcn' = z"
    using assms(1) x
    by (auto simp: xcn_connect_sequence_def Let_def bindE_eq_Inr_iff split: if_splits)
  then show ?thesis
  proof cases
    case 2
    then show ?thesis using xcn_statusMessageHandle_modules sup by blast
  next
    case 3
    then have "xcn_isModuleSupported m y" using xcn_statusMessageHandle_modules sup by blast
    then show ?thesis
      using 3(3) xcn_commandMessageHandle_modules [OF 3(2), of m] by simp
  qed (use sup in simp)
qed

lemma xcn_initializeConnection_modules:
  assumes "xcn_initializeConnection env pick devices xcn = Inr (rc, xcn')" and "xcn_isModuleSupported m xcn"
  shows "xcn_isModuleSupported m xcn'"
proof -
  obtain opened ch where init: "ch_initializeConnection (env_channel env) (xcn_channel xcn) = (opened, ch)"
    by fastforce
  let ?x = "xcn\<lparr>xcn_channel := ch, xcn_state := St_CONNECTING\<rparr>"
  have sup: "xcn_isModuleSupported m ?x" using assms(2) by (simp add: xcn_isModuleSupported_def)
  show ?thesis
  proof (cases opened)
    case (Inl e)
    then show ?thesis
      using assms init
      by (auto simp: xcn_initializeConnection_def xcn_isModuleSupported_def Let_def split: if_splits)
  next
    case (Inr u)
    have "bindE (xcn_connect_sequence env pick devices ?x) (\<lambda>(rc, xcn).
        if rc \<noteq> OK (env_codes env)
        then Inr (NOT_OK (env_codes env), xcn\<lparr>xcn_state := St_NOT_CONNECTED\<rparr>)
        else Inr (OK (env_codes env), xcn\<lparr>xcn_listening := True, xcn_state := St_CONNECTED,
          xcn_errorAggregators :=
            xcn_clear_error_aggregators (env_codes env) (xcn_errorAggregators xcn)\<rparr>)) = Inr (rc, xcn')"
      using assms(1) init Inr
      by (cases "xcn_state xcn = St_NOT_INITIALIZED") (simp_all add: xcn_initializeConnection_def Let_def)
    then obtain r x where seq: "xcn_connect_sequence env pick devices ?x = Inr (r, x)"
      and out: "xcn_isModuleSupported m xcn' = xcn_isModuleSupported m x"
      by (auto simp: bindE_eq_Inr_iff xcn_isModuleSupported_def xcn_clear_error_aggregators_def
          split: if_splits)
    then show ?thesis using xcn_connect_sequence_modules [OF seq sup] by simp
  qed
qed

lemma xcn_receive_round_modules:
  assumes "xcn_receive_round env xcn = Inr (b, xcn')"
  shows "xcn_isModuleSupported m xcn' = xcn_isModuleSupported m xcn"
proof -
  have *: "xcn_isModuleSupported m y = xcn_isModuleSupported m x"
    if "xcn_handleCommand env cmd x = Inr (r, y)" for cmd r and x y :: "'a external_connection"
    using that by (rule xcn_handleCommand_modules)
  show ?thesis
    using assms
    by (auto simp: xcn_receive_round_def Let_def xcn_channel_receive_eq bindE_eq_Inr_iff
        xcn_isModuleSupported_def
        dest!: * [unfolded xcn_isModuleSupported_def]
        split: prod.splits if_splits option.splits external_server_msg.splits)
qed

interpretation receive: connection_operation
  "\<lambda>env xcn. bindE (xcn_receive_round env xcn) (\<lambda>(_, xcn). Inr xcn)"
  by unfold_locales (auto simp: bindE_eq_Inr_iff xcn_receive_round_modules)

end
