(* ===== verification/External_Client_Steps.thy ===== *)
theory External_Client_Steps
  imports External_Client_Laws "HOL-Library.Sublist"
begin

text \<open>
  What the steps of the external client keep, proved once for every relation between the states before
  and after that satisfies the laws of a locale: \<open>client_relation\<close> for the handling of one message,
  \<open>loop_relation\<close> for the loops of the connect sequence. Interpreted for the routing (\<open>xl_keeps\<close>), the
  outstanding waits on the timer, the queue of statuses and the reconnect queue.
\<close>

section \<open>Handling one message\<close>

locale client_relation =
  fixes R :: "'c external_client \<Rightarrow> 'c external_client \<Rightarrow> bool"
  assumes R_refl: "R a a"
    and R_trans: "R a b \<Longrightarrow> R b d \<Longrightarrow> R a d"
    and R_store: "(\<And>m. xcn_isModuleSupported m (xl_conn cid a) \<Longrightarrow> xcn_isModuleSupported m xcn) \<Longrightarrow>
      R a (xl_store cid xcn a)"
begin

lemma on_R:
  assumes "connection_operation f" and "xl_on cid f a = Inr b"
  shows "R a b"
  using assms(2) connection_operation.keeps_modules [OF assms(1)]
  by (auto simp: xl_on_def bindE_eq_Inr_iff intro!: R_store)

lemma on_fill: "xl_on cid (\<lambda>env. xcn_fillErrorAggregator env status) a = Inr b \<Longrightarrow> R a b"
  by (rule on_R [OF fill.connection_operation_axioms])

lemma on_send: "xl_on cid (\<lambda>env. xcn_sendStatus env status ds err) a = Inr b \<Longrightarrow> R a b"
  by (rule on_R [OF send.connection_operation_axioms])

text \<open>\<open>sendStatus\<close>, whatever it starts.\<close>

lemma sendStatus_R:
  assumes "xl_sendStatus start m a = Inr (r, b)"
    and "\<And>cid x y. start cid x = Inr y \<Longrightarrow> \<not> xl_insideConnectSequence x \<Longrightarrow> R x y"
  shows "R a b"
proof (cases "um_find num_eq (message_module m) (xl_externalConnectionMap a)")
  case None
  then show ?thesis using assms(1) by (simp add: xl_sendStatus_def R_refl)
next
  case (Some cid)
  show ?thesis
  proof (cases "xcn_getState (xl_conn cid a) = St_CONNECTED")
    case True
    then show ?thesis
      using assms(1) Some
      by (auto simp: xl_sendStatus_def Let_def bindE_eq_Inr_iff split: if_splits intro: on_send)
  next
    case False
    then obtain y where y: "xl_on cid (\<lambda>env. xcn_fillErrorAggregator env (devicestatus (icm_message m))) a = Inr y"
      and "b = y \<or> \<not> xl_insideConnectSequence y \<and> start cid y = Inr b"
      using assms(1) Some by (auto simp: xl_sendStatus_def Let_def bindE_eq_Inr_iff split: if_splits)
    then show ?thesis using on_fill [OF y] assms(2) by (auto intro: R_trans)
  qed
qed

lemma no_start_R: "xl_sendStatus xl_no_start m a = Inr (r, b) \<Longrightarrow> R a b"
  by (rule sendStatus_R) (auto simp: xl_no_start_def)

lemma feed_R: "xl_feed cid m a = Inr b \<Longrightarrow> R a b"
  by (auto simp: xl_feed_def bindE_eq_Inr_iff split: if_splits intro: on_fill no_start_R)

end

section \<open>The loops of the connect sequence\<close>

locale loop_relation = client_relation R
  for R :: "'c external_client \<Rightarrow> 'c external_client \<Rightarrow> bool" +
  assumes R_queue: "R a (a\<lparr>xl_toExternalQueue := q\<rparr>)"
    and R_library: "R a (a\<lparr>xl_library := lib\<rparr>)"
    and R_stopped: "R a (a\<lparr>xl_stopped := True\<rparr>)"
begin

lemma queue_R: "R (a\<lparr>xl_toExternalQueue := q\<rparr>) b \<Longrightarrow> R a b"
  using R_queue R_trans by blast

lemma drainQueue_R: "xl_drainQueue cid ms a = Inr b \<Longrightarrow> R a b"
proof (induction ms arbitrary: a)
  case (Cons m ms)
  show ?case
  proof (cases "icm_disconnect m")
    case False
    then obtain y where y: "xl_feed cid m (a\<lparr>xl_toExternalQueue := ms\<rparr>) = Inr y"
      "xl_drainQueue cid ms y = Inr b" using Cons.prems by (auto simp: bindE_eq_Inr_iff)
    show ?thesis by (rule R_trans [OF queue_R [OF feed_R [OF y(1)]] Cons.IH [OF y(2)]])
  qed (use Cons.prems R_queue in auto)
qed (auto intro: R_queue)

lemma forced_message_R: "xl_forced_message cid m ds a = Inr (ds', b) \<Longrightarrow> R a b"
  by (auto simp: xl_forced_message_def Let_def bindE_eq_Inr_iff split: if_splits
      intro: R_queue on_fill no_start_R)

lemma forcedLoop_R: "xl_forcedLoop cid rounds ds a = Inr b \<Longrightarrow> R a b"
proof (induction rounds arbitrary: ds a)
  case Nil
  then show ?case by (cases ds) (auto intro: R_refl R_stopped)
next
  case (Cons arrived rounds)
  let ?q = "xl_toExternalQueue a @ arrived"
  show ?case
  proof (cases "ds = [] \<or> xl_stopped a")
    case True
    then show ?thesis using Cons.prems by (cases ds) (auto simp: R_refl)
  next
    case False
    then have step: "(if ?q = [] then xl_forcedLoop cid rounds ds (a\<lparr>xl_toExternalQueue := ?q\<rparr>)
        else bindE (xl_forced_message cid (hd ?q) ds (a\<lparr>xl_toExternalQueue := tl ?q\<rparr>))
          (\<lambda>(forcedDevices, xl). xl_forcedLoop cid rounds forcedDevices xl)) = Inr b"
      using Cons.prems
      by (cases ds)
        (simp_all only: xl_forcedLoop.simps waitForValueWithTimeout_def Let_def prod.case if_False
          de_Morgan_disj simp_thms list.distinct)
    show ?thesis
    proof (cases "?q = []")
      case True
      show ?thesis
        by (rule queue_R [OF Cons.IH]) (use step in \<open>simp only: if_P [OF True]\<close>)
    next
      case nonempty: False
      obtain ds' y where y: "xl_forced_message cid (hd ?q) ds (a\<lparr>xl_toExternalQueue := tl ?q\<rparr>) = Inr (ds', y)"
        "xl_forcedLoop cid rounds ds' y = Inr b"
        using step [unfolded if_not_P [OF nonempty]] by (auto simp: bindE_eq_Inr_iff)
      show ?thesis by (rule R_trans [OF queue_R [OF forced_message_R [OF y(1)]] Cons.IH [OF y(2)]])
    qed
  qed
qed

lemma drainQueueDuringConnect_R: "xl_drainQueueDuringConnect cid rounds a = Inr b \<Longrightarrow> R a b"
proof (induction rounds arbitrary: a)
  case (Cons arrived rounds)
  let ?q = "xl_toExternalQueue a @ arrived"
  show ?case
  proof (cases "xl_stopped a \<or> xcn_getState (xl_conn cid a) = St_CONNECTED")
    case True
    then show ?thesis using Cons.prems by (simp add: R_refl)
  next
    case False
    then have step: "(if ?q = [] then xl_drainQueueDuringConnect cid rounds (a\<lparr>xl_toExternalQueue := ?q\<rparr>)
        else if icm_disconnect (hd ?q) then Inr (a\<lparr>xl_toExternalQueue := ?q\<rparr>)
        else bindE (xl_feed cid (hd ?q) (a\<lparr>xl_toExternalQueue := tl ?q\<rparr>))
          (xl_drainQueueDuringConnect cid rounds)) = Inr b"
      using Cons.prems
      by (simp only: xl_drainQueueDuringConnect.simps waitForValueWithTimeout_def Let_def prod.case if_False)
        (auto split: if_splits)
    show ?thesis
    proof (cases "?q = []")
      case True
      then have "xl_drainQueueDuringConnect cid rounds (a\<lparr>xl_toExternalQueue := ?q\<rparr>) = Inr b"
        using step by (simp only: if_True simp_thms)
      then show ?thesis by (rule queue_R [OF Cons.IH])
    next
      case nonempty: False
      show ?thesis
      proof (cases "icm_disconnect (hd ?q)")
        case True
        then have "b = a\<lparr>xl_toExternalQueue := ?q\<rparr>"
          using step [unfolded if_not_P [OF nonempty] if_P [OF True]] by simp
        then show ?thesis by (simp only: R_queue)
      next
        case False
        obtain y where y: "xl_feed cid (hd ?q) (a\<lparr>xl_toExternalQueue := tl ?q\<rparr>) = Inr y"
          "xl_drainQueueDuringConnect cid rounds y = Inr b"
          using step [unfolded if_not_P [OF nonempty] if_not_P [OF False]] by (auto simp: bindE_eq_Inr_iff)
        show ?thesis by (rule R_trans [OF queue_R [OF feed_R [OF y(1)]] Cons.IH [OF y(2)]])
      qed
    qed
  qed
qed (simp add: R_refl)

lemma prepare_R:
  assumes "xl_prepare c sc cid a = Inr (devices, b)"
  shows "R (a\<lparr>xl_insideConnectSequence := True\<rparr>) b"
proof -
  obtain y ds z w where y: "xl_drainQueue cid (xl_toExternalQueue a) (a\<lparr>xl_insideConnectSequence := True\<rparr>) = Inr y"
    and z: "xl_force c cid (xl_connectedDevices cid y) y = Inr (ds, z)"
    and w: "xl_forcedLoop cid (sc_forced sc) ds z = Inr w"
    and b: "xl_on cid xcn_fillErrorAggregatorWithNotAckedStatuses w = Inr b"
    using assms by (auto simp: xl_prepare_def Let_def bindE_eq_Inr_iff)
  have "R y z" using z by (auto simp: xl_force_def bindE_eq_Inr_iff intro: R_library)
  then show ?thesis
    using drainQueue_R [OF y] forcedLoop_R [OF w] on_R [OF fill_notAcked.connection_operation_axioms b]
    by (blast intro: R_trans)
qed

lemma connect_R:
  assumes "xl_connect sc cid devices a = Inr (rc, b)"
  shows "R a b"
proof -
  obtain y where y: "xl_drainQueueDuringConnect cid (sc_connect sc) a = Inr y"
    and rest: "bindE (xcn_initializeConnection (xl_env cid y) (sc_pick sc) devices
        (if xl_stopped y \<and> \<not> sc_done sc then xcn_cancelPendingConnect (xl_env cid y) (xl_conn cid y)
         else xl_conn cid y)) (\<lambda>(r, xcn). Inr (r, xl_store cid xcn y)) = Inr (rc, b)"
    using assms by (auto simp: xl_connect_def Let_def bindE_eq_Inr_iff)
  obtain x xcn where init: "xcn_initializeConnection (xl_env cid y) (sc_pick sc) devices x = Inr (rc, xcn)"
    and b: "b = xl_store cid xcn y"
    and x: "\<And>m. xcn_isModuleSupported m x = xcn_isModuleSupported m (xl_conn cid y)"
    using rest
    by (auto simp: bindE_eq_Inr_iff xcn_cancelPendingConnect_def xcn_isModuleSupported_def
        split: if_splits)
  have "R y b"
    unfolding b by (rule R_store) (simp add: x xcn_initializeConnection_modules [OF init])
  then show ?thesis using drainQueueDuringConnect_R [OF y] by (blast intro: R_trans)
qed

text \<open>The connect sequence up to the arming of the timer.\<close>

lemma start_R:
  assumes "xl_startExternalConnectSequence c sc cid a = Inr b"
  obtains x and rc :: int where "R (a\<lparr>xl_insideConnectSequence := True\<rparr>) x"
    and "b = (if rc \<noteq> 0 \<and> \<not> xl_stopped x then xl_armTimer cid x else x)\<lparr>xl_insideConnectSequence := False\<rparr>"
proof -
  obtain ds y rc z where y: "xl_prepare c sc cid a = Inr (ds, y)"
    and z: "xl_connect sc cid ds y = Inr (rc, z)"
    and b: "b = (if rc \<noteq> 0 \<and> \<not> xl_stopped z then xl_armTimer cid z else z)
      \<lparr>xl_insideConnectSequence := False\<rparr>"
    using assms by (auto simp: xl_startExternalConnectSequence_def Let_def bindE_eq_Inr_iff)
  show thesis by (rule that [OF R_trans [OF prepare_R [OF y] connect_R [OF z]] b])
qed

end

section \<open>The relations\<close>

text \<open>The routing.\<close>

definition xl_keeps :: "'c external_client \<Rightarrow> 'c external_client \<Rightarrow> bool" where
  "xl_keeps xl xl' \<longleftrightarrow> xl_externalConnectionMap xl' = xl_externalConnectionMap xl \<and>
     map (env_settings \<circ> fst) (xl_externalConnectionsList xl') =
       map (env_settings \<circ> fst) (xl_externalConnectionsList xl) \<and>
     xl_insideConnectSequence xl' = xl_insideConnectSequence xl \<and>
     (\<forall>cid m. cid < length (xl_externalConnectionsList xl) \<longrightarrow>
        xcn_isModuleSupported m (xl_conn cid xl) \<longrightarrow> xcn_isModuleSupported m (xl_conn cid xl'))"

lemma xl_keeps_refl [simp]: "xl_keeps xl xl"
  by (simp add: xl_keeps_def)

lemma xl_keeps_length: "xl_keeps xl xl' \<Longrightarrow>
    length (xl_externalConnectionsList xl') = length (xl_externalConnectionsList xl)"
  unfolding xl_keeps_def by (metis length_map)

lemma xl_keeps_trans: "xl_keeps a b \<Longrightarrow> xl_keeps b d \<Longrightarrow> xl_keeps a d"
  using xl_keeps_length [of a b] by (auto simp: xl_keeps_def)

text \<open>The fields the relation does not look at.\<close>

lemma xl_keeps_fields [simp]:
  "xl_keeps a (b\<lparr>xl_toExternalQueue := q\<rparr>) = xl_keeps a b"
  "xl_keeps a (b\<lparr>xl_fromExternalQueue := cq\<rparr>) = xl_keeps a b"
  "xl_keeps a (b\<lparr>xl_commandForwardingQueue := q\<rparr>) = xl_keeps a b"
  "xl_keeps a (b\<lparr>xl_reconnectQueue := rq\<rparr>) = xl_keeps a b"
  "xl_keeps a (b\<lparr>xl_library := lib\<rparr>) = xl_keeps a b"
  "xl_keeps a (b\<lparr>xl_timerHandlers := ws\<rparr>) = xl_keeps a b"
  "xl_keeps a (b\<lparr>xl_stopped := s\<rparr>) = xl_keeps a b"
  "xl_keeps (a\<lparr>xl_toExternalQueue := q\<rparr>) b = xl_keeps a b"
  "xl_keeps (a\<lparr>xl_fromExternalQueue := cq\<rparr>) b = xl_keeps a b"
  "xl_keeps (a\<lparr>xl_reconnectQueue := rq\<rparr>) b = xl_keeps a b"
  "xl_keeps (a\<lparr>xl_library := lib\<rparr>) b = xl_keeps a b"
  "xl_keeps (a\<lparr>xl_stopped := s\<rparr>) b = xl_keeps a b"
  by (simp_all add: xl_keeps_def xl_conn_def)

lemma xl_store_keeps:
  assumes "\<And>m. xcn_isModuleSupported m (xl_conn cid xl) \<Longrightarrow> xcn_isModuleSupported m xcn"
  shows "xl_keeps xl (xl_store cid xcn xl)"
proof (cases "cid < length (xl_externalConnectionsList xl)")
  case True
  have "map (env_settings \<circ> fst) ((xl_externalConnectionsList xl)
      [cid := (fst (xl_externalConnectionsList xl ! cid), x)]) =
    map (env_settings \<circ> fst) (xl_externalConnectionsList xl)" for x
    using True by (simp add: map_update list_update_same_conv)
  then show ?thesis
    using assms True
    by (auto simp: xl_keeps_def xl_store_def xl_conn_def xcn_isModuleSupported_def nth_list_update)
qed (simp add: xl_keeps_def xl_store_def xl_conn_def list_update_beyond)

interpretation keeps: loop_relation xl_keeps
  by unfold_locales (auto intro: xl_keeps_trans xl_store_keeps)

text \<open>The outstanding waits on the reconnect timer.\<close>

interpretation timer: loop_relation "\<lambda>a b. xl_timerHandlers b = xl_timerHandlers a"
  by unfold_locales (simp_all add: xl_store_def)

text \<open>Handling one message leaves the queue of statuses alone.\<close>

interpretation queue: client_relation "\<lambda>a b. xl_toExternalQueue b = xl_toExternalQueue a"
  by unfold_locales (simp_all add: xl_store_def)

text \<open>The reconnect queue only grows at its end.\<close>

interpretation reconnects: loop_relation "\<lambda>a b. prefix (xl_reconnectQueue a) (xl_reconnectQueue b)"
  by unfold_locales (auto simp: xl_store_def prefix_def)

section \<open>The rounds\<close>

text \<open>The connect sequence sets the flag and takes it back.\<close>

lemma xl_startExternalConnectSequence_keeps:
  assumes "xl_startExternalConnectSequence c sc cid xl = Inr xl'" and "\<not> xl_insideConnectSequence xl"
  shows "xl_keeps xl xl'"
proof -
  obtain x and rc :: int where "xl_keeps (xl\<lparr>xl_insideConnectSequence := True\<rparr>) x"
    and xl': "xl' = (if rc \<noteq> 0 \<and> \<not> xl_stopped x then xl_armTimer cid x else x)
      \<lparr>xl_insideConnectSequence := False\<rparr>"
    by (rule keeps.start_R [OF assms(1)])
  then show ?thesis
    using assms(2) unfolding xl' by (auto simp: xl_keeps_def xl_armTimer_def xl_conn_def)
qed

lemma xl_handleReconnect_keeps:
  assumes "xl_handleReconnect c sc item xl = Inr xl'" and "\<not> xl_insideConnectSequence xl"
  shows "xl_keeps xl xl'"
proof -
  obtain cid reconnect y where y: "xl_on cid (\<lambda>env. xcn_deinitializeConnection env False) xl = Inr y"
    and rest: "(if reconnect then xl_startExternalConnectSequence c sc cid y
      else Inr (xl_store cid (xcn_setNotInitialized (xl_conn cid y)) y)) = Inr xl'"
    using assms(1) by (cases item) (auto simp: xl_handleReconnect_def bindE_eq_Inr_iff)
  have keep: "xl_keeps xl y" by (rule keeps.on_R [OF deinit.connection_operation_axioms y])
  then have "\<not> xl_insideConnectSequence y" using assms(2) by (simp add: xl_keeps_def)
  then have "xl_keeps y xl'"
    using rest xl_startExternalConnectSequence_keeps [of c sc cid y xl']
      xl_store_keeps [of cid y "xcn_setNotInitialized (xl_conn cid y)"]
    by (auto simp: xcn_setNotInitialized_def xcn_isModuleSupported_def split: if_splits)
  then show ?thesis using keep by (blast intro: xl_keeps_trans)
qed

lemma xl_handleAggregatedMessages_round_keeps:
  assumes "xl_handleAggregatedMessages_round c sc1 sc2 arrived xl = Inr xl'"
    and "\<not> xl_insideConnectSequence xl"
  shows "xl_keeps xl xl'"
proof -
  obtain y where y: "(case xl_reconnectQueue xl of [] \<Rightarrow> Inr xl
        | item # _ \<Rightarrow> bindE (xl_handleReconnect c sc1 item xl) (\<lambda>xl.
            bindE (aq_pop (xl_reconnectQueue xl)) (\<lambda>q. Inr (xl\<lparr>xl_reconnectQueue := q\<rparr>)))) = Inr y"
    and rest: "xl' = y\<lparr>xl_toExternalQueue := xl_toExternalQueue y @ arrived\<rparr> \<or>
      (\<exists>r q. xl_sendStatus (xl_startExternalConnectSequence c sc2) (hd q)
        (y\<lparr>xl_toExternalQueue := tl q\<rparr>) = Inr (r, xl'))"
    using assms(1)
    by (auto simp: xl_handleAggregatedMessages_round_def waitForValueWithTimeout_def Let_def
        bindE_eq_Inr_iff split: if_splits)
  have keep: "xl_keeps xl y"
    using y assms(2) by (auto simp: bindE_eq_Inr_iff split: list.splits intro: xl_handleReconnect_keeps)
  from rest have "xl_keeps y xl'"
  proof (elim disjE exE)
    fix r q
    assume "xl_sendStatus (xl_startExternalConnectSequence c sc2) (hd q)
      (y\<lparr>xl_toExternalQueue := tl q\<rparr>) = Inr (r, xl')"
    then have "xl_keeps (y\<lparr>xl_toExternalQueue := tl q\<rparr>) xl'"
      by (rule keeps.sendStatus_R) (rule xl_startExternalConnectSequence_keeps)
    then show ?thesis by simp
  qed simp
  then show ?thesis using keep by (blast intro: xl_keeps_trans)
qed

text \<open>What a command does: nothing, or one update of its aggregator and perhaps a forward.\<close>

lemma xl_handleCommand_cases:
  assumes "xl_handleCommand c cmd xl = Inr xl'"
  obtains (ignored) "xl' = xl"
    | (updated) h sa hl buffer ret sa' where
        "um_find num_eq (ip_module (cmd_device cmd)) (ml_statusAggregators (xl_library xl)) = Some (h, sa)"
        and "handler_at (ip_module (cmd_device cmd)) (ml_moduleLibraryHandlers (xl_library xl)) = Inr hl"
        and "sa_update_command c h buffer (device_of_ip (cmd_device cmd)) sa = (ret, sa')"
        and "xl' = xl\<lparr>xl_library := xl_library xl\<lparr>ml_statusAggregators :=
              um_modify num_eq (ip_module (cmd_device cmd)) (\<lambda>_. (h, sa'))
                (ml_statusAggregators (xl_library xl))\<rparr>,
            xl_commandForwardingQueue := xl_commandForwardingQueue xl @
              (if ret = OK c \<and> lib_forwardCommandOnReceive hl (ip_devicetype (cmd_device cmd)) = OK c
               then [makeCommandForward (device_of_ip (cmd_device cmd))] else [])\<rparr>"
proof (cases "um_find num_eq (ip_module (cmd_device cmd)) (ml_statusAggregators (xl_library xl))")
  case None
  then show thesis using assms ignored by (simp add: xl_handleCommand_def)
next
  case (Some e)
  obtain h sa where e: "e = (h, sa)" by (cases e)
  show thesis
  proof (cases "cmd_commanddata cmd = []")
    case True
    then show thesis using assms ignored Some e by (simp add: xl_handleCommand_def Let_def)
  next
    case False
    then obtain hl b0 b where hl: "handler_at (ip_module (cmd_device cmd))
        (ml_moduleLibraryHandlers (xl_library xl)) = Inr hl"
      and b: "lib_constructBuffer hl (length (cmd_commanddata cmd)) = Inr b0" "copyCommandToBuffer cmd b0 = Inr b"
      using assms Some e by (auto simp: xl_handleCommand_def Let_def bindE_eq_Inr_iff)
    obtain ret sa' where u: "sa_update_command c h b (device_of_ip (cmd_device cmd)) sa = (ret, sa')"
      by fastforce
    show thesis
      by (rule updated [OF Some [unfolded e] hl u])
        (use assms Some e hl b u False in
          \<open>auto simp: xl_handleCommand_def Let_def pushAndNotify_def split: if_splits\<close>)
  qed
qed

lemma xl_handleCommand_keeps: "xl_handleCommand c cmd xl = Inr xl' \<Longrightarrow> xl_keeps xl xl'"
  by (erule xl_handleCommand_cases) simp_all

lemma xl_handleCommands_round_keeps: "xl_handleCommands_round c arrived xl = Inr xl' \<Longrightarrow> xl_keeps xl xl'"
  by (auto simp: xl_handleCommands_round_def waitForValueWithTimeout_def Let_def bindE_eq_Inr_iff
      split: if_splits dest: xl_handleCommand_keeps)

end
