(* ===== verification/External_Client_Routing.thy ===== *)
theory External_Client_Routing
  imports External_Client_Steps
begin

text \<open>
  The runs of the external client, as steps of its two loops, of the reconnect timer, of the
  receiving threads and of the threads it shares its queues with, and the invariant of the routing.
\<close>

section \<open>The runs\<close>

text \<open>
  Between its own steps the client sees other threads: the module handler changes the library and the
  queues, and the receiving thread, the channel and the response timers change a connection's channel,
  its waiting statuses and its queues.
\<close>

inductive xl_reaches ::
  "error_codes \<Rightarrow> settings \<Rightarrow> 'c channel_factory \<Rightarrow> external_connection_settings list \<Rightarrow> gw_modules \<Rightarrow>
   'c external_client \<Rightarrow> bool"
  for c gw cf endpoints lib where
    start: "xl_initConnections c gw cf endpoints (ExternalClient lib) = Inr xl \<Longrightarrow>
      xl_reaches c gw cf endpoints lib xl"
  | statuses: "xl_reaches c gw cf endpoints lib xl \<Longrightarrow>
      xl_handleAggregatedMessages_round c sc1 sc2 arrived xl = Inr xl' \<Longrightarrow>
      xl_reaches c gw cf endpoints lib xl'"
  | commands: "xl_reaches c gw cf endpoints lib xl \<Longrightarrow> xl_handleCommands_round c arrived xl = Inr xl' \<Longrightarrow>
      xl_reaches c gw cf endpoints lib xl'"
  | timer: "xl_reaches c gw cf endpoints lib xl \<Longrightarrow> xl_reaches c gw cf endpoints lib (xl_timerHandler i xl)"
  | receives: "xl_reaches c gw cf endpoints lib xl \<Longrightarrow>
      xl_on cid (\<lambda>env xcn. bindE (xcn_receive_round env xcn) (\<lambda>(_, xcn). Inr xcn)) xl = Inr xl' \<Longrightarrow>
      xl_reaches c gw cf endpoints lib xl'"
  | connection: "xl_reaches c gw cf endpoints lib xl \<Longrightarrow>
      xl_reaches c gw cf endpoints lib (xl_store cid ((xl_conn cid xl)\<lparr>xcn_channel := ch,
        xcn_sent := sm, xcn_stopReceiving := b, xcn_commandQueue := cq, xcn_reconnectQueue := rq\<rparr>) xl)"
  | others: "xl_reaches c gw cf endpoints lib xl \<Longrightarrow>
      xl_reaches c gw cf endpoints lib (xl\<lparr>xl_library := lib', xl_toExternalQueue := q,
        xl_commandForwardingQueue := fq, xl_stopped := st\<rparr>)"

inductive_cases xl_reaches_cases: "xl_reaches c gw cf endpoints lib xl"

text \<open>The first endpoint of the configuration that names a module.\<close>

fun first_serving :: "int \<Rightarrow> external_connection_settings list \<Rightarrow> nat option" where
  "first_serving m [] = None"
| "first_serving m (e # es) =
     (if m \<in> set (es_modules e) then Some 0 else map_option Suc (first_serving m es))"

lemma first_serving_snoc:
  "first_serving m (es @ [e]) = (case first_serving m es of Some k \<Rightarrow> Some k
     | None \<Rightarrow> if m \<in> set (es_modules e) then Some (length es) else None)"
  by (induction es) (auto split: option.splits)

lemma first_serving_Some:
  "first_serving m es = Some k \<Longrightarrow> k < length es \<and> m \<in> set (es_modules (es ! k))"
  by (induction es arbitrary: k) (auto split: if_splits)

definition routing_ok :: "external_connection_settings list \<Rightarrow> 'c external_client \<Rightarrow> bool" where
  "routing_ok endpoints xl \<longleftrightarrow> \<not> xl_insideConnectSequence xl \<and>
     map (env_settings \<circ> fst) (xl_externalConnectionsList xl) = endpoints \<and>
     (\<forall>m. um_find num_eq m (xl_externalConnectionMap xl) = first_serving m endpoints) \<and>
     (\<forall>cid m. cid < length endpoints \<longrightarrow> m \<in> set (es_modules (endpoints ! cid)) \<longrightarrow>
        xcn_isModuleSupported m (xl_conn cid xl))"

lemma routing_ok_keeps: "routing_ok endpoints xl \<Longrightarrow> xl_keeps xl xl' \<Longrightarrow> routing_ok endpoints xl'"
  by (auto simp: routing_ok_def xl_keeps_def)

lemma routing_ok_inside: "routing_ok endpoints xl \<Longrightarrow> \<not> xl_insideConnectSequence xl"
  by (simp add: routing_ok_def)

text \<open>Creating the connections.\<close>

lemma xcn_init_modules:
  "xcn_isModuleSupported m (snd (xcn_init c ms handlers xcn)) \<longleftrightarrow>
     m \<in> set ms \<or> xcn_isModuleSupported m xcn"
  by (induction c ms handlers xcn rule: xcn_init.induct)
    (auto simp: Let_def xcn_isModuleSupported_def num.contains_put)

lemma find_fold_emplace:
  "um_find num_eq m (fold (\<lambda>k. um_try_emplace num_eq k v) ks mp) =
     (case um_find num_eq m mp of Some x \<Rightarrow> Some x | None \<Rightarrow> if m \<in> set ks then Some v else None)"
  by (induction ks arbitrary: mp)
    (auto simp: num.find_try_emplace um_contains_def split: option.splits)

lemma xl_initConnection_routing:
  assumes "routing_ok endpoints xl"
  shows "routing_ok (endpoints @ [e]) (xl_initConnection c gw ch e xl)"
proof -
  obtain hs xcn where i: "xcn_init c (es_modules e) (ml_moduleLibraryHandlers (xl_library xl))
      (ExternalConnection (snd ch)) = (hs, xcn)" by fastforce
  have len: "length (xl_externalConnectionsList xl) = length endpoints"
    using assms unfolding routing_ok_def by (metis length_map)
  show ?thesis
    using assms xcn_init_modules [of _ c "es_modules e" "ml_moduleLibraryHandlers (xl_library xl)"
        "ExternalConnection (snd ch)"]
    by (auto simp: routing_ok_def xl_initConnection_def i Let_def len find_fold_emplace
        first_serving_snoc xl_conn_def nth_append less_Suc_eq split: option.splits)
qed

lemma xl_initConnections_routing:
  "xl_initConnections c gw cf es xl = Inr xl' \<Longrightarrow> routing_ok endpoints xl \<Longrightarrow>
   routing_ok (endpoints @ es) xl'"
proof (induction c gw cf es xl arbitrary: endpoints rule: xl_initConnections.induct)
  case (2 c gw cf e rest xl)
  then obtain ch where "xl_make_channel cf e = Inr ch"
    "xl_initConnections c gw cf rest (xl_initConnection c gw ch e xl) = Inr xl'"
    by (auto simp: bindE_eq_Inr_iff)
  from "2.IH" [OF this xl_initConnection_routing [OF "2.prems"(2)]] show ?case by simp
qed simp

lemma xl_reaches_routing: "xl_reaches c gw cf endpoints lib xl \<Longrightarrow> routing_ok endpoints xl"
proof (induction rule: xl_reaches.induct)
  case (start xl)
  have "routing_ok [] (ExternalClient lib)" by (simp add: routing_ok_def ExternalClient_def)
  then show ?case using xl_initConnections_routing [OF start] by fastforce
next
  case (statuses xl sc1 sc2 arrived xl')
  then show ?case
    using xl_handleAggregatedMessages_round_keeps routing_ok_inside routing_ok_keeps by blast
next
  case (commands xl arrived xl')
  then show ?case using xl_handleCommands_round_keeps routing_ok_keeps by blast
next
  case (timer xl i)
  have "xl_keeps xl (xl_timerHandler i xl)" by (simp add: xl_timerHandler_def)
  then show ?case using timer routing_ok_keeps by blast
next
  case (receives xl cid xl')
  then show ?case using keeps.on_R [OF receive.connection_operation_axioms] routing_ok_keeps by blast
next
  case (connection xl cid ch sm b cq rq)
  show ?case
    by (rule routing_ok_keeps [OF connection(2) xl_store_keeps]) (simp add: xcn_isModuleSupported_def)
next
  case (others xl lib' q fq st)
  show ?case by (rule routing_ok_keeps [OF others(2)]) simp
qed

text \<open>
  C6: in every run of the external client, whatever the servers, the timer and the other threads do,
  a module is routed to the first endpoint of the configuration that names it, and to no other; the
  connection it is routed to has an error aggregator for it; the connections keep the settings they
  were created with; and between two rounds no connect sequence is under way.
\<close>

theorem routing_wired:
  assumes "xl_reaches c gw cf endpoints lib xl"
  shows "um_find (=) m (xl_externalConnectionMap xl) = first_serving m endpoints \<and>
    (\<forall>cid. first_serving m endpoints = Some cid \<longrightarrow>
       cid < length (xl_externalConnectionsList xl) \<and>
       m \<in> set (es_modules (env_settings (xl_env cid xl))) \<and> xcn_isModuleSupported m (xl_conn cid xl)) \<and>
    \<not> xl_insideConnectSequence xl"
proof -
  have r: "routing_ok endpoints xl" by (rule xl_reaches_routing [OF assms])
  then have len: "length (xl_externalConnectionsList xl) = length endpoints"
    unfolding routing_ok_def by (metis length_map)
  have serving: "cid < length (xl_externalConnectionsList xl) \<and>
      m \<in> set (es_modules (env_settings (xl_env cid xl))) \<and> xcn_isModuleSupported m (xl_conn cid xl)"
    if "first_serving m endpoints = Some cid" for cid
  proof -
    have cid: "cid < length endpoints" "m \<in> set (es_modules (endpoints ! cid))"
      using first_serving_Some [OF that] by simp_all
    have "map (env_settings \<circ> fst) (xl_externalConnectionsList xl) ! cid = endpoints ! cid"
      using r by (simp only: routing_ok_def)
    then have "env_settings (xl_env cid xl) = endpoints ! cid"
      using cid(1) len by (simp add: xl_env_def)
    moreover have "xcn_isModuleSupported m (xl_conn cid xl)"
      using r cid by (simp only: routing_ok_def)
    ultimately show ?thesis using cid len by simp
  qed
  show ?thesis
    using r serving unfolding routing_ok_def by blast
qed

end
