(* ===== verification/External_Client_Connect.thy ===== *)
theory External_Client_Connect
  imports External_Client_Routing
begin

text \<open>
  What the connect sequence of the external client does with the statuses that wait on its queue, with
  the forced statuses, and with the reconnect timer and the reconnect queue.
\<close>

section \<open>The waiting statuses\<close>

interpretation environment: client_relation "\<lambda>(a :: 'c external_client) b. \<forall>cid. xl_env cid b = xl_env cid a"
proof unfold_locales
  fix cid xcn and a :: "'c external_client"
  have "fst ((xl_externalConnectionsList a)[cid := (fst (xl_externalConnectionsList a ! cid), x)] ! k) =
      fst (xl_externalConnectionsList a ! k)" for x k
    by (cases "cid < length (xl_externalConnectionsList a)"; cases "k = cid")
      (simp_all add: list_update_beyond)
  then show "\<forall>k. xl_env k (xl_store cid xcn a) = xl_env k a"
    by (simp add: xl_env_def xl_store_def)
qed simp_all

fun xcn_fill_all ::
  "'c connection_env \<Rightarrow> device_status list \<Rightarrow> 'c external_connection \<Rightarrow> exn + 'c external_connection" where
  "xcn_fill_all env [] xcn = Inr xcn"
| "xcn_fill_all env (s # ss) xcn = bindE (xcn_fillErrorAggregator env s xcn) (xcn_fill_all env ss)"

text \<open>A connection as the client keeps it: what it pushed on the shared queues has been taken.\<close>

definition xcn_drained :: "'c external_connection \<Rightarrow> bool" where
  "xcn_drained xcn \<longleftrightarrow> xcn_commandQueue xcn = [] \<and> xcn_reconnectQueue xcn = []"

lemma xcn_fill_loop_queues:
  "xcn_fillErrorAggregator env s xcn = Inr xcn' \<Longrightarrow> xcn_drained xcn' = xcn_drained xcn"
  by (auto simp: xcn_fillErrorAggregator_def xcn_fillErrorAggregatorWithNotAckedStatusesImpl_def Let_def
      bindE_eq_Inr_iff xcn_drained_def split: if_splits)

lemma xl_conn_store:
  "cid < length (xl_externalConnectionsList xl) \<Longrightarrow> xcn_drained xcn \<Longrightarrow> xl_conn cid (xl_store cid xcn xl) = xcn"
  by (simp add: xl_conn_def xl_store_def xcn_drained_def)

lemma xl_conn_store_other: "k \<noteq> cid \<Longrightarrow> xl_conn k (xl_store cid xcn xl) = xl_conn k xl"
  by (simp add: xl_conn_def xl_store_def)

definition map_serves :: "'c external_client \<Rightarrow> bool" where
  "map_serves xl \<longleftrightarrow> (\<forall>m cid. um_find num_eq m (xl_externalConnectionMap xl) = Some cid \<longrightarrow>
     cid < length (xl_externalConnectionsList xl) \<and> xcn_isModuleSupported m (xl_conn cid xl))"

lemma map_serves_keeps: "map_serves xl \<Longrightarrow> xl_keeps xl xl' \<Longrightarrow> map_serves xl'"
  using xl_keeps_length [of xl xl'] by (auto simp: map_serves_def xl_keeps_def)

lemma routing_ok_serves:
  assumes "routing_ok endpoints xl"
  shows "map_serves xl"
proof -
  have "length (xl_externalConnectionsList xl) = length endpoints"
    using assms unfolding routing_ok_def by (metis length_map)
  then show ?thesis
    using assms first_serving_Some unfolding routing_ok_def map_serves_def by metis
qed

text \<open>A message of another connection does not touch this one.\<close>

lemma xl_send_other:
  assumes "xl_sendStatus xl_no_start m xl = Inr (r, xl')" and "map_serves xl"
    and "\<not> xcn_isModuleSupported (message_module m) (xl_conn cid xl)"
  shows "xl_conn cid xl' = xl_conn cid xl"
proof (cases "um_find num_eq (message_module m) (xl_externalConnectionMap xl)")
  case None
  then show ?thesis using assms(1) by (simp add: xl_sendStatus_def)
next
  case (Some k)
  then have "cid \<noteq> k" using assms(2,3) by (auto simp: map_serves_def)
  then have "xl_conn cid y = xl_conn cid xl" if "xl_on k f xl = Inr y" for f y
    using that by (auto simp: xl_on_def bindE_eq_Inr_iff xl_conn_store_other)
  then show ?thesis
    using assms(1) Some
    by (auto simp: xl_sendStatus_def xl_no_start_def Let_def bindE_eq_Inr_iff split: if_splits)
qed

abbreviation own_statuses :: "nat \<Rightarrow> 'c external_client \<Rightarrow> internal_client_message list \<Rightarrow> device_status list" where
  "own_statuses cid xl ms \<equiv> map (\<lambda>m. devicestatus (icm_message m))
     (filter (\<lambda>m. xcn_isModuleSupported (message_module m) (xl_conn cid xl)) ms)"

lemma xl_feed_own:
  assumes "xl_feed cid m xl = Inr xl'" and "map_serves xl" and "cid < length (xl_externalConnectionsList xl)"
    and "xcn_drained (xl_conn cid xl)"
  shows "xcn_fill_all (xl_env cid xl) (own_statuses cid xl [m]) (xl_conn cid xl) = Inr (xl_conn cid xl')"
    and "xcn_drained (xl_conn cid xl')"
    and "xcn_isModuleSupported k (xl_conn cid xl') = xcn_isModuleSupported k (xl_conn cid xl)"
proof -
  show fill: "xcn_fill_all (xl_env cid xl) (own_statuses cid xl [m]) (xl_conn cid xl) = Inr (xl_conn cid xl')"
    using assms
    by (auto simp: xl_feed_def xl_on_def bindE_eq_Inr_iff xl_conn_store xcn_fill_loop_queues xl_send_other
        split: if_splits)
  then show "xcn_drained (xl_conn cid xl')"
    "xcn_isModuleSupported k (xl_conn cid xl') = xcn_isModuleSupported k (xl_conn cid xl)"
    using assms(4) by (auto simp: bindE_eq_Inr_iff xcn_fill_loop_queues xcn_fill_modules split: if_splits)
qed

lemma xl_drainQueue_own:
  assumes "xl_drainQueue cid q xl = Inr xl'" and "map_serves xl" and "cid < length (xl_externalConnectionsList xl)"
    and "xcn_drained (xl_conn cid xl)"
  shows "xl_toExternalQueue xl' = dropWhile (\<lambda>m. \<not> icm_disconnect m) q \<and>
    xcn_fill_all (xl_env cid xl) (own_statuses cid xl (takeWhile (\<lambda>m. \<not> icm_disconnect m) q))
      (xl_conn cid xl) = Inr (xl_conn cid xl')"
  using assms
proof (induction q arbitrary: xl)
  case Nil
  then show ?case by (auto simp: xl_conn_def)
next
  case (Cons m ms)
  show ?case
  proof (cases "icm_disconnect m")
    case True
    then show ?thesis using Cons.prems(1) by (auto simp: xl_conn_def)
  next
    case False
    let ?x = "xl\<lparr>xl_toExternalQueue := ms\<rparr>"
    obtain y where y: "xl_feed cid m ?x = Inr y" "xl_drainQueue cid ms y = Inr xl'"
      using Cons.prems(1) False by (auto simp: bindE_eq_Inr_iff)
    have x: "xl_conn k ?x = xl_conn k xl" "xl_env k ?x = xl_env k xl"
      "xl_externalConnectionsList ?x = xl_externalConnectionsList xl" for k
      by (simp_all add: xl_conn_def xl_env_def)
    have keep: "xl_keeps xl y" using keeps.feed_R [OF y(1)] by simp
    have "map_serves ?x" using Cons.prems(2) by (simp add: map_serves_def x)
    note own = xl_feed_own [OF y(1) this, unfolded x, OF Cons.prems(3,4)]
    have "xl_env cid y = xl_env cid xl" using environment.feed_R [OF y(1)] x(2) by simp
    then have "xl_toExternalQueue xl' = dropWhile (\<lambda>m. \<not> icm_disconnect m) ms \<and>
        xcn_fill_all (xl_env cid xl) (own_statuses cid xl (takeWhile (\<lambda>m. \<not> icm_disconnect m) ms))
          (xl_conn cid y) = Inr (xl_conn cid xl')"
      using Cons.IH [OF y(2) map_serves_keeps [OF Cons.prems(2) keep] _ own(2)] Cons.prems(3)
        xl_keeps_length [OF keep] own(3) by simp
    then show ?thesis
      using own(1) False by (auto simp: bindE_eq_Inr_iff split: if_splits)
  qed
qed

text \<open>
  Before a connection is opened, the statuses waiting on the client's queue are taken off in order,
  up to the first disconnect, which stays in front. All those of the connection's own modules, and only
  those, go to its error aggregators, in the order of the queue; what the statuses of the other
  connections do does not touch it.
\<close>

lemma waiting_statuses_collected:
  assumes "xl_reaches c gw cf endpoints lib xl" and "cid < length endpoints"
    and "xcn_drained (xl_conn cid xl)"
    and "xl_drainQueue cid (xl_toExternalQueue xl) (xl\<lparr>xl_insideConnectSequence := True\<rparr>) = Inr xl'"
  shows "xl_toExternalQueue xl' = dropWhile (\<lambda>m. \<not> icm_disconnect m) (xl_toExternalQueue xl) \<and>
    xcn_fill_all (xl_env cid xl)
      (own_statuses cid xl (takeWhile (\<lambda>m. \<not> icm_disconnect m) (xl_toExternalQueue xl)))
      (xl_conn cid xl) = Inr (xl_conn cid xl')"
proof -
  let ?x = "xl\<lparr>xl_insideConnectSequence := True\<rparr>"
  have x: "xl_conn k ?x = xl_conn k xl" "xl_env k ?x = xl_env k xl"
    "xl_externalConnectionsList ?x = xl_externalConnectionsList xl"
    "xl_externalConnectionMap ?x = xl_externalConnectionMap xl" for k
    by (simp_all add: xl_conn_def xl_env_def)
  have r: "routing_ok endpoints xl" by (rule xl_reaches_routing [OF assms(1)])
  then have len: "cid < length (xl_externalConnectionsList xl)"
    using assms(2) unfolding routing_ok_def by (metis length_map)
  have "map_serves ?x" using routing_ok_serves [OF r] by (simp add: map_serves_def x)
  from xl_drainQueue_own [OF assms(4) this, unfolded x, OF len assms(3)] show ?thesis .
qed

section \<open>The forced statuses\<close>

lemma xcn_fill_connectedDevices:
  "xcn_fillErrorAggregator env s xcn = Inr xcn' \<Longrightarrow>
   sm_connectedDevices (xcn_sent xcn') = sm_connectedDevices (xcn_sent xcn)"
  by (auto simp: xcn_fillErrorAggregator_def xcn_fillErrorAggregatorWithNotAckedStatusesImpl_def Let_def
      bindE_eq_Inr_iff sm_clearAll_def sm_clearAllTimers_def split: if_splits)

lemma xl_on_fill_conn:
  assumes "xl_on cid (\<lambda>env. xcn_fillErrorAggregator env s) xl = Inr xl'"
    and "cid < length (xl_externalConnectionsList xl)"
  shows "sm_connectedDevices (xcn_sent (xl_conn cid xl')) = sm_connectedDevices (xcn_sent (xl_conn cid xl))"
    and "xcn_isModuleSupported m (xl_conn cid xl') = xcn_isModuleSupported m (xl_conn cid xl)"
proof -
  obtain xcn where xcn: "xcn_fillErrorAggregator (xl_env cid xl) s (xl_conn cid xl) = Inr xcn"
    and xl': "xl' = xl_store cid xcn xl"
    using assms(1) by (auto simp: xl_on_def bindE_eq_Inr_iff)
  have conn: "xl_conn cid xl' = xcn\<lparr>xcn_commandQueue := [], xcn_reconnectQueue := []\<rparr>"
    using assms(2) by (simp add: xl' xl_conn_def xl_store_def)
  then show "sm_connectedDevices (xcn_sent (xl_conn cid xl')) = sm_connectedDevices (xcn_sent (xl_conn cid xl))"
    using xcn_fill_connectedDevices [OF xcn] by simp
  show "xcn_isModuleSupported m (xl_conn cid xl') = xcn_isModuleSupported m (xl_conn cid xl)"
    using xcn_fill_modules [OF xcn, of m] unfolding conn by (simp add: xcn_isModuleSupported_def)
qed

text \<open>
  C31: a disconnect that the module handler sends for a device whose forced status the connect sequence
  waits for is taken for that status: it has the effect of an ordinary status, it is not left on the
  queue, and the device stays a connected device of the connection.
\<close>

theorem forced_disconnect_swallowed:
  assumes "xl_forced_message cid m forcedDevices xl = Inr (forcedDevices', xl')" and "icm_disconnect m"
    and "xcn_isModuleSupported (message_module m) (xl_conn cid xl)"
    and "list_ex (\<lambda>d. device_eq d (device_of_ip (st_device (devicestatus (icm_message m))))) forcedDevices"
    and "cid < length (xl_externalConnectionsList xl)"
  shows "xl_forced_message cid (m\<lparr>icm_disconnect := False\<rparr>) forcedDevices xl = Inr (forcedDevices', xl') \<and>
    xl_toExternalQueue xl' = xl_toExternalQueue xl \<and>
    sm_connectedDevices (xcn_sent (xl_conn cid xl')) = sm_connectedDevices (xcn_sent (xl_conn cid xl))"
proof -
  have same: "xl_forced_message cid (m\<lparr>icm_disconnect := False\<rparr>) forcedDevices xl =
      xl_forced_message cid m forcedDevices xl"
    using assms(3,4) by (simp add: xl_forced_message_def Let_def)
  have on: "xl_on cid (\<lambda>env. xcn_fillErrorAggregator env (devicestatus (icm_message m))) xl = Inr xl'"
    using assms(1,3,4) by (auto simp: xl_forced_message_def Let_def bindE_eq_Inr_iff)
  show ?thesis
    using same assms(1) queue.on_fill [OF on] xl_on_fill_conn(1) [OF on assms(5)] by simp
qed

text \<open>Statuses nobody forced go to the end of the queue, one after the other.\<close>

lemma xl_forcedLoop_rotates:
  assumes "\<forall>m \<in> set ms. xcn_isModuleSupported (message_module m) (xl_conn cid xl) \<and>
      \<not> list_ex (\<lambda>d. device_eq d (device_of_ip (st_device (devicestatus (icm_message m))))) ds"
    and "ds \<noteq> []" and "\<not> xl_stopped xl"
  shows "xl_forcedLoop cid (replicate (length ms) [] @ rounds) ds (xl\<lparr>xl_toExternalQueue := ms @ ns\<rparr>) =
    xl_forcedLoop cid rounds ds (xl\<lparr>xl_toExternalQueue := ns @ ms\<rparr>)"
  using assms
proof (induction ms arbitrary: ns)
  case (Cons m ms)
  obtain d ds' where ds: "ds = d # ds'" using assms(2) by (cases ds) auto
  have "xl_forced_message cid m ds (xl\<lparr>xl_toExternalQueue := ms @ ns\<rparr>) =
      Inr (ds, xl\<lparr>xl_toExternalQueue := ms @ (ns @ [m])\<rparr>)"
    using Cons.prems(1) by (simp add: xl_forced_message_def Let_def pushAndNotify_def xl_conn_def)
  then have "xl_forcedLoop cid (replicate (length (m # ms)) [] @ rounds) ds
        (xl\<lparr>xl_toExternalQueue := (m # ms) @ ns\<rparr>) =
      xl_forcedLoop cid (replicate (length ms) [] @ rounds) ds (xl\<lparr>xl_toExternalQueue := ms @ (ns @ [m])\<rparr>)"
    using Cons.prems(3) by (simp add: ds waitForValueWithTimeout_def)
  also have "\<dots> = xl_forcedLoop cid rounds ds (xl\<lparr>xl_toExternalQueue := (ns @ [m]) @ ms\<rparr>)"
    by (rule Cons.IH) (use Cons.prems in simp_all)
  finally show ?case by simp
qed simp

text \<open>
  C30: while the connect sequence waits for the forced status \<open>f\<close> of one device, the statuses in front
  of it are put behind those that follow it: afterwards the queue holds the later statuses \<open>ns\<close> before
  the earlier ones \<open>ms\<close>, those of one and the same device included.
\<close>

theorem forced_wait_rotates_queue:
  assumes "xl_toExternalQueue xl = ms @ f # ns" and "\<not> xl_stopped xl"
    and "\<forall>m \<in> set (f # ms). xcn_isModuleSupported (message_module m) (xl_conn cid xl)"
    and "\<forall>m \<in> set ms. \<not> device_eq d (device_of_ip (st_device (devicestatus (icm_message m))))"
    and "device_eq d (device_of_ip (st_device (devicestatus (icm_message f))))"
    and "xl_forcedLoop cid (replicate (Suc (length ms)) []) [d] xl = Inr xl'"
  shows "xl_toExternalQueue xl' = ns @ ms"
proof -
  let ?x = "xl\<lparr>xl_toExternalQueue := (f # ns) @ ms\<rparr>"
  let ?y = "xl\<lparr>xl_toExternalQueue := ns @ ms\<rparr>"
  have "xl\<lparr>xl_toExternalQueue := ms @ (f # ns)\<rparr> = xl" using assms(1) by simp
  then have "xl_forcedLoop cid (replicate (length ms) [] @ [[]]) [d] xl = xl_forcedLoop cid [[]] [d] ?x"
    using xl_forcedLoop_rotates [of ms cid xl "[d]" "[[]]" "f # ns"] assms(2-4) by simp
  then have "xl_forcedLoop cid [[]] [d] ?x = Inr xl'"
    using assms(6) by (simp add: replicate_append_same)
  moreover have "xl_forced_message cid f [d] ?y = bindE (xl_on cid (\<lambda>env. xcn_fillErrorAggregator env
      (devicestatus (icm_message f))) ?y) (\<lambda>xl. Inr ([], xl))"
    using assms(3,5) by (simp add: xl_forced_message_def Let_def xl_conn_def)
  ultimately have "xl_on cid (\<lambda>env. xcn_fillErrorAggregator env (devicestatus (icm_message f))) ?y = Inr xl'"
    using assms(2) by (auto simp: waitForValueWithTimeout_def bindE_eq_Inr_iff)
  then show ?thesis using queue.on_fill by fastforce
qed

section \<open>The reconnect timer and queue\<close>


lemma xl_handleReconnect_prefix:
  assumes "xl_handleReconnect c sc item xl = Inr xl'"
  shows "prefix (xl_reconnectQueue xl) (xl_reconnectQueue xl')"
proof -
  obtain cid reconnect y where y: "xl_on cid (\<lambda>env. xcn_deinitializeConnection env False) xl = Inr y"
    and rest: "(if reconnect then xl_startExternalConnectSequence c sc cid y
      else Inr (xl_store cid (xcn_setNotInitialized (xl_conn cid y)) y)) = Inr xl'"
    using assms by (cases item) (auto simp: xl_handleReconnect_def bindE_eq_Inr_iff)
  have "prefix (xl_reconnectQueue xl) (xl_reconnectQueue y)"
    by (rule reconnects.on_R [OF deinit.connection_operation_axioms y])
  moreover have "prefix (xl_reconnectQueue y) (xl_reconnectQueue xl')"
  proof (cases reconnect)
    case True
    then obtain x and rc :: int where
      "prefix (xl_reconnectQueue (y\<lparr>xl_insideConnectSequence := True\<rparr>)) (xl_reconnectQueue x)"
      "xl' = (if rc \<noteq> 0 \<and> \<not> xl_stopped x then xl_armTimer cid x else x)\<lparr>xl_insideConnectSequence := False\<rparr>"
      using rest reconnects.start_R [of c sc cid y xl'] by auto
    then show ?thesis by (auto simp: xl_armTimer_def split: if_splits)
  next
    case False
    then show ?thesis using rest by (auto simp: xl_store_def prefix_def)
  qed
  ultimately show ?thesis by (rule prefix_order.trans)
qed

text \<open>
  A round of the loop handles the oldest reconnect item, and that item is the one it takes off the
  queue: whatever the connect sequence and the other threads push meanwhile stays behind the rest.
\<close>

lemma reconnect_item_consumed:
  assumes "xl_reconnectQueue xl = item # rest"
    and "xl_handleAggregatedMessages_round c sc1 sc2 arrived xl = Inr xl'"
  shows "\<exists>y new. xl_handleReconnect c sc1 item xl = Inr y \<and> xl_reconnectQueue xl' = rest @ new"
proof -
  obtain y q where y: "xl_handleReconnect c sc1 item xl = Inr y"
    and q: "aq_pop (xl_reconnectQueue y) = Inr q"
    and last: "xl' = y\<lparr>xl_reconnectQueue := q, xl_toExternalQueue := xl_toExternalQueue y @ arrived\<rparr> \<or>
      (\<exists>r qs. xl_sendStatus (xl_startExternalConnectSequence c sc2) (hd qs)
        (y\<lparr>xl_reconnectQueue := q, xl_toExternalQueue := tl qs\<rparr>) = Inr (r, xl'))"
    using assms
    by (auto simp: xl_handleAggregatedMessages_round_def waitForValueWithTimeout_def Let_def
        bindE_eq_Inr_iff split: if_splits)
  have "prefix (item # rest) (xl_reconnectQueue y)"
    using xl_handleReconnect_prefix [OF y] assms(1) by simp
  then obtain new where new: "q = rest @ new" using q by (auto simp: prefix_def)
  have "prefix (xl_reconnectQueue a) (xl_reconnectQueue b)"
    if run: "xl_startExternalConnectSequence c sc2 cid a = Inr b" for cid and a b :: "'a external_client"
  proof -
    obtain x and rc :: int where
      "prefix (xl_reconnectQueue (a\<lparr>xl_insideConnectSequence := True\<rparr>)) (xl_reconnectQueue x)"
      "b = (if rc \<noteq> 0 \<and> \<not> xl_stopped x then xl_armTimer cid x else x)\<lparr>xl_insideConnectSequence := False\<rparr>"
      by (rule reconnects.start_R [OF run])
    then show ?thesis by (auto simp: xl_armTimer_def split: if_splits)
  qed
  then have "prefix q (xl_reconnectQueue xl')"
    using last reconnects.sendStatus_R by (elim disjE exE) fastforce+
  then show ?thesis using y new by (auto simp: prefix_def)
qed

end
