(* ===== verification/External_Connection_Samples.thy ===== *)
theory External_Connection_Samples
  imports External_Connection_Laws
begin

text \<open>
  Concrete connections on which the properties of \<open>External_Connection_Laws\<close> are applied: the
  sample module behind a dummy channel, and behind a channel that plays a fixed script of server
  messages.
\<close>

section \<open>The scripted channel\<close>

definition script_channel :: "external_server_msg list channel" where
  "script_channel =
     \<lparr>ch_initializeConnection = (\<lambda>s. (Inr (), s)),
      ch_sendMessage = (\<lambda>_ s. (True, s)),
      ch_receiveMessage = (\<lambda>s. case s of [] \<Rightarrow> (None, []) | m # s \<Rightarrow> (Some m, s)),
      ch_closeConnection = (\<lambda>s. s),
      ch_cancelReceive = (\<lambda>s. s),
      ch_consumeServerDisconnectNotification = (\<lambda>s. (False, s))\<rparr>"

definition sample_env :: "'c channel \<Rightarrow> 'c connection_env" where
  "sample_env ch =
     \<lparr>env_codes = sample_codes, env_channel = ch, env_settings = sample_endpoint,
      env_company = ''bringauto'', env_vehicleName = ''virtual'',
      env_handlers = [(7, Some sample_handler)]\<rparr>"

lemma sample_env_simps [simp]:
  "env_codes (sample_env ch) = sample_codes"
  "env_channel (sample_env ch) = ch"
  "env_handlers (sample_env ch) = [(7, Some sample_handler)]"
  by (simp_all add: sample_env_def)

definition sample_connection :: "'c \<Rightarrow> 'c external_connection" where
  "sample_connection channel = (ExternalConnection channel)\<lparr>xcn_sessionId := ''session1'',
     xcn_errorAggregators := [(7, \<lparr>ea_module = Some sample_handler, ea_devices = []\<rparr>)]\<rparr>"

lemma sample_connection_init:
  "sample_connection channel =
     (snd (xcn_init sample_codes [7] [(7, Some sample_handler)] (ExternalConnection channel)))
       \<lparr>xcn_sessionId := ''session1''\<rparr>"
  by (simp add: sample_connection_def ExternalConnection_def ea_init_error_aggregator_def
      ErrorAggregator_def um_try_emplace_def Let_def)

lemma sample_connection_simps [simp]:
  "xcn_errorAggregators (sample_connection ch) =
     [(7, \<lparr>ea_module = Some sample_handler, ea_devices = []\<rparr>)]"
  "xcn_sent (sample_connection ch) = SentMessagesHandler"
  "xcn_clientMessageCounter (sample_connection ch) = 0"
  "xcn_serverMessageCounter (sample_connection ch) = 0"
  "xcn_sessionId (sample_connection ch) = ''session1''"
  "xcn_channel (sample_connection ch) = ch"
  "xcn_state (sample_connection ch) = St_NOT_INITIALIZED"
  by (simp_all add: sample_connection_def ExternalConnection_def)

definition sample_device_status :: "bytes \<Rightarrow> device_status" where
  "sample_device_status bs =
     \<lparr>st_device = convertToIPDevice \<lparr>di_module = 7, di_deviceType = 2, di_deviceRole = ''lock'',
        di_deviceName = ''Lock'', di_priority = 1\<rparr>, st_statusdata = bs\<rparr>"

lemma sample_device_status_simps [simp]:
  "ip_module (st_device (sample_device_status bs)) = 7"
  "ip_devicetype (st_device (sample_device_status bs)) = 2"
  "st_statusdata (sample_device_status bs) = bs"
  by (simp_all add: sample_device_status_def)

lemma sample_status_to_buffer [simp]:
  "status_to_buffer sample_handler (sample_device_status [b]) = Inr (sample_buffer [b])"
  by (simp add: status_to_buffer_def sample_handler_simps copyStatusToBuffer_def memcpy_to_def
      isEmpty_def sample_buffer_def isAllocated_def)

section \<open>Sending\<close>

definition sample_sent_connection :: "u8 \<Rightarrow> ext_device_state \<Rightarrow> bool external_connection" where
  "sample_sent_connection b ds = (sample_connection True)\<lparr>
     xcn_clientMessageCounter := 1,
     xcn_errorAggregators := [(7, \<lparr>ea_module = Some sample_handler, ea_devices =
       [(device_of_ip (st_device (sample_device_status [b])),
         \<lparr>ea_errorMessage = sample_buffer [b], ea_lastStatus = sample_buffer [b]\<rparr>)]\<rparr>)],
     xcn_sent := \<lparr>sm_notAckedStatuses = [na_startTimer (NotAckedStatus
         (createExternalClientStatus ''session1'' CONNECTING 1 (sample_device_status [b]) empty_buffer))],
       sm_connectedDevices = [device_of_ip (st_device (sample_device_status [b]))],
       sm_responseHandled = False\<rparr>\<rparr>"

lemma sample_send:
  "xcn_sendStatus (sample_env dummy_channel) (sample_device_status [b]) RUNNING empty_buffer
     (sample_connection True) = Inr (sample_sent_connection b RUNNING)"
  by (simp add: xcn_sendStatus_def xcn_register_device_def handler_at_def um_at_def deref_def
      ea_get_last_status_def ea_add_status_to_error_aggregator_def ea_is_device_type_supported_def
      ea_aggregateError_def sample_handler_simps um_try_emplace_def um_contains_def
      empty_error_state_def xcn_transmit_def xcn_device_state_def sm_addDeviceAsConnected_def
      xcn_getNextStatusCounter_def Let_def xcn_channel_send_eq dummy_channel_def dummy_sendMessage_def
      sm_addNotAckedStatus_def SentMessagesHandler_def sample_sent_connection_def)

theorem sent_status_shape_witness:
  "xcn_clientMessageCounter (sample_sent_connection 5 RUNNING) = 1 \<and>
   connected_count (device_of_ip (st_device (sample_device_status [5])))
     (xcn_sent (sample_sent_connection 5 RUNNING)) = 1"
  using sent_status_shape [OF _ _ refl refl _ sample_send,
      of 5 "device_of_ip (st_device (sample_device_status [5]))"]
  by (simp add: sample_codes_ok xcn_isModuleSupported_def dummy_channel_def dummy_sendMessage_def
      told_state_def xcn_registered_def connected_count_def SentMessagesHandler_def)

section \<open>Commands\<close>

definition sample_command :: "u32 \<Rightarrow> ext_command" where
  "sample_command k = \<lparr>xc_sessionid = ''session1'', xc_messagecounter = k,
     xc_devicecommand = \<lparr>cmd_device = st_device (sample_device_status []), cmd_commanddata = [1]\<rparr>\<rparr>"

lemma sample_command_simps [simp]:
  "xc_sessionid (sample_command k) = ''session1''"
  "xc_messagecounter (sample_command k) = k"
  "cmd_device (xc_devicecommand (sample_command k)) = st_device (sample_device_status [])"
  by (simp_all add: sample_command_def)



section \<open>Disconnecting and connecting\<close>

lemma sample_copying_handler: "copying_handler sample_codes sample_handler"
  unfolding sample_handler_def
  by (rule local_copying_handler) (simp add: allocate_ok_def sample_module_def)

lemma sample_disconnect:
  "\<exists>xcn'. xcn_deinitializeConnection (sample_env dummy_channel) False
     (sample_sent_connection b RUNNING) = Inr xcn'"
  by (simp add: xcn_deinitializeConnection_def xcn_fillErrorAggregatorWithNotAckedStatuses_def
      xcn_fillErrorAggregatorWithNotAckedStatusesImpl_def sample_sent_connection_def
      sm_clearAllTimers_def na_startTimer_def na_cancelTimer_def NotAckedStatus_def
      na_getDevice_def xcn_status_buffer_def handler_at_def um_at_def deref_def Let_def
      ea_add_status_to_error_aggregator_def ea_is_device_type_supported_def ea_aggregateError_def
      sample_handler_simps createExternalClientStatus_def um_contains_def)

theorem undelivered_statuses_kept_witness:
  "\<exists>xcn' ea' b. xcn_deinitializeConnection (sample_env dummy_channel) False
       (sample_sent_connection 5 RUNNING) = Inr xcn' \<and>
     um_find (=) 7 (xcn_errorAggregators xcn') = Some ea' \<and> raw_bytes b = [5] \<and>
     ea_get_last_status sample_codes empty_buffer
       (device_of_ip (st_device (sample_device_status [5]))) ea' = (0, b)"
proof -
  let ?d = "device_of_ip (st_device (sample_device_status [5]))"
  obtain xcn' where x: "xcn_deinitializeConnection (sample_env dummy_channel) False
     (sample_sent_connection 5 RUNNING) = Inr xcn'" using sample_disconnect by blast
  have na: "sm_notAckedStatuses (xcn_sent (sample_sent_connection 5 RUNNING)) =
      [na_startTimer (NotAckedStatus (createExternalClientStatus ''session1'' CONNECTING 1
         (sample_device_status [5]) empty_buffer))]"
    by (simp add: sample_sent_connection_def)
  obtain ea where ea: "um_find (=) (di_module ?d)
      (xcn_errorAggregators (sample_sent_connection 5 RUNNING)) = Some ea"
    "ea_module ea = Some sample_handler"
    by (simp add: sample_sent_connection_def)
  have und: "undelivered ?d (sm_notAckedStatuses (xcn_sent (sample_sent_connection 5 RUNNING))) =
      [sample_device_status [5]]"
    by (simp add: na undelivered_def na_getDevice_def na_startTimer_def NotAckedStatus_def
        createExternalClientStatus_def)
  have "types_supported sample_codes sample_handler (di_module ?d)
      (sm_notAckedStatuses (xcn_sent (sample_sent_connection 5 RUNNING)))"
    by (simp add: na types_supported_def na_getDevice_def na_startTimer_def NotAckedStatus_def
        createExternalClientStatus_def sample_handler_simps)
  with undelivered_statuses_kept [OF x ea, of empty_buffer] x show ?thesis
    by (auto simp: und sample_copying_handler)
qed

definition sample_connect_response :: external_server_msg where
  "sample_connect_response =
     ES_ConnectResponse \<lparr>xcr_sessionid = ''00000000'', xcr_type = XCR_OK\<rparr>"


text \<open>Sending a status of the sample device over the scripted channel always succeeds.\<close>

definition sample_module_present :: "'c external_connection \<Rightarrow> bool" where
  "sample_module_present xcn \<longleftrightarrow>
     (\<exists>ea. um_find num_eq 7 (xcn_errorAggregators xcn) = Some ea \<and> ea_module ea = Some sample_handler)"

lemma sample_register:
  assumes "ea_module ea = Some sample_handler"
  shows "\<exists>ds' ea'. xcn_register_device (sample_env ch) (sample_device_status [b]) ds ea = Inr (ds', ea') \<and>
    ea_module ea' = Some sample_handler"
  using assms
  by (auto simp: xcn_register_device_def handler_at_def um_at_def deref_def Let_def
      ea_add_status_to_error_aggregator_def ea_is_device_type_supported_def ea_aggregateError_def
      sample_handler_simps)

lemma sample_send_present:
  assumes "sample_module_present xcn"
  shows "\<exists>xcn'. xcn_sendStatus (sample_env script_channel) (sample_device_status [b]) ds empty_buffer xcn =
      Inr xcn' \<and> sample_module_present xcn'"
proof -
  obtain ea where ea: "um_find num_eq 7 (xcn_errorAggregators xcn) = Some ea"
    "ea_module ea = Some sample_handler"
    using assms by (auto simp: sample_module_present_def)
  obtain ds' ea' where reg: "xcn_register_device (sample_env script_channel) (sample_device_status [b]) ds ea =
      Inr (ds', ea')" "ea_module ea' = Some sample_handler"
    using sample_register [OF ea(2)] by blast
  obtain ds2 sm where sw: "xcn_device_state (device_of_ip (st_device (sample_device_status [b]))) ds'
      (xcn_sent xcn) = (ds2, sm)" by fastforce
  show ?thesis
    using ea reg sw
    by (auto simp: xcn_sendStatus_def xcn_transmit_def xcn_getNextStatusCounter_def Let_def
        xcn_channel_send_eq script_channel_def sample_module_present_def map_laws)
qed

definition sample_connected :: "external_server_msg list external_connection" where
  "sample_connected = (sample_connection [])\<lparr>xcn_sent := sm_addDeviceAsConnected
     (device_of_ip (st_device (sample_device_status [5]))) SentMessagesHandler\<rparr>"

theorem reconnect_leaves_device_connected_witness:
  "\<exists>x1 x2 x3. xcn_deinitializeConnection (sample_env script_channel) False sample_connected = Inr x1 \<and>
     xcn_sendStatus (sample_env script_channel) (sample_device_status [5]) CONNECTING empty_buffer x1 = Inr x2 \<and>
     xcn_sendStatus (sample_env script_channel) (sample_device_status [5]) DISCONNECT empty_buffer x2 = Inr x3 \<and>
     sm_isDeviceConnected (device_of_ip (st_device (sample_device_status [5]))) (xcn_sent x3)"
proof -
  obtain x1 where x1: "xcn_deinitializeConnection (sample_env script_channel) False sample_connected = Inr x1"
    "sample_module_present x1"
    by (simp add: sample_connected_def xcn_deinitializeConnection_def SentMessagesHandler_def
        xcn_fillErrorAggregatorWithNotAckedStatuses_def sm_addDeviceAsConnected_def
        xcn_fillErrorAggregatorWithNotAckedStatusesImpl_def sm_clearAllTimers_def sample_module_present_def)
  obtain x2 where x2: "xcn_sendStatus (sample_env script_channel) (sample_device_status [5]) CONNECTING
      empty_buffer x1 = Inr x2" "sample_module_present x2"
    using sample_send_present [OF x1(2)] by blast
  obtain x3 where x3: "xcn_sendStatus (sample_env script_channel) (sample_device_status [5]) DISCONNECT
      empty_buffer x2 = Inr x3"
    using sample_send_present [OF x2(2)] by blast
  have "sm_isDeviceConnected (device_of_ip (st_device (sample_device_status [5]))) (xcn_sent sample_connected)"
    "xcn_isModuleSupported 7 sample_connected"
    by (simp_all add: sample_connected_def sm_isDeviceConnected_def sm_addDeviceAsConnected_def
        xcn_isModuleSupported_def)
  with reconnect_leaves_device_connected [OF _ refl refl _ _ x1(1) x2(1) x3] x1(1) x2(1) x3
  show ?thesis by (simp add: sample_codes_ok)
qed

end
