(* ===== verification/External_Client_Samples.thy ===== *)
theory External_Client_Samples
  imports External_Client_Connect External_Connection_Samples
begin

text \<open>
  A concrete external client, with two endpoints over the dummy channel that both name the sample
  module, on which the properties of the client are applied.
\<close>

section \<open>The client\<close>

definition sample_factory :: "bool channel_factory" where
  "sample_factory = \<lparr>cf_mqtt = (\<lambda>_. (dummy_channel, False)), cf_quic = (\<lambda>_. (dummy_channel, False)),
     cf_dummy = (\<lambda>_. (dummy_channel, False))\<rparr>"

definition sample_settings :: settings where
  "sample_settings = \<lparr>set_port = 1636, set_company = ''bringauto'', set_vehicleName = ''virtual'',
     set_modulePaths = [(7, ''a.so'')], set_moduleBinaryPath = [],
     set_externalConnectionSettingsList = [sample_endpoint, sample_endpoint],
     set_loggingSettings = \<lparr>ls_console = \<lparr>cs_use = True, cs_level = V_Info\<rparr>,
       ls_file = \<lparr>fs_use = False, fs_level = V_Debug, fs_path = []\<rparr>\<rparr>\<rparr>"

definition sample_library :: gw_modules where
  "sample_library = \<lparr>ml_moduleLibraryHandlers = [(7, Some sample_handler)], ml_statusAggregators = []\<rparr>"

definition sample_idle :: "bool external_connection" where
  "sample_idle = (ExternalConnection False)
     \<lparr>xcn_errorAggregators := [(7, \<lparr>ea_module = Some sample_handler, ea_devices = []\<rparr>)]\<rparr>"

definition sample_client :: "internal_client_message list \<Rightarrow> (nat \<times> bool) list \<Rightarrow> (nat \<times> bool) list \<Rightarrow>
    bool external_client" where
  "sample_client q reconnects waits =
     \<lparr>xl_insideConnectSequence = False, xl_externalConnectionMap = [(7, 0)],
      xl_externalConnectionsList = [(sample_env dummy_channel, sample_idle), (sample_env dummy_channel, sample_idle)],
      xl_toExternalQueue = q, xl_fromExternalQueue = [], xl_commandForwardingQueue = [],
      xl_reconnectQueue = reconnects, xl_library = sample_library, xl_timerHandlers = waits,
      xl_stopped = False\<rparr>"

lemma sample_client_simps [simp]:
  "xl_externalConnectionMap (sample_client q rs ws) = [(7, 0)]"
  "xl_toExternalQueue (sample_client q rs ws) = q"
  "xl_reconnectQueue (sample_client q rs ws) = rs"
  "xl_timerHandlers (sample_client q rs ws) = ws"
  "\<not> xl_stopped (sample_client q rs ws)"
  "length (xl_externalConnectionsList (sample_client q rs ws)) = 2"
  "xl_env 0 (sample_client q rs ws) = sample_env dummy_channel"
  "xl_env (Suc 0) (sample_client q rs ws) = sample_env dummy_channel"
  "xl_conn 0 (sample_client q rs ws) = sample_idle"
  "xl_conn (Suc 0) (sample_client q rs ws) = sample_idle"
  by (simp_all add: sample_client_def xl_env_def xl_conn_def sample_env_def sample_library_def)

lemma sample_idle_simps [simp]:
  "xcn_isModuleSupported m sample_idle = (m = 7)"
  "xcn_drained sample_idle"
  "xcn_errorAggregators sample_idle = [(7, \<lparr>ea_module = Some sample_handler, ea_devices = []\<rparr>)]"
  by (auto simp: sample_idle_def xcn_isModuleSupported_def xcn_drained_def ExternalConnection_def)

lemma sample_client_start:
  "xl_reaches sample_codes sample_settings sample_factory [sample_endpoint, sample_endpoint] sample_library
     (sample_client q [] [])"
proof -
  have "xl_initConnections sample_codes sample_settings sample_factory [sample_endpoint, sample_endpoint]
      (ExternalClient sample_library) = Inr (sample_client [] [] [])"
    by (simp add: sample_client_def ExternalClient_def xl_make_channel_def sample_endpoint_def sample_factory_def
        xl_initConnection_def sample_library_def sample_idle_def ExternalConnection_def sample_settings_def
        um_try_emplace_def um_contains_def Let_def sample_env_def ea_init_error_aggregator_def ErrorAggregator_def)
  from xl_reaches.others [OF xl_reaches.start [OF this], where lib' = sample_library and q = q and fq = "[]" and st = False]
  show ?thesis by (simp add: sample_client_def)
qed

theorem routing_wired_witness:
  "um_find (=) 7 (xl_externalConnectionMap (sample_client [] [] [])) = Some 0 \<and>
   first_serving 7 [sample_endpoint, sample_endpoint] = Some 0"
  using routing_wired [OF sample_client_start, of 7 "[]"] by (simp add: sample_endpoint_def)

section \<open>Messages\<close>

definition sample_message :: "bool \<Rightarrow> u8 \<Rightarrow> internal_client_message" where
  "sample_message disconnect b = InternalClientMessage disconnect (IC_DeviceStatus (sample_device_status [b]))"

lemma sample_message_simps [simp]:
  "icm_disconnect (sample_message disconnect b) = disconnect"
  "devicestatus (icm_message (sample_message disconnect b)) = sample_device_status [b]"
  by (simp_all add: sample_message_def)

definition sample_filled :: "u8 \<Rightarrow> bool external_connection" where
  "sample_filled b = sample_idle\<lparr>xcn_errorAggregators := [(7, \<lparr>ea_module = Some sample_handler, ea_devices =
     [(device_of_ip (st_device (sample_device_status [b])),
       \<lparr>ea_errorMessage = sample_buffer [b], ea_lastStatus = sample_buffer [b]\<rparr>)]\<rparr>)]\<rparr>"

lemma sample_fill:
  "xcn_fillErrorAggregator (sample_env dummy_channel) (sample_device_status [b]) sample_idle =
     Inr (sample_filled b)"
  by (simp add: xcn_fillErrorAggregator_def xcn_fillErrorAggregatorWithNotAckedStatusesImpl_def Let_def
      sample_idle_def ExternalConnection_def SentMessagesHandler_def sm_clearAll_def sm_clearAllTimers_def
      um_contains_def um_at_def xcn_status_buffer_def handler_at_def deref_def sample_filled_def
      ea_add_status_to_error_aggregator_def ea_is_device_type_supported_def ea_aggregateError_def
      sample_handler_simps um_try_emplace_def empty_error_state_def)

lemma sample_on_fill:
  "xl_on 0 (\<lambda>env. xcn_fillErrorAggregator env (sample_device_status [b])) (sample_client q rs ws) =
     Inr (xl_store 0 (sample_filled b) (sample_client q rs ws))"
  by (simp add: xl_on_def sample_fill)

theorem forced_disconnect_swallowed_witness:
  "\<exists>xl'. xl_forced_message 0 (sample_message True 5) [device_of_ip (st_device (sample_device_status [5]))]
      (sample_client [] [] []) = Inr ([], xl') \<and>
    xl_forced_message 0 (sample_message False 5) [device_of_ip (st_device (sample_device_status [5]))]
      (sample_client [] [] []) = Inr ([], xl') \<and> xl_toExternalQueue xl' = []"
proof -
  have eq: "device_eq d d" for d :: device_identification by (simp add: device_eq_def isSame_def)
  have "xl_forced_message 0 (sample_message True 5) [device_of_ip (st_device (sample_device_status [5]))]
      (sample_client [] [] []) = Inr ([], xl_store 0 (sample_filled 5) (sample_client [] [] []))"
    by (simp add: xl_forced_message_def Let_def sample_on_fill eq)
  moreover have "(sample_message True 5)\<lparr>icm_disconnect := False\<rparr> = sample_message False 5"
    by (simp add: sample_message_def InternalClientMessage_def)
  ultimately show ?thesis
    using forced_disconnect_swallowed [of 0 "sample_message True 5"
        "[device_of_ip (st_device (sample_device_status [5]))]" "sample_client [] [] []"]
    by (simp add: eq)
qed

definition sample_other_message :: "u8 \<Rightarrow> internal_client_message" where
  "sample_other_message b = InternalClientMessage False (IC_DeviceStatus ((sample_device_status [b])
     \<lparr>st_device := (st_device (sample_device_status [b]))\<lparr>ip_devicetype := 3\<rparr>\<rparr>))"

text \<open>The statuses 1 and 2 of one device change places around the forced status of another.\<close>

theorem forced_wait_rotates_queue_witness:
  "\<exists>xl'. xl_forcedLoop 0 [[], []] [device_of_ip (st_device (sample_device_status [5]))]
      (sample_client [sample_other_message 1, sample_message False 5, sample_other_message 2] [] []) = Inr xl' \<and>
    xl_toExternalQueue xl' = [sample_other_message 2, sample_other_message 1]"
proof -
  let ?d = "device_of_ip (st_device (sample_device_status [5]))"
  let ?q = "[sample_other_message 1, sample_message False 5, sample_other_message 2]"
  have eq: "device_eq ?d ?d" "\<not> device_eq ?d (device_of_ip (st_device (devicestatus (icm_message (sample_other_message b)))))"
    "message_module (sample_other_message b) = 7" for b
    by (simp_all add: device_eq_def isSame_def sample_other_message_def device_of_ip_def)
  have conn: "xl_conn 0 ((sample_client ?q [] [])\<lparr>xl_toExternalQueue := r\<rparr>) = sample_idle"
    "xl_env 0 ((sample_client ?q [] [])\<lparr>xl_toExternalQueue := r\<rparr>) = sample_env dummy_channel" for r
    by (simp_all add: sample_client_def xl_conn_def xl_env_def sample_env_def sample_library_def)
  obtain xl' where run: "xl_forcedLoop 0 [[], []] [?d] (sample_client ?q [] []) = Inr xl'"
    using eq
    by (simp add: waitForValueWithTimeout_def xl_forced_message_def Let_def pushAndNotify_def xl_on_def conn
        sample_fill)
  from forced_wait_rotates_queue [of "sample_client ?q [] []" "[sample_other_message 1]" "sample_message False 5"
      "[sample_other_message 2]" 0 ?d xl'] run eq
  show ?thesis by (simp add: device_eq_def)
qed

section \<open>Reconnecting\<close>

definition sample_script :: connect_script where
  "sample_script = \<lparr>sc_pick = (\<lambda>_. 0), sc_forced = [], sc_connect = [], sc_done = True\<rparr>"

text \<open>Starting a connection over the dummy channel fails.\<close>

lemma sample_connect_fails:
  assumes "env_channel (xl_env cid xl) = dummy_channel" and "env_codes (xl_env cid xl) = sample_codes"
  shows "\<exists>xcn. xl_connect sample_script cid devices xl = Inr (- 1, xl_store cid xcn xl)"
proof -
  let ?env = "xl_env cid xl"
  let ?x = "(xl_conn cid xl)\<lparr>xcn_channel := True, xcn_state := St_CONNECTING\<rparr>"
  obtain rc x where one: "xcn_connectMessageHandle ?env (\<lambda>_. 0) devices ?x = (rc, x)" by fastforce
  have "codes_ok (env_codes ?env)" by (simp add: assms(2) sample_codes_ok)
  have "rc \<noteq> OK (env_codes ?env)"
    using dummy.connect_message_refused [OF assms(1) \<open>codes_ok (env_codes ?env)\<close>, of "\<lambda>_. 0" devices ?x] one
    by simp
  moreover have "ch_initializeConnection (env_channel ?env) (xcn_channel (xl_conn cid xl)) = (Inr (), True)"
    by (simp add: assms(1) dummy_channel_def dummy_initializeConnection_def)
  ultimately obtain xcn where
    "xcn_initializeConnection ?env (\<lambda>_. 0) devices (xl_conn cid xl) = Inr (- 1, xcn)"
    using xcn_initializeConnection_refused [of ?env "xl_conn cid xl" True "\<lambda>_. 0" devices rc x] one assms(2)
    by auto
  then show ?thesis by (auto simp: xl_connect_def sample_script_def Let_def)
qed

lemma sample_start_fails:
  assumes "cid < 2"
  shows "\<exists>xl'. xl_startExternalConnectSequence sample_codes sample_script cid (sample_client [] rs ws) = Inr xl' \<and>
    xl_timerHandlers xl' \<noteq> ws \<and> xl_toExternalQueue xl' = [] \<and> prefix rs (xl_reconnectQueue xl')"
proof -
  let ?x = "(sample_client [] rs ws)\<lparr>xl_insideConnectSequence := True, xl_toExternalQueue := []\<rparr>"
  have x: "xl_connectedDevices cid ?x = []" "xl_env cid ?x = sample_env dummy_channel" "xl_conn cid ?x = sample_idle"
    using assms
    by (auto simp: less_2_cases_iff xl_connectedDevices_def xl_env_def xl_conn_def sample_client_def
        sample_library_def sample_env_def sample_endpoint_def)
  obtain xcn where "xcn_fillErrorAggregatorWithNotAckedStatuses (sample_env dummy_channel) sample_idle = Inr xcn"
    by (simp add: xcn_fillErrorAggregatorWithNotAckedStatuses_def SentMessagesHandler_def
        xcn_fillErrorAggregatorWithNotAckedStatusesImpl_def sample_idle_def ExternalConnection_def)
  then have prepare: "xl_prepare sample_codes sample_script cid (sample_client [] rs ws) =
      Inr ([], xl_store cid xcn ?x)"
    by (simp add: xl_prepare_def x xl_force_def xl_on_def Let_def)
  have "xl_env cid (xl_store cid xcn ?x) = sample_env dummy_channel"
    using assms x(2) by (auto simp: less_2_cases_iff xl_env_def xl_store_def sample_client_def)
  then obtain xcn2 where "xl_connect sample_script cid [] (xl_store cid xcn ?x) =
      Inr (- 1, xl_store cid xcn2 (xl_store cid xcn ?x))"
    using sample_connect_fails [of cid "xl_store cid xcn ?x" "[]"] by auto
  then show ?thesis
    by (auto simp: xl_startExternalConnectSequence_def prepare xl_store_def xl_armTimer_def Let_def)
qed


end
