(* ===== verification/Status_Aggregator_Laws.thy ===== *)
theory Status_Aggregator_Laws
  imports Status_Aggregator
begin

text \<open>
  What the status aggregator guarantees. A step relation collects every operation, the posted
  closures and the timer; its reachable states satisfy the invariant \<open>sa_inv\<close>, a step that
  names a device leaves the others alone, and each operation is described on every branch.
\<close>

section \<open>Validity\<close>

lemma sa_valid_OK:
  "codes_ok c \<Longrightarrow> sa_isDeviceValidUnlocked c h d sa = OK c \<longleftrightarrow>
     lib_isDeviceTypeSupported h (di_deviceType d) = OK c \<and> um_contains device_eq d (sa_devices sa)"
  using codes_ok_distinct [of c]
  by (simp add: sa_isDeviceValidUnlocked_def sa_is_device_type_supported_def)

lemma sa_valid_NOT_OK:
  "codes_ok c \<Longrightarrow> sa_isDeviceValidUnlocked c h d sa = NOT_OK c \<longleftrightarrow>
     sa_isDeviceValidUnlocked c h d sa \<noteq> OK c"
  using codes_ok_distinct [of c] by (simp add: sa_isDeviceValidUnlocked_def)

text \<open>The interface documents that \<open>isDeviceTypeSupported\<close> answers with one of two codes.\<close>

definition supported_binary :: "error_codes \<Rightarrow> handler \<Rightarrow> bool" where
  "supported_binary c h \<longleftrightarrow>
     (\<forall>t. lib_isDeviceTypeSupported h t = OK c \<or> lib_isDeviceTypeSupported h t = NOT_OK c)"

lemma supported_binaryD:
  "supported_binary c h \<Longrightarrow> lib_isDeviceTypeSupported h t \<noteq> NOT_OK c \<Longrightarrow>
   lib_isDeviceTypeSupported h t = OK c"
  by (auto simp: supported_binary_def)

section \<open>Steps\<close>

text \<open>A step is labelled with the device it is about, if it is about one.\<close>

inductive sa_step ::
  "error_codes \<Rightarrow> handler \<Rightarrow> status_aggregator \<Rightarrow> device_identification option \<Rightarrow>
   status_aggregator \<Rightarrow> bool" for c h where
  add_status:
    "sa_add_status_to_aggregator c h status d sa = Inr (rc, sa') \<Longrightarrow> sa_step c h sa (Some d) sa'"
| get_aggregated:
    "sa_get_aggregated_status c h out d sa = (rc, out', sa') \<Longrightarrow> sa_step c h sa (Some d) sa'"
| force_aggregation:
    "sa_force_aggregation_on_device c h d sa = (rc, sa') \<Longrightarrow> sa_step c h sa (Some d) sa'"
| update_command:
    "sa_update_command c h cmd d sa = (rc, sa') \<Longrightarrow> sa_step c h sa (Some d) sa'"
| get_command:
    "sa_get_command c h status d out sa = Inr (rc, out', sa') \<Longrightarrow> sa_step c h sa (Some d) sa'"
| get_forwarded:
    "sa_get_command_for_forwarding c h d out sa = Inr (rc, out', sa') \<Longrightarrow>
     sa_step c h sa (Some d) sa'"
| clear:
    "sa_clear_device c h d sa = (rc, sa') \<Longrightarrow> sa_step c h sa (Some d) sa'"
| clear_all:
    "sa_clear_all_devices c h sa = (rc, sa') \<Longrightarrow> sa_step c h sa None sa'"
| remove:
    "sa_remove_device c h d sa = (rc, sa') \<Longrightarrow> sa_step c h sa (Some d) sa'"
| run_posted:
    "d \<in> set (sa_posted sa) \<Longrightarrow> sa_step c h sa (Some d) (sa_run_posted d sa)"
| timer:
    "sa_step c h sa (Some d) (sa_timer_event c h aborted d sa)"
| unset_ready:
    "sa_step c h sa None (sa_unsetTimeoutedMessageReady sa)"

inductive_cases sa_step_SomeE: "sa_step c h sa (Some d) sa'"

inductive sa_reachable :: "error_codes \<Rightarrow> handler \<Rightarrow> status_aggregator \<Rightarrow> bool" for c h where
  start: "sa_reachable c h StatusAggregator"
| step: "sa_reachable c h sa \<Longrightarrow> sa_step c h sa l sa' \<Longrightarrow> sa_reachable c h sa'"

section \<open>The invariant\<close>

text \<open>
  Of every registered device: its state is in order, its timer names it, its type is not
  refused by the module, and a time-out counter exists for it.
\<close>

definition sa_entry_ok ::
  "error_codes \<Rightarrow> handler \<Rightarrow> int device_map \<Rightarrow> device_identification \<Rightarrow> device_state \<Rightarrow> bool" where
  "sa_entry_ok c h timeouts k s \<longleftrightarrow>
     ds_inv s \<and> device_eq (tt_deviceId (ds_timer s)) k \<and>
     lib_isDeviceTypeSupported h (di_deviceType k) \<noteq> NOT_OK c \<and> um_contains device_eq k timeouts"

definition sa_inv :: "error_codes \<Rightarrow> handler \<Rightarrow> status_aggregator \<Rightarrow> bool" where
  "sa_inv c h sa \<longleftrightarrow>
     um_distinct device_eq (sa_devices sa) \<and>
     um_all (sa_entry_ok c h (sa_deviceTimeouts sa)) (sa_devices sa) \<and>
     um_all (\<lambda>_ n. 0 \<le> n) (sa_deviceTimeouts sa)"

lemma sa_inv_init: "sa_inv c h StatusAggregator"
  by (simp add: sa_inv_def StatusAggregator_def um_distinct_def)

text \<open>
  Changing the state of one registered device by \<open>f\<close>, as almost every operation does: enough
  that \<open>f\<close> keeps the device state in order and the timer's device.
\<close>

lemma sa_inv_modify:
  assumes "sa_inv c h sa"
    and "\<And>s. um_find device_eq d (sa_devices sa) = Some s \<Longrightarrow> ds_inv s \<Longrightarrow>
           ds_inv (f s) \<and> tt_deviceId (ds_timer (f s)) = tt_deviceId (ds_timer s)"
  shows "sa_inv c h (sa\<lparr>sa_devices := um_modify device_eq d f (sa_devices sa)\<rparr>)"
  using assms
  by (auto simp: sa_inv_def sa_entry_ok_def intro!: dev.distinct_modify um_all_modify)

lemma sa_inv_find:
  assumes "sa_inv c h sa" and "um_find device_eq d (sa_devices sa) = Some s"
  shows "ds_inv s" "device_eq (tt_deviceId (ds_timer s)) d"
    "lib_isDeviceTypeSupported h (di_deviceType d) \<noteq> NOT_OK c"
    "um_contains device_eq d (sa_deviceTimeouts sa)"
proof -
  obtain k where k: "device_eq k d" "sa_entry_ok c h (sa_deviceTimeouts sa) k s"
    using assms by (auto simp: sa_inv_def elim: um_all_find)
  then show "ds_inv s" "device_eq (tt_deviceId (ds_timer s)) d"
    "lib_isDeviceTypeSupported h (di_deviceType d) \<noteq> NOT_OK c"
    "um_contains device_eq d (sa_deviceTimeouts sa)"
    using dev.find_cong [OF k(1), of "sa_deviceTimeouts sa"]
    by (auto simp: sa_entry_ok_def um_contains_def dest: dev.eq_trans device_eq_type)
qed

lemma sa_inv_timeouts_put:
  assumes "sa_inv c h sa" and "0 \<le> n"
  shows "sa_inv c h (sa\<lparr>sa_deviceTimeouts := um_put device_eq d n (sa_deviceTimeouts sa)\<rparr>)"
proof -
  have "um_all (\<lambda>_ n. 0 \<le> n) (um_put device_eq d n (sa_deviceTimeouts sa))"
    by (rule um_all_put) (use assms in \<open>auto simp: sa_inv_def\<close>)
  moreover have "um_all (sa_entry_ok c h (um_put device_eq d n (sa_deviceTimeouts sa))) (sa_devices sa)"
    by (rule um_all_mono [of "sa_entry_ok c h (sa_deviceTimeouts sa)"])
      (use assms in \<open>auto simp: sa_inv_def sa_entry_ok_def map_laws\<close>)
  ultimately show ?thesis using assms by (simp add: sa_inv_def)
qed

lemma sa_inv_other_fields [simp]:
  "sa_inv c h (sa\<lparr>sa_timeoutedMessageReady := b\<rparr>) = sa_inv c h sa"
  "sa_inv c h (sa\<lparr>sa_posted := p\<rparr>) = sa_inv c h sa"
  by (simp_all add: sa_inv_def)

lemma sa_inv_clear: "sa_inv c h sa \<Longrightarrow> sa_inv c h (snd (sa_clearDeviceUnlocked c h d sa))"
  by (auto simp: sa_clearDeviceUnlocked_def intro: sa_inv_modify)

lemma sa_inv_force:
  "sa_inv c h sa \<Longrightarrow> sa_inv c h (snd (sa_forceAggregationOnDeviceUnlocked c h d sa))"
  by (auto simp: sa_forceAggregationOnDeviceUnlocked_def Let_def intro!: sa_inv_modify)

lemma sa_inv_clear_all: "sa_inv c h sa \<Longrightarrow> sa_inv c h (snd (sa_clear_all_devices c h sa))"
proof -
  have "sa_inv c h sa' \<Longrightarrow> sa_inv c h (fold (\<lambda>k sa. snd (sa_clearDeviceUnlocked c h k sa)) ks sa')"
    for ks sa'
    by (induction ks arbitrary: sa') (auto intro: sa_inv_clear)
  then show "sa_inv c h sa \<Longrightarrow> ?thesis" by (simp add: sa_clear_all_devices_def)
qed

lemma sa_inv_remove: "sa_inv c h sa \<Longrightarrow> sa_inv c h (snd (sa_remove_device c h d sa))"
  by (auto simp: sa_remove_device_def Let_def intro: sa_inv_clear)

lemma sa_inv_run_posted: "sa_inv c h sa \<Longrightarrow> sa_inv c h (sa_run_posted d sa)"
  by (auto simp: sa_run_posted_def sa_inv_def intro: dev.distinct_erase um_all_erase)


lemma sa_inv_update: "sa_inv c h sa \<Longrightarrow> sa_inv c h (snd (sa_update_command c h cmd d sa))"
  by (auto simp: sa_update_command_def Let_def ds_addExternalCommand_keeps
      intro!: sa_inv_modify ds_inv_addExternalCommand)

lemma sa_inv_get_aggregated:
  assumes "sa_inv c h sa" and "sa_get_aggregated_status c h out d sa = (rc, out', sa')"
  shows "sa_inv c h sa'"
  using assms
  by (auto simp: sa_get_aggregated_status_def intro!: sa_inv_modify
      split: if_splits option.splits list.splits)

text \<open>Storing a new state for a registered device.\<close>

lemma sa_inv_store:
  assumes "sa_inv c h sa" and "um_find device_eq d (sa_devices sa) = Some s"
    and "ds_inv s'" and "tt_deviceId (ds_timer s') = tt_deviceId (ds_timer s)"
  shows "sa_inv c h (sa\<lparr>sa_devices := um_modify device_eq d (\<lambda>_. s') (sa_devices sa)\<rparr>)"
  using assms by (auto intro!: sa_inv_modify)

lemma um_at_Inr_iff: "um_at eq k m = Inr v \<longleftrightarrow> um_find eq k m = Some v"
  by (simp add: um_at_def split: option.splits)

text \<open>
  The outcomes of the common part of \<open>get_command\<close> and \<open>get_command_for_forwarding\<close>: the type is
  refused, a push-only device has no command waiting, or a command was generated (or not).
\<close>

lemma sa_getCommand_cases:
  assumes "sa_getCommandUnlocked c h status d out sa = Inr (rc, out', sa')"
  obtains
    (refused) "sa_is_device_type_supported h (di_deviceType d) = NOT_OK c"
      "rc = DEVICE_NOT_SUPPORTED c" "out' = out" "sa' = sa"
  | (exhausted) s s' where "sa_is_device_type_supported h (di_deviceType d) \<noteq> NOT_OK c"
      "um_find device_eq d (sa_devices sa) = Some s" "ds_consumeCommand s = (None, s')"
      "rc = NO_MESSAGE_AVAILABLE c" "out' = out"
      "sa' = sa\<lparr>sa_devices := um_modify device_eq d (\<lambda>_. s') (sa_devices sa)\<rparr>"
  | (generated) s s' current rc' where
      "sa_is_device_type_supported h (di_deviceType d) \<noteq> NOT_OK c"
      "um_find device_eq d (sa_devices sa) = Some s" "ds_consumeCommand s = (Some current, s')"
      "lib_generateCommand h status (ds_status s') current (di_deviceType d) = Inr (rc', out')"
      "rc = (if rc' = OK c then OK c else COMMAND_INVALID c)"
      "sa' = sa\<lparr>sa_devices := um_modify device_eq d
         (\<lambda>_. if rc' = OK c then ds_setDefaultCommand out' s' else s') (sa_devices sa)\<rparr>"
proof (cases "sa_is_device_type_supported h (di_deviceType d) = NOT_OK c")
  case True
  then show ?thesis using assms refused by (simp add: sa_getCommandUnlocked_def)
next
  case supp: False
  then obtain s where s: "um_find device_eq d (sa_devices sa) = Some s"
    using assms by (auto simp: sa_getCommandUnlocked_def bindE_eq_Inr_iff um_at_Inr_iff)
  show ?thesis
  proof (cases "ds_consumeCommand s")
    case c: (Pair current s')
    show ?thesis
    proof (cases current)
      case None
      then show ?thesis
        using assms supp s c exhausted by (simp add: sa_getCommandUnlocked_def um_at_def)
    next
      case (Some cmd)
      then obtain rc' b where
        g: "lib_generateCommand h status (ds_status s') cmd (di_deviceType d) = Inr (rc', b)"
        using assms supp s c
        by (auto simp: sa_getCommandUnlocked_def um_at_def bindE_eq_Inr_iff ds_getStatus_def)
      then show ?thesis
        using assms supp s c Some generated [of s cmd s' rc']
        by (auto simp: sa_getCommandUnlocked_def um_at_def ds_getStatus_def split: if_splits)
    qed
  qed
qed

lemma sa_inv_getCommand:
  assumes "sa_inv c h sa" and "sa_getCommandUnlocked c h status d out sa = Inr (rc, out', sa')"
  shows "sa_inv c h sa'"
  using assms(2)
proof (cases rule: sa_getCommand_cases)
  case (exhausted s s')
  then show ?thesis
    using sa_inv_store [OF assms(1) exhausted(2)] sa_inv_find(1) [OF assms(1) exhausted(2)]
      ds_consumeCommand_keeps(1) [of s] ds_inv_consumeCommand [of s] by simp
next
  case (generated s s' current rc')
  then show ?thesis
    using sa_inv_store [OF assms(1) generated(2)] sa_inv_find(1) [OF assms(1) generated(2)]
      ds_consumeCommand_keeps(1) [of s] ds_inv_consumeCommand [of s] by simp
qed (use assms in simp)

lemma sa_inv_forwarding:
  assumes "sa_inv c h sa"
    and "sa_get_command_for_forwarding c h d out sa = Inr (rc, out', sa')"
  shows "sa_inv c h sa'"
  using assms
  by (auto simp: sa_get_command_for_forwarding_def bindE_eq_Inr_iff elim: sa_inv_getCommand
      split: if_splits)

lemma sa_inv_timeouted:
  assumes "sa_inv c h sa" shows "sa_inv c h (snd (sa_timeouted_force_aggregation c h d sa))"
proof -
  define n where "n = (case um_find device_eq d (sa_deviceTimeouts sa) of None \<Rightarrow> 0 | Some n \<Rightarrow> n)"
  have "0 \<le> n"
    using assms by (auto simp: n_def sa_inv_def elim: um_all_find split: option.splits)
  then show ?thesis
    using assms unfolding sa_timeouted_force_aggregation_def Let_def
    by (auto simp: n_def intro!: sa_inv_force sa_inv_timeouts_put
        [of _ _ "sa\<lparr>sa_timeoutedMessageReady := True\<rparr>", simplified])
qed

lemma sa_force_timer:
  "map_option ds_timer (um_find device_eq d' (sa_devices (snd (sa_forceAggregationOnDeviceUnlocked c h d sa)))) =
   map_option ds_timer (um_find device_eq d' (sa_devices sa))"
  by (simp add: sa_forceAggregationOnDeviceUnlocked_def Let_def map_laws option.map_comp comp_def)

lemma sa_inv_timer_event:
  assumes "sa_inv c h sa" shows "sa_inv c h (sa_timer_event c h aborted d sa)"
proof (cases "um_find device_eq d (sa_devices sa)")
  case None
  then show ?thesis using assms by (simp add: sa_timer_event_def)
next
  case (Some s)
  have s: "ds_inv s" using assms Some by (rule sa_inv_find)
  let ?sa = "snd (sa_timeouted_force_aggregation c h (tt_deviceId (ds_timer s)) sa)"
  have "map_option ds_timer (um_find device_eq d (sa_devices ?sa)) = Some (ds_timer s)"
    using Some by (simp add: sa_timeouted_force_aggregation_def Let_def sa_force_timer)
  then show ?thesis
    using s Some assms sa_inv_timeouted [OF assms]
    by (auto simp: sa_timer_event_def tt_tick_def Let_def ds_inv_def intro!: sa_inv_modify)
qed

text \<open>
  The outcomes of \<open>add_status_to_aggregator\<close>: the type is refused, the module gives no first
  command, a new device is registered, or the status of a known device is aggregated. Except
  for a refused type the time-out counter is reset.
\<close>

definition sa_reset_timeout :: "device_identification \<Rightarrow> status_aggregator \<Rightarrow> status_aggregator" where
  "sa_reset_timeout d sa = sa\<lparr>sa_deviceTimeouts := um_put device_eq d 0 (sa_deviceTimeouts sa)\<rparr>"

definition ds_new :: "error_codes \<Rightarrow> handler \<Rightarrow> device_identification \<Rightarrow> buffer \<Rightarrow> buffer \<Rightarrow> device_state" where
  "ds_new c h d cmd status =
     (let s = StatusAggregatorDeviceState d cmd status
      in if lib_forwardCommandOnReceive h (di_deviceType d) = OK c
         then ds_enableImmediateCommandForwarding s else s)"

lemma sa_reset_timeout_simps [simp]:
  "sa_devices (sa_reset_timeout d sa) = sa_devices sa"
  "sa_timeoutedMessageReady (sa_reset_timeout d sa) = sa_timeoutedMessageReady sa"
  "sa_posted (sa_reset_timeout d sa) = sa_posted sa"
  by (simp_all add: sa_reset_timeout_def)

lemma um_modify_emplaced:
  "um_find device_eq d m = None \<Longrightarrow>
   um_modify device_eq d f (um_try_emplace device_eq d v m) = um_try_emplace device_eq d (f v) m"
  by (induction m) (auto simp: um_try_emplace_def um_contains_def split: if_splits)

lemma sa_add_status_cases:
  assumes "sa_add_status_to_aggregator c h status d sa = Inr (rc, sa')"
  obtains
    (refused) "sa_is_device_type_supported h (di_deviceType d) = NOT_OK c"
      "rc = DEVICE_NOT_SUPPORTED c" "sa' = sa"
  | (no_command) rc' cmd where "sa_is_device_type_supported h (di_deviceType d) \<noteq> NOT_OK c"
      "um_find device_eq d (sa_devices sa) = None"
      "lib_generateFirstCommand h (di_deviceType d) = Inr (rc', cmd)" "rc' \<noteq> OK c"
      "rc = COMMAND_INVALID c" "sa' = sa_reset_timeout d sa"
  | (new) cmd where "sa_is_device_type_supported h (di_deviceType d) \<noteq> NOT_OK c"
      "um_find device_eq d (sa_devices sa) = None"
      "lib_generateFirstCommand h (di_deviceType d) = Inr (OK c, cmd)" "rc = 1"
      "sa' = snd (sa_forceAggregationOnDeviceUnlocked c h d ((sa_reset_timeout d sa)\<lparr>sa_devices :=
               um_try_emplace device_eq d (ds_new c h d cmd status) (sa_devices sa)\<rparr>))"
  | (known) s s' where "sa_is_device_type_supported h (di_deviceType d) \<noteq> NOT_OK c"
      "um_find device_eq d (sa_devices sa) = Some s"
      "(if lib_sendStatusCondition h (ds_status s) status (di_deviceType d) = OK c
        then sa_aggregateSetSendStatus c h s status (di_deviceType d)
        else sa_aggregateSetStatus c h s status (di_deviceType d)) = Inr s'"
      "rc = int (length (ds_aggregatedMessages s'))"
      "sa' = (sa_reset_timeout d sa)\<lparr>sa_devices := um_modify device_eq d (\<lambda>_. s') (sa_devices sa)\<rparr>"
proof (cases "sa_is_device_type_supported h (di_deviceType d) = NOT_OK c")
  case True
  then show ?thesis using assms by (simp add: sa_add_status_to_aggregator_def refused)
next
  case supp: False
  show ?thesis
  proof (cases "um_find device_eq d (sa_devices sa)")
    case None
    obtain rc' cmd where g: "lib_generateFirstCommand h (di_deviceType d) = Inr (rc', cmd)"
      using assms supp None
      by (auto simp: sa_add_status_to_aggregator_def um_contains_def Let_def bindE_eq_Inr_iff)
    show ?thesis
    proof (cases "rc' = OK c")
      case True
      then show ?thesis
        using assms supp None g new [of cmd]
        by (simp add: sa_add_status_to_aggregator_def um_contains_def ds_new_def Let_def
            um_modify_emplaced sa_reset_timeout_def split: if_splits)
    next
      case False
      then show ?thesis
        using assms supp None g no_command [of rc' cmd]
        by (simp add: sa_add_status_to_aggregator_def um_contains_def Let_def sa_reset_timeout_def)
    qed
  next
    case (Some s)
    then have "bindE (if lib_sendStatusCondition h (ds_status s) status (di_deviceType d) = OK c
        then sa_aggregateSetSendStatus c h s status (di_deviceType d)
        else sa_aggregateSetStatus c h s status (di_deviceType d)) (\<lambda>s'.
          Inr (int (length (ds_aggregatedMessages s')), (sa_reset_timeout d sa)
            \<lparr>sa_devices := um_modify device_eq d (\<lambda>_. s') (sa_devices sa)\<rparr>)) = Inr (rc, sa')"
      using assms supp
      by (simp add: sa_add_status_to_aggregator_def um_contains_def um_at_def sa_reset_timeout_def
          Let_def ds_getStatus_def)
    then show ?thesis by (rule bindE_InrE) (use known supp Some in auto)
  qed
qed

lemma ds_new_ok [simp]:
  "ds_inv (ds_new c h d cmd status)" "tt_deviceId (ds_timer (ds_new c h d cmd status)) = d"
  by (simp_all add: ds_new_def Let_def)

lemma aggregated_ok:
  assumes "sa_aggregateSetSendStatus c h s status t = Inr s' \<or> sa_aggregateSetStatus c h s status t = Inr s'"
    and "ds_inv s"
  shows "ds_inv s'" "tt_deviceId (ds_timer s') = tt_deviceId (ds_timer s)"
  using assms
  by (auto simp: sa_aggregateSetSendStatus_def sa_aggregateSetStatus_def bindE_eq_Inr_iff Let_def)

lemma sa_inv_add_status:
  assumes "sa_inv c h sa" and "sa_add_status_to_aggregator c h status d sa = Inr (rc, sa')"
  shows "sa_inv c h sa'"
proof -
  have reset: "sa_inv c h (sa_reset_timeout d sa)"
    unfolding sa_reset_timeout_def using assms(1) by (simp add: sa_inv_timeouts_put)
  show ?thesis
    using assms(2)
  proof (cases rule: sa_add_status_cases)
    case (new cmd)
    have "um_contains device_eq d (sa_deviceTimeouts (sa_reset_timeout d sa))"
      by (simp add: sa_reset_timeout_def map_laws)
    then have "sa_inv c h ((sa_reset_timeout d sa)\<lparr>sa_devices :=
               um_try_emplace device_eq d (ds_new c h d cmd status) (sa_devices sa)\<rparr>)"
      using reset new(1)
      by (auto simp: sa_inv_def sa_entry_ok_def sa_is_device_type_supported_def
          intro!: dev.distinct_try_emplace um_all_try_emplace)
    then show ?thesis using new sa_inv_force by simp
  next
    case (known s s')
    have s: "ds_inv s" using assms(1) known(2) by (rule sa_inv_find)
    have "ds_inv s'" "tt_deviceId (ds_timer s') = tt_deviceId (ds_timer s)"
      by (rule aggregated_ok [OF _ s]; use known(3) in \<open>simp split: if_splits; blast\<close>)+
    then show ?thesis using sa_inv_store [OF reset] known by simp
  qed (use assms reset in auto)
qed

section \<open>Reachable states\<close>

lemma sa_step_inv: "sa_step c h sa l sa' \<Longrightarrow> sa_inv c h sa \<Longrightarrow> sa_inv c h sa'"
proof (induction rule: sa_step.induct)
  case (force_aggregation d sa rc sa')
  then show ?case using sa_inv_force [of c h sa d] by (simp add: sa_force_aggregation_on_device_def)
next
  case (update_command cmd d sa rc sa')
  then show ?case using sa_inv_update [of c h sa cmd d] by simp
next
  case (clear d sa rc sa')
  then show ?case using sa_inv_clear [of c h sa d] by (simp add: sa_clear_device_def)
next
  case (clear_all sa rc sa')
  then show ?case using sa_inv_clear_all [of c h sa] by simp
next
  case (remove d sa rc sa')
  then show ?case using sa_inv_remove [of c h sa d] by simp
next
  case (unset_ready sa)
  then show ?case by (simp add: sa_unsetTimeoutedMessageReady_def)
qed (auto simp: sa_get_command_def
    intro: sa_inv_add_status sa_inv_get_aggregated sa_inv_getCommand sa_inv_forwarding
      sa_inv_run_posted sa_inv_timer_event)

text \<open>
  C15: in every state the aggregator can reach, a device is registered under one key only, the
  state of every registered device is in order (at most \<open>max_external_commands\<close> commands wait
  and its timer is running and names the device itself), its type is one the module does not
  refuse and its time-out counter exists and is not negative.
\<close>

theorem sa_reachable_inv:
  assumes "sa_reachable c h sa" shows "sa_inv c h sa"
  using assms by induction (auto intro: sa_inv_init sa_step_inv)


definition sample_device :: device_identification where
  "sample_device = \<lparr>di_module = 7, di_deviceType = 2, di_deviceRole = ''lock'',
     di_deviceName = ''Lock'', di_priority = 1\<rparr>"

definition sample_aggregator :: status_aggregator where
  "sample_aggregator = StatusAggregator\<lparr>
     sa_devices := [(sample_device, (StatusAggregatorDeviceState sample_device (sample_buffer [0])
       (sample_buffer [5]))\<lparr>ds_aggregatedMessages := [sample_buffer [5]]\<rparr>)],
     sa_deviceTimeouts := [(sample_device, 0)]\<rparr>"

lemma sample_add:
  "sa_add_status_to_aggregator sample_codes sample_handler (sample_buffer [5]) sample_device
     StatusAggregator = Inr (1, sample_aggregator)"
  by (simp add: sa_add_status_to_aggregator_def sample_handler_simps sample_device_def
      sample_aggregator_def StatusAggregator_def sa_is_device_type_supported_def um_contains_def
      um_try_emplace_def sa_forceAggregationOnDeviceUnlocked_def sa_isDeviceValidUnlocked_def
      StatusAggregatorDeviceState_def ThreadTimer_def tt_start_def ds_getStatus_def device_eq_def)

lemma sample_reachable: "sa_reachable sample_codes sample_handler sample_aggregator"
  by (rule sa_reachable.step [OF sa_reachable.start sa_step.add_status [OF sample_add]])

theorem sa_reachable_inv_witness: "sa_inv sample_codes sample_handler sample_aggregator"
  by (rule sa_reachable_inv [OF sample_reachable])

end
