(* ===== verification/Status_Aggregator_Spec.thy ===== *)
theory Status_Aggregator_Spec
  imports Status_Aggregator_Laws
begin

text \<open>
  What a client of the status aggregator can count on: other devices are not disturbed, the
  return value of \<open>add_status_to_aggregator\<close> is the number of aggregated messages there are to
  fetch, time-outs are counted, commands are answered, and what happens around a removal.
\<close>

section \<open>A step concerns one device\<close>

text \<open>\<open>sa'\<close> differs from \<open>sa\<close> at the device \<open>d\<close> only.\<close>

definition sa_same_but ::
  "device_identification \<Rightarrow> status_aggregator \<Rightarrow> status_aggregator \<Rightarrow> bool" where
  "sa_same_but d sa sa' \<longleftrightarrow> (\<forall>d'. \<not> device_eq d d' \<longrightarrow>
     um_find device_eq d' (sa_devices sa') = um_find device_eq d' (sa_devices sa) \<and>
     um_find device_eq d' (sa_deviceTimeouts sa') = um_find device_eq d' (sa_deviceTimeouts sa))"

lemma sa_force_other:
  "sa_same_but d sa (snd (sa_forceAggregationOnDeviceUnlocked c h d sa))"
  by (simp add: sa_same_but_def sa_forceAggregationOnDeviceUnlocked_def Let_def map_laws)

lemma sa_clear_other: "sa_same_but d sa (snd (sa_clearDeviceUnlocked c h d sa))"
  by (simp add: sa_same_but_def sa_clearDeviceUnlocked_def map_laws)

lemma sa_remove_other: "sa_same_but d sa (snd (sa_remove_device c h d sa))"
  using sa_clear_other [of d sa c h] by (simp add: sa_remove_device_def sa_same_but_def Let_def)

lemma sa_update_other: "sa_same_but d sa (snd (sa_update_command c h cmd d sa))"
  by (simp add: sa_same_but_def sa_update_command_def Let_def map_laws)

lemma sa_get_aggregated_other:
  "sa_get_aggregated_status c h out d sa = (rc, out', sa') \<Longrightarrow> sa_same_but d sa sa'"
  by (auto simp: sa_same_but_def sa_get_aggregated_status_def map_laws
      split: if_splits option.splits list.splits)

lemma sa_getCommand_other:
  assumes "sa_getCommandUnlocked c h status d out sa = Inr (rc, out', sa')"
  shows "sa_same_but d sa sa'"
  using assms by (cases rule: sa_getCommand_cases) (simp_all add: sa_same_but_def map_laws)

lemma sa_forwarding_other:
  "sa_get_command_for_forwarding c h d out sa = Inr (rc, out', sa') \<Longrightarrow> sa_same_but d sa sa'"
  by (auto simp: sa_get_command_for_forwarding_def bindE_eq_Inr_iff sa_same_but_def
      dest: sa_getCommand_other split: if_splits)

lemma sa_add_status_other:
  assumes "sa_add_status_to_aggregator c h status d sa = Inr (rc, sa')"
  shows "sa_same_but d sa sa'"
  using assms
proof (cases rule: sa_add_status_cases)
  case (new cmd)
  then show ?thesis
    using sa_force_other [of d _ c h]
    by (simp add: sa_same_but_def map_laws sa_reset_timeout_def)
qed (simp_all add: sa_same_but_def map_laws sa_reset_timeout_def)

lemma sa_run_posted_other: "sa_same_but d sa (sa_run_posted d sa)"
  by (simp add: sa_same_but_def sa_run_posted_def map_laws)

lemma sa_timer_other:
  assumes "sa_inv c h sa" shows "sa_same_but d sa (sa_timer_event c h aborted d sa)"
proof -
  have "device_eq (tt_deviceId (ds_timer s)) d' = device_eq d d'"
    if "um_find device_eq d (sa_devices sa) = Some s" for s d'
    using sa_inv_find(2) [OF assms(1) that] dev.eq_cong by blast
  then show ?thesis
    using sa_force_other [of _ _ c h]
    by (auto simp: sa_timer_event_def tt_tick_def sa_timeouted_force_aggregation_def Let_def
        sa_same_but_def map_laws split: option.splits)
qed

lemma sa_step_same_but:
  assumes "sa_reachable c h sa" and "sa_step c h sa (Some d) sa'"
  shows "sa_same_but d sa sa'"
proof -
  have inv: "sa_inv c h sa" using assms(1) by induction (auto intro: sa_inv_init sa_step_inv)
  show ?thesis
    using assms(2)
  proof (rule sa_step_SomeE)
    fix rc assume "sa_force_aggregation_on_device c h d sa = (rc, sa')"
    then show ?thesis
      using sa_force_other [of d sa c h] by (simp add: sa_force_aggregation_on_device_def)
  next
    fix cmd rc assume "sa_update_command c h cmd d sa = (rc, sa')"
    then show ?thesis using sa_update_other [of d sa c h cmd] by simp
  next
    fix rc assume "sa_clear_device c h d sa = (rc, sa')"
    then show ?thesis using sa_clear_other [of d sa c h] by (simp add: sa_clear_device_def)
  next
    fix rc assume "sa_remove_device c h d sa = (rc, sa')"
    then show ?thesis using sa_remove_other [of d sa c h] by simp
  qed (auto simp: sa_get_command_def sa_run_posted_other sa_timer_other [OF inv]
      dest: sa_add_status_other sa_get_aggregated_other sa_getCommand_other sa_forwarding_other)
qed

text \<open>
  An operation or a timer of one device never changes what the aggregator holds of another
  device, neither its state nor its time-out counter; devices are told apart by module, type
  and role.
\<close>

lemma sa_step_isolated:
  assumes "sa_reachable c h sa" and "sa_step c h sa (Some d) sa'" and "\<not> device_eq d d'"
  shows "um_find device_eq d' (sa_devices sa') = um_find device_eq d' (sa_devices sa) \<and>
    sa_getDeviceTimeoutCount d' sa' = sa_getDeviceTimeoutCount d' sa"
  using sa_step_same_but [OF assms(1,2)] assms(3) by (simp add: sa_same_but_def sa_getDeviceTimeoutCount_def)

section \<open>Statuses\<close>

text \<open>The validity check passes for a registered device of a supported type.\<close>

lemma sa_valid_registered:
  "codes_ok c \<Longrightarrow> lib_isDeviceTypeSupported h (di_deviceType d) = OK c \<Longrightarrow>
   (sa_isDeviceValidUnlocked c h d sa = NOT_OK c) = (um_find device_eq d (sa_devices sa) = None)"
  using codes_ok_distinct(1) [of c]
  by (simp add: sa_valid_NOT_OK sa_valid_OK um_contains_def)

lemma sa_force_registered:
  assumes "codes_ok c" and "lib_isDeviceTypeSupported h (di_deviceType d) = OK c"
    and "um_find device_eq d (sa_devices sa) = Some s"
  shows "sa_forceAggregationOnDeviceUnlocked c h d sa =
     (int (length (ds_aggregatedMessages s)) + 1,
      sa\<lparr>sa_devices := um_modify device_eq d
          (\<lambda>s. s\<lparr>ds_aggregatedMessages := ds_aggregatedMessages s @ [ds_status s]\<rparr>) (sa_devices sa)\<rparr>)"
  using assms
  by (simp add: sa_forceAggregationOnDeviceUnlocked_def sa_valid_registered ds_getStatus_def Let_def
      map_laws)

text \<open>What the module makes of a new status: on failure the current one stays.\<close>

lemma sa_aggregateStatus_eq:
  "lib_aggregateStatus h (ds_status s) status t = Inr (rc, b) \<Longrightarrow>
   sa_aggregateStatus c h s status t = Inr (if rc = OK c then b else ds_status s)"
  by (simp add: sa_aggregateStatus_def ds_getStatus_def)

text \<open>
  Fetching \<open>n\<close> aggregated statuses, as the module handler does after \<open>add_status_to_aggregator\<close>
  returned \<open>n\<close>.
\<close>

fun sa_fetch ::
  "error_codes \<Rightarrow> handler \<Rightarrow> nat \<Rightarrow> device_identification \<Rightarrow> status_aggregator \<Rightarrow>
   (int \<times> buffer) list \<times> status_aggregator" where
  "sa_fetch c h 0 d sa = ([], sa)"
| "sa_fetch c h (Suc n) d sa =
     (let (rc, b, sa) = sa_get_aggregated_status c h empty_buffer d sa;
          (rest, sa) = sa_fetch c h n d sa
      in ((rc, b) # rest, sa))"

lemma sa_get_aggregated_registered:
  assumes "codes_ok c" and "lib_isDeviceTypeSupported h (di_deviceType d) = OK c"
    and "um_find device_eq d (sa_devices sa) = Some s"
  shows "sa_get_aggregated_status c h out d sa =
     (case ds_aggregatedMessages s of [] \<Rightarrow> (NO_MESSAGE_AVAILABLE c, out, sa)
      | b # q \<Rightarrow> (OK c, b, sa\<lparr>sa_devices := um_modify device_eq d
                     (\<lambda>s. s\<lparr>ds_aggregatedMessages := q\<rparr>) (sa_devices sa)\<rparr>))"
  using assms by (simp add: sa_get_aggregated_status_def sa_valid_registered)

lemma sa_fetch_all:
  assumes "codes_ok c" and "lib_isDeviceTypeSupported h (di_deviceType d) = OK c"
    and "um_find device_eq d (sa_devices sa) = Some s"
  shows "\<exists>sa'. sa_fetch c h (length (ds_aggregatedMessages s)) d sa =
           (map (Pair (OK c)) (ds_aggregatedMessages s), sa') \<and>
         um_find device_eq d (sa_devices sa') = Some (s\<lparr>ds_aggregatedMessages := []\<rparr>)"
  using assms(3)
proof (induction "ds_aggregatedMessages s" arbitrary: s sa)
  case Nil
  then show ?case by (metis (no_types, lifting) list.size(3) list.map(1) sa_fetch.simps(1)
        device_state.surjective device_state.update_convs(2))
next
  case (Cons b q)
  let ?s = "s\<lparr>ds_aggregatedMessages := q\<rparr>"
  let ?sa = "sa\<lparr>sa_devices := um_modify device_eq d (\<lambda>s. s\<lparr>ds_aggregatedMessages := q\<rparr>) (sa_devices sa)\<rparr>"
  have "um_find device_eq d (sa_devices ?sa) = Some ?s"
    using Cons.prems by (simp add: map_laws)
  from Cons.hyps(1) [of ?s, OF _ this] obtain sa' where
    "sa_fetch c h (length q) d ?sa = (map (Pair (OK c)) q, sa')"
    "um_find device_eq d (sa_devices sa') = Some (s\<lparr>ds_aggregatedMessages := []\<rparr>)"
    by auto
  then show ?case
    using sa_get_aggregated_registered [OF assms(1,2) Cons.prems]
    by (simp add: Cons.hyps(2) [symmetric])
qed

text \<open>
  The messages waiting for a device after a status arrived: what was waiting before and, if
  the module wants the status sent, the aggregated status; the first status of a device is
  always sent, as it came.
\<close>

definition expected_messages ::
  "error_codes \<Rightarrow> handler \<Rightarrow> buffer \<Rightarrow> device_identification \<Rightarrow> status_aggregator \<Rightarrow> buffer list" where
  "expected_messages c h status d sa =
     (case um_find device_eq d (sa_devices sa) of
        None \<Rightarrow> [status]
      | Some s \<Rightarrow>
          ds_aggregatedMessages s @
          (if lib_sendStatusCondition h (ds_status s) status (di_deviceType d) = OK c
           then (case lib_aggregateStatus h (ds_status s) status (di_deviceType d) of
                   Inl _ \<Rightarrow> []
                 | Inr (rc, b) \<Rightarrow> [if rc = OK c then b else ds_status s])
           else []))"

lemma sa_add_status_messages:
  assumes "codes_ok c" and "lib_isDeviceTypeSupported h (di_deviceType d) = OK c"
    and "sa_add_status_to_aggregator c h status d sa = Inr (rc, sa')" and "0 \<le> rc"
  shows "\<exists>s'. um_find device_eq d (sa_devices sa') = Some s' \<and>
     ds_aggregatedMessages s' = expected_messages c h status d sa \<and>
     rc = int (length (ds_aggregatedMessages s'))"
  using assms(3)
proof (cases rule: sa_add_status_cases)
  case refused
  then show ?thesis using assms(1,2,4) codes_okD(4) [OF assms(1)] by simp
next
  case (no_command rc' cmd)
  then show ?thesis using assms(4) codes_okD(6) [OF assms(1)] by simp
next
  case (new cmd)
  have "um_find device_eq d (sa_devices ((sa_reset_timeout d sa)\<lparr>sa_devices :=
      um_try_emplace device_eq d (ds_new c h d cmd status) (sa_devices sa)\<rparr>)) =
      Some (ds_new c h d cmd status)"
    using new(2) by (simp add: map_laws um_contains_def)
  from sa_force_registered [OF assms(1,2) this] new show ?thesis
    by (simp add: map_laws um_contains_def ds_new_def StatusAggregatorDeviceState_def
        ds_enableImmediateCommandForwarding_def expected_messages_def Let_def)
next
  case (known s s')
  have "ds_aggregatedMessages s' = expected_messages c h status d sa"
    using known(2,3)
    by (auto simp: expected_messages_def sa_aggregateSetSendStatus_def sa_aggregateSetStatus_def
        sa_aggregateStatus_def ds_getStatus_def bindE_eq_Inr_iff ds_setStatus_def
        ds_setStatusAndResetTimer_def Let_def split: if_splits)
  then show ?thesis using known by (simp add: map_laws)
qed

text \<open>
  C16: a non-negative result of \<open>add_status_to_aggregator\<close> is exactly the number of aggregated
  statuses waiting for the device. Fetching that many returns, oldest first, those that waited
  before followed by the new one if it is to be sent, each with the code \<open>OK\<close>, and the next
  fetch returns \<open>NO_MESSAGE_AVAILABLE\<close> and leaves the output as it was.
\<close>

theorem add_status_then_fetch:
  assumes "codes_ok c" and "lib_isDeviceTypeSupported h (di_deviceType d) = OK c"
    and "sa_add_status_to_aggregator c h status d sa = Inr (rc, sa')" and "0 \<le> rc"
  shows "\<exists>sa''. sa_fetch c h (nat rc) d sa' =
           (map (Pair (OK c)) (expected_messages c h status d sa), sa'') \<and>
         sa_get_aggregated_status c h out d sa'' = (NO_MESSAGE_AVAILABLE c, out, sa'')"
proof -
  obtain s' where s': "um_find device_eq d (sa_devices sa') = Some s'"
    "ds_aggregatedMessages s' = expected_messages c h status d sa"
    "rc = int (length (ds_aggregatedMessages s'))"
    using sa_add_status_messages [OF assms] by blast
  obtain sa'' where "sa_fetch c h (nat rc) d sa' = (map (Pair (OK c)) (ds_aggregatedMessages s'), sa'')"
    and s'': "um_find device_eq d (sa_devices sa'') = Some (s'\<lparr>ds_aggregatedMessages := []\<rparr>)"
    using sa_fetch_all [OF assms(1,2) s'(1)] s'(3) by auto
  then show ?thesis
    using sa_get_aggregated_registered [OF assms(1,2) s''] s'(2) by simp
qed

theorem add_status_then_fetch_witness:
  "\<exists>sa''. sa_fetch sample_codes sample_handler 1 sample_device sample_aggregator =
     ([(0, sample_buffer [5])], sa'') \<and>
   sa_get_aggregated_status sample_codes sample_handler empty_buffer sample_device sa'' =
     (- 13, empty_buffer, sa'')"
  using add_status_then_fetch [OF sample_codes_ok _ sample_add, of empty_buffer]
  by (simp add: sample_handler_simps sample_device_def expected_messages_def StatusAggregator_def)

section \<open>Time-outs\<close>

lemma tt_armed_idem: "tt_armed t \<Longrightarrow> t\<lparr>tt_armed := True\<rparr> = t"
  by simp

lemma sa_timeout_count_ready [simp]:
  "sa_getDeviceTimeoutCount d (sa\<lparr>sa_timeoutedMessageReady := b\<rparr>) = sa_getDeviceTimeoutCount d sa"
  by (simp add: sa_getDeviceTimeoutCount_def)

lemma sa_timer_registered:
  assumes "sa_inv c h sa" and "codes_ok c" and "lib_isDeviceTypeSupported h (di_deviceType d) = OK c"
    and "um_find device_eq d (sa_devices sa) = Some s"
  shows "um_find device_eq d (sa_devices (sa_timer_event c h False d sa)) =
           Some (s\<lparr>ds_aggregatedMessages := ds_aggregatedMessages s @ [ds_status s]\<rparr>)"
    and "sa_getDeviceTimeoutCount d (sa_timer_event c h False d sa) =
           sa_getDeviceTimeoutCount d sa + 1"
    and "sa_timeoutedMessageReady (sa_timer_event c h False d sa)"
proof -
  let ?d = "tt_deviceId (ds_timer s)"
  have s: "ds_inv s" and eq: "device_eq ?d d" using sa_inv_find [OF assms(1,4)] by simp_all
  have supp: "lib_isDeviceTypeSupported h (di_deviceType ?d) = OK c"
    using assms(3) device_eq_type [OF eq] by simp
  have find: "um_find device_eq ?d m = um_find device_eq d m" for m :: "'v device_map"
    by (rule dev.find_cong [OF eq])
  define sa1 where "sa1 = sa\<lparr>sa_timeoutedMessageReady := True,
    sa_deviceTimeouts := um_put device_eq ?d (sa_getDeviceTimeoutCount d sa + 1) (sa_deviceTimeouts sa)\<rparr>"
  have "um_find device_eq ?d (sa_devices sa1) = Some s"
    using assms(4) by (simp add: sa1_def find)
  note forced = sa_force_registered [OF assms(2) supp this]
  have "sa_timer_event c h False d sa = sa1\<lparr>sa_devices :=
      um_modify device_eq d (\<lambda>s'. s'\<lparr>ds_timer := ds_timer s\<rparr>)
        (um_modify device_eq ?d (\<lambda>s. s\<lparr>ds_aggregatedMessages := ds_aggregatedMessages s @ [ds_status s]\<rparr>)
          (sa_devices sa))\<rparr>"
    using s assms(4) forced
    by (simp add: sa_timer_event_def tt_tick_def sa_timeouted_force_aggregation_def Let_def find
        sa_getDeviceTimeoutCount_def [symmetric] ds_inv_def tt_armed_idem sa1_def)
  then show "um_find device_eq d (sa_devices (sa_timer_event c h False d sa)) =
           Some (s\<lparr>ds_aggregatedMessages := ds_aggregatedMessages s @ [ds_status s]\<rparr>)"
    and "sa_getDeviceTimeoutCount d (sa_timer_event c h False d sa) =
           sa_getDeviceTimeoutCount d sa + 1"
    and "sa_timeoutedMessageReady (sa_timer_event c h False d sa)"
    using assms(4) eq by (simp_all add: map_laws sa1_def sa_getDeviceTimeoutCount_def)
qed

lemma sa_add_status_resets:
  assumes "sa_add_status_to_aggregator c h status d sa = Inr (rc, sa')"
    and "lib_isDeviceTypeSupported h (di_deviceType d) \<noteq> NOT_OK c"
  shows "sa_getDeviceTimeoutCount d sa' = 0"
  using assms
  by (cases rule: sa_add_status_cases)
    (auto simp: sa_getDeviceTimeoutCount_def sa_reset_timeout_def map_laws
      sa_is_device_type_supported_def sa_forceAggregationOnDeviceUnlocked_def Let_def)

text \<open>
  C26: while a device is silent, each expiry of its timer counts one time-out, queues the
  device's current status once more and raises the ready flag; the next status of the device
  sets the count back to zero.
\<close>

theorem timeouts_counted:
  assumes "sa_reachable c h sa" and "codes_ok c"
    and "lib_isDeviceTypeSupported h (di_deviceType d) = OK c"
    and "um_find device_eq d (sa_devices sa) = Some s"
    and "sa' = (sa_timer_event c h False d ^^ n) sa"
  shows "um_find device_eq d (sa_devices sa') =
           Some (s\<lparr>ds_aggregatedMessages := ds_aggregatedMessages s @ replicate n (ds_status s)\<rparr>) \<and>
         sa_getDeviceTimeoutCount d sa' = sa_getDeviceTimeoutCount d sa + int n \<and>
         (0 < n \<longrightarrow> sa_getTimeoutedMessageReady sa') \<and>
         (\<forall>status rc sa''. sa_add_status_to_aggregator c h status d sa' = Inr (rc, sa'') \<longrightarrow>
            sa_getDeviceTimeoutCount d sa'' = 0)"
proof -
  have "sa_inv c h sa" using assms(1) by induction (auto intro: sa_inv_init sa_step_inv)
  then have "sa_inv c h ((sa_timer_event c h False d ^^ n) sa) \<and>
    um_find device_eq d (sa_devices ((sa_timer_event c h False d ^^ n) sa)) =
      Some (s\<lparr>ds_aggregatedMessages := ds_aggregatedMessages s @ replicate n (ds_status s)\<rparr>) \<and>
    sa_getDeviceTimeoutCount d ((sa_timer_event c h False d ^^ n) sa) =
      sa_getDeviceTimeoutCount d sa + int n \<and>
    (0 < n \<longrightarrow> sa_timeoutedMessageReady ((sa_timer_event c h False d ^^ n) sa))"
  proof (induction n)
    case 0
    then show ?case using assms(4) by simp
  next
    case (Suc n)
    then show ?case
      using sa_timer_registered [OF _ assms(2,3)] sa_inv_timer_event
      by (auto simp: replicate_append_same)
  qed
  then show ?thesis
    using sa_add_status_resets assms(3,5) codes_ok_distinct(1) [OF assms(2)]
    by (auto simp: sa_getTimeoutedMessageReady_def)
qed

theorem timeouts_counted_witness:
  "sa_getDeviceTimeoutCount sample_device
     ((sa_timer_event sample_codes sample_handler False sample_device ^^ 2) sample_aggregator) = 2"
  using timeouts_counted [OF sample_reachable sample_codes_ok, of sample_device _ _ 2]
  by (simp add: sample_handler_simps sample_device_def sample_aggregator_def sa_getDeviceTimeoutCount_def
      device_eq_def)

section \<open>Commands\<close>

fun sa_update_commands ::
  "error_codes \<Rightarrow> handler \<Rightarrow> buffer list \<Rightarrow> device_identification \<Rightarrow> status_aggregator \<Rightarrow>
   int list \<times> status_aggregator" where
  "sa_update_commands c h [] d sa = ([], sa)"
| "sa_update_commands c h (b # bs) d sa =
     (let (rc, sa) = sa_update_command c h b d sa; (rcs, sa) = sa_update_commands c h bs d sa
      in (rc # rcs, sa))"

fun sa_get_commands ::
  "error_codes \<Rightarrow> handler \<Rightarrow> nat \<Rightarrow> buffer \<Rightarrow> device_identification \<Rightarrow> status_aggregator \<Rightarrow>
   exn + (int \<times> buffer) list \<times> status_aggregator" where
  "sa_get_commands c h 0 status d sa = Inr ([], sa)"
| "sa_get_commands c h (Suc n) status d sa =
     bindE (sa_get_command c h status d empty_buffer sa) (\<lambda>(rc, b, sa).
     bindE (sa_get_commands c h n status d sa) (\<lambda>(rest, sa). Inr ((rc, b) # rest, sa)))"

definition valid_command :: "error_codes \<Rightarrow> handler \<Rightarrow> u32 \<Rightarrow> buffer \<Rightarrow> bool" where
  "valid_command c h t b \<longleftrightarrow> isAllocated b \<and> lib_commandDataValid h b t = OK c"

lemma sa_update_commands_valid:
  assumes "codes_ok c" and "lib_isDeviceTypeSupported h (di_deviceType d) = OK c"
    and "um_find device_eq d (sa_devices sa) = Some s"
    and "list_all (valid_command c h (di_deviceType d)) bs"
  shows "\<exists>sa'. sa_update_commands c h bs d sa = (map (\<lambda>_. OK c) bs, sa') \<and>
     um_find device_eq d (sa_devices sa') = Some (add_commands c bs s)"
  using assms(3,4)
proof (induction bs arbitrary: sa s)
  case (Cons b bs)
  let ?sa = "sa\<lparr>sa_devices := um_modify device_eq d (\<lambda>s. snd (ds_addExternalCommand c b s)) (sa_devices sa)\<rparr>"
  have step: "sa_update_command c h b d sa = (OK c, ?sa)"
    using assms(2) Cons.prems codes_ok_distinct [OF assms(1)]
    by (simp add: sa_update_command_def sa_is_device_type_supported_def um_contains_def
        valid_command_def)
  have "um_find device_eq d (sa_devices ?sa) = Some (snd (ds_addExternalCommand c b s))"
    using Cons.prems by (simp add: map_laws)
  from Cons.IH [OF this] Cons.prems(2) show ?case by (auto simp: step)
qed simp

lemma sa_get_command_queued:
  assumes "codes_ok c" and "lib_isDeviceTypeSupported h (di_deviceType d) = OK c"
    and "um_find device_eq d (sa_devices sa) = Some s"
    and "ds_consumeCommand s = (Some b, s')"
    and "lib_generateCommand h status (ds_status s) b (di_deviceType d) = Inr (OK c, g)"
  shows "sa_get_command c h status d out sa = Inr (OK c, g, sa\<lparr>sa_devices :=
     um_modify device_eq d (\<lambda>_. ds_setDefaultCommand g s') (sa_devices sa)\<rparr>)"
  using assms codes_ok_distinct(7) [OF assms(1)] ds_consumeCommand_keeps(2) [of s]
  by (simp add: sa_get_command_def sa_getCommandUnlocked_def sa_is_device_type_supported_def
      um_at_def ds_getStatus_def)

lemma sa_get_commands_queued:
  assumes "codes_ok c" and "lib_isDeviceTypeSupported h (di_deviceType d) = OK c"
    and "um_find device_eq d (sa_devices sa) = Some s"
    and "\<And>b. lib_generateCommand h status (ds_status s) b (di_deviceType d) = Inr (OK c, gen b)"
  shows "\<exists>sa'. sa_get_commands c h (length (ds_externalCommandQueue s)) status d sa =
       Inr (map (\<lambda>b. (OK c, gen b)) (ds_externalCommandQueue s), sa') \<and>
     um_find device_eq d (sa_devices sa') =
       Some (s\<lparr>ds_externalCommandQueue := [],
               ds_defaultCommand := (if ds_externalCommandQueue s = [] then ds_defaultCommand s
                 else gen (last (ds_externalCommandQueue s)))\<rparr>)"
  using assms(3,4)
proof (induction "ds_externalCommandQueue s" arbitrary: s sa)
  case Nil
  then show ?case by (simp add: Nil.hyps [symmetric])
next
  case (Cons b q)
  let ?s = "s\<lparr>ds_defaultCommand := gen b, ds_externalCommandQueue := q\<rparr>"
  let ?sa = "sa\<lparr>sa_devices := um_modify device_eq d (\<lambda>_. ?s) (sa_devices sa)\<rparr>"
  have "ds_setDefaultCommand (gen b) (s\<lparr>ds_defaultCommand := b, ds_externalCommandQueue := q\<rparr>) = ?s"
    by (simp add: ds_setDefaultCommand_def)
  then have step: "sa_get_command c h status d out sa = Inr (OK c, gen b, ?sa)" for out
    using sa_get_command_queued [OF assms(1,2) Cons.prems(1)
        ds_consumeCommand_Cons [OF Cons.hyps(2) [symmetric]] Cons.prems(2)] by simp
  have find: "um_find device_eq d (sa_devices ?sa) = Some ?s"
    using Cons.prems(1) by (simp add: map_laws)
  show ?case
    using Cons.hyps(1) [of ?s, OF _ find] Cons.prems(2)
    by (auto simp: step Cons.hyps(2) [symmetric])
qed

text \<open>
  C22: valid commands sent to a registered device with nothing queued are all accepted. The
  device, asking as often as commands wait, gets what the module generates from the last
  \<open>max_external_commands\<close> of them, oldest first. Asking once more, a push-only device gets
  \<open>NO_MESSAGE_AVAILABLE\<close>; a pull device gets a command generated from the one it got last.
\<close>

theorem commands_reach_device:
  assumes "codes_ok c" and "lib_isDeviceTypeSupported h (di_deviceType d) = OK c"
    and "um_find device_eq d (sa_devices sa) = Some s" and "ds_externalCommandQueue s = []"
    and "bs \<noteq> []" and "list_all (valid_command c h (di_deviceType d)) bs"
    and "\<forall>b. lib_generateCommand h status (ds_status s) b (di_deviceType d) = Inr (OK c, gen b)"
    and "n = min max_external_commands (length bs)"
  shows "\<exists>sa' sa''. sa_update_commands c h bs d sa = (map (\<lambda>_. OK c) bs, sa') \<and>
     sa_get_commands c h n status d sa' =
       Inr (map (\<lambda>b. (OK c, gen b)) (keep_last max_external_commands bs), sa'') \<and>
     map_sum id fst (sa_get_command c h status d out sa'') =
       Inr (if ds_forwardCommandImmediately s then NO_MESSAGE_AVAILABLE c else OK c) \<and>
     (\<not> ds_forwardCommandImmediately s \<longrightarrow>
        map_sum id (fst \<circ> snd) (sa_get_command c h status d out sa'') = Inr (gen (gen (last bs))))"
proof -
  let ?q = "keep_last max_external_commands bs"
  let ?s1 = "s\<lparr>ds_externalCommandQueue := ?q\<rparr>"
  have "add_commands c bs s = ?s1" using assms(4) by (simp add: add_commands_eq)
  then obtain sa' where sa': "sa_update_commands c h bs d sa = (map (\<lambda>_. OK c) bs, sa')"
    and s1: "um_find device_eq d (sa_devices sa') = Some ?s1"
    using sa_update_commands_valid [OF assms(1,2,3,6)] by auto
  have len: "0 < length bs" using assms(5) by simp
  then have q: "length ?q = n" "?q \<noteq> []"
    using assms(8) len by (simp, cases bs, simp_all add: max_external_commands_def keep_last_def)
  have last: "last ?q = last bs"
    unfolding keep_last_def by (rule last_drop) (use len in \<open>simp add: max_external_commands_def\<close>)
  let ?s2 = "s\<lparr>ds_externalCommandQueue := [], ds_defaultCommand := gen (last bs)\<rparr>"
  obtain sa'' where sa'': "sa_get_commands c h n status d sa' = Inr (map (\<lambda>b. (OK c, gen b)) ?q, sa'')"
    and s2: "um_find device_eq d (sa_devices sa'') = Some ?s2"
    using sa_get_commands_queued [OF assms(1,2) s1, of status gen] assms(7) q last by auto
  have "sa_get_command c h status d out sa'' =
     (if ds_forwardCommandImmediately s
      then Inr (NO_MESSAGE_AVAILABLE c, out, sa''\<lparr>sa_devices :=
             um_modify device_eq d (\<lambda>_. ?s2) (sa_devices sa'')\<rparr>)
      else Inr (OK c, gen (gen (last bs)), sa''\<lparr>sa_devices :=
             um_modify device_eq d (\<lambda>_. ds_setDefaultCommand (gen (gen (last bs))) ?s2) (sa_devices sa'')\<rparr>))"
    using assms(1,2,7) s2 codes_ok_distinct(7) [OF assms(1)]
    by (simp add: sa_get_command_def sa_getCommandUnlocked_def sa_is_device_type_supported_def
        um_at_def ds_consumeCommand_def ds_getStatus_def)
  then show ?thesis using sa' sa'' by auto
qed

theorem commands_reach_device_witness:
  "\<exists>sa' sa''. sa_update_commands sample_codes sample_handler
       [sample_buffer [1], sample_buffer [2], sample_buffer [3], sample_buffer [4]]
       sample_device sample_aggregator = ([0, 0, 0, 0], sa') \<and>
     sa_get_commands sample_codes sample_handler 3 (sample_buffer [5]) sample_device sa' =
       Inr ([(0, sample_buffer [2]), (0, sample_buffer [3]), (0, sample_buffer [4])], sa'') \<and>
     map_sum id (fst \<circ> snd)
       (sa_get_command sample_codes sample_handler (sample_buffer [5]) sample_device empty_buffer sa'') =
       Inr (sample_buffer [4])"
proof -
  let ?b = "map (\<lambda>n. sample_buffer [n]) [1, 2, 3, 4]"
  obtain s where s: "um_find device_eq sample_device (sa_devices sample_aggregator) = Some s"
    "ds_externalCommandQueue s = []" "ds_status s = sample_buffer [5]"
    "\<not> ds_forwardCommandImmediately s"
    by (simp add: sample_aggregator_def StatusAggregatorDeviceState_def)
  let ?gen = "\<lambda>b. if isAllocated b then b else sample_buffer [0]"
  have gen: "\<forall>b. lib_generateCommand sample_handler (sample_buffer [5]) (ds_status s) b
      (di_deviceType sample_device) = Inr (OK sample_codes, ?gen b)"
    by (simp add: sample_handler_simps)
  have "lib_isDeviceTypeSupported sample_handler (di_deviceType sample_device) = OK sample_codes"
    "list_all (valid_command sample_codes sample_handler (di_deviceType sample_device)) ?b"
    by (simp_all add: sample_handler_simps sample_device_def valid_command_def)
  from commands_reach_device [OF sample_codes_ok this(1) s(1,2) _ this(2) gen, of 3 empty_buffer] s(4)
  show ?thesis
    by (auto simp: keep_last_def max_external_commands_def simp del: sa_update_commands.simps)
qed

section \<open>Removal\<close>

lemma sa_remove_registered:
  assumes "codes_ok c" and "lib_isDeviceTypeSupported h (di_deviceType d) = OK c"
    and "um_find device_eq d (sa_devices sa) = Some s"
  shows "sa_remove_device c h d sa = (OK c, sa\<lparr>sa_devices :=
     um_modify device_eq d (\<lambda>s. s\<lparr>ds_aggregatedMessages := []\<rparr>) (sa_devices sa),
     sa_posted := sa_posted sa @ [d]\<rparr>)"
  using assms by (simp add: sa_remove_device_def sa_clearDeviceUnlocked_def sa_valid_registered Let_def)

lemma sa_posted_force [simp]:
  "sa_posted (snd (sa_forceAggregationOnDeviceUnlocked c h d sa)) = sa_posted sa"
  by (simp add: sa_forceAggregationOnDeviceUnlocked_def Let_def)

lemma sa_posted_add_status:
  assumes "sa_add_status_to_aggregator c h status d sa = Inr (rc, sa')"
  shows "sa_posted sa' = sa_posted sa"
  using assms by (cases rule: sa_add_status_cases) simp_all

text \<open>
  C40: \<open>remove_device\<close> answers \<open>OK\<close> but only posts the erasure. A status that arrives before the
  posted closure runs is accepted as one of the old device; then the closure erases the
  device the status revived, and asking for the command that answers this status throws
  \<open>std::out_of_range\<close>.
\<close>

theorem removal_overtakes_status:
  assumes "codes_ok c" and "lib_isDeviceTypeSupported h (di_deviceType d) = OK c"
    and "um_find device_eq d (sa_devices sa) = Some s"
    and "sa_remove_device c h d sa = (rc, sa1)"
    and "sa_add_status_to_aggregator c h status d sa1 = Inr (n, sa2)" and "0 \<le> n"
  shows "rc = OK c \<and> d \<in> set (sa_posted sa2) \<and> sa_is_device_valid c h d sa2 = OK c \<and>
    sa_get_command c h status d out (sa_run_posted d sa2) = Inl Out_of_range"
proof -
  obtain s' where "um_find device_eq d (sa_devices sa2) = Some s'"
    using sa_add_status_messages [OF assms(1,2,5,6)] by blast
  then show ?thesis
    using sa_remove_registered [OF assms(1-3)] assms(4) sa_posted_add_status [OF assms(5)]
      codes_ok_distinct(7) [OF assms(1)] assms(2)
    by (auto simp: sa_is_device_valid_def sa_valid_OK [OF assms(1)] um_contains_def sa_get_command_def
        sa_getCommandUnlocked_def sa_run_posted_def um_at_def sa_is_device_type_supported_def map_laws)
qed

theorem removal_overtakes_status_witness:
  "\<exists>sa1 sa2. sa_remove_device sample_codes sample_handler sample_device sample_aggregator = (0, sa1) \<and>
     sa_add_status_to_aggregator sample_codes sample_handler (sample_buffer [6]) sample_device sa1 =
       Inr (1, sa2) \<and>
     sa_get_command sample_codes sample_handler (sample_buffer [6]) sample_device empty_buffer
       (sa_run_posted sample_device sa2) = Inl Out_of_range"
proof -
  obtain s where s: "um_find device_eq sample_device (sa_devices sample_aggregator) = Some s"
    by (simp add: sample_aggregator_def)
  have supp: "lib_isDeviceTypeSupported sample_handler (di_deviceType sample_device) = OK sample_codes"
    by (simp add: sample_handler_simps sample_device_def)
  note removed = sa_remove_registered [OF sample_codes_ok supp s]
  let ?sa1 = "snd (sa_remove_device sample_codes sample_handler sample_device sample_aggregator)"
  obtain sa2 where sa2: "sa_add_status_to_aggregator sample_codes sample_handler (sample_buffer [6])
      sample_device ?sa1 = Inr (1, sa2)"
    unfolding removed snd_conv
    by (simp add: sa_add_status_to_aggregator_def sample_aggregator_def sample_device_def
        um_contains_def um_at_def StatusAggregatorDeviceState_def sample_handler_simps device_eq_def
        sa_is_device_type_supported_def ds_getStatus_def sa_aggregateSetSendStatus_def
        sa_aggregateStatus_def StatusAggregator_def ds_setStatusAndResetTimer_def ds_setStatus_def)
  show ?thesis
    using removal_overtakes_status [OF sample_codes_ok supp s _ sa2, of 0 empty_buffer] sa2 removed
    by auto
qed

end
