(* ===== verification/Module_Handler.thy ===== *)
theory Module_Handler
  imports Module_Library Status_Aggregator_Spec
begin

text \<open>
  The module handler (ModuleHandler.hpp and .cpp): it takes the messages of internal clients from
  one queue, works on the status aggregators, and puts answers on the queue to the internal
  server and aggregated statuses on the queue to the external client. Every handler is a
  function of the state \<open>module_handler\<close>; the loops are given by their rounds.
\<close>

section \<open>State\<close>

record module_handler =
  mh_moduleLibraryHandlers :: module_handlers
  mh_statusAggregators :: status_aggregators
  mh_fromInternalQueue :: "internal_client_message atomic_queue"
  mh_commandForwardingQueue :: "internal_client_message atomic_queue"
  mh_toInternalQueue :: "module_handler_message atomic_queue"
  mh_toExternalQueue :: "internal_client_message atomic_queue"

definition ModuleHandler :: "gw_modules \<Rightarrow> module_handler" where
  "ModuleHandler lib =
     \<lparr>mh_moduleLibraryHandlers = ml_moduleLibraryHandlers lib,
      mh_statusAggregators = ml_statusAggregators lib, mh_fromInternalQueue = [],
      mh_commandForwardingQueue = [], mh_toInternalQueue = [], mh_toExternalQueue = []\<rparr>"

text \<open>Storing the aggregator of a module after an operation on it.\<close>

definition mh_store :: "int \<Rightarrow> handler \<Rightarrow> status_aggregator \<Rightarrow> module_handler \<Rightarrow> module_handler" where
  "mh_store moduleNumber h sa mh = mh\<lparr>mh_statusAggregators :=
     um_modify num_eq moduleNumber (\<lambda>_. (h, sa)) (mh_statusAggregators mh)\<rparr>"

definition mh_to_internal :: "module_handler_message \<Rightarrow> module_handler \<Rightarrow> module_handler" where
  "mh_to_internal m mh = mh\<lparr>mh_toInternalQueue := pushAndNotify m (mh_toInternalQueue mh)\<rparr>"

definition mh_to_external :: "internal_client_message \<Rightarrow> module_handler \<Rightarrow> module_handler" where
  "mh_to_external m mh = mh\<lparr>mh_toExternalQueue := pushAndNotify m (mh_toExternalQueue mh)\<rparr>"

text \<open>\<open>checkExternalQueueSize\<close> only logs: whether it reports an overflow.\<close>

definition mh_checkExternalQueueSize :: "module_handler \<Rightarrow> bool" where
  "mh_checkExternalQueueSize mh \<longleftrightarrow> aq_size (mh_toExternalQueue mh) > max_external_queue_size"

section \<open>Statuses for the external client\<close>

definition mh_sendAggregatedStatus ::
  "error_codes \<Rightarrow> device_identification \<Rightarrow> ip_device \<Rightarrow> bool \<Rightarrow> module_handler \<Rightarrow> exn + module_handler" where
  "mh_sendAggregatedStatus c deviceId device disconnected mh =
     bindE (um_at num_eq (di_module deviceId) (mh_statusAggregators mh)) (\<lambda>(h, sa).
       let (_, aggregatedStatusBuffer, sa) = sa_get_aggregated_status c h empty_buffer deviceId sa;
           statusMessage = createInternalClientStatusMessage device aggregatedStatusBuffer
       in Inr (mh_to_external (InternalClientMessage disconnected statusMessage)
                 (mh_store (di_module deviceId) h sa mh)))"

text \<open>The loop at the end of \<open>handleStatus\<close>.\<close>

fun mh_sendAggregatedStatuses ::
  "error_codes \<Rightarrow> device_identification \<Rightarrow> ip_device \<Rightarrow> nat \<Rightarrow> module_handler \<Rightarrow> exn + module_handler" where
  "mh_sendAggregatedStatuses c deviceId device 0 mh = Inr mh"
| "mh_sendAggregatedStatuses c deviceId device (Suc n) mh =
     bindE (mh_sendAggregatedStatus c deviceId device False mh) (\<lambda>mh.
       mh_sendAggregatedStatuses c deviceId device n mh)"

section \<open>Messages of internal clients\<close>

definition mh_sendConnectResponse ::
  "ip_device \<Rightarrow> connect_response_type \<Rightarrow> module_handler \<Rightarrow> module_handler" where
  "mh_sendConnectResponse device response_type mh =
     mh_to_internal (ModuleHandlerMessage False
       (createInternalServerConnectResponseMessage device response_type)) mh"

definition mh_handleConnect :: "error_codes \<Rightarrow> device_connect \<Rightarrow> module_handler \<Rightarrow> module_handler" where
  "mh_handleConnect c connect mh =
     (let device = cn_device connect
      in case um_find num_eq (ip_module device) (mh_statusAggregators mh) of
           None \<Rightarrow> mh_sendConnectResponse device CR_MODULE_NOT_SUPPORTED mh
         | Some (h, sa) \<Rightarrow>
             if sa_is_device_type_supported h (ip_devicetype device) = NOT_OK c
             then mh_sendConnectResponse device CR_DEVICE_NOT_SUPPORTED mh
             else mh_sendConnectResponse device CR_OK mh)"

definition mh_handleDisconnect ::
  "error_codes \<Rightarrow> device_identification \<Rightarrow> module_handler \<Rightarrow> exn + module_handler" where
  "mh_handleDisconnect c deviceId mh =
     (case um_find num_eq (di_module deviceId) (mh_statusAggregators mh) of
        None \<Rightarrow> Inr mh
      | Some (h, sa) \<Rightarrow>
          if sa_is_device_valid c h deviceId sa = NOT_OK c then Inr mh
          else
            let (ret, sa) = sa_force_aggregation_on_device c h deviceId sa;
                mh = mh_store (di_module deviceId) h sa mh
            in if ret < 1 then Inr mh
               else
                 bindE (mh_sendAggregatedStatus c deviceId (convertToIPDevice deviceId) True mh)
                   (\<lambda>mh. bindE (um_at num_eq (di_module deviceId) (mh_statusAggregators mh))
                     (\<lambda>(h, sa).
                       Inr (mh_store (di_module deviceId) h (snd (sa_remove_device c h deviceId sa)) mh))))"

text \<open>The part of \<open>handleStatus\<close> from \<open>get_command\<close> on; \<open>n\<close> is the result of adding the status.\<close>

definition mh_answerStatus ::
  "error_codes \<Rightarrow> device_status \<Rightarrow> buffer \<Rightarrow> int \<Rightarrow> handler \<Rightarrow> status_aggregator \<Rightarrow> module_handler \<Rightarrow>
   exn + module_handler" where
  "mh_answerStatus c status statusBuffer n h sa mh =
     (let device = st_device status; deviceId = device_of_ip device
      in bindE (sa_get_command c h statusBuffer deviceId empty_buffer sa)
           (\<lambda>(getCommandRc, commandBuffer, sa).
         let mh = mh_store (di_module deviceId) h sa mh
         in if getCommandRc = OK c then
              mh_sendAggregatedStatuses c deviceId device (nat n)
                (mh_to_internal (ModuleHandlerMessage False
                   (createInternalServerCommandMessage device commandBuffer)) mh)
            else if getCommandRc = NO_MESSAGE_AVAILABLE c then
              mh_sendAggregatedStatuses c deviceId device (nat n)
                (mh_to_internal (ModuleHandlerMessage False
                   (createInternalServerCommandMessage device empty_buffer)) mh)
            else Inr mh))"

definition mh_handleStatus ::
  "error_codes \<Rightarrow> device_status \<Rightarrow> module_handler \<Rightarrow> exn + module_handler" where
  "mh_handleStatus c status mh =
     (let device = st_device status; deviceId = device_of_ip device
      in case um_find num_eq (ip_module device) (mh_statusAggregators mh) of
           None \<Rightarrow> Inr mh
         | Some (h, sa) \<Rightarrow>
             bindE (handler_at (ip_module device) (mh_moduleLibraryHandlers mh)) (\<lambda>moduleHandler.
             bindE (status_to_buffer moduleHandler status) (\<lambda>statusBuffer.
               if lib_statusDataValid moduleHandler statusBuffer (di_deviceType deviceId) = NOT_OK c
               then Inr mh
               else
                 bindE (sa_add_status_to_aggregator c h statusBuffer deviceId sa)
                   (\<lambda>(addStatusToAggregatorRc, sa).
                     if addStatusToAggregatorRc < 0
                     then Inr (mh_store (ip_module device) h sa mh)
                     else mh_answerStatus c status statusBuffer addStatusToAggregatorRc h sa mh))))"

section \<open>Commands that are forwarded at once\<close>

definition mh_handleCommandForward ::
  "error_codes \<Rightarrow> device_identification \<Rightarrow> module_handler \<Rightarrow> exn + module_handler" where
  "mh_handleCommandForward c deviceId mh =
     (case um_find num_eq (di_module deviceId) (mh_statusAggregators mh) of
        None \<Rightarrow> Inr mh
      | Some (h, sa) \<Rightarrow>
          bindE (sa_get_command_for_forwarding c h deviceId empty_buffer sa)
            (\<lambda>(forwardRc, commandBuffer, sa).
              let mh = mh_store (di_module deviceId) h sa mh
              in if forwardRc = NO_MESSAGE_AVAILABLE c then Inr mh
                 else if forwardRc \<noteq> OK c then Inr mh
                 else Inr (mh_to_internal (ModuleHandlerMessage False
                        (createInternalServerCommandMessage (convertToIPDevice deviceId)
                           commandBuffer)) mh)))"

section \<open>Devices that are silent for too long\<close>

text \<open>
  The inner loop of \<open>checkTimeoutedMessages\<close>: fetch and push until there is nothing left. Every
  round takes one message out, so one more round than there are messages is enough fuel.
\<close>

fun mh_drain ::
  "error_codes \<Rightarrow> handler \<Rightarrow> device_identification \<Rightarrow> nat \<Rightarrow> status_aggregator \<Rightarrow>
   internal_client_message list \<times> status_aggregator" where
  "mh_drain c h device 0 sa = ([], sa)"
| "mh_drain c h device (Suc fuel) sa =
     (let (remainingMessages, aggregatedStatusBuffer, sa) =
            sa_get_aggregated_status c h empty_buffer device sa
      in if remainingMessages < 0 then ([], sa)
         else
           let statusMessage = createInternalClientStatusMessage (convertToIPDevice device)
                 aggregatedStatusBuffer;
               (rest, sa) = mh_drain c h device fuel sa
           in (InternalClientMessage False statusMessage # rest, sa))"

definition mh_drain_fuel :: "device_identification \<Rightarrow> status_aggregator \<Rightarrow> nat" where
  "mh_drain_fuel device sa =
     (case um_find device_eq device (sa_devices sa) of
        None \<Rightarrow> 1 | Some s \<Rightarrow> length (ds_aggregatedMessages s) + 1)"

text \<open>The loop over the devices of one aggregator: the messages for the two queues.\<close>

fun mh_check_devices ::
  "error_codes \<Rightarrow> handler \<Rightarrow> device_identification list \<Rightarrow> status_aggregator \<Rightarrow>
   internal_client_message list \<times> module_handler_message list \<times> status_aggregator" where
  "mh_check_devices c h [] sa = ([], [], sa)"
| "mh_check_devices c h (device # devices) sa =
     (let (drained, sa) = mh_drain c h device (mh_drain_fuel device sa) sa;
          disconnects =
            (if sa_getDeviceTimeoutCount device sa \<ge> status_aggregation_timeout_max_count
             then [ModuleHandlerMessage_dev device] else []);
          (ext, int, sa) = mh_check_devices c h devices sa
      in (drained @ ext, disconnects @ int, sa))"

text \<open>The loop over the aggregators.\<close>

fun mh_check_aggregators ::
  "error_codes \<Rightarrow> int list \<Rightarrow> module_handler \<Rightarrow> module_handler" where
  "mh_check_aggregators c [] mh = mh"
| "mh_check_aggregators c (key # keys) mh =
     (case um_find num_eq key (mh_statusAggregators mh) of
        None \<Rightarrow> mh_check_aggregators c keys mh
      | Some (h, sa) \<Rightarrow>
          if sa_getTimeoutedMessageReady sa then
            let (ret, unique_devices) = sa_get_unique_devices [] sa
            in if ret = NOT_OK c then mh
               else
                 let (ext, int, sa) = mh_check_devices c h unique_devices sa;
                     mh = mh_store key h (sa_unsetTimeoutedMessageReady sa) mh
                 in mh_check_aggregators c keys
                      (mh\<lparr>mh_toExternalQueue := mh_toExternalQueue mh @ ext,
                          mh_toInternalQueue := mh_toInternalQueue mh @ int\<rparr>)
          else mh_check_aggregators c keys mh)"

definition mh_checkTimeoutedMessages :: "error_codes \<Rightarrow> module_handler \<Rightarrow> module_handler" where
  "mh_checkTimeoutedMessages c mh =
     mh_check_aggregators c (um_keys (mh_statusAggregators mh)) mh"

section \<open>The loops\<close>

text \<open>
  One round of \<open>handleMessages\<close>; \<open>arrived\<close> is what the internal server pushed while the round
  waited, possibly nothing. A message that is neither a disconnect nor a known kind is dropped.
\<close>

definition mh_dispatch ::
  "error_codes \<Rightarrow> internal_client_message \<Rightarrow> module_handler \<Rightarrow> exn + module_handler" where
  "mh_dispatch c message mh =
     (if icm_disconnect message then mh_handleDisconnect c (icm_deviceId message) mh
      else if has_deviceconnect (icm_message message)
      then Inr (mh_handleConnect c (deviceconnect (icm_message message)) mh)
      else if has_devicestatus (icm_message message)
      then mh_handleStatus c (devicestatus (icm_message message)) mh
      else Inr mh)"

definition mh_handleMessages_round ::
  "error_codes \<Rightarrow> internal_client_message list \<Rightarrow> module_handler \<Rightarrow> exn + module_handler" where
  "mh_handleMessages_round c arrived mh =
     (let (timedOut, q) = waitForValueWithTimeout arrived (mh_fromInternalQueue mh);
          mh = mh_checkTimeoutedMessages c (mh\<lparr>mh_fromInternalQueue := q\<rparr>)
      in if timedOut then Inr mh
         else
           bindE (aq_front (mh_fromInternalQueue mh)) (\<lambda>message.
           bindE (mh_dispatch c message mh) (\<lambda>mh.
           bindE (aq_pop (mh_fromInternalQueue mh)) (\<lambda>q.
             Inr (mh\<lparr>mh_fromInternalQueue := q\<rparr>)))))"

definition mh_handleCommandForwards_round ::
  "error_codes \<Rightarrow> internal_client_message list \<Rightarrow> module_handler \<Rightarrow> exn + module_handler" where
  "mh_handleCommandForwards_round c arrived mh =
     (let (timedOut, q) = waitForValueWithTimeout arrived (mh_commandForwardingQueue mh);
          mh = mh\<lparr>mh_commandForwardingQueue := q\<rparr>
      in if timedOut then Inr mh
         else
           bindE (aq_front (mh_commandForwardingQueue mh)) (\<lambda>message.
           bindE (mh_handleCommandForward c (icm_deviceId message) mh) (\<lambda>mh.
           bindE (aq_pop (mh_commandForwardingQueue mh)) (\<lambda>q.
             Inr (mh\<lparr>mh_commandForwardingQueue := q\<rparr>)))))"

definition mh_destroy :: "module_handler \<Rightarrow> module_handler" where
  "mh_destroy mh = mh\<lparr>mh_fromInternalQueue := [], mh_commandForwardingQueue := []\<rparr>"

end
