(* ===== verification/Module_Handler_Laws.thy ===== *)
theory Module_Handler_Laws
  imports Module_Handler
begin

text \<open>
  What the module handler guarantees: a connecting device gets one answer, an accepted status gets
  one command and its aggregated statuses go out in order, a disconnect is reported once, and
  time-outs are flushed completely.
\<close>

lemma mh_fields [simp]:
  "mh_toInternalQueue (mh_to_internal m mh) = mh_toInternalQueue mh @ [m]"
  "mh_toExternalQueue (mh_to_internal m mh) = mh_toExternalQueue mh"
  "mh_statusAggregators (mh_to_internal m mh) = mh_statusAggregators mh"
  "mh_toExternalQueue (mh_to_external e mh) = mh_toExternalQueue mh @ [e]"
  "mh_toInternalQueue (mh_to_external e mh) = mh_toInternalQueue mh"
  "mh_statusAggregators (mh_to_external e mh) = mh_statusAggregators mh"
  "mh_toInternalQueue (mh_store k h sa mh) = mh_toInternalQueue mh"
  "mh_toExternalQueue (mh_store k h sa mh) = mh_toExternalQueue mh"
  "mh_statusAggregators (mh_store k h sa mh) =
     um_modify num_eq k (\<lambda>_. (h, sa)) (mh_statusAggregators mh)"
  by (simp_all add: mh_to_internal_def mh_to_external_def mh_store_def pushAndNotify_def)

text \<open>The external message for an aggregated status.\<close>

definition status_message :: "bool \<Rightarrow> ip_device \<Rightarrow> buffer \<Rightarrow> internal_client_message" where
  "status_message disconnected device b =
     InternalClientMessage disconnected (createInternalClientStatusMessage device b)"

section \<open>Connecting\<close>

text \<open>
  A connect message gets exactly one answer, for the same device: \<open>MODULE_NOT_SUPPORTED\<close> if
  no aggregator serves its module, \<open>DEVICE_NOT_SUPPORTED\<close> if the module refuses its type,
  and \<open>OK\<close> otherwise; no aggregator and no other queue is touched.
\<close>

lemma connect_answered_once:
  "mh_handleConnect c connect mh = mh\<lparr>mh_toInternalQueue := mh_toInternalQueue mh @
     [ModuleHandlerMessage False (IS_DeviceConnectResponse
        \<lparr>cr_responsetype =
           (case um_find num_eq (ip_module (cn_device connect)) (mh_statusAggregators mh) of
              None \<Rightarrow> CR_MODULE_NOT_SUPPORTED
            | Some (h, sa) \<Rightarrow>
                if lib_isDeviceTypeSupported h (ip_devicetype (cn_device connect)) = NOT_OK c
                then CR_DEVICE_NOT_SUPPORTED else CR_OK),
         cr_device = cn_device connect\<rparr>)]\<rparr>"
  by (simp add: mh_handleConnect_def mh_sendConnectResponse_def mh_to_internal_def pushAndNotify_def
      createInternalServerConnectResponseMessage_def sa_is_device_type_supported_def Let_def
      split: option.splits)

section \<open>Statuses\<close>

lemma mh_sendAggregatedStatuses_eq:
  assumes "codes_ok c" and "lib_isDeviceTypeSupported h (di_deviceType d) = OK c"
    and "um_find num_eq (di_module d) (mh_statusAggregators mh) = Some (h, sa)"
    and "um_find device_eq d (sa_devices sa) = Some s"
    and "n = length (ds_aggregatedMessages s)"
  shows "\<exists>mh'. mh_sendAggregatedStatuses c d device n mh = Inr mh' \<and>
     mh_toInternalQueue mh' = mh_toInternalQueue mh \<and>
     mh_toExternalQueue mh' = mh_toExternalQueue mh @
       map (status_message False device) (ds_aggregatedMessages s)"
  using assms(3-5)
proof (induction n arbitrary: mh sa s)
  case 0
  then show ?case by simp
next
  case (Suc n)
  then obtain b q where q: "ds_aggregatedMessages s = b # q" by (cases "ds_aggregatedMessages s") auto
  let ?sa = "sa\<lparr>sa_devices := um_modify device_eq d (\<lambda>s. s\<lparr>ds_aggregatedMessages := q\<rparr>) (sa_devices sa)\<rparr>"
  let ?mh = "mh_to_external (status_message False device b) (mh_store (di_module d) h ?sa mh)"
  have one: "mh_sendAggregatedStatus c d device False mh = Inr ?mh"
    using Suc.prems(1) sa_get_aggregated_registered [OF assms(1,2) Suc.prems(2)] q
    by (simp add: mh_sendAggregatedStatus_def um_at_def status_message_def)
  have "um_find num_eq (di_module d) (mh_statusAggregators ?mh) = Some (h, ?sa)"
    using Suc.prems(1) by (simp add: map_laws)
  moreover have "um_find device_eq d (sa_devices ?sa) = Some (s\<lparr>ds_aggregatedMessages := q\<rparr>)"
    using Suc.prems(2) by (simp add: map_laws)
  ultimately show ?case
    using Suc.IH [of ?mh ?sa "s\<lparr>ds_aggregatedMessages := q\<rparr>"] Suc.prems(3) q one by auto
qed

lemma sa_get_command_messages:
  assumes "sa_get_command c h status d out sa = Inr (rc, out', sa')"
    and "um_find device_eq d (sa_devices sa) = Some s"
  shows "\<exists>s'. um_find device_eq d (sa_devices sa') = Some s' \<and>
     ds_aggregatedMessages s' = ds_aggregatedMessages s"
proof -
  have "sa_getCommandUnlocked c h status d out sa = Inr (rc, out', sa')"
    using assms(1) by (simp add: sa_get_command_def)
  then show ?thesis
  proof (cases rule: sa_getCommand_cases)
    case (exhausted s1 s')
    then show ?thesis
      using assms(2) ds_consumeCommand_keeps(3) [of s] by (simp add: map_laws)
  next
    case (generated s1 s' cur rc')
    then show ?thesis
      using assms(2) ds_consumeCommand_keeps(3) [of s]
      by (simp add: map_laws ds_setDefaultCommand_def)
  qed (use assms(2) in simp)
qed

text \<open>
  A valid status of a supported device is answered with exactly one command for that device: the generated one, or an
  empty one when a push-only device has no command waiting. Then the aggregated statuses that wait for the device go to the
  external client, oldest first.
\<close>

lemma mh_handleStatus_answered:
  assumes "codes_ok c"
    and "um_find num_eq (ip_module (st_device status)) (mh_statusAggregators mh) = Some (h, sa)"
    and "um_find num_eq (ip_module (st_device status)) (mh_moduleLibraryHandlers mh) = Some (Some h)"
    and "lib_isDeviceTypeSupported h (ip_devicetype (st_device status)) = OK c"
    and "status_to_buffer h status = Inr b"
    and "lib_statusDataValid h b (ip_devicetype (st_device status)) \<noteq> NOT_OK c"
    and "d = device_of_ip (st_device status)"
    and "sa_add_status_to_aggregator c h b d sa = Inr (n, sa1)" and "0 \<le> n"
    and "sa_get_command c h b d empty_buffer sa1 = Inr (rc, cmd, sa2)"
    and "rc = OK c \<or> rc = NO_MESSAGE_AVAILABLE c"
  shows "\<exists>mh'. mh_handleStatus c status mh = Inr mh' \<and>
     mh_toInternalQueue mh' = mh_toInternalQueue mh @
       [ModuleHandlerMessage False (createInternalServerCommandMessage (st_device status)
          (if rc = OK c then cmd else empty_buffer))] \<and>
     mh_toExternalQueue mh' = mh_toExternalQueue mh @
       map (status_message False (st_device status)) (expected_messages c h b d sa)"
proof -
  have supp: "lib_isDeviceTypeSupported h (di_deviceType d) = OK c" using assms(4,7) by simp
  obtain s1 where s1: "um_find device_eq d (sa_devices sa1) = Some s1"
    "ds_aggregatedMessages s1 = expected_messages c h b d sa" "n = int (length (ds_aggregatedMessages s1))"
    using sa_add_status_messages [OF assms(1) supp assms(8,9)] by blast
  obtain s2 where s2: "um_find device_eq d (sa_devices sa2) = Some s2"
    "ds_aggregatedMessages s2 = expected_messages c h b d sa"
    using sa_get_command_messages [OF assms(10) s1(1)] s1(2) by auto
  let ?mh = "mh_to_internal (ModuleHandlerMessage False (createInternalServerCommandMessage
    (st_device status) (if rc = OK c then cmd else empty_buffer))) (mh_store (di_module d) h sa2 mh)"
  have "um_find num_eq (di_module d) (mh_statusAggregators ?mh) = Some (h, sa2)"
    using assms(2,7) by (simp add: map_laws)
  from mh_sendAggregatedStatuses_eq [OF assms(1) supp this s2(1) refl, of "st_device status"]
  obtain mh' where mh': "mh_sendAggregatedStatuses c d (st_device status) (nat n) ?mh = Inr mh'"
    "mh_toInternalQueue mh' = mh_toInternalQueue ?mh"
    "mh_toExternalQueue mh' = mh_toExternalQueue ?mh @
       map (status_message False (st_device status)) (expected_messages c h b d sa)"
    using s1 s2 by auto
  have "handler_at (ip_module (st_device status)) (mh_moduleLibraryHandlers mh) = Inr h"
    using assms(3) by (simp add: handler_at_Inr_iff)
  then have "mh_handleStatus c status mh = Inr mh'"
    using assms mh'(1) codes_ok_distinct(4) [OF assms(1)]
    by (auto simp: mh_handleStatus_def mh_answerStatus_def Let_def)
  then show ?thesis using mh'(2,3) by simp
qed

section \<open>Disconnecting\<close>

text \<open>
  C36: the disconnect of a registered device sends exactly one message marked as a disconnect to
  the external client and posts the device's removal. The message holds the oldest status that
  waits for the device; younger ones that wait, the device's current status among them, are
  dropped unsent.
\<close>

theorem disconnect_sends_oldest:
  assumes "codes_ok c" and "lib_isDeviceTypeSupported h (di_deviceType d) = OK c"
    and "um_find num_eq (di_module d) (mh_statusAggregators mh) = Some (h, sa)"
    and "um_find device_eq d (sa_devices sa) = Some s"
  shows "\<exists>mh' sa'. mh_handleDisconnect c d mh = Inr mh' \<and>
     mh_toExternalQueue mh' = mh_toExternalQueue mh @
       [status_message True (convertToIPDevice d) (hd (ds_aggregatedMessages s @ [ds_status s]))] \<and>
     mh_toInternalQueue mh' = mh_toInternalQueue mh \<and>
     um_find num_eq (di_module d) (mh_statusAggregators mh') = Some (h, sa') \<and>
     um_find device_eq d (sa_devices sa') = Some (s\<lparr>ds_aggregatedMessages := []\<rparr>) \<and>
     sa_posted sa' = sa_posted sa @ [d]"
proof -
  let ?push = "\<lambda>s. s\<lparr>ds_aggregatedMessages := ds_aggregatedMessages s @ [ds_status s]\<rparr>"
  obtain b q where q: "ds_aggregatedMessages s @ [ds_status s] = b # q"
    by (cases "ds_aggregatedMessages s") auto
  define sa1 where "sa1 = sa\<lparr>sa_devices := um_modify device_eq d ?push (sa_devices sa)\<rparr>"
  define sa2 where "sa2 = sa1\<lparr>sa_devices :=
    um_modify device_eq d (\<lambda>s. s\<lparr>ds_aggregatedMessages := q\<rparr>) (sa_devices sa1)\<rparr>"
  define sa3 where "sa3 = sa2\<lparr>sa_devices :=
    um_modify device_eq d (\<lambda>s. s\<lparr>ds_aggregatedMessages := []\<rparr>) (sa_devices sa2), sa_posted := sa_posted sa2 @ [d]\<rparr>"
  have s1: "um_find device_eq d (sa_devices sa1) = Some (?push s)"
    using assms(4) by (simp add: sa1_def map_laws)
  have s2: "um_find device_eq d (sa_devices sa2) = Some (s\<lparr>ds_aggregatedMessages := q\<rparr>)"
    using s1 by (simp add: sa2_def map_laws)
  have forced: "sa_force_aggregation_on_device c h d sa = (int (length (ds_aggregatedMessages s)) + 1, sa1)"
    using sa_force_registered [OF assms(1,2,4)] by (simp add: sa_force_aggregation_on_device_def sa1_def)
  have got: "sa_get_aggregated_status c h empty_buffer d sa1 = (OK c, b, sa2)"
    using sa_get_aggregated_registered [OF assms(1,2) s1] q by (simp add: sa2_def)
  have removed: "sa_remove_device c h d sa2 = (OK c, sa3)"
    using sa_remove_registered [OF assms(1,2) s2] by (simp add: sa3_def)
  let ?mh1 = "mh_store (di_module d) h sa1 mh"
  let ?mh2 = "mh_to_external (status_message True (convertToIPDevice d) b) (mh_store (di_module d) h sa2 ?mh1)"
  have f: "um_find num_eq (di_module d) (mh_statusAggregators ?mh1) = Some (h, sa1)"
    "um_find num_eq (di_module d) (mh_statusAggregators ?mh2) = Some (h, sa2)"
    using assms(3) by (simp_all add: map_laws)
  have sent: "mh_sendAggregatedStatus c d (convertToIPDevice d) True ?mh1 = Inr ?mh2"
    using f(1) got by (simp add: mh_sendAggregatedStatus_def um_at_def status_message_def)
  have "sa_is_device_valid c h d sa \<noteq> NOT_OK c"
    using sa_valid_registered [OF assms(1,2)] assms(4) by (simp add: sa_is_device_valid_def)
  then have "mh_handleDisconnect c d mh = Inr (mh_store (di_module d) h sa3 ?mh2)"
    using assms(3) forced sent f(2) removed by (simp add: mh_handleDisconnect_def um_at_def)
  moreover have "um_find device_eq d (sa_devices sa3) = Some (s\<lparr>ds_aggregatedMessages := []\<rparr>)"
    using s2 by (simp add: sa3_def map_laws)
  moreover have "sa_posted sa3 = sa_posted sa @ [d]"
    by (simp add: sa3_def sa2_def sa1_def)
  ultimately show ?thesis using f(2) q by (simp add: map_laws)
qed

section \<open>Time-outs\<close>

lemma mh_drain_all:
  assumes "codes_ok c" and "lib_isDeviceTypeSupported h (di_deviceType d) = OK c"
    and "um_find device_eq d (sa_devices sa) = Some s"
  shows "mh_drain c h d (length (ds_aggregatedMessages s) + 1) sa =
     (map (status_message False (convertToIPDevice d)) (ds_aggregatedMessages s),
      sa\<lparr>sa_devices := um_modify device_eq d (\<lambda>s. s\<lparr>ds_aggregatedMessages := []\<rparr>) (sa_devices sa)\<rparr>)"
  using assms(3)
proof (induction "ds_aggregatedMessages s" arbitrary: s sa)
  case Nil
  then have "s\<lparr>ds_aggregatedMessages := []\<rparr> = s" by simp
  then show ?case
    using Nil sa_get_aggregated_registered [OF assms(1,2) Nil.prems] codes_okD(5) [OF assms(1)]
      um_modify_same [OF Nil.prems, of "\<lambda>s. s\<lparr>ds_aggregatedMessages := []\<rparr>"]
    by (simp flip: Nil.hyps)
next
  case (Cons b q)
  let ?sa = "sa\<lparr>sa_devices := um_modify device_eq d (\<lambda>s. s\<lparr>ds_aggregatedMessages := q\<rparr>) (sa_devices sa)\<rparr>"
  have "um_find device_eq d (sa_devices ?sa) = Some (s\<lparr>ds_aggregatedMessages := q\<rparr>)"
    using Cons.prems by (simp add: map_laws)
  from Cons.hyps(1) [OF _ this] show ?case
    using sa_get_aggregated_registered [OF assms(1,2) Cons.prems] codes_okD(1) [OF assms(1)]
    by (simp add: Cons.hyps(2) [symmetric] um_modify_modify status_message_def)
qed

text \<open>What one aggregator has to send, and what is left of it.\<close>

definition pending_of :: "status_aggregator \<Rightarrow> internal_client_message list" where
  "pending_of sa = concat (map (\<lambda>(d, s).
     map (status_message False (convertToIPDevice d)) (ds_aggregatedMessages s)) (sa_devices sa))"

definition silent_of :: "status_aggregator \<Rightarrow> device_identification list" where
  "silent_of sa = filter (\<lambda>d. sa_getDeviceTimeoutCount d sa \<ge> status_aggregation_timeout_max_count)
     (um_keys (sa_devices sa))"

definition flushed :: "status_aggregator \<Rightarrow> status_aggregator" where
  "flushed sa = sa\<lparr>sa_devices := map (\<lambda>(d, s). (d, s\<lparr>ds_aggregatedMessages := []\<rparr>)) (sa_devices sa)\<rparr>"

text \<open>Aggregators in a good state, whose registered devices the module supports.\<close>

definition sa_good :: "error_codes \<Rightarrow> handler \<Rightarrow> status_aggregator \<Rightarrow> bool" where
  "sa_good c h sa \<longleftrightarrow> um_distinct device_eq (sa_devices sa) \<and>
     list_all (\<lambda>(d, s). lib_isDeviceTypeSupported h (di_deviceType d) = OK c) (sa_devices sa)"

lemma mh_check_devices_eq:
  assumes "codes_ok c" and "um_distinct device_eq m"
    and "list_all (\<lambda>(d, s). lib_isDeviceTypeSupported h (di_deviceType d) = OK c) m"
    and "\<And>d s. (d, s) \<in> set m \<Longrightarrow> um_find device_eq d (sa_devices sa) = Some s"
  shows "mh_check_devices c h (um_keys m) sa =
     (concat (map (\<lambda>(d, s). map (status_message False (convertToIPDevice d)) (ds_aggregatedMessages s)) m),
      map ModuleHandlerMessage_dev (filter (\<lambda>d. sa_getDeviceTimeoutCount d sa \<ge>
        status_aggregation_timeout_max_count) (um_keys m)),
      sa\<lparr>sa_devices := fold (\<lambda>d. um_modify device_eq d (\<lambda>s. s\<lparr>ds_aggregatedMessages := []\<rparr>))
        (um_keys m) (sa_devices sa)\<rparr>)"
  using assms(2-4)
proof (induction m arbitrary: sa)
  case Nil
  then show ?case by simp
next
  case (Cons e m)
  obtain d s where e: "e = (d, s)" by (cases e)
  let ?sa = "sa\<lparr>sa_devices := um_modify device_eq d (\<lambda>s. s\<lparr>ds_aggregatedMessages := []\<rparr>) (sa_devices sa)\<rparr>"
  have supp: "lib_isDeviceTypeSupported h (di_deviceType d) = OK c" using Cons.prems(2) e by simp
  have s: "um_find device_eq d (sa_devices sa) = Some s" using Cons.prems(3) e by simp
  have other: "um_find device_eq d' (sa_devices ?sa) = Some s'" if "(d', s') \<in> set m" for d' s'
    using that Cons.prems(1,3) e by (force simp: map_laws um_distinct_def)
  have count: "sa_getDeviceTimeoutCount d' ?sa = sa_getDeviceTimeoutCount d' sa" for d'
    by (simp add: sa_getDeviceTimeoutCount_def)
  have rest: "um_distinct device_eq m"
    "list_all (\<lambda>(d, s). lib_isDeviceTypeSupported h (di_deviceType d) = OK c) m"
    using Cons.prems(1,2) by (simp_all add: um_distinct_def)
  show ?case
    using Cons.IH [OF rest other] mh_drain_all [OF assms(1) supp s] s
    by (simp add: e mh_drain_fuel_def count Let_def)
qed

lemma mh_check_devices_good:
  assumes "codes_ok c" and "sa_good c h sa"
  shows "mh_check_devices c h (um_keys (sa_devices sa)) sa =
     (pending_of sa, map ModuleHandlerMessage_dev (silent_of sa), flushed sa)"
proof -
  have d: "um_distinct device_eq (sa_devices sa)" using assms(2) by (simp add: sa_good_def)
  from mh_check_devices_eq [OF assms(1) d _ um_find_distinct [OF d]] assms(2) um_modify_all [OF d]
  show ?thesis by (simp add: sa_good_def pending_of_def silent_of_def flushed_def)
qed

definition aggregator_checked :: "handler \<times> status_aggregator \<Rightarrow> handler \<times> status_aggregator" where
  "aggregator_checked = (\<lambda>(h, sa). (h, if sa_timeoutedMessageReady sa
     then sa_unsetTimeoutedMessageReady (flushed sa) else sa))"

lemma mh_check_aggregators_eq:
  assumes "codes_ok c" and "distinct ks"
    and "\<And>k. k \<in> set ks \<Longrightarrow> \<exists>h sa. um_find num_eq k (mh_statusAggregators mh) = Some (h, sa) \<and> sa_good c h sa"
  shows "mh_check_aggregators c ks mh = mh\<lparr>
     mh_statusAggregators := fold (\<lambda>k. um_modify num_eq k aggregator_checked) ks (mh_statusAggregators mh),
     mh_toExternalQueue := mh_toExternalQueue mh @ concat (map (\<lambda>k.
       case um_find num_eq k (mh_statusAggregators mh) of None \<Rightarrow> []
       | Some (h, sa) \<Rightarrow> if sa_timeoutedMessageReady sa then pending_of sa else []) ks),
     mh_toInternalQueue := mh_toInternalQueue mh @ concat (map (\<lambda>k.
       case um_find num_eq k (mh_statusAggregators mh) of None \<Rightarrow> []
       | Some (h, sa) \<Rightarrow> if sa_timeoutedMessageReady sa
           then map ModuleHandlerMessage_dev (silent_of sa) else []) ks)\<rparr>"
  using assms(2,3)
proof (induction ks arbitrary: mh)
  case Nil
  then show ?case by simp
next
  case (Cons k ks)
  obtain h sa where f: "um_find num_eq k (mh_statusAggregators mh) = Some (h, sa)" "sa_good c h sa"
    using Cons.prems(2) by fastforce
  have neq: "k' \<noteq> k" if "k' \<in> set ks" for k' using Cons.prems(1) that by auto
  show ?case
  proof (cases "sa_timeoutedMessageReady sa")
    case False
    have "um_modify num_eq k aggregator_checked (mh_statusAggregators mh) = mh_statusAggregators mh"
      using um_modify_same [OF f(1)] False by (simp add: aggregator_checked_def)
    then show ?thesis
      using Cons.IH [of mh] Cons.prems f False by (simp add: sa_getTimeoutedMessageReady_def)
  next
    case True
    have mod: "um_modify num_eq k aggregator_checked (mh_statusAggregators mh) =
      um_modify num_eq k (\<lambda>_. (h, sa_unsetTimeoutedMessageReady (flushed sa))) (mh_statusAggregators mh)"
      by (rule um_modify_at [OF f(1)]) (simp add: aggregator_checked_def True)
    let ?mh = "(mh_store k h (sa_unsetTimeoutedMessageReady (flushed sa)) mh)
      \<lparr>mh_toExternalQueue := mh_toExternalQueue mh @ pending_of sa,
       mh_toInternalQueue := mh_toInternalQueue mh @ map ModuleHandlerMessage_dev (silent_of sa)\<rparr>"
    obtain ret devs where u: "sa_get_unique_devices [] sa = (ret, devs)" by fastforce
    have "fst (sa_get_unique_devices [] sa) \<noteq> NOT_OK c"
      using codes_okD(2) [OF assms(1)] by (simp add: sa_get_unique_devices_def Let_def)
    moreover have "snd (sa_get_unique_devices [] sa) = um_keys (sa_devices sa)"
      by (auto simp: sa_get_unique_devices_def)
    ultimately have step: "mh_check_aggregators c (k # ks) mh = mh_check_aggregators c ks ?mh"
      using f True mh_check_devices_good [OF assms(1) f(2)]
      by (simp add: sa_getTimeoutedMessageReady_def u)
    have same: "um_find num_eq k' (mh_statusAggregators ?mh) = um_find num_eq k' (mh_statusAggregators mh)"
      if "k' \<in> set ks" for k' using neq [OF that] by (simp add: map_laws)
    have "mh_check_aggregators c ks ?mh = ?mh\<lparr>
     mh_statusAggregators := fold (\<lambda>k. um_modify num_eq k aggregator_checked) ks (mh_statusAggregators ?mh),
     mh_toExternalQueue := mh_toExternalQueue ?mh @ concat (map (\<lambda>k.
       case um_find num_eq k (mh_statusAggregators ?mh) of None \<Rightarrow> []
       | Some (h, sa) \<Rightarrow> if sa_timeoutedMessageReady sa then pending_of sa else []) ks),
     mh_toInternalQueue := mh_toInternalQueue ?mh @ concat (map (\<lambda>k.
       case um_find num_eq k (mh_statusAggregators ?mh) of None \<Rightarrow> []
       | Some (h, sa) \<Rightarrow> if sa_timeoutedMessageReady sa
           then map ModuleHandlerMessage_dev (silent_of sa) else []) ks)\<rparr>"
      using Cons.IH [of ?mh] Cons.prems same by auto
    then show ?thesis
      using step f(1) True same by (simp add: mod mh_store_def cong: map_cong)
  qed
qed

text \<open>
  C20: checking for time-outs empties the queue of every device of each module whose ready flag is
  up: all the statuses that wait are sent on, in order and not marked as disconnects, and the
  flag is lowered. Each device of such a module that was silent for
  \<open>status_aggregation_timeout_max_count\<close> time-outs is reported to the internal server for
  disconnection. The other modules are not touched.
\<close>

theorem timeouts_flushed:
  assumes "codes_ok c" and "um_distinct num_eq (mh_statusAggregators mh)"
    and "um_all (\<lambda>_ (h, sa). sa_good c h sa) (mh_statusAggregators mh)"
  shows "mh_checkTimeoutedMessages c mh = mh\<lparr>
     mh_statusAggregators := map (\<lambda>(k, a). (k, aggregator_checked a)) (mh_statusAggregators mh),
     mh_toExternalQueue := mh_toExternalQueue mh @ concat (map (\<lambda>(k, h, sa).
       if sa_timeoutedMessageReady sa then pending_of sa else []) (mh_statusAggregators mh)),
     mh_toInternalQueue := mh_toInternalQueue mh @ concat (map (\<lambda>(k, h, sa).
       if sa_timeoutedMessageReady sa then map ModuleHandlerMessage_dev (silent_of sa) else [])
       (mh_statusAggregators mh))\<rparr>"
proof -
  let ?m = "mh_statusAggregators mh"
  have find: "um_find num_eq k ?m = Some a" if "(k, a) \<in> set ?m" for k a
    using um_find_distinct [OF assms(2) refl that] .
  have "distinct (um_keys ?m)"
    by (rule um_distinct_keys [OF assms(2)])
  moreover have "\<exists>h sa. um_find num_eq k ?m = Some (h, sa) \<and> sa_good c h sa" if "k \<in> set (um_keys ?m)" for k
    using that find assms(3) by (fastforce simp: um_keys_def um_all_def list_all_iff)
  ultimately have "mh_checkTimeoutedMessages c mh = mh\<lparr>
     mh_statusAggregators := fold (\<lambda>k. um_modify num_eq k aggregator_checked) (um_keys ?m) ?m,
     mh_toExternalQueue := mh_toExternalQueue mh @ concat (map (\<lambda>k.
       case um_find num_eq k ?m of None \<Rightarrow> []
       | Some (h, sa) \<Rightarrow> if sa_timeoutedMessageReady sa then pending_of sa else []) (um_keys ?m)),
     mh_toInternalQueue := mh_toInternalQueue mh @ concat (map (\<lambda>k.
       case um_find num_eq k ?m of None \<Rightarrow> []
       | Some (h, sa) \<Rightarrow> if sa_timeoutedMessageReady sa
           then map ModuleHandlerMessage_dev (silent_of sa) else []) (um_keys ?m))\<rparr>"
    unfolding mh_checkTimeoutedMessages_def by (intro mh_check_aggregators_eq [OF assms(1)])
  then show ?thesis
    by (simp add: map_um_find_keys [OF assms(2)] um_modify_all [OF assms(2)] case_prod_unfold)
qed

section \<open>Examples\<close>

definition sample_mh :: "status_aggregator \<Rightarrow> module_handler" where
  "sample_mh sa = (ModuleHandler ModuleLibrary)\<lparr>
     mh_moduleLibraryHandlers := [(7, Some sample_handler)],
     mh_statusAggregators := [(7, sample_handler, sa)]\<rparr>"

lemma sample_mh_simps [simp]:
  "mh_moduleLibraryHandlers (sample_mh sa) = [(7, Some sample_handler)]"
  "mh_statusAggregators (sample_mh sa) = [(7, sample_handler, sa)]"
  "mh_toInternalQueue (sample_mh sa) = []"
  "mh_toExternalQueue (sample_mh sa) = []"
  by (simp_all add: sample_mh_def ModuleHandler_def)

lemma sample_device_simps [simp]: "di_module sample_device = 7" "di_deviceType sample_device = 2"
  by (simp_all add: sample_device_def)

lemma sample_supported: "lib_isDeviceTypeSupported sample_handler 2 = OK sample_codes"
  by (simp add: sample_handler_simps)

definition sample_mh_status :: device_status where
  "sample_mh_status = \<lparr>st_device = convertToIPDevice sample_device, st_statusdata = [5]\<rparr>"

theorem disconnect_sends_oldest_witness:
  "\<exists>mh'. mh_handleDisconnect sample_codes sample_device (sample_mh sample_aggregator) = Inr mh' \<and>
     mh_toExternalQueue mh' =
       [status_message True (convertToIPDevice sample_device) (sample_buffer [5])]"
proof -
  obtain s where s: "um_find device_eq sample_device (sa_devices sample_aggregator) = Some s"
    "ds_aggregatedMessages s = [sample_buffer [5]]"
    by (simp add: sample_aggregator_def)
  from disconnect_sends_oldest [OF sample_codes_ok _ _ s(1), of sample_handler
      "sample_mh sample_aggregator"] s(2) show ?thesis
    by (auto simp: sample_supported)
qed

theorem timeouts_flushed_witness:
  "mh_toExternalQueue (mh_checkTimeoutedMessages sample_codes
     (sample_mh (sample_aggregator\<lparr>sa_timeoutedMessageReady := True\<rparr>))) =
   [status_message False (convertToIPDevice sample_device) (sample_buffer [5])]"
proof -
  let ?mh = "sample_mh (sample_aggregator\<lparr>sa_timeoutedMessageReady := True\<rparr>)"
  have "um_all (\<lambda>_ (h, sa). sa_good sample_codes h sa) (mh_statusAggregators ?mh)"
    by (simp add: sa_good_def sample_aggregator_def um_distinct_def sample_supported)
  moreover have "um_distinct num_eq (mh_statusAggregators ?mh)" by (simp add: um_distinct_def)
  ultimately show ?thesis
    using timeouts_flushed [OF sample_codes_ok, of ?mh]
    by (simp add: pending_of_def sample_aggregator_def)
qed

end
