(* ===== verification/Internal_Server.thy ===== *)
theory Internal_Server
  imports Atomic_Queue Constants
begin

text \<open>
  The internal server (InternalServer.hpp and .cpp, Connection.hpp): the TCP server the internal
  clients connect to. Connections are objects shared by the receive handlers, the listening
  thread and the list of connected devices, so they live in a store and are named by their
  number. Received bytes are cut into messages by \<open>processBufferData\<close>; a handled message is
  passed to the module handler and the receive handler then waits for the answer. What the other
  threads do during that wait is the argument \<open>env\<close>. The operations are defined on the record scheme of the server, so
  that they also work on a state that extends it.
\<close>

section \<open>Connections\<close>

text \<open>\<open>connContext\<close>: only the receive handler of the connection uses it.\<close>

record conn_context =
  cx_buffer :: bytes
  cx_completeMessageSize :: "64 word"
  cx_completeMessage :: bytes

definition empty_context :: conn_context where
  "empty_context = \<lparr>cx_buffer = replicate buffer_length 0, cx_completeMessageSize = 0,
     cx_completeMessage = []\<rparr>"

text \<open>
  \<open>co_open\<close> is \<open>socket.is_open()\<close>, \<open>co_written\<close> the bytes sent to the peer and \<open>co_receiving\<close>
  whether an \<open>async_receive\<close> is pending.
\<close>

record connection =
  co_open :: bool
  co_written :: bytes
  co_receiving :: bool
  co_deviceId :: "device_identification option"
  co_connContext :: conn_context
  co_ready :: bool

definition new_connection :: connection where
  "new_connection = \<lparr>co_open = False, co_written = [], co_receiving = False, co_deviceId = None,
     co_connContext = empty_context, co_ready = False\<rparr>"

text \<open>
  The libraries the server uses: protobuf parsing and serialising, and \<open>boost::asio::write\<close> to
  the socket of a connection, which gives the bytes that left and whether it returned normally.
\<close>

record server_io =
  io_parse :: "bytes \<Rightarrow> internal_client option"
  io_serialize :: "internal_server_msg \<Rightarrow> bytes"
  io_write :: "nat \<Rightarrow> bytes \<Rightarrow> bytes \<times> bool"

definition io_ok :: "server_io \<Rightarrow> bool" where
  "io_ok io \<longleftrightarrow> (\<forall>cid bs. snd (io_write io cid bs) \<longrightarrow> fst (io_write io cid bs) = bs)"

section \<open>The server\<close>

record server =
  srv_connections :: "nat \<Rightarrow> connection"
  srv_next :: nat
  srv_accepting :: bool
  srv_connectedDevices :: "nat list"
  srv_fromInternalQueue :: "internal_client_message atomic_queue"
  srv_toInternalQueue :: "module_handler_message atomic_queue"
  srv_stopped :: bool

definition InternalServer :: server where
  "InternalServer = \<lparr>srv_connections = \<lambda>_. new_connection, srv_next = 0, srv_accepting = False,
     srv_connectedDevices = [], srv_fromInternalQueue = [], srv_toInternalQueue = [],
     srv_stopped = False\<rparr>"

definition srv_update :: "nat \<Rightarrow> (connection \<Rightarrow> connection) \<Rightarrow> 'z server_scheme \<Rightarrow> 'z server_scheme" where
  "srv_update cid f srv =
     srv\<lparr>srv_connections := (srv_connections srv)(cid := f (srv_connections srv cid))\<rparr>"

definition srv_push :: "internal_client_message \<Rightarrow> 'z server_scheme \<Rightarrow> 'z server_scheme" where
  "srv_push m srv = srv\<lparr>srv_fromInternalQueue := pushAndNotify m (srv_fromInternalQueue srv)\<rparr>"

text \<open>
  The device of a registered connection. The source dereferences the pointer of every registered
  connection; that it is never null there is part of the invariant.
\<close>

definition srv_same :: "'z server_scheme \<Rightarrow> device_identification \<Rightarrow> nat \<Rightarrow> bool" where
  "srv_same srv deviceId cid =
     (case co_deviceId (srv_connections srv cid) of
        None \<Rightarrow> False
      | Some d \<Rightarrow> isSame deviceId d)"

definition srv_priority :: "'z server_scheme \<Rightarrow> nat \<Rightarrow> u32" where
  "srv_priority srv cid =
     (case co_deviceId (srv_connections srv cid) of None \<Rightarrow> 0 | Some d \<Rightarrow> di_priority d)"

definition srv_findConnection :: "device_identification \<Rightarrow> 'z server_scheme \<Rightarrow> nat option" where
  "srv_findConnection deviceId srv = List.find (srv_same srv deviceId) (srv_connectedDevices srv)"

definition srv_close :: "nat \<Rightarrow> 'z server_scheme \<Rightarrow> 'z server_scheme" where
  "srv_close cid srv = srv_update cid (\<lambda>co. co\<lparr>co_open := False\<rparr>) srv"

definition srv_removeConnFromMap :: "nat \<Rightarrow> 'z server_scheme \<Rightarrow> 'z server_scheme" where
  "srv_removeConnFromMap cid srv =
     (case co_deviceId (srv_connections srv cid) of
        None \<Rightarrow> srv_close cid srv
      | Some deviceId \<Rightarrow>
          (case srv_findConnection deviceId srv of
             None \<Rightarrow> srv_close cid srv
           | Some it \<Rightarrow>
               if srv_priority srv it = di_priority deviceId
               then srv_push (InternalClientMessage_dev deviceId)
                      (srv_close cid srv
                         \<lparr>srv_connectedDevices := remove1 it (srv_connectedDevices srv)\<rparr>)
               else srv_close cid srv))"

section \<open>Answering an internal client\<close>

text \<open>An unsigned 32 bit number in memory, least significant byte first.\<close>

fun le_nat :: "bytes \<Rightarrow> nat" where
  "le_nat [] = 0"
| "le_nat (b # bs) = unat b + 256 * le_nat bs"

fun le_bytes :: "nat \<Rightarrow> nat \<Rightarrow> bytes" where
  "le_bytes 0 n = []"
| "le_bytes (Suc k) n = of_nat n # le_bytes k (n div 256)"

definition srv_write :: "server_io \<Rightarrow> nat \<Rightarrow> bytes \<Rightarrow> 'z server_scheme \<Rightarrow> bool \<times> 'z server_scheme" where
  "srv_write io cid bs srv =
     (let (sent, ok) = io_write io cid bs
      in (ok, srv_update cid (\<lambda>co. co\<lparr>co_written := co_written co @ sent\<rparr>) srv))"

definition srv_sendResponse :: "server_io \<Rightarrow> nat \<Rightarrow> internal_server_msg \<Rightarrow> 'z server_scheme \<Rightarrow> bool \<times> 'z server_scheme" where
  "srv_sendResponse io cid message srv =
     (if \<not> co_open (srv_connections srv cid) then (False, srv)
      else
        let data = io_serialize io message;
            (ok, srv) = srv_write io cid (le_bytes header_size (length data)) srv
        in if ok then srv_write io cid data srv else (False, srv))"

definition srv_respondWithHigherPriorityConnected ::
  "server_io \<Rightarrow> nat \<Rightarrow> device_connect \<Rightarrow> 'z server_scheme \<Rightarrow> 'z server_scheme" where
  "srv_respondWithHigherPriorityConnected io cid connect srv =
     snd (srv_sendResponse io cid
       (createInternalServerConnectResponseMessage (cn_device connect)
          CR_HIGHER_PRIORITY_ALREADY_CONNECTED) srv)"

definition srv_respondWithAlreadyConnected ::
  "server_io \<Rightarrow> nat \<Rightarrow> device_connect \<Rightarrow> 'z server_scheme \<Rightarrow> 'z server_scheme" where
  "srv_respondWithAlreadyConnected io cid connect srv =
     snd (srv_sendResponse io cid
       (createInternalServerConnectResponseMessage (cn_device connect) CR_ALREADY_CONNECTED) srv)"

section \<open>Handling a message\<close>

definition srv_connectNewDevice ::
  "nat \<Rightarrow> internal_client \<Rightarrow> device_identification \<Rightarrow> 'z server_scheme \<Rightarrow> 'z server_scheme" where
  "srv_connectNewDevice cid connect deviceId srv =
     (let srv = srv_update cid (\<lambda>co. co\<lparr>co_deviceId := Some deviceId\<rparr>) srv;
          srv = srv\<lparr>srv_connectedDevices := srv_connectedDevices srv @ [cid]\<rparr>
      in srv_push (InternalClientMessage False connect) srv)"

definition srv_changeConnection ::
  "nat \<Rightarrow> internal_client \<Rightarrow> device_identification \<Rightarrow> 'z server_scheme \<Rightarrow> 'z server_scheme" where
  "srv_changeConnection cid connect deviceId srv =
     srv_connectNewDevice cid connect deviceId
       (case srv_findConnection deviceId srv of
          None \<Rightarrow> srv
        | Some old \<Rightarrow> srv_removeConnFromMap old srv)"

definition srv_handleConnection ::
  "server_io \<Rightarrow> nat \<Rightarrow> internal_client \<Rightarrow> 'z server_scheme \<Rightarrow> bool \<times> 'z server_scheme" where
  "srv_handleConnection io cid client srv =
     (if co_ready (srv_connections srv cid) then (False, srv)
      else
        let deviceId = device_of_ip (cn_device (deviceconnect client))
        in case srv_findConnection deviceId srv of
             None \<Rightarrow> (True, srv_connectNewDevice cid client deviceId srv)
           | Some existing \<Rightarrow>
               let priority = ip_priority (cn_device (deviceconnect client))
               in if priority = srv_priority srv existing
                  then (False, srv_respondWithAlreadyConnected io cid (deviceconnect client) srv)
                  else if priority > srv_priority srv existing
                  then (False, srv_respondWithHigherPriorityConnected io cid (deviceconnect client) srv)
                  else (True, srv_changeConnection cid client deviceId srv))"

definition srv_handleStatus :: "nat \<Rightarrow> internal_client \<Rightarrow> 'z server_scheme \<Rightarrow> bool \<times> 'z server_scheme" where
  "srv_handleStatus cid client srv =
     (if \<not> co_ready (srv_connections srv cid) then (False, srv)
      else (True, srv_update cid (\<lambda>co. co\<lparr>co_ready := False\<rparr>)
                    (srv_push (InternalClientMessage False client) srv)))"

text \<open>The part of \<open>handleMessage\<close> before the wait.\<close>

definition srv_dispatch :: "server_io \<Rightarrow> nat \<Rightarrow> bytes \<Rightarrow> 'z server_scheme \<Rightarrow> bool \<times> 'z server_scheme" where
  "srv_dispatch io cid completeMessage srv =
     (case io_parse io completeMessage of
        None \<Rightarrow> (False, srv)
      | Some client \<Rightarrow>
          if has_devicestatus client then srv_handleStatus cid client srv
          else if has_deviceconnect client then srv_handleConnection io cid client srv
          else (False, srv))"

definition srv_handleMessage ::
  "server_io \<Rightarrow> ('z server_scheme \<Rightarrow> 'z server_scheme) \<Rightarrow> nat \<Rightarrow> bytes \<Rightarrow> 'z server_scheme \<Rightarrow> bool \<times> 'z server_scheme" where
  "srv_handleMessage io env cid completeMessage srv =
     (case srv_dispatch io cid completeMessage srv of
        (False, srv) \<Rightarrow> (False, srv)
      | (True, srv) \<Rightarrow>
          let srv = env srv
          in if \<not> co_ready (srv_connections srv cid) then (False, srv)
             else (\<not> srv_stopped srv, srv))"

section \<open>Cutting the received bytes into messages\<close>

text \<open>
  The header of a message, when none is being read: its size and what is left of the received
  bytes behind it (\<open>messageHeader\<close>); then the bytes of the message the buffer holds
  (\<open>messageBody\<close>). \<open>completeMessageSize - completeMessage.size()\<close> is a \<open>size_t\<close>, it wraps.
\<close>

definition messageHeader :: "nat \<Rightarrow> nat \<Rightarrow> conn_context \<Rightarrow> nat \<times> nat \<times> conn_context" where
  "messageHeader bytesTransferred bufferOffset cx =
     (if cx_completeMessageSize cx = 0
      then (bytesTransferred - header_size, bufferOffset + header_size,
            cx\<lparr>cx_completeMessageSize :=
                 of_nat (le_nat (take header_size (drop bufferOffset (cx_buffer cx))))\<rparr>)
      else (bytesTransferred, bufferOffset, cx))"

definition messageBytesLeft :: "nat \<Rightarrow> conn_context \<Rightarrow> nat" where
  "messageBytesLeft bytesLeft cx =
     min (unat (cx_completeMessageSize cx - of_nat (length (cx_completeMessage cx)))) bytesLeft"

definition messageBody :: "nat \<Rightarrow> nat \<Rightarrow> conn_context \<Rightarrow> nat \<times> conn_context" where
  "messageBody bytesLeft dataBegin cx =
     (let n = messageBytesLeft bytesLeft cx
      in (bytesLeft - n,
          cx\<lparr>cx_completeMessage :=
               cx_completeMessage cx @ take n (drop dataBegin (cx_buffer cx))\<rparr>))"

definition messageComplete :: "conn_context \<Rightarrow> bool" where
  "messageComplete cx \<longleftrightarrow> cx_completeMessageSize cx = of_nat (length (cx_completeMessage cx))"

lemma messageHeader_bounds:
  assumes "messageHeader n off cx = (bytesLeft, dataBegin, cx1)"
    and "\<not> (n < header_size \<and> cx_completeMessageSize cx = 0)"
  shows "dataBegin + bytesLeft = off + n" and "cx_buffer cx1 = cx_buffer cx"
    and "bytesLeft + (if cx_completeMessageSize cx = 0 then header_size else 0) = n"
    and "cx_completeMessage cx1 = cx_completeMessage cx"
  using assms by (auto simp: messageHeader_def split: if_splits)

text \<open>Bytes are left over only behind the end of a message.\<close>

lemma messageBody_rest:
  assumes "messageBody bytesLeft dataBegin cx1 = (rest, cx2)"
    and "dataBegin + bytesLeft \<le> length (cx_buffer cx1)" and "rest \<noteq> 0"
  shows "messageComplete cx2"
proof -
  let ?n = "unat (cx_completeMessageSize cx1 - of_nat (length (cx_completeMessage cx1)))"
  have n: "?n < bytesLeft" "messageBytesLeft bytesLeft cx1 = ?n"
    using assms(1,3) by (auto simp: messageBody_def messageBytesLeft_def Let_def)
  have "length (take ?n (drop dataBegin (cx_buffer cx1))) = ?n"
    using n assms(2) by simp
  then show ?thesis
    using assms(1) n by (auto simp: messageBody_def messageComplete_def Let_def)
qed

text \<open>
  \<open>handle\<close> is \<open>handleMessage\<close> on the bytes of the complete message and \<open>st\<close> the state it works
  on.  The two checks of the source behind the handling (\<open>bytesLeft < messageBytesLeft\<close>,
  \<open>bytesTransferred < bytesLeft\<close>) and the second check of the header length cannot
  hold and are left out.
\<close>

function processBufferData ::
  "(bytes \<Rightarrow> 's \<Rightarrow> bool \<times> 's) \<Rightarrow> nat \<Rightarrow> nat \<Rightarrow> conn_context \<Rightarrow> 's \<Rightarrow> bool \<times> conn_context \<times> 's" where
  "processBufferData handle bytesTransferred bufferOffset cx st =
     (if bufferOffset + bytesTransferred > length (cx_buffer cx) then (False, cx, st)
      else if bytesTransferred < header_size \<and> cx_completeMessageSize cx = 0 then (False, cx, st)
      else
        case messageHeader bytesTransferred bufferOffset cx of (bytesLeft, dataBegin, cx1) \<Rightarrow>
        case messageBody bytesLeft dataBegin cx1 of (rest, cx2) \<Rightarrow>
        case (if messageComplete cx2 then handle (cx_completeMessage cx2) st else (True, st)) of
          (ok, st') \<Rightarrow>
            if \<not> ok then (False, cx2, st')
            else
              let cx3 = (if messageComplete cx2
                         then cx2\<lparr>cx_completeMessage := [], cx_completeMessageSize := 0\<rparr> else cx2)
              in if rest \<noteq> 0
                 then processBufferData handle rest (bufferOffset + (bytesTransferred - rest)) cx3 st'
                 else (True, cx3, st'))"
  by pat_completeness auto

text \<open>
  A recursive call has fewer bytes, except that it first has to see the end of a message that
  was already complete.
\<close>

lemma processBufferData_decreases:
  assumes "\<not> off + n > length (cx_buffer cx)"
    and "\<not> (n < header_size \<and> cx_completeMessageSize cx = 0)"
    and "(bytesLeft, dataBegin, cx1) = messageHeader n off cx"
    and "(rest, cx2) = messageBody bytesLeft dataBegin cx1"
    and "rest \<noteq> 0"
  shows "2 * rest + (if cx_completeMessageSize (if messageComplete cx2
      then cx2\<lparr>cx_completeMessage := [], cx_completeMessageSize := 0\<rparr> else cx2) = 0 then 0 else 1)
    < 2 * n + (if cx_completeMessageSize cx = 0 then 0 else 1)"
proof -
  note h = messageHeader_bounds [OF assms(3) [symmetric] assms(2)]
  have "messageComplete cx2"
    using messageBody_rest [OF assms(4) [symmetric] _ assms(5)] h assms(1) by simp
  moreover have "rest \<le> bytesLeft" using assms(4) by (auto simp: messageBody_def Let_def)
  ultimately show ?thesis
    using h(3) assms(5) by (auto simp: header_size_def split: if_splits)
qed

termination processBufferData
  apply (relation "measure (\<lambda>(_, n, _, cx, _). 2 * n + (if cx_completeMessageSize cx = 0 then 0 else 1))")
   apply simp
  apply (simp only: in_measure prod.case)
  subgoal premises prems
    using prems(3,4) by (intro processBufferData_decreases [OF prems(1,2) _ prems(5,9)]) simp
  done

declare processBufferData.simps [simp del]

text \<open>What every handled message keeps, the loop keeps.\<close>

lemma processBufferData_keeps:
  assumes refl: "\<And>s ok. I s \<Longrightarrow> R s ok s"
    and step: "\<And>m s. I s \<Longrightarrow> R s (fst (h m s)) (snd (h m s)) \<and> (fst (h m s) \<longrightarrow> I (snd (h m s)))"
    and trans: "\<And>a b c ok. R a True b \<Longrightarrow> R b ok c \<Longrightarrow> R a ok c"
    and "I s" and "processBufferData h n off cx s = (ok, cx', s')"
  shows "R s ok s' \<and> (ok \<longrightarrow> I s')"
  using step assms(4,5)
proof (induction h n off cx s arbitrary: ok cx' s' rule: processBufferData.induct)
  case (1 h n off cx s)
  show ?case
  proof (cases "off + n > length (cx_buffer cx) \<or> n < header_size \<and> cx_completeMessageSize cx = 0")
    case True
    then have "processBufferData h n off cx s = (False, cx, s)"
      by (subst processBufferData.simps) auto
    then show ?thesis using "1.prems"(2,3) refl by simp
  next
    case False
    then have g: "\<not> off + n > length (cx_buffer cx)" "\<not> (n < header_size \<and> cx_completeMessageSize cx = 0)"
      by auto
    obtain bytesLeft db cx1 where H: "messageHeader n off cx = (bytesLeft, db, cx1)"
      by (cases "messageHeader n off cx") auto
    obtain rest cx2 where B: "messageBody bytesLeft db cx1 = (rest, cx2)"
      by (cases "messageBody bytesLeft db cx1") auto
    obtain ok1 s1 where X: "(if messageComplete cx2 then h (cx_completeMessage cx2) s else (True, s)) = (ok1, s1)"
      by (cases "if messageComplete cx2 then h (cx_completeMessage cx2) s else (True, s)")
    have one: "R s ok1 s1 \<and> (ok1 \<longrightarrow> I s1)"
      using "1.prems"(1) [of s "cx_completeMessage cx2"] refl [OF "1.prems"(2)] "1.prems"(2) X
      by (auto split: if_splits)
    note eq = processBufferData.simps [of h n off cx s, unfolded H B X prod.case]
    show ?thesis
    proof (cases "ok1 \<and> rest \<noteq> 0")
      case True
      let ?cx3 = "if messageComplete cx2
        then cx2\<lparr>cx_completeMessage := [], cx_completeMessageSize := 0\<rparr> else cx2"
      have "processBufferData h rest (off + (n - rest)) ?cx3 s1 = (ok, cx', s')"
        using "1.prems"(3) g eq True by (simp add: Let_def)
      moreover have "I s1" using one True by simp
      ultimately have "R s1 ok s' \<and> (ok \<longrightarrow> I s')"
        using "1.IH" [OF g H [symmetric] HOL.refl B [symmetric] X [symmetric] _ HOL.refl] True "1.prems"(1)
        by blast
      then show ?thesis using one True trans [of s s1 ok s'] by auto
    next
      case False
      then show ?thesis using one "1.prems"(3) g eq by (auto simp: Let_def split: if_splits)
    qed
  qed
qed

section \<open>The receive handlers\<close>

text \<open>A pending receive completes with bytes in the connection's buffer, or with an error.\<close>

datatype received = Received_bytes bytes | Received_error

definition fill_buffer :: "bytes \<Rightarrow> conn_context \<Rightarrow> conn_context" where
  "fill_buffer bs cx = cx\<lparr>cx_buffer := bs @ drop (length bs) (cx_buffer cx)\<rparr>"

definition srv_addAsyncReceive :: "nat \<Rightarrow> 'z server_scheme \<Rightarrow> 'z server_scheme" where
  "srv_addAsyncReceive cid srv = srv_update cid (\<lambda>co. co\<lparr>co_receiving := True\<rparr>) srv"

definition srv_processBufferData ::
  "server_io \<Rightarrow> ('z server_scheme \<Rightarrow> 'z server_scheme) \<Rightarrow> nat \<Rightarrow> bytes \<Rightarrow> 'z server_scheme \<Rightarrow> bool \<times> 'z server_scheme" where
  "srv_processBufferData io env cid bs srv =
     (case processBufferData (srv_handleMessage io env cid) (length bs) 0
             (fill_buffer bs (co_connContext (srv_connections srv cid))) srv of
        (ok, cx, srv) \<Rightarrow> (ok, srv_update cid (\<lambda>co. co\<lparr>co_connContext := cx\<rparr>) srv))"

definition srv_asyncReceiveHandler ::
  "server_io \<Rightarrow> ('z server_scheme \<Rightarrow> 'z server_scheme) \<Rightarrow> nat \<Rightarrow> received \<Rightarrow> 'z server_scheme \<Rightarrow> 'z server_scheme" where
  "srv_asyncReceiveHandler io env cid r srv0 =
     (let srv = srv_update cid (\<lambda>co. co\<lparr>co_receiving := False\<rparr>) srv0
      in case r of
           Received_error \<Rightarrow> srv_removeConnFromMap cid srv
         | Received_bytes bs \<Rightarrow>
             (case srv_processBufferData io env cid bs srv of
                (True, srv) \<Rightarrow> srv_addAsyncReceive cid srv
              | (False, srv) \<Rightarrow> srv_removeConnFromMap cid srv))"

definition srv_addAsyncAccept :: "'z server_scheme \<Rightarrow> 'z server_scheme" where
  "srv_addAsyncAccept srv =
     (if srv_stopped srv then srv else srv\<lparr>srv_accepting := True\<rparr>)"

text \<open>The completion of a pending accept; after an error no new one is started.\<close>

definition srv_accepted :: "bool \<Rightarrow> 'z server_scheme \<Rightarrow> 'z server_scheme" where
  "srv_accepted error srv0 =
     (let srv = srv0\<lparr>srv_accepting := False\<rparr>
      in if error then srv
         else
           let cid = srv_next srv;
               srv = srv_update cid (\<lambda>_. new_connection\<lparr>co_open := True\<rparr>) (srv\<lparr>srv_next := Suc cid\<rparr>)
           in srv_addAsyncAccept (srv_addAsyncReceive cid srv))"

definition srv_run :: "'z server_scheme \<Rightarrow> 'z server_scheme" where
  "srv_run srv = srv_addAsyncAccept srv"

definition srv_destroy :: "'z server_scheme \<Rightarrow> 'z server_scheme" where
  "srv_destroy srv = srv\<lparr>srv_accepting := False\<rparr>"

section \<open>The listening thread\<close>

definition srv_handleDisconnect :: "device_identification \<Rightarrow> 'z server_scheme \<Rightarrow> 'z server_scheme" where
  "srv_handleDisconnect deviceId srv =
     (case srv_findConnection deviceId srv of
        None \<Rightarrow> srv
      | Some cid \<Rightarrow> srv_removeConnFromMap cid srv)"

fun response_device :: "internal_server_msg \<Rightarrow> ip_device" where
  "response_device (IS_DeviceCommand cmd) = cmd_device cmd"
| "response_device (IS_DeviceConnectResponse cr) = cr_device cr"
| "response_device IS_unset = default_ip_device"

definition srv_validateResponse :: "server_io \<Rightarrow> internal_server_msg \<Rightarrow> 'z server_scheme \<Rightarrow> 'z server_scheme" where
  "srv_validateResponse io message srv =
     (let deviceId = device_of_ip (response_device message)
      in case srv_findConnection deviceId srv of
           None \<Rightarrow> srv
         | Some cid \<Rightarrow>
             if srv_priority srv cid = di_priority deviceId
             then srv_update cid (\<lambda>co. co\<lparr>co_ready := True\<rparr>)
                    (snd (srv_sendResponse io cid message srv))
             else srv)"

text \<open>One round of \<open>listenToQueue\<close>; \<open>arrived\<close> is what the module handler pushes during the wait.\<close>

definition srv_listenToQueue_round ::
  "server_io \<Rightarrow> module_handler_message list \<Rightarrow> 'z server_scheme \<Rightarrow> 'z server_scheme" where
  "srv_listenToQueue_round io arrived srv0 =
     (if srv_stopped srv0 then srv0
      else
        let (timedOut, q) = waitForValueWithTimeout arrived (srv_toInternalQueue srv0);
            srv = srv0\<lparr>srv_toInternalQueue := q\<rparr>
        in if timedOut then srv
           else
             let message = hd q;
                 srv = (if mhm_disconnect message
                        then srv_handleDisconnect (mhm_deviceId message) srv
                        else srv_validateResponse io (mhm_message message) srv)
             in srv\<lparr>srv_toInternalQueue := tl q\<rparr>)"

end
