(* ===== verification/Internal_Server_Laws.thy ===== *)
theory Internal_Server_Laws
  imports Internal_Server
begin

text \<open>
  The invariant of the internal server under all interleavings of its receive handlers and its
  listening thread: at most one connection per device, every registered connection has a
  device, and the module handler is told of connects and disconnects alternately. What a receive
  handler relies on while it waits for an answer is the locale \<open>srv_environment\<close>.
\<close>

section \<open>The invariant\<close>

definition srv_registered :: "device_identification \<Rightarrow> 'z server_scheme \<Rightarrow> bool" where
  "srv_registered d srv \<longleftrightarrow> (\<exists>cid \<in> set (srv_connectedDevices srv). srv_same srv d cid)"

text \<open>The connects (\<open>True\<close>) and disconnects of a device in the queue to the module handler.\<close>

definition device_event :: "device_identification \<Rightarrow> internal_client_message \<Rightarrow> bool list" where
  "device_event d m =
     (if icm_disconnect m then (if isSame d (icm_deviceId m) then [False] else [])
      else if has_deviceconnect (icm_message m) \<and>
              isSame d (device_of_ip (cn_device (deviceconnect (icm_message m)))) then [True]
      else [])"

definition device_events :: "device_identification \<Rightarrow> internal_client_message list \<Rightarrow> bool list" where
  "device_events d q = concat (map (device_event d) q)"

definition reports_ok :: "bool \<Rightarrow> bool list \<Rightarrow> bool" where
  "reports_ok registered es \<longleftrightarrow> successively (\<noteq>) es \<and> (es \<noteq> [] \<longrightarrow> last es = registered)"

definition srv_inv :: "'z server_scheme \<Rightarrow> bool" where
  "srv_inv srv \<longleftrightarrow>
     distinct (srv_connectedDevices srv) \<and>
     (\<forall>c \<in> set (srv_connectedDevices srv). c < srv_next srv \<and>
        (\<exists>d. co_deviceId (srv_connections srv c) = Some d)) \<and>
     (\<forall>a \<in> set (srv_connectedDevices srv). \<forall>b \<in> set (srv_connectedDevices srv). \<forall>d.
        srv_same srv d a \<and> srv_same srv d b \<longrightarrow> a = b) \<and>
     (\<forall>d. reports_ok (srv_registered d srv) (device_events d (srv_fromInternalQueue srv)))"

text \<open>A registered connection whose receive handler is not running has had its answer.\<close>

definition srv_idle :: "nat \<Rightarrow> 'z server_scheme \<Rightarrow> bool" where
  "srv_idle cid srv \<longleftrightarrow>
     (cid \<in> set (srv_connectedDevices srv) \<longrightarrow> co_ready (srv_connections srv cid))"

definition srv_ok :: "nat set \<Rightarrow> 'z server_scheme \<Rightarrow> bool" where
  "srv_ok busy srv \<longleftrightarrow>
     srv_inv srv \<and> (\<forall>cid. cid \<notin> busy \<longrightarrow> srv_idle cid srv) \<and> (\<forall>cid \<in> busy. cid < srv_next srv)"

text \<open>What the other threads leave alone of a connection whose receive handler is running.\<close>

definition srv_rely :: "nat \<Rightarrow> 'z server_scheme \<Rightarrow> 'z server_scheme \<Rightarrow> bool" where
  "srv_rely cid srv srv' \<longleftrightarrow>
     co_connContext (srv_connections srv' cid) = co_connContext (srv_connections srv cid) \<and>
     co_deviceId (srv_connections srv' cid) = co_deviceId (srv_connections srv cid) \<and>
     (co_ready (srv_connections srv cid) \<longrightarrow> co_ready (srv_connections srv' cid)) \<and>
     (cid \<in> set (srv_connectedDevices srv') \<longrightarrow> cid \<in> set (srv_connectedDevices srv)) \<and>
     srv_next srv \<le> srv_next srv'"

lemma srv_rely_refl [simp]: "srv_rely cid srv srv"
  by (simp add: srv_rely_def)

lemma srv_rely_trans: "srv_rely cid a b \<Longrightarrow> srv_rely cid b c \<Longrightarrow> srv_rely cid a c"
  by (auto simp: srv_rely_def)

lemma srv_ok_insert: "srv_ok busy srv \<Longrightarrow> cid < srv_next srv \<Longrightarrow> srv_ok (insert cid busy) srv"
  by (auto simp: srv_ok_def)

lemma srv_ok_busy:
  assumes "srv_ok (busy - {cid}) srv" and "cid < srv_next srv" and "cid \<in> busy"
  shows "srv_ok busy srv"
  using srv_ok_insert [OF assms(1,2)] assms(3) by (simp add: insert_absorb)

section \<open>Small facts\<close>

lemma srv_update_simps [simp]:
  "srv_connections (srv_update cid f srv) = (srv_connections srv)(cid := f (srv_connections srv cid))"
  "srv_connectedDevices (srv_update cid f srv) = srv_connectedDevices srv"
  "srv_fromInternalQueue (srv_update cid f srv) = srv_fromInternalQueue srv"
  "srv_toInternalQueue (srv_update cid f srv) = srv_toInternalQueue srv"
  "srv_next (srv_update cid f srv) = srv_next srv"
  "srv_stopped (srv_update cid f srv) = srv_stopped srv"
  "srv_accepting (srv_update cid f srv) = srv_accepting srv"
  by (simp_all add: srv_update_def)

lemma srv_push_simps [simp]:
  "srv_connections (srv_push m srv) = srv_connections srv"
  "srv_connectedDevices (srv_push m srv) = srv_connectedDevices srv"
  "srv_fromInternalQueue (srv_push m srv) = srv_fromInternalQueue srv @ [m]"
  "srv_toInternalQueue (srv_push m srv) = srv_toInternalQueue srv"
  "srv_next (srv_push m srv) = srv_next srv"
  "srv_stopped (srv_push m srv) = srv_stopped srv"
  by (simp_all add: srv_push_def pushAndNotify_def)

lemma srv_close_simps [simp]:
  "srv_connections (srv_close cid srv) =
     (srv_connections srv)(cid := srv_connections srv cid\<lparr>co_open := False\<rparr>)"
  "srv_connectedDevices (srv_close cid srv) = srv_connectedDevices srv"
  "srv_fromInternalQueue (srv_close cid srv) = srv_fromInternalQueue srv"
  "srv_toInternalQueue (srv_close cid srv) = srv_toInternalQueue srv"
  "srv_next (srv_close cid srv) = srv_next srv"
  "srv_stopped (srv_close cid srv) = srv_stopped srv"
  by (simp_all add: srv_close_def)

lemma device_events_simps [simp]:
  "device_events d [] = []"
  "device_events d (q @ [m]) = device_events d q @ device_event d m"
  "device_events d (m # q) = device_event d m @ device_events d q"
  by (simp_all add: device_events_def)

text \<open>Two states with the same registered connections, devices and reports are alike.\<close>

lemma srv_inv_cong:
  assumes "srv_inv srv" and "srv_connectedDevices srv' = srv_connectedDevices srv"
    and "\<And>c. c \<in> set (srv_connectedDevices srv) \<Longrightarrow>
      co_deviceId (srv_connections srv' c) = co_deviceId (srv_connections srv c)"
    and "srv_next srv \<le> srv_next srv'"
    and "\<And>d. device_events d (srv_fromInternalQueue srv') = device_events d (srv_fromInternalQueue srv)"
  shows "srv_inv srv'"
proof -
  have same: "srv_same srv' d c = srv_same srv d c" if "c \<in> set (srv_connectedDevices srv)" for d c
    using assms(3) [OF that] by (simp add: srv_same_def)
  have "srv_registered d srv' = srv_registered d srv" for d
    using same by (simp add: srv_registered_def assms(2))
  then show ?thesis
    using assms(1,4) same by (auto simp: srv_inv_def assms(2,3,5))
qed

lemma srv_sendResponse_keeps:
  "srv_connectedDevices (snd (srv_sendResponse io cid m srv)) = srv_connectedDevices srv"
  "srv_next (snd (srv_sendResponse io cid m srv)) = srv_next srv"
  "srv_fromInternalQueue (snd (srv_sendResponse io cid m srv)) = srv_fromInternalQueue srv"
  "srv_toInternalQueue (snd (srv_sendResponse io cid m srv)) = srv_toInternalQueue srv"
  "srv_stopped (snd (srv_sendResponse io cid m srv)) = srv_stopped srv"
  "co_deviceId (srv_connections (snd (srv_sendResponse io cid m srv)) c) =
     co_deviceId (srv_connections srv c)"
  "co_ready (srv_connections (snd (srv_sendResponse io cid m srv)) c) =
     co_ready (srv_connections srv c)"
  "co_connContext (srv_connections (snd (srv_sendResponse io cid m srv)) c) =
     co_connContext (srv_connections srv c)"
  by (auto simp: srv_sendResponse_def srv_write_def Let_def split: prod.split)

lemma srv_find_Some:
  assumes "srv_findConnection d srv = Some c"
  shows "c \<in> set (srv_connectedDevices srv)" and "srv_same srv d c"
  using assms by (auto simp: srv_findConnection_def find_Some_iff)

lemma srv_find_None: "srv_findConnection d srv = None \<longleftrightarrow> \<not> srv_registered d srv"
  by (auto simp: srv_findConnection_def srv_registered_def find_None_iff)

lemma srv_find_registered:
  assumes "srv_inv srv" and "c \<in> set (srv_connectedDevices srv)" and "srv_same srv d c"
  shows "srv_findConnection d srv = Some c"
proof -
  have "srv_findConnection d srv \<noteq> None"
    using assms(2,3) by (auto simp: srv_find_None srv_registered_def)
  then obtain c' where c': "srv_findConnection d srv = Some c'" by auto
  then have "c' = c" using srv_find_Some [OF c'] assms by (auto simp: srv_inv_def)
  then show ?thesis using c' by simp
qed

lemma isSame_simps:
  "isSame d d"
  "isSame a b = isSame b a"
  by (auto simp: isSame_def)

lemma isSame_trans: "isSame a b \<Longrightarrow> isSame b c = isSame a c"
  by (auto simp: isSame_def)

lemma srv_same_iff: "co_deviceId (srv_connections srv c) = Some d \<Longrightarrow> srv_same srv d' c = isSame d' d"
  by (simp add: srv_same_def)

section \<open>Registering and removing a connection\<close>

lemma reports_ok_append: "reports_ok r es \<Longrightarrow> r \<noteq> b \<Longrightarrow> reports_ok b (es @ [b])"
  by (auto simp: reports_ok_def successively_append_iff)

text \<open>Erasing the connection of a device and reporting it.\<close>

lemma srv_inv_erase:
  assumes "srv_inv srv" and "it \<in> set (srv_connectedDevices srv)" and "srv_same srv d it"
    and "srv_connectedDevices srv' = remove1 it (srv_connectedDevices srv)"
    and "\<And>c. co_deviceId (srv_connections srv' c) = co_deviceId (srv_connections srv c)"
    and "srv_next srv' = srv_next srv"
    and "srv_fromInternalQueue srv' = srv_fromInternalQueue srv @ [InternalClientMessage_dev d]"
  shows "srv_inv srv'" and "\<not> srv_registered d srv'"
proof -
  have same: "srv_same srv' = srv_same srv" by (simp add: srv_same_def fun_eq_iff assms(5))
  have set': "set (srv_connectedDevices srv') = set (srv_connectedDevices srv) - {it}"
    using assms(1,4) by (simp add: srv_inv_def)
  obtain di where di: "co_deviceId (srv_connections srv it) = Some di" "isSame d di"
    using assms(3) by (auto simp: srv_same_def split: option.splits)
  have reg: "srv_registered d' srv' \<longleftrightarrow> srv_registered d' srv \<and> \<not> isSame d' d" for d'
  proof -
    have it: "srv_same srv d' it = isSame d' d"
      using di isSame_trans [of d' d di] isSame_trans [of d' di d]
      by (auto simp: srv_same_iff [OF di(1)] isSame_simps)
    have "c = it" if "c \<in> set (srv_connectedDevices srv)" "srv_same srv d' c" "isSame d' d" for c
      using assms(1,2) that it by (auto simp: srv_inv_def)
    then show ?thesis using it by (auto simp: srv_registered_def set' same)
  qed
  then show "\<not> srv_registered d srv'" by (simp add: isSame_simps)
  have old: "reports_ok (srv_registered d' srv) (device_events d' (srv_fromInternalQueue srv))" for d'
    using assms(1) by (simp add: srv_inv_def)
  have "reports_ok (srv_registered d' srv') (device_events d' (srv_fromInternalQueue srv'))" for d'
  proof (cases "isSame d' d")
    case True
    then have "srv_same srv d' it"
      using di isSame_trans [of d' d di] by (simp add: srv_same_iff)
    then have "srv_registered d' srv"
      using assms(2) by (auto simp: srv_registered_def)
    then show ?thesis
      using True old [of d'] reports_ok_append [of True _ False]
      by (simp add: reg assms(7) device_event_def)
  next
    case False
    then show ?thesis using old [of d'] by (simp add: reg assms(7) device_event_def)
  qed
  then show "srv_inv srv'"
    using assms(1) by (auto simp: srv_inv_def set' same assms(4,5,6))
qed

lemma srv_removeConnFromMap_keeps [simp]:
  "co_deviceId (srv_connections (srv_removeConnFromMap cid srv) c) = co_deviceId (srv_connections srv c)"
  "co_ready (srv_connections (srv_removeConnFromMap cid srv) c) = co_ready (srv_connections srv c)"
  "co_connContext (srv_connections (srv_removeConnFromMap cid srv) c) =
     co_connContext (srv_connections srv c)"
  "srv_next (srv_removeConnFromMap cid srv) = srv_next srv"
  "srv_toInternalQueue (srv_removeConnFromMap cid srv) = srv_toInternalQueue srv"
  "srv_stopped (srv_removeConnFromMap cid srv) = srv_stopped srv"
  by (auto simp: srv_removeConnFromMap_def srv_push_def srv_close_def srv_update_def split: option.splits)

lemma srv_removeConnFromMap_subset:
  "c \<in> set (srv_connectedDevices (srv_removeConnFromMap cid srv)) \<Longrightarrow>
   c \<in> set (srv_connectedDevices srv)"
  by (auto simp: srv_removeConnFromMap_def split: option.splits if_splits dest: notin_set_remove1
      intro: ccontr)

lemma srv_inv_removeConnFromMap:
  assumes "srv_inv srv"
  shows "srv_inv (srv_removeConnFromMap cid srv)"
proof (cases "co_deviceId (srv_connections srv cid)")
  case None
  then show ?thesis
    using assms by (auto simp: srv_removeConnFromMap_def intro: srv_inv_cong)
next
  case (Some d)
  show ?thesis
  proof (cases "\<exists>it. srv_findConnection d srv = Some it \<and> srv_priority srv it = di_priority d")
    case True
    then obtain it where it: "srv_findConnection d srv = Some it" "srv_priority srv it = di_priority d"
      by auto
    show ?thesis
      by (rule srv_inv_erase(1) [OF assms srv_find_Some [OF it(1)]])
        (auto simp: srv_removeConnFromMap_def Some it)
  next
    case False
    then have "srv_removeConnFromMap cid srv = srv_close cid srv"
      using Some by (auto simp: srv_removeConnFromMap_def split: option.split)
    then show ?thesis using assms by (auto intro: srv_inv_cong)
  qed
qed

text \<open>Removing a registered connection takes it off the list.\<close>

lemma srv_removeConnFromMap_gone:
  assumes "srv_inv srv"
  shows "cid \<notin> set (srv_connectedDevices (srv_removeConnFromMap cid srv))"
proof (cases "cid \<in> set (srv_connectedDevices srv)")
  case True
  then obtain d where d: "co_deviceId (srv_connections srv cid) = Some d"
    using assms by (auto simp: srv_inv_def)
  then have "srv_findConnection d srv = Some cid"
    using True assms by (intro srv_find_registered) (auto simp: srv_same_iff isSame_simps)
  then show ?thesis
    using assms by (simp add: srv_removeConnFromMap_def d srv_priority_def srv_inv_def)
next
  case False
  then show ?thesis using srv_removeConnFromMap_subset by blast
qed

text \<open>Removing the connection of a device leaves the device unregistered.\<close>

lemma srv_remove_found:
  fixes srv :: "'z server_scheme"
  assumes "srv_inv srv" and "srv_findConnection d srv = Some c"
  shows "\<not> srv_registered d (srv_removeConnFromMap c srv)"
proof -
  note c = srv_find_Some [OF assms(2)]
  obtain di where di: "co_deviceId (srv_connections srv c) = Some di" "isSame d di"
    using c(2) by (auto simp: srv_same_def split: option.splits)
  have find: "srv_findConnection di srv = Some c"
    using c(1) assms(1) di by (intro srv_find_registered) (auto simp: srv_same_iff isSame_simps)
  have "\<not> srv_registered di (srv_removeConnFromMap c srv)"
    by (rule srv_inv_erase(2) [OF assms(1) srv_find_Some [OF find]])
      (auto simp: srv_removeConnFromMap_def di find srv_priority_def)
  moreover have "srv_same t d = srv_same t di" for t :: "'z server_scheme"
    using di(2) by (auto simp: srv_same_def fun_eq_iff isSame_def split: option.split)
  ultimately show ?thesis by (simp add: srv_registered_def)
qed

lemma srv_inv_connectNewDevice:
  assumes "srv_inv srv" and "\<not> srv_registered d srv" and "cid \<notin> set (srv_connectedDevices srv)"
    and "cid < srv_next srv" and "has_deviceconnect client"
    and "d = device_of_ip (cn_device (deviceconnect client))"
  shows "srv_inv (srv_connectNewDevice cid client d srv)"
proof -
  let ?srv = "srv_connectNewDevice cid client d srv"
  have cd: "srv_connectedDevices ?srv = srv_connectedDevices srv @ [cid]"
    and q: "srv_fromInternalQueue ?srv = srv_fromInternalQueue srv @ [InternalClientMessage False client]"
    and next': "srv_next ?srv = srv_next srv"
    and dev: "co_deviceId (srv_connections ?srv c) =
      (if c = cid then Some d else co_deviceId (srv_connections srv c))" for c
    by (simp_all add: srv_connectNewDevice_def Let_def srv_push_def srv_update_def pushAndNotify_def)
  have same: "srv_same ?srv d' c = (if c = cid then isSame d' d else srv_same srv d' c)" for d' c
    by (simp add: srv_same_def dev)
  have reg: "srv_registered d' ?srv \<longleftrightarrow> srv_registered d' srv \<or> isSame d' d" for d'
    using assms(3) by (auto simp: srv_registered_def cd same)
  have eq: "srv_same srv d' = srv_same srv d" if "isSame d' d" for d'
    using that by (auto simp: srv_same_def fun_eq_iff isSame_def split: option.split)
  have ev: "device_event d' (InternalClientMessage False client) = (if isSame d' d then [True] else [])" for d'
    using assms(5,6) by (simp add: device_event_def)
  have old: "reports_ok (srv_registered d' srv) (device_events d' (srv_fromInternalQueue srv))" for d'
    using assms(1) by (simp add: srv_inv_def)
  have "reports_ok (srv_registered d' ?srv) (device_events d' (srv_fromInternalQueue ?srv))" for d'
  proof (cases "isSame d' d")
    case True
    then have "\<not> srv_registered d' srv" using assms(2) eq by (simp add: srv_registered_def)
    then show ?thesis
      using True old [of d'] reports_ok_append [of False _ True] by (simp add: reg q ev)
  next
    case False
    then show ?thesis using old [of d'] by (simp add: reg q ev)
  qed
  moreover have "a = b" if "a \<in> set (srv_connectedDevices ?srv)" "b \<in> set (srv_connectedDevices ?srv)"
    "srv_same ?srv d' a" "srv_same ?srv d' b" for a b d'
  proof -
    have "a = b" if "a \<noteq> cid" "b \<noteq> cid" "a \<in> set (srv_connectedDevices srv)"
      "b \<in> set (srv_connectedDevices srv)" "srv_same srv d' a" "srv_same srv d' b"
      using that assms(1) unfolding srv_inv_def by blast
    then show ?thesis
      using that assms(2) eq [of d'] by (auto simp: cd same srv_registered_def split: if_splits)
  qed
  ultimately show ?thesis
    using assms(1,3,4) by (auto simp: srv_inv_def cd dev next')
qed

section \<open>The handlers keep the invariant\<close>

lemma srv_ok_removeConnFromMap:
  assumes "srv_ok (insert cid busy) srv"
  shows "srv_ok busy (srv_removeConnFromMap cid srv)"
proof -
  have "co_ready (srv_connections srv c)"
    if "c \<notin> busy" "c \<in> set (srv_connectedDevices (srv_removeConnFromMap cid srv))" for c
    using assms that srv_removeConnFromMap_gone [of srv cid] srv_removeConnFromMap_subset [OF that(2)]
    by (cases "c = cid") (auto simp: srv_ok_def srv_idle_def)
  then show ?thesis
    using assms by (simp add: srv_ok_def srv_idle_def srv_inv_removeConnFromMap)
qed

lemma srv_ok_removeConnFromMap_other:
  "srv_ok busy srv \<Longrightarrow> srv_ok busy (srv_removeConnFromMap cid srv)"
  using srv_removeConnFromMap_subset [of _ cid srv]
  by (auto simp: srv_ok_def srv_idle_def srv_inv_removeConnFromMap)

lemma srv_rely_removeConnFromMap: "srv_rely c srv (srv_removeConnFromMap cid srv)"
  using srv_removeConnFromMap_subset [of c cid srv] by (auto simp: srv_rely_def)

text \<open>A change that touches no registration, no device and no readiness.\<close>

lemma srv_ok_cong:
  assumes "srv_ok busy srv" and "srv_connectedDevices srv' = srv_connectedDevices srv"
    and "\<And>c. co_deviceId (srv_connections srv' c) = co_deviceId (srv_connections srv c)"
    and "\<And>c. co_ready (srv_connections srv c) \<Longrightarrow> c \<notin> busy \<Longrightarrow> co_ready (srv_connections srv' c)"
    and "srv_next srv \<le> srv_next srv'"
    and "\<And>d. device_events d (srv_fromInternalQueue srv') = device_events d (srv_fromInternalQueue srv)"
  shows "srv_ok busy srv'"
proof -
  have "srv_inv srv'" by (rule srv_inv_cong [of srv]) (use assms in \<open>auto simp: srv_ok_def\<close>)
  moreover have "c < srv_next srv'" if "c \<in> busy" for c
    using that assms(1,5) by (auto simp: srv_ok_def)
  ultimately show ?thesis using assms(1,2,4) by (auto simp: srv_ok_def srv_idle_def)
qed

lemma srv_ok_sendResponse:
  "srv_ok busy srv \<Longrightarrow> srv_ok busy (snd (srv_sendResponse io cid m srv))"
  by (erule srv_ok_cong) (auto simp: srv_sendResponse_keeps)

lemma srv_rely_sendResponse: "srv_rely c srv (snd (srv_sendResponse io cid m srv))"
  by (simp add: srv_rely_def srv_sendResponse_keeps)

lemma srv_connectNewDevice_keeps:
  "set (srv_connectedDevices (srv_connectNewDevice cid client d srv)) =
     insert cid (set (srv_connectedDevices srv))"
  "co_ready (srv_connections (srv_connectNewDevice cid client d srv) c) =
     co_ready (srv_connections srv c)"
  "co_connContext (srv_connections (srv_connectNewDevice cid client d srv) c) =
     co_connContext (srv_connections srv c)"
  "c \<noteq> cid \<Longrightarrow> co_deviceId (srv_connections (srv_connectNewDevice cid client d srv) c) =
     co_deviceId (srv_connections srv c)"
  "srv_next (srv_connectNewDevice cid client d srv) = srv_next srv"
  "srv_toInternalQueue (srv_connectNewDevice cid client d srv) = srv_toInternalQueue srv"
  by (auto simp: srv_connectNewDevice_def Let_def srv_push_def srv_update_def)

lemma srv_ok_connectNewDevice:
  assumes "srv_ok busy srv" and "\<not> srv_registered d srv" and "cid \<notin> set (srv_connectedDevices srv)"
    and "cid < srv_next srv" and "has_deviceconnect client"
    and "d = device_of_ip (cn_device (deviceconnect client))"
  shows "srv_ok (insert cid busy) (srv_connectNewDevice cid client d srv)"
  using srv_inv_connectNewDevice [OF _ assms(2-6)] assms(1,4)
  by (auto simp: srv_ok_def srv_idle_def srv_connectNewDevice_keeps)

lemma srv_ok_handleConnection:
  assumes "srv_ok busy srv" and "cid \<notin> busy" and "cid < srv_next srv" and "has_deviceconnect client"
  shows "srv_ok (insert cid busy) (snd (srv_handleConnection io cid client srv))"
proof -
  let ?d = "device_of_ip (cn_device (deviceconnect client))"
  have weak: "srv_ok (insert cid busy) srv" using assms(1,3) by (rule srv_ok_insert)
  have "srv_ok (insert cid busy) (srv_changeConnection cid client ?d srv)"
    if "\<not> co_ready (srv_connections srv cid)" "srv_findConnection ?d srv = Some old" for old
  proof -
    have "cid \<notin> set (srv_connectedDevices srv)"
      using assms(1,2) that(1) by (auto simp: srv_ok_def srv_idle_def)
    then have "cid \<notin> set (srv_connectedDevices (srv_removeConnFromMap old srv))"
      using srv_removeConnFromMap_subset by blast
    moreover have "\<not> srv_registered ?d (srv_removeConnFromMap old srv)"
      using srv_remove_found [OF _ that(2)] assms(1) by (simp add: srv_ok_def)
    ultimately have "srv_ok (insert cid busy)
        (srv_connectNewDevice cid client ?d (srv_removeConnFromMap old srv))"
      using assms by (intro srv_ok_connectNewDevice srv_ok_removeConnFromMap_other) auto
    then show ?thesis by (simp add: srv_changeConnection_def that(2))
  qed
  moreover have "srv_ok (insert cid busy) (srv_connectNewDevice cid client ?d srv)"
    if "\<not> co_ready (srv_connections srv cid)" "srv_findConnection ?d srv = None"
    using assms that by (intro srv_ok_connectNewDevice) (auto simp: srv_ok_def srv_idle_def srv_find_None)
  ultimately show ?thesis
    using weak by (auto simp: srv_handleConnection_def Let_def srv_respondWithAlreadyConnected_def
        srv_respondWithHigherPriorityConnected_def srv_ok_sendResponse split: option.split)
qed

lemma srv_ok_handleStatus:
  assumes "srv_ok busy srv" and "has_devicestatus client" and "cid < srv_next srv"
  shows "srv_ok (insert cid busy) (snd (srv_handleStatus cid client srv))"
proof -
  have "device_event d (InternalClientMessage False client) = []" for d
    using assms(2) by (cases client) (auto simp: device_event_def)
  moreover have ok: "srv_ok (insert cid busy) srv" using assms(1,3) by (rule srv_ok_insert)
  ultimately have "srv_ok (insert cid busy) (srv_update cid (co_ready_update (\<lambda>_. False))
      (srv_push (InternalClientMessage False client) srv))"
    by (intro srv_ok_cong [OF ok]) auto
  then show ?thesis using ok by (simp add: srv_handleStatus_def)
qed

lemma srv_ok_dispatch:
  assumes "srv_ok busy srv" and "cid \<notin> busy" and "cid < srv_next srv"
  shows "srv_ok (insert cid busy) (snd (srv_dispatch io cid m srv))"
  using assms srv_ok_insert [OF assms(1,3)]
  by (auto simp: srv_dispatch_def srv_ok_handleStatus srv_ok_handleConnection split: option.split)

lemma srv_rely_dispatch:
  assumes "c \<noteq> cid"
  shows "srv_rely c srv (snd (srv_dispatch io cid m srv))"
proof -
  have "srv_rely c srv (srv_changeConnection cid client d srv)" for client d
    using assms srv_removeConnFromMap_subset [of c _ srv]
    by (auto simp: srv_changeConnection_def srv_rely_def srv_connectNewDevice_keeps split: option.split)
  moreover have "srv_rely c srv (srv_connectNewDevice cid client d srv)" for client d
    using assms by (auto simp: srv_rely_def srv_connectNewDevice_keeps)
  ultimately have "srv_rely c srv (snd (srv_handleConnection io cid client srv))" for client
    by (auto simp: srv_handleConnection_def Let_def srv_respondWithAlreadyConnected_def
        srv_respondWithHigherPriorityConnected_def srv_rely_sendResponse split: option.split)
  moreover have "srv_rely c srv (snd (srv_handleStatus cid client srv))" for client
    using assms by (auto simp: srv_handleStatus_def srv_rely_def)
  ultimately show ?thesis by (auto simp: srv_dispatch_def split: option.split)
qed

section \<open>Waiting for the answer\<close>

text \<open>
  What a receive handler relies on while it waits: the other threads keep the invariant, and they
  leave the connections alone whose handlers are running (\<open>busy\<close>, the waiting one included).
\<close>

locale srv_environment =
  fixes busy :: "nat set"
    and env :: "'z server_scheme \<Rightarrow> 'z server_scheme"
  assumes env_ok: "srv_ok busy srv \<Longrightarrow> srv_ok busy (env srv)"
    and env_rely: "srv_ok busy srv \<Longrightarrow> c \<in> busy \<Longrightarrow> srv_rely c srv (env srv)"
begin

lemma dispatch_ok:
  assumes "srv_ok (busy - {cid}) srv" and "cid \<in> busy" and "cid < srv_next srv"
    and "srv_dispatch io cid m srv = (ok, srv')"
  shows "srv_ok busy srv'"
  using srv_ok_dispatch [OF assms(1) _ assms(3), of io m] assms(2,4) by (simp add: insert_absorb)

lemma handleMessage_ok:
  assumes "srv_ok (busy - {cid}) srv" and "cid \<in> busy" and "cid < srv_next srv"
  shows "srv_ok busy (snd (srv_handleMessage io env cid m srv))"
    and "fst (srv_handleMessage io env cid m srv) \<Longrightarrow>
      srv_ok (busy - {cid}) (snd (srv_handleMessage io env cid m srv))"
proof -
  obtain ok srv1 where d: "srv_dispatch io cid m srv = (ok, srv1)" by (cases "srv_dispatch io cid m srv")
  have "srv_ok busy srv1" by (rule dispatch_ok [OF assms d])
  then have "srv_ok busy (env srv1)" by (rule env_ok)
  moreover from this have "srv_ok (busy - {cid}) (env srv1)" if "co_ready (srv_connections (env srv1) cid)"
    using that by (auto simp: srv_ok_def srv_idle_def)
  ultimately show "srv_ok busy (snd (srv_handleMessage io env cid m srv))"
    and "fst (srv_handleMessage io env cid m srv) \<Longrightarrow>
      srv_ok (busy - {cid}) (snd (srv_handleMessage io env cid m srv))"
    using \<open>srv_ok busy srv1\<close> by (auto simp: srv_handleMessage_def d Let_def split: bool.splits if_splits)
qed

lemma handleMessage_rely:
  assumes "srv_ok (busy - {cid}) srv" and "cid \<in> busy" and "cid < srv_next srv"
    and "c \<in> busy" and "c \<noteq> cid"
  shows "srv_rely c srv (snd (srv_handleMessage io env cid m srv))"
proof -
  obtain ok srv1 where d: "srv_dispatch io cid m srv = (ok, srv1)" by (cases "srv_dispatch io cid m srv")
  have "srv_rely c srv srv1" using srv_rely_dispatch [OF assms(5), of srv io m] d by simp
  moreover from this have "srv_rely c srv (env srv1)"
    using env_rely [OF dispatch_ok [OF assms(1-3) d] assms(4)] by (rule srv_rely_trans)
  ultimately show ?thesis
    by (auto simp: srv_handleMessage_def d Let_def split: bool.splits if_splits)
qed

lemma handleMessage_next:
  assumes "srv_ok (busy - {cid}) srv" and "cid \<in> busy" and "cid < srv_next srv"
  shows "srv_next srv \<le> srv_next (snd (srv_handleMessage io env cid m srv))"
proof -
  have keeps: "srv_next (snd (srv_dispatch io cid m srv)) = srv_next srv"
    by (auto simp: srv_dispatch_def srv_handleStatus_def srv_handleConnection_def Let_def
        srv_respondWithAlreadyConnected_def srv_respondWithHigherPriorityConnected_def
        srv_changeConnection_def srv_sendResponse_keeps srv_connectNewDevice_keeps split: option.split)
  obtain ok srv1 where d: "srv_dispatch io cid m srv = (ok, srv1)" by (cases "srv_dispatch io cid m srv")
  have "srv_next srv1 \<le> srv_next (env srv1)" 
    using env_rely [OF dispatch_ok [OF assms d] assms(2)] by (simp add: srv_rely_def)
  then show ?thesis
    using keeps d by (auto simp: srv_handleMessage_def Let_def split: bool.splits if_splits)
qed

text \<open>The framing loop carries what every handled message keeps.\<close>

lemma processBufferData_ok:
  assumes "srv_ok (busy - {cid}) srv" and "cid \<in> busy" and "cid < srv_next srv"
    and "processBufferData (srv_handleMessage io env cid) n off cx srv = (ok, cx', srv')"
  shows "srv_ok busy srv'" and "ok \<Longrightarrow> srv_ok (busy - {cid}) srv'" and "srv_next srv \<le> srv_next srv'"
    and "c \<in> busy \<Longrightarrow> c \<noteq> cid \<Longrightarrow> srv_rely c srv srv'"
proof -
  let ?P = "\<lambda>srv ok srv'. srv_ok busy srv' \<and> (ok \<longrightarrow> srv_ok (busy - {cid}) srv') \<and>
    srv_next srv \<le> srv_next srv' \<and> (\<forall>c. c \<in> busy \<and> c \<noteq> cid \<longrightarrow> srv_rely c srv srv')"
  have weak: "srv_ok busy s" if "srv_ok (busy - {cid}) s" "cid < srv_next s" for s
    using that assms(2) by (rule srv_ok_busy)
  have step: "?P s (fst (srv_handleMessage io env cid m s)) (snd (srv_handleMessage io env cid m s))"
    if "srv_ok (busy - {cid}) s" "cid < srv_next s" for s m
    using handleMessage_ok [OF that(1) assms(2) that(2), of io m] 
      handleMessage_next [OF that(1) assms(2) that(2), of io m]
      handleMessage_rely [OF that(1) assms(2) that(2), of _ io m] by auto
  have trans: "?P a ok2 d" if "?P a True b" "?P b ok2 d" for a b d ok2
    using that by (auto intro: srv_rely_trans)
  let ?I = "\<lambda>s. srv_ok (busy - {cid}) s \<and> cid < srv_next s"
  have "?P srv ok srv' \<and> (ok \<longrightarrow> ?I srv')"
  proof (rule processBufferData_keeps [where I = ?I and h = "srv_handleMessage io env cid"])
    show "?P s ok s" if "?I s" for s ok using that weak by auto
    show "?P s (fst (srv_handleMessage io env cid m s)) (snd (srv_handleMessage io env cid m s)) \<and>
        (fst (srv_handleMessage io env cid m s) \<longrightarrow> ?I (snd (srv_handleMessage io env cid m s)))"
      if "?I s" for m s
      using step [of s m] that by auto
    show "?P a ok d" if "?P a True b" "?P b ok d" for a b d ok using that by (rule trans)
    show "?I srv" using assms(1,3) by simp
  qed (rule assms(4))
  then show "srv_ok busy srv'" "ok \<Longrightarrow> srv_ok (busy - {cid}) srv'" "srv_next srv \<le> srv_next srv'"
    "c \<in> busy \<Longrightarrow> c \<noteq> cid \<Longrightarrow> srv_rely c srv srv'"
    by auto
qed

lemma asyncReceiveHandler_ok:
  assumes "srv_ok (busy - {cid}) srv" and "cid \<in> busy" and "cid < srv_next srv"
  shows "srv_ok (busy - {cid}) (srv_asyncReceiveHandler io env cid r srv)"
    and "c \<in> busy \<Longrightarrow> c \<noteq> cid \<Longrightarrow> srv_rely c srv (srv_asyncReceiveHandler io env cid r srv)"
proof -
  let ?srv = "srv_update cid (\<lambda>co. co\<lparr>co_receiving := False\<rparr>) srv"
  have ok0: "srv_ok (busy - {cid}) ?srv" by (rule srv_ok_cong [OF assms(1)]) auto
  have rely0: "srv_rely c srv ?srv" for c by (simp add: srv_rely_def)
  have busy: "insert cid (busy - {cid}) = busy" using assms(2) by auto
  have weak: "srv_ok busy ?srv" using ok0 _ assms(2) by (rule srv_ok_busy) (simp add: assms(3))
  have removed: "srv_ok (busy - {cid}) (srv_removeConnFromMap cid s)" if "srv_ok busy s" for s
    using srv_ok_removeConnFromMap [of cid "busy - {cid}" s, unfolded busy] that .
  have bytes: "srv_ok (busy - {cid}) (case srv_processBufferData io env cid bs ?srv of
        (True, s) \<Rightarrow> srv_addAsyncReceive cid s | (False, s) \<Rightarrow> srv_removeConnFromMap cid s)"
    "c \<in> busy \<Longrightarrow> c \<noteq> cid \<Longrightarrow> srv_rely c ?srv (case srv_processBufferData io env cid bs ?srv of
        (True, s) \<Rightarrow> srv_addAsyncReceive cid s | (False, s) \<Rightarrow> srv_removeConnFromMap cid s)" for bs
  proof -
    obtain ok cx' s' where p: "processBufferData (srv_handleMessage io env cid) (length bs) 0
        (fill_buffer bs (co_connContext (srv_connections ?srv cid))) ?srv = (ok, cx', s')"
      by (metis prod_cases3)
    have "cid < srv_next ?srv" using assms(3) by simp
    note P = processBufferData_ok [OF ok0 assms(2) this p]
    let ?s = "srv_update cid (\<lambda>co. co\<lparr>co_connContext := cx'\<rparr>) s'"
    have q: "srv_processBufferData io env cid bs ?srv = (ok, ?s)"
      unfolding srv_processBufferData_def p by simp
    have "srv_ok busy ?s" by (rule srv_ok_cong [OF P(1)]) auto
    moreover have "srv_ok (busy - {cid}) (srv_addAsyncReceive cid ?s)" if ok
      by (rule srv_ok_cong [OF P(2) [OF that]]) (auto simp: srv_addAsyncReceive_def)
    ultimately show "srv_ok (busy - {cid}) (case srv_processBufferData io env cid bs ?srv of
        (True, s) \<Rightarrow> srv_addAsyncReceive cid s | (False, s) \<Rightarrow> srv_removeConnFromMap cid s)"
      unfolding q using removed by (cases ok) simp_all
    have "srv_rely c s' ?s \<and> srv_rely c s' (srv_addAsyncReceive cid ?s)" if "c \<noteq> cid"
      using that by (simp add: srv_rely_def srv_addAsyncReceive_def)
    then show "srv_rely c ?srv (case srv_processBufferData io env cid bs ?srv of
        (True, s) \<Rightarrow> srv_addAsyncReceive cid s | (False, s) \<Rightarrow> srv_removeConnFromMap cid s)"
      if "c \<in> busy" "c \<noteq> cid"
      unfolding q using P(4) [OF that] that
      by (cases ok) (auto intro: srv_rely_trans srv_rely_trans [OF _ srv_rely_removeConnFromMap])
  qed
  show "srv_ok (busy - {cid}) (srv_asyncReceiveHandler io env cid r srv)"
    using bytes(1) removed [OF weak] by (cases r) (simp_all add: srv_asyncReceiveHandler_def)
  show "srv_rely c srv (srv_asyncReceiveHandler io env cid r srv)" if "c \<in> busy" "c \<noteq> cid"
    using srv_rely_trans [OF rely0 bytes(2) [OF that]] srv_rely_trans [OF rely0 srv_rely_removeConnFromMap]
    by (cases r) (simp_all add: srv_asyncReceiveHandler_def)
qed

end

text \<open>Seen from outside: the handler starts and ends with its connection not among the busy ones.\<close>

lemma srv_asyncReceiveHandler_ok:
  assumes "srv_environment (insert cid busy) env" and "srv_ok busy srv" and "cid \<notin> busy" and "cid < srv_next srv"
  shows "srv_ok busy (srv_asyncReceiveHandler io env cid r srv)"
    and "c \<in> busy \<Longrightarrow> srv_rely c srv (srv_asyncReceiveHandler io env cid r srv)"
proof -
  have busy: "insert cid busy - {cid} = busy" using assms(3) by auto
  note H = srv_environment.asyncReceiveHandler_ok [OF assms(1) _ insertI1 assms(4), unfolded busy, OF assms(2)]
  show "srv_ok busy (srv_asyncReceiveHandler io env cid r srv)" by (rule H(1))
  show "srv_rely c srv (srv_asyncReceiveHandler io env cid r srv)" if "c \<in> busy"
    by (rule H(2)) (use that assms(3) in auto)
qed

section \<open>The listening thread and the acceptor\<close>

lemma srv_ok_validateResponse: "srv_ok busy srv \<Longrightarrow> srv_ok busy (srv_validateResponse io m srv)"
  by (auto simp: srv_validateResponse_def Let_def srv_sendResponse_keeps split: option.split
      elim!: srv_ok_cong)

lemma srv_rely_validateResponse: "srv_rely c srv (srv_validateResponse io m srv)"
  by (auto simp: srv_validateResponse_def Let_def srv_rely_def srv_sendResponse_keeps split: option.split)

lemma srv_ok_queue [simp]: "srv_ok busy (srv\<lparr>srv_toInternalQueue := q\<rparr>) = srv_ok busy srv"
  by (auto elim!: srv_ok_cong)

lemma srv_rely_queue [simp]:
  "srv_rely c (srv\<lparr>srv_toInternalQueue := q\<rparr>) srv' = srv_rely c srv srv'"
  "srv_rely c srv (srv'\<lparr>srv_toInternalQueue := q\<rparr>) = srv_rely c srv srv'"
  by (simp_all add: srv_rely_def)

lemma srv_ok_listenToQueue_round:
  "srv_ok busy srv \<Longrightarrow> srv_ok busy (srv_listenToQueue_round io arrived srv)"
  by (auto simp: srv_listenToQueue_round_def Let_def waitForValueWithTimeout_def srv_handleDisconnect_def
      srv_ok_validateResponse srv_ok_removeConnFromMap_other split: option.split)

lemma srv_rely_listenToQueue_round: "srv_rely c srv (srv_listenToQueue_round io arrived srv)"
proof -
  have "srv_rely c srv (srv_validateResponse io m (srv\<lparr>srv_toInternalQueue := q\<rparr>))" for m q
    using srv_rely_validateResponse [of c "srv\<lparr>srv_toInternalQueue := q\<rparr>" io m] by simp
  moreover have "srv_rely c srv (srv_handleDisconnect d (srv\<lparr>srv_toInternalQueue := q\<rparr>))" for d q
    using srv_rely_removeConnFromMap [of c "srv\<lparr>srv_toInternalQueue := q\<rparr>"]
    by (auto simp: srv_handleDisconnect_def split: option.split)
  ultimately show ?thesis
    by (simp add: srv_listenToQueue_round_def Let_def waitForValueWithTimeout_def)
qed

text \<open>A receive handler that waits while the listening thread works has the environment it needs.\<close>

interpretation listening: srv_environment busy "srv_listenToQueue_round io arrived"
  for busy io arrived
  by unfold_locales (simp_all add: srv_ok_listenToQueue_round srv_rely_listenToQueue_round)

text \<open>Connections not accepted yet have no device and are not registered.\<close>

lemma srv_ok_accepted: "srv_ok busy srv \<Longrightarrow> srv_ok busy (srv_accepted error srv)"
proof -
  assume ok: "srv_ok busy srv"
  let ?cid = "srv_next srv"
  have fresh: "?cid \<notin> set (srv_connectedDevices srv)" using ok by (auto simp: srv_ok_def srv_inv_def)
  define srv' where "srv' = srv_accepted error srv"
  have cd: "srv_connectedDevices srv' = srv_connectedDevices srv"
    "srv_fromInternalQueue srv' = srv_fromInternalQueue srv" "srv_next srv \<le> srv_next srv'"
    by (auto simp: srv'_def srv_accepted_def Let_def srv_addAsyncAccept_def srv_addAsyncReceive_def)
  have co: "srv_connections srv' c = srv_connections srv c" if "c \<noteq> ?cid" for c
    using that by (auto simp: srv'_def srv_accepted_def Let_def srv_addAsyncAccept_def srv_addAsyncReceive_def)
  have "srv_inv srv'"
  proof (rule srv_inv_cong [of srv])
    show "co_deviceId (srv_connections srv' c) = co_deviceId (srv_connections srv c)"
      if "c \<in> set (srv_connectedDevices srv)" for c
      using co [of c] fresh that by (cases "c = ?cid") auto
  qed (use ok cd in \<open>auto simp: srv_ok_def\<close>)
  moreover have "srv_idle c srv'" if "c \<notin> busy" for c
    using ok cd(1) co [of c] fresh that by (cases "c = ?cid") (auto simp: srv_ok_def srv_idle_def)
  ultimately show "srv_ok busy (srv_accepted error srv)"
    using ok cd(3) by (auto simp: srv_ok_def srv'_def)
qed

lemma srv_rely_accepted:
  "c < srv_next srv \<Longrightarrow> srv_rely c srv (srv_accepted error srv)"
  by (auto simp: srv_rely_def srv_accepted_def Let_def srv_addAsyncAccept_def srv_addAsyncReceive_def)

section \<open>All interleavings\<close>

text \<open>
  The runs of the server: \<open>busy\<close> are the connections whose receive handlers are running, and a
  receive handler runs over an environment that is itself such a run. The module handler may
  take messages from its queue at any time.
\<close>

inductive srv_reaches :: "server_io \<Rightarrow> nat set \<Rightarrow> server \<Rightarrow> server \<Rightarrow> bool" for io where
  start: "srv_reaches io busy srv srv"
| accept: "srv_reaches io busy srv srv' \<Longrightarrow> srv_accepting srv' \<Longrightarrow>
    srv_reaches io busy srv (srv_accepted error srv')"
| listen: "srv_reaches io busy srv srv' \<Longrightarrow>
    srv_reaches io busy srv (srv_listenToQueue_round io arrived srv')"
| consume: "srv_reaches io busy srv srv' \<Longrightarrow> srv_fromInternalQueue srv' = m # q \<Longrightarrow>
    srv_reaches io busy srv (srv'\<lparr>srv_fromInternalQueue := q\<rparr>)"
| stop: "srv_reaches io busy srv srv' \<Longrightarrow> srv_reaches io busy srv (srv'\<lparr>srv_stopped := True\<rparr>)"
| receive: "srv_reaches io busy srv srv' \<Longrightarrow> cid \<notin> busy \<Longrightarrow> cid < srv_next srv' \<Longrightarrow>
    co_receiving (srv_connections srv' cid) \<Longrightarrow> (\<And>t. srv_reaches io (insert cid busy) t (env t)) \<Longrightarrow>
    srv_reaches io busy srv (srv_asyncReceiveHandler io env cid r srv')"

lemma reports_ok_tail: "reports_ok r (es @ es') \<Longrightarrow> reports_ok r es'"
  by (auto simp: reports_ok_def successively_append_iff)

lemma srv_ok_consume:
  assumes "srv_ok busy srv" and "srv_fromInternalQueue srv = m # q"
  shows "srv_ok busy (srv\<lparr>srv_fromInternalQueue := q\<rparr>)"
proof -
  have "reports_ok (srv_registered d srv) (device_event d m @ device_events d q)" for d
    using assms by (auto simp: srv_ok_def srv_inv_def)
  then have "reports_ok (srv_registered d srv) (device_events d q)" for d
    by (rule reports_ok_tail)
  then show ?thesis
    using assms(1) by (simp add: srv_ok_def srv_inv_def srv_idle_def srv_same_def srv_registered_def)
qed

lemma srv_reaches_ok:
  assumes "srv_reaches io busy srv srv'" and "srv_ok busy srv"
  shows "srv_ok busy srv' \<and> (\<forall>c \<in> busy. srv_rely c srv srv')"
  using assms
proof induction
  case (accept busy srv srv' error)
  moreover have "srv_rely c srv' (srv_accepted error srv')" if "c \<in> busy" for c
    using accept that by (intro srv_rely_accepted) (auto simp: srv_ok_def)
  ultimately show ?case by (auto intro: srv_ok_accepted srv_rely_trans)
next
  case (listen busy srv srv' arrived)
  then show ?case
    by (auto intro: srv_ok_listenToQueue_round srv_rely_trans [OF _ srv_rely_listenToQueue_round])
next
  case (consume busy srv srv' m q)
  then show ?case by (auto intro: srv_ok_consume simp: srv_rely_def)
next
  case (stop busy srv srv')
  then have "srv_ok busy srv'" by simp
  then have "srv_ok busy (srv'\<lparr>srv_stopped := True\<rparr>)"
    by (rule srv_ok_cong) auto
  with stop show ?case by (auto simp: srv_rely_def)
next
  case (receive busy srv srv' cid env r)
  have env: "srv_environment (insert cid busy) env"
    using receive.IH(2) by unfold_locales auto
  note H = srv_asyncReceiveHandler_ok [OF env _ receive.hyps(2,3), where io = io and r = r]
  show ?case using H receive.IH(1) receive.prems srv_rely_trans [OF _ H(2)] by simp
qed simp

lemma srv_ok_initial: "srv_ok {} (srv_run InternalServer)"
  by (simp add: srv_ok_def srv_inv_def srv_run_def srv_addAsyncAccept_def InternalServer_def srv_idle_def
      reports_ok_def)

lemma srv_ok_one_connection:
  assumes "srv_ok {} srv"
  shows "distinct (srv_connectedDevices srv) \<and>
    (\<forall>a \<in> set (srv_connectedDevices srv). co_ready (srv_connections srv a) \<and>
      (\<exists>da. co_deviceId (srv_connections srv a) = Some da \<and>
        (\<forall>b \<in> set (srv_connectedDevices srv). \<forall>db.
          co_deviceId (srv_connections srv b) = Some db \<and> isSame da db \<longrightarrow> a = b)))"
proof -
  have inv: "srv_inv srv" and idle: "\<And>c. srv_idle c srv" using assms by (simp_all add: srv_ok_def)
  have "a = b" if "a \<in> set (srv_connectedDevices srv)" "b \<in> set (srv_connectedDevices srv)"
    "co_deviceId (srv_connections srv a) = Some da" "co_deviceId (srv_connections srv b) = Some db"
    "isSame da db" for a b da db
  proof -
    have "srv_same srv da a" "srv_same srv da b"
      using that(5) by (simp_all add: srv_same_iff [OF that(3)] srv_same_iff [OF that(4)] isSame_simps)
    then show ?thesis using inv that(1,2) unfolding srv_inv_def by blast
  qed
  then show ?thesis
    using inv idle unfolding srv_inv_def srv_idle_def by metis
qed


text \<open>
  In every run, the module handler is told of connects and disconnects of a device
  alternately, and the last report still in its queue says whether the device is connected.
\<close>

lemma reports_alternate:
  assumes "srv_reaches io {} (srv_run InternalServer) srv"
  shows "reports_ok (srv_registered d srv) (device_events d (srv_fromInternalQueue srv))"
  using srv_reaches_ok [OF assms srv_ok_initial] by (simp add: srv_ok_def srv_inv_def)

end
