(* ===== verification/Internal_Server_Framing.thy ===== *)
theory Internal_Server_Framing
  imports Internal_Server
begin

text \<open>
  What \<open>processBufferData\<close> makes of the byte stream of an internal client. The reference is the
  protocol's framing: every message is preceded by its length in four bytes. However the
  stream is cut into chunks, the messages handled are those of the stream, each once and in
  order, as long as no chunk ends inside a header.
\<close>

section \<open>The stream of a client\<close>

definition frame :: "bytes \<Rightarrow> bytes" where
  "frame m = le_bytes header_size (length m) @ m"

definition stream_of :: "bytes list \<Rightarrow> bytes" where
  "stream_of ms = concat (map frame ms)"

definition message_ok :: "bytes \<Rightarrow> bool" where
  "message_ok m \<longleftrightarrow> 0 < length m \<and> length m < 2 ^ 32"

text \<open>
  The messages that end within the first \<open>t\<close> bytes of the stream, those behind, and how far into
  the first of those the position \<open>t\<close> is.
\<close>

fun split_at :: "bytes list \<Rightarrow> nat \<Rightarrow> bytes list \<times> bytes list \<times> nat" where
  "split_at [] t = ([], [], 0)"
| "split_at (m # ms) t =
     (if t < header_size + length m then ([], m # ms, t)
      else (case split_at ms (t - (header_size + length m)) of (d, r, p) \<Rightarrow> (m # d, r, p)))"

definition outside_header :: "nat \<Rightarrow> bool" where
  "outside_header p \<longleftrightarrow> p = 0 \<or> header_size \<le> p"

fun cuts_ok :: "bytes list \<Rightarrow> nat \<Rightarrow> bytes list \<Rightarrow> bool" where
  "cuts_ok ms p [] = True"
| "cuts_ok ms p (c # cs) =
     (case split_at ms (p + length c) of (_, ms', p') \<Rightarrow> outside_header p' \<and> cuts_ok ms' p' cs)"

text \<open>Handling a list of messages, up to the first that is not accepted.\<close>

fun handle_all :: "(bytes \<Rightarrow> 's \<Rightarrow> bool \<times> 's) \<Rightarrow> bytes list \<Rightarrow> 's \<Rightarrow> bool \<times> 's" where
  "handle_all handle [] st = (True, st)"
| "handle_all handle (m # ms) st =
     (case handle m st of (ok, st') \<Rightarrow> if ok then handle_all handle ms st' else (False, st'))"

text \<open>The receives of a connection, one chunk each, up to the first that ends it.\<close>

fun receive_chunks ::
  "(bytes \<Rightarrow> 's \<Rightarrow> bool \<times> 's) \<Rightarrow> bytes list \<Rightarrow> conn_context \<Rightarrow> 's \<Rightarrow> bool \<times> conn_context \<times> 's" where
  "receive_chunks handle [] cx st = (True, cx, st)"
| "receive_chunks handle (c # cs) cx st =
     (case processBufferData handle (length c) 0 (fill_buffer c cx) st of
        (ok, cx', st') \<Rightarrow> if ok then receive_chunks handle cs cx' st' else (False, cx', st'))"

text \<open>The context of a connection that has received \<open>p\<close> bytes of the frame of \<open>m\<close>.\<close>

definition context_at :: "conn_context \<Rightarrow> bytes list \<Rightarrow> nat \<Rightarrow> bool" where
  "context_at cx ms p \<longleftrightarrow>
     (if p = 0 then cx_completeMessageSize cx = 0 \<and> cx_completeMessage cx = []
      else (\<exists>m ms'. ms = m # ms' \<and> header_size \<le> p \<and> p < header_size + length m \<and>
        cx_completeMessageSize cx = of_nat (length m) \<and>
        cx_completeMessage cx = take (p - header_size) m))"

section \<open>The header\<close>

lemma length_le_bytes [simp]: "length (le_bytes k n) = k"
  by (induction k n rule: le_bytes.induct) simp_all

lemma le_nat_le_bytes: "le_nat (le_bytes k n) = n mod 256 ^ k"
proof (induction k n rule: le_bytes.induct)
  case (2 k n)
  have "unat (of_nat n :: u8) = n mod 256"
    by (simp add: unat_of_nat)
  then show ?case
    using 2 by (simp add: mod_mult2_eq)
qed simp

lemma le_nat_header: "message_ok m \<Longrightarrow> le_nat (le_bytes header_size (length m)) = length m"
  by (simp add: le_nat_le_bytes header_size_def message_ok_def)

lemma length_frame [simp]: "length (frame m) = header_size + length m"
  by (simp add: frame_def)

lemma stream_of_simps [simp]:
  "stream_of [] = []"
  "stream_of (m # ms) = frame m @ stream_of ms"
  by (simp_all add: stream_of_def)

lemma split_at_stream:
  "split_at ms t = (d, r, p) \<Longrightarrow> t \<le> length (stream_of ms) \<Longrightarrow>
   ms = d @ r \<and> length (stream_of d) + p = t"
proof (induction ms t arbitrary: d r p rule: split_at.induct)
  case (2 m ms t)
  show ?case
  proof (cases "t < header_size + length m")
    case True
    then show ?thesis using 2 by auto
  next
    case False
    then show ?thesis
      using 2(1) [OF False] 2(2,3) by (fastforce split: prod.splits)
  qed
qed simp

lemma split_at_zero [simp]: "split_at ms 0 = ([], ms, 0)"
  by (cases ms) (simp_all add: header_size_def)

lemma stream_of_append [simp]: "stream_of (a @ b) = stream_of a @ stream_of b"
  by (simp add: stream_of_def)

lemma unat_of_nat64: "n < 2 ^ 32 \<Longrightarrow> unat (of_nat n :: 64 word) = n"
  by (simp add: unat_of_nat take_bit_eq_mod)

lemma size_left:
  assumes "message_ok m" and "k \<le> length m"
  shows "unat (of_nat (length m) - of_nat k :: 64 word) = length m - k"
proof -
  have "of_nat (length m) - of_nat k = (of_nat (length m - k) :: 64 word)"
    using assms(2) by (simp add: of_nat_diff)
  moreover have "length m - k < 2 ^ 32"
    using assms(1) less_imp_diff_less by (auto simp: message_ok_def)
  ultimately show ?thesis by (simp only: unat_of_nat64)
qed

lemma size_eq:
  assumes "message_ok m" and "k \<le> length m"
  shows "(of_nat (length m) :: 64 word) = of_nat k \<longleftrightarrow> length m = k"
proof
  assume e: "(of_nat (length m) :: 64 word) = of_nat k"
  have "length m < 2 ^ 32" "k < 2 ^ 32" using assms by (simp_all add: message_ok_def)
  then show "length m = k" using arg_cong [OF e, of unat] by (simp only: unat_of_nat64)
qed simp

lemma size_nonzero: "message_ok m \<Longrightarrow> (of_nat (length m) :: 64 word) \<noteq> 0"
  using size_eq [of m 0] by (auto simp: message_ok_def)

section \<open>One received chunk\<close>

text \<open>The header, and how much of the message the chunk brings.\<close>

lemma header_step:
  assumes "context_at cx (m # ms) p" and "message_ok m"
    and "take n (drop off (cx_buffer cx)) = take n (drop p (stream_of (m # ms)))"
    and "p = 0 \<longrightarrow> header_size \<le> n"
  defines "q \<equiv> max p header_size"
  shows "messageHeader n off cx =
    (p + n - q, off + (q - p),
     cx\<lparr>cx_completeMessageSize := of_nat (length m), cx_completeMessage := take (q - header_size) m\<rparr>)"
proof (cases "p = 0")
  case True
  have "take header_size (drop off (cx_buffer cx)) = take header_size (take n (drop off (cx_buffer cx)))"
    using assms(4) True by (simp add: min_absorb1)
  also have "\<dots> = le_bytes header_size (length m)"
    using assms(3,4) True by (simp add: frame_def min_absorb1)
  finally show ?thesis
    using True assms(1,2,4) by (simp add: messageHeader_def context_at_def q_def le_nat_header)
next
  case False
  then show ?thesis
    using assms(1,2) size_nonzero [of m] by (auto simp: messageHeader_def context_at_def q_def max_absorb1)
qed

lemma body_step:
  assumes "message_ok m" and "header_size \<le> q" and "q \<le> t" and "q \<le> header_size + length m"
    and "take (t - q) (drop db (cx_buffer cx)) = take (t - q) (drop q (stream_of (m # ms)))"
    and "cx_completeMessageSize cx = of_nat (length m)"
    and "cx_completeMessage cx = take (q - header_size) m"
  shows "messageBody (t - q) db cx =
    (t - (header_size + length m), cx\<lparr>cx_completeMessage := take (t - header_size) m\<rparr>)"
proof -
  let ?k = "min (header_size + length m - q) (t - q)"
  have n: "messageBytesLeft (t - q) cx = ?k"
    using assms(2,4) size_left [OF assms(1), of "q - header_size"]
    by (simp add: messageBytesLeft_def assms(6,7) min_absorb2)
  have "take ?k (drop db (cx_buffer cx)) = take ?k (take (t - q) (drop db (cx_buffer cx)))"
    by (simp add: min_def)
  also have "\<dots> = take ?k (drop q (frame m @ stream_of ms))"
    by (simp add: assms(5))
  also have "drop q (frame m @ stream_of ms) = drop (q - header_size) m @ stream_of ms"
    using assms(2,4) by (simp add: frame_def)
  also have "take ?k \<dots> = take ?k (drop (q - header_size) m)"
    using assms(2,4) by simp
  finally have "cx_completeMessage cx @ take ?k (drop db (cx_buffer cx)) =
      take (q - header_size) m @ take ?k (drop (q - header_size) m)"
    by (simp add: assms(7))
  also have "\<dots> = take (q - header_size + ?k) m"
    by (simp add: take_add)
  also have "\<dots> = take (t - header_size) m"
    using assms(2,3,4) by (auto simp: min_def)
  finally show ?thesis
    using assms(2,3,4) by (auto simp: messageBody_def n min_def)
qed

lemma processBufferData_cases:
  assumes "off + n \<le> length (cx_buffer cx)" and "\<not> (n < header_size \<and> cx_completeMessageSize cx = 0)"
    and "messageHeader n off cx = (bytesLeft, db, cx1)"
    and "messageBody bytesLeft db cx1 = (rest, cx2)"
  shows "processBufferData h n off cx st =
    (if messageComplete cx2
     then (case h (cx_completeMessage cx2) st of (ok, st') \<Rightarrow>
        if \<not> ok then (False, cx2, st')
        else
          let cx3 = cx2\<lparr>cx_completeMessage := [], cx_completeMessageSize := 0\<rparr>
          in if rest \<noteq> 0 then processBufferData h rest (off + (n - rest)) cx3 st' else (True, cx3, st'))
     else if rest \<noteq> 0 then processBufferData h rest (off + (n - rest)) cx2 st else (True, cx2, st))"
  using assms
  by (subst processBufferData.simps) (simp del: de_Morgan_conj add: Let_def split: prod.split)

lemma cx_buffer_processBufferData:
  "length (cx_buffer (fst (snd (processBufferData h n off cx st)))) = length (cx_buffer cx)"
proof (induction h n off cx st rule: processBufferData.induct)
  case (1 h n off cx st)
  obtain bytesLeft db cx1 where H: "messageHeader n off cx = (bytesLeft, db, cx1)"
    by (cases "messageHeader n off cx") auto
  obtain rest cx2 where B: "messageBody bytesLeft db cx1 = (rest, cx2)"
    by (cases "messageBody bytesLeft db cx1") auto
  have "cx_buffer cx1 = cx_buffer cx" using H by (auto simp: messageHeader_def split: if_splits)
  moreover have "cx_buffer cx2 = cx_buffer cx1" using B by (auto simp: messageBody_def Let_def)
  ultimately show ?case
    using 1 [OF _ _ H [symmetric] refl B [symmetric]]
    by (subst processBufferData.simps) (auto simp: H B Let_def split: prod.splits)
qed

text \<open>The first frame of a chunk: it either ends in the chunk or takes all of it.\<close>

lemma frame_step:
  assumes "context_at cx (m # ms) p" and "message_ok m"
    and "off + n \<le> length (cx_buffer cx)"
    and "take n (drop off (cx_buffer cx)) = take n (drop p (stream_of (m # ms)))"
    and "\<not> (p = 0 \<and> n < header_size)"
  obtains cx2 where "cx_buffer cx2 = cx_buffer cx"
    and "p + n < header_size + length m \<longrightarrow> context_at cx2 (m # ms) (p + n)"
    and "p + n < header_size + length m \<longrightarrow> processBufferData h n off cx st = (True, cx2, st)"
    and "header_size + length m \<le> p + n \<longrightarrow>
      processBufferData h n off cx st = (case h m st of (ok, st') \<Rightarrow>
        if \<not> ok then (False, cx2, st')
        else
          let cx3 = cx2\<lparr>cx_completeMessage := [], cx_completeMessageSize := 0\<rparr>;
              rest = p + n - (header_size + length m)
          in if rest \<noteq> 0 then processBufferData h rest (off + (n - rest)) cx3 st' else (True, cx3, st'))"
proof -
  let ?q = "max p header_size" and ?t = "p + n" and ?len = "header_size + length m"
  define cx1 where "cx1 = cx\<lparr>cx_completeMessageSize := of_nat (length m),
    cx_completeMessage := take (?q - header_size) m\<rparr>"
  define cx2 where "cx2 = cx1\<lparr>cx_completeMessage := take (?t - header_size) m\<rparr>"
  have p: "p = 0 \<or> header_size \<le> p \<and> p < ?len"
    using assms(1) by (auto simp: context_at_def split: if_splits)
  have qt: "?q \<le> ?t" "?q \<le> ?len" "header_size \<le> ?t" using assms(5) p by auto
  have "p = 0 \<longrightarrow> header_size \<le> n" using assms(5) by auto
  note H = header_step [OF assms(1,2,4) this, folded cx1_def]
  have "take (?t - ?q) (drop (off + (?q - p)) (cx_buffer cx)) =
      take (?t - ?q) (drop (?q - p) (take n (drop off (cx_buffer cx))))"
    using p by (simp add: drop_take add.commute)
  also have "\<dots> = take (?t - ?q) (drop ?q (stream_of (m # ms)))"
    unfolding assms(4) using p by (simp del: stream_of_simps add: drop_take add.commute)
  finally have B: "messageBody (?t - ?q) (off + (?q - p)) cx1 = (?t - ?len, cx2)"
    using body_step [OF assms(2), of ?q ?t "off + (?q - p)" cx1 ms] qt by (simp add: cx1_def cx2_def)
  have complete: "messageComplete cx2 \<longleftrightarrow> ?len \<le> ?t"
    using size_eq [OF assms(2), of "length (take (?t - header_size) m)"] qt
    by (auto simp: messageComplete_def cx2_def cx1_def min_def)
  have nonzero: "\<not> (n < header_size \<and> cx_completeMessageSize cx = 0)"
    using assms(1,5) size_nonzero [OF assms(2)] by (auto simp: context_at_def)
  note step = processBufferData_cases [OF assms(3) nonzero H B, of h st]
  show thesis
  proof
    show "cx_buffer cx2 = cx_buffer cx" by (simp add: cx2_def cx1_def)
    show "?t < ?len \<longrightarrow> context_at cx2 (m # ms) ?t"
      using qt(3) by (auto simp: context_at_def cx2_def cx1_def header_size_def)
    show "?t < ?len \<longrightarrow> processBufferData h n off cx st = (True, cx2, st)"
      using step complete by auto
    show "?len \<le> ?t \<longrightarrow> processBufferData h n off cx st = (case h m st of (ok, st') \<Rightarrow>
        if \<not> ok then (False, cx2, st')
        else
          let cx3 = cx2\<lparr>cx_completeMessage := [], cx_completeMessageSize := 0\<rparr>;
              rest = ?t - ?len
          in if rest \<noteq> 0 then processBufferData h rest (off + (n - rest)) cx3 st' else (True, cx3, st'))"
    proof
      assume "?len \<le> ?t"
      moreover from this have "cx_completeMessage cx2 = m" by (simp add: cx2_def)
      ultimately show "processBufferData h n off cx st = (case h m st of (ok, st') \<Rightarrow>
        if \<not> ok then (False, cx2, st')
        else
          let cx3 = cx2\<lparr>cx_completeMessage := [], cx_completeMessageSize := 0\<rparr>;
              rest = ?t - ?len
          in if rest \<noteq> 0 then processBufferData h rest (off + (n - rest)) cx3 st' else (True, cx3, st'))"
        using step complete unfolding Let_def by simp
    qed
  qed
qed

text \<open>
  A chunk of the stream: the messages that end in it are handled, and the context is the one of
  the position behind it; a chunk that ends inside a header is refused.
\<close>

lemma chunk_step:
  assumes "\<forall>m \<in> set ms. message_ok m" and "context_at cx ms p" and "0 < n"
    and "off + n \<le> length (cx_buffer cx)" and "p + n \<le> length (stream_of ms)"
    and "take n (drop off (cx_buffer cx)) = take n (drop p (stream_of ms))"
    and "split_at ms (p + n) = (d, ms', p')" and "handle_all h d st = (ok, st')"
  shows "\<exists>cx'. processBufferData h n off cx st = (ok \<and> outside_header p', cx', st') \<and>
    (ok \<and> outside_header p' \<longrightarrow> context_at cx' ms' p')"
  using assms
proof (induction ms arbitrary: cx p n off d st)
  case Nil
  then show ?case by simp
next
  case (Cons m ms)
  let ?len = "header_size + length m"
  have m: "message_ok m" using Cons.prems(1) by simp
  show ?case
  proof (cases "p = 0 \<and> n < header_size")
    case True
    then have "processBufferData h n off cx st = (False, cx, st)"
      using Cons.prems(2,4) by (subst processBufferData.simps) (simp add: context_at_def)
    moreover have "d = []" "p' = n" using Cons.prems(7) True by auto
    ultimately show ?thesis
      using Cons.prems(3,8) True by (auto simp: outside_header_def)
  next
    case False
    obtain cx2 where buf: "cx_buffer cx2 = cx_buffer cx"
      and short: "p + n < ?len \<longrightarrow> context_at cx2 (m # ms) (p + n)"
        "p + n < ?len \<longrightarrow> processBufferData h n off cx st = (True, cx2, st)"
      and full: "?len \<le> p + n \<longrightarrow>
        processBufferData h n off cx st = (case h m st of (ok, st') \<Rightarrow>
          if \<not> ok then (False, cx2, st')
          else
            let cx3 = cx2\<lparr>cx_completeMessage := [], cx_completeMessageSize := 0\<rparr>; rest = p + n - ?len
            in if rest \<noteq> 0 then processBufferData h rest (off + (n - rest)) cx3 st' else (True, cx3, st'))"
      by (rule frame_step [OF Cons.prems(2) m Cons.prems(4,6) False, of h st])
    have p: "p = 0 \<or> header_size \<le> p \<and> p < ?len"
      using Cons.prems(2) by (auto simp: context_at_def split: if_splits)
    show ?thesis
    proof (cases "?len \<le> p + n")
      case incomplete: False
      then have "d = []" "ms' = m # ms" "p' = p + n" using Cons.prems(7) by auto
      then show ?thesis
        using short incomplete False p Cons.prems(8) by (auto simp: outside_header_def)
    next
      case True
      define cx3 where "cx3 = cx2\<lparr>cx_completeMessage := [], cx_completeMessageSize := 0\<rparr>"
      obtain d' where d: "d = m # d'" and s: "split_at ms (p + n - ?len) = (d', ms', p')"
        using Cons.prems(7) True by (auto split: prod.splits)
      obtain ok1 st1 where h: "h m st = (ok1, st1)" by (cases "h m st")
      have at3: "context_at cx3 ms 0" by (simp add: context_at_def cx3_def)
      consider "\<not> ok1" | "ok1" "p + n - ?len = 0" | "ok1" "p + n - ?len \<noteq> 0" by blast
      then show ?thesis
      proof cases
        case 1
        then show ?thesis using full [rule_format, OF True] h Cons.prems(8) by (auto simp: d)
      next
        case 2
        then have "d' = []" "ms' = ms" "p' = 0" using s by auto
        then show ?thesis
          using full [rule_format, OF True] h 2 Cons.prems(8) at3 by (auto simp: d cx3_def outside_header_def Let_def)
      next
        case 3
        let ?r = "p + n - ?len"
        have r: "?r < n" "off + (n - ?r) + ?r = off + n" using 3 p True by (auto simp: header_size_def)
        have "take ?r (drop (off + (n - ?r)) (cx_buffer cx)) =
            drop (n - ?r) (take n (drop off (cx_buffer cx)))"
          using r by (simp add: drop_take add.commute)
        also have "\<dots> = take ?r (drop ?len (stream_of (m # ms)))"
          unfolding Cons.prems(6) using r p True 3 by (simp add: drop_take add.commute)
        finally have "take ?r (drop (off + (n - ?r)) (cx_buffer cx3)) = take ?r (drop 0 (stream_of ms))"
          by (simp add: buf cx3_def)
        moreover have "handle_all h d' st1 = (ok, st')"
          using Cons.prems(8) 3 by (simp add: d h)
        ultimately have "\<exists>cx'. processBufferData h ?r (off + (n - ?r)) cx3 st1 =
            (ok \<and> outside_header p', cx', st') \<and> (ok \<and> outside_header p' \<longrightarrow> context_at cx' ms' p')"
          using Cons.IH [OF _ at3 _ _ _ _ _] Cons.prems(1,4,5) 3 r s by (auto simp: buf cx3_def)
        then show ?thesis
          using full [rule_format, OF True] h 3 by (simp add: cx3_def Let_def)
      qed
    qed
  qed
qed

section \<open>All chunks\<close>

lemma handle_all_append:
  "handle_all h (d @ ms) st =
     (case handle_all h d st of (ok, st') \<Rightarrow> if ok then handle_all h ms st' else (False, st'))"
  by (induction d arbitrary: st) (auto split: prod.split)

lemma fill_buffer_simps [simp]:
  "cx_completeMessageSize (fill_buffer bs cx) = cx_completeMessageSize cx"
  "cx_completeMessage (fill_buffer bs cx) = cx_completeMessage cx"
  "length bs \<le> length (cx_buffer cx) \<Longrightarrow> length (cx_buffer (fill_buffer bs cx)) = length (cx_buffer cx)"
  "take (length bs) (cx_buffer (fill_buffer bs cx)) = bs"
  by (simp_all add: fill_buffer_def)

lemma context_at_fill_buffer [simp]: "context_at (fill_buffer bs cx) ms p = context_at cx ms p"
  by (simp add: context_at_def)

lemma drop_prefix:
  assumes "drop p xs = c @ cs" and "c \<noteq> []"
  shows "p + length c \<le> length xs" and "drop (p + length c) xs = cs"
proof -
  have "p < length xs" using assms by (cases "p < length xs") auto
  then show "p + length c \<le> length xs" using arg_cong [OF assms(1), of length] by simp
  show "drop (p + length c) xs = cs"
    using arg_cong [OF assms(1), of "drop (length c)"] by (simp add: add.commute)
qed

lemma receive_one:
  assumes "\<forall>m \<in> set ms. message_ok m" and "context_at cx ms p"
    and "0 < length c" and "length c \<le> length (cx_buffer cx)"
    and "drop p (stream_of ms) = c @ cs" and "split_at ms (p + length c) = (d, ms', p')"
    and "handle_all h d st = (ok, st')"
  shows "\<exists>cx'. processBufferData h (length c) 0 (fill_buffer c cx) st = (ok \<and> outside_header p', cx', st') \<and>
    (ok \<and> outside_header p' \<longrightarrow> context_at cx' ms' p') \<and> length (cx_buffer cx') = length (cx_buffer cx)"
proof -
  have len: "p + length c \<le> length (stream_of ms)"
    using drop_prefix(1) [OF assms(5)] assms(3) by simp
  have "\<exists>cx'. processBufferData h (length c) 0 (fill_buffer c cx) st = (ok \<and> outside_header p', cx', st') \<and>
      (ok \<and> outside_header p' \<longrightarrow> context_at cx' ms' p')"
    by (rule chunk_step [OF assms(1) _ assms(3) _ len _ assms(6,7)]) (use assms in simp_all)
  then show ?thesis
    using cx_buffer_processBufferData [of h "length c" 0 "fill_buffer c cx" st] assms(4) by auto
qed

lemma split_at_rest:
  assumes "drop p (stream_of ms) = c @ cs" and "c \<noteq> []" and "split_at ms (p + length c) = (d, ms', p')"
  shows "ms = d @ ms'" and "drop p' (stream_of ms') = cs"
proof -
  note s = split_at_stream [OF assms(3) drop_prefix(1) [OF assms(1,2)]]
  show "ms = d @ ms'" using s by simp
  have "drop (length (stream_of d) + p') (stream_of (d @ ms')) = cs"
    using drop_prefix(2) [OF assms(1,2)] s by metis
  then show "drop p' (stream_of ms') = cs" by simp
qed

lemma context_at_end:
  assumes "context_at cx ms p" and "drop p (stream_of ms) = []"
  shows "p = 0" and "ms = []"
  using assms by (cases ms; auto simp: context_at_def header_size_def frame_def split: if_splits)+

lemma receive_chunks_all:
  assumes "\<forall>m \<in> set ms. message_ok m" and "context_at cx ms p"
    and "\<forall>c \<in> set cs. 0 < length c \<and> length c \<le> length (cx_buffer cx)"
    and "drop p (stream_of ms) = concat cs" and "cuts_ok ms p cs"
    and "handle_all h ms st = (ok, st')"
  shows "\<exists>cx'. receive_chunks h cs cx st = (ok, cx', st') \<and> (ok \<longrightarrow> context_at cx' [] 0)"
  using assms
proof (induction cs arbitrary: cx ms p st)
  case Nil
  then show ?case using context_at_end [of cx ms p] by auto
next
  case (Cons c cs)
  obtain d ms' p' where s: "split_at ms (p + length c) = (d, ms', p')"
    by (cases "split_at ms (p + length c)") auto
  obtain ok1 st1 where h: "handle_all h d st = (ok1, st1)" by (cases "handle_all h d st")
  have out: "outside_header p'" "cuts_ok ms' p' cs" using Cons.prems(5) s by auto
  have c: "0 < length c" "length c \<le> length (cx_buffer cx)" "c \<noteq> []" using Cons.prems(3) by auto
  note rest = split_at_rest [OF _ c(3) s, of "concat cs"]
  obtain cx' where r: "processBufferData h (length c) 0 (fill_buffer c cx) st = (ok1, cx', st1)"
      "ok1 \<longrightarrow> context_at cx' ms' p'" "length (cx_buffer cx') = length (cx_buffer cx)"
    using receive_one [OF Cons.prems(1,2) c(1,2) _ s h, of "concat cs"] Cons.prems(4) out by auto
  have ms: "ms = d @ ms'" "drop p' (stream_of ms') = concat cs" using rest Cons.prems(4) by auto
  show ?case
  proof (cases ok1)
    case True
    then have "handle_all h ms' st1 = (ok, st')"
      using Cons.prems(6) h by (simp add: ms(1) handle_all_append)
    then show ?thesis
      using Cons.IH [of ms' cx' p' st1] r True Cons.prems(1,3) ms out by auto
  next
    case False
    then show ?thesis
      using Cons.prems(6) h r(1) by (simp add: ms(1) handle_all_append)
  qed
qed

lemma context_at_empty: "context_at empty_context ms 0"
  by (simp add: context_at_def empty_context_def)

lemma length_empty_buffer [simp]: "length (cx_buffer empty_context) = buffer_length"
  by (simp add: empty_context_def)

text \<open>Two short messages, for closed examples.\<close>

lemma le_bytes_header:
  "le_bytes header_size n =
     [of_nat n, of_nat (n div 256), of_nat (n div 256 div 256), of_nat (n div 256 div 256 div 256)]"
proof -
  have h: "header_size = Suc (Suc (Suc (Suc 0)))" by (simp add: header_size_def)
  show ?thesis unfolding h le_bytes.simps by (rule refl)
qed

lemma sample_frames:
  "stream_of [[1, 2, 3], [4]] = [3, 0, 0, 0, 1, 2, 3, 1, 0, 0, 0, 4]"
  "stream_of [[7], [4]] = [1, 0, 0, 0, 7, 1, 0, 0, 0, 4]"
  by (simp_all add: frame_def le_bytes_header)

lemma sample_cuts:
  "cuts_ok [[1, 2, 3], [4]] 0 [[3, 0, 0, 0, 1], [2, 3, 1, 0, 0, 0], [4]]"
  "split_at [[7], [4]] (Suc (Suc (Suc (Suc (Suc (Suc (Suc 0))))))) = ([[7]], [[4]], 2)"
  by (simp_all add: header_size_def outside_header_def)

text \<open>
  C11: However the byte stream of an internal client is cut into received chunks, as long as no
  chunk ends inside a header, the server handles exactly the messages of the stream, each
  once, in order and up to the first one it does not accept, and the
  context is empty again behind the last one.
\<close>

theorem client_messages_received:
  assumes "\<forall>m \<in> set ms. message_ok m" and "concat cs = stream_of ms"
    and "\<forall>c \<in> set cs. 0 < length c \<and> length c \<le> buffer_length" and "cuts_ok ms 0 cs"
  shows "\<exists>cx. receive_chunks h cs empty_context st =
      (fst (handle_all h ms st), cx, snd (handle_all h ms st)) \<and>
    (fst (handle_all h ms st) \<longrightarrow> cx_completeMessageSize cx = 0 \<and> cx_completeMessage cx = [])"
  using receive_chunks_all [OF assms(1) context_at_empty, of cs h st] assms(2,3,4)
  by (cases "handle_all h ms st") (auto simp: context_at_def)

theorem client_messages_received_witness:
  "\<exists>cx. receive_chunks (\<lambda>m st. (True, st @ [m])) [[3, 0, 0, 0, 1], [2, 3, 1, 0, 0, 0], [4]]
       empty_context [] = (True, cx, [[1, 2, 3], [4]]) \<and>
     cx_completeMessageSize cx = 0 \<and> cx_completeMessage cx = []"
  using client_messages_received [of "[[1, 2, 3], [4]]" "[[3, 0, 0, 0, 1], [2, 3, 1, 0, 0, 0], [4]]"
      "\<lambda>m st. (True, st @ [m])" "[]"]
  by (simp del: receive_chunks.simps stream_of_simps cuts_ok.simps split_at.simps
      add: message_ok_def sample_frames sample_cuts header_size_def buffer_length_def)

text \<open>
  C37: A chunk that ends one to three bytes into a header ends the connection, although TCP may cut
  the stream anywhere and the messages before were all accepted.
\<close>

theorem split_header_refused:
  assumes "\<forall>m \<in> set ms. message_ok m" and "concat cs = stream_of ms"
    and "\<forall>c \<in> set cs. 0 < length c \<and> length c \<le> buffer_length"
    and "cs = c # cs'" and "split_at ms (length c) = (d, ms', p')" and "0 < p'" and "p' < header_size"
    and "handle_all h d st = (True, st')"
  shows "\<exists>cx. receive_chunks h cs empty_context st = (False, cx, st')"
proof -
  have "drop 0 (stream_of ms) = c @ concat cs'" using assms(2,4) by simp
  from receive_one [OF assms(1) context_at_empty _ _ this _ assms(8)] show ?thesis
    using assms(3-7) by (auto simp: outside_header_def)
qed

theorem split_header_refused_witness:
  "\<exists>cx. receive_chunks (\<lambda>m st. (True, st @ [m])) [[1, 0, 0, 0, 7, 1, 0], [0, 0, 4]]
       empty_context [] = (False, cx, [[7]])"
  using split_header_refused [of "[[7], [4]]" "[[1, 0, 0, 0, 7, 1, 0], [0, 0, 4]]"
      "[1, 0, 0, 0, 7, 1, 0]" "[[0, 0, 4]]" "[[7]]" "[[4]]" 2 "\<lambda>m st. (True, st @ [m])" "[]" "[[7]]"]
  by (simp del: receive_chunks.simps stream_of_simps cuts_ok.simps split_at.simps
      add: message_ok_def sample_frames sample_cuts header_size_def buffer_length_def)

end
