(* ===== verification/Internal_Server_Samples.thy ===== *)
theory Internal_Server_Samples
  imports Internal_Server_Laws Internal_Server_Framing
begin

text \<open>
  A concrete run of the internal server for the closed examples: one client connects, its connect
  message arrives, and the module handler's answer is already on its way.
\<close>

definition srv_sample_ip :: ip_device where
  "srv_sample_ip = \<lparr>ip_module = 1, ip_devicetype = 2, ip_devicerole = ''r'', ip_devicename = ''n'', ip_priority = 0\<rparr>"

definition srv_sample_connect :: internal_client where
  "srv_sample_connect = IC_DeviceConnect \<lparr>cn_device = srv_sample_ip\<rparr>"

definition srv_sample_answer :: internal_server_msg where
  "srv_sample_answer = createInternalServerConnectResponseMessage srv_sample_ip CR_OK"

text \<open>The message of one byte is the connect; every write succeeds.\<close>

definition srv_sample_io :: server_io where
  "srv_sample_io = \<lparr>io_parse = \<lambda>bs. if length bs = 1 then Some srv_sample_connect else None,
     io_serialize = \<lambda>_. [5], io_write = \<lambda>_ bs. (bs, True)\<rparr>"

definition srv_sample_env :: "server \<Rightarrow> server" where
  "srv_sample_env = srv_listenToQueue_round srv_sample_io [ModuleHandlerMessage False srv_sample_answer]"

definition srv_sample_accepted :: server where
  "srv_sample_accepted = srv_accepted False (srv_run InternalServer)"

definition srv_sample_connected :: server where
  "srv_sample_connected =
     srv_asyncReceiveHandler srv_sample_io srv_sample_env 0 (Received_bytes [1, 0, 0, 0, 9]) srv_sample_accepted"

lemma io_ok_sample: "io_ok srv_sample_io"
  by (simp add: io_ok_def srv_sample_io_def)

lemma srv_sample_accepted_eq:
  "srv_sample_accepted = InternalServer\<lparr>srv_connections := (\<lambda>_. new_connection)(0 :=
       new_connection\<lparr>co_open := True, co_receiving := True\<rparr>),
     srv_next := 1, srv_accepting := True\<rparr>"
  by (simp add: srv_sample_accepted_def srv_accepted_def srv_run_def srv_addAsyncAccept_def InternalServer_def
      Let_def srv_addAsyncReceive_def srv_update_def new_connection_def)

lemma srv_sample_run: "srv_reaches srv_sample_io {} (srv_run InternalServer) srv_sample_connected"
proof -
  have "srv_reaches srv_sample_io {} (srv_run InternalServer) srv_sample_accepted"
    unfolding srv_sample_accepted_def
    by (rule srv_reaches.accept [OF srv_reaches.start]) (simp add: srv_run_def srv_addAsyncAccept_def InternalServer_def)
  moreover have "srv_reaches srv_sample_io (insert 0 {}) t (srv_sample_env t)" for t
    unfolding srv_sample_env_def by (rule srv_reaches.listen [OF srv_reaches.start])
  ultimately show ?thesis
    unfolding srv_sample_connected_def by (intro srv_reaches.receive) (auto simp: srv_sample_accepted_eq)
qed

text \<open>The connect message arrives in one chunk.\<close>

lemma srv_sample_frame:
  "drop 0 (stream_of [[9]]) = [1, 0, 0, 0, 9] @ []"
  "split_at [[9]] (0 + length ([1, 0, 0, 0, 9] :: bytes)) = ([[9]], [], 0)"
  by (simp_all only: stream_of_simps frame_def le_bytes_header) (simp_all add: header_size_def)

lemma srv_sample_handled:
  fixes h :: "bytes \<Rightarrow> server \<Rightarrow> bool \<times> server"
  assumes "h [9] st = (ok, st')"
  shows "\<exists>cx. processBufferData h (Suc (Suc (Suc (Suc (Suc 0))))) 0
    (fill_buffer [1, 0, 0, 0, 9] empty_context) st = (ok, cx, st')"
proof -
  have "handle_all h [[9]] st = (ok, st')" using assms by simp
  from receive_one [OF _ context_at_empty _ _ srv_sample_frame this]
  have "\<exists>cx. processBufferData h (length ([1, 0, 0, 0, 9] :: bytes)) 0
      (fill_buffer [1, 0, 0, 0, 9] empty_context) st = (ok, cx, st')"
    by (auto simp: message_ok_def buffer_length_def outside_header_def)
  then show ?thesis by simp
qed

text \<open>The state during the wait, and after it.\<close>

lemma srv_sample_message:
  assumes "st = srv_update 0 (\<lambda>co. co\<lparr>co_receiving := False\<rparr>) srv_sample_accepted"
    and "srv_handleMessage srv_sample_io srv_sample_env 0 [9] st = (ok, st')"
  shows "ok" and "srv_connectedDevices st' = [0]"
    and "srv_fromInternalQueue st' = [InternalClientMessage False srv_sample_connect]"
    and "co_written (srv_connections st' 0) = [1, 0, 0, 0, 5]"
  using assms
  by (auto simp: srv_handleMessage_def srv_dispatch_def srv_sample_io_def srv_sample_connect_def
      srv_handleConnection_def Let_def srv_findConnection_def srv_sample_accepted_eq new_connection_def
      srv_connectNewDevice_def InternalServer_def srv_sample_env_def srv_listenToQueue_round_def
      waitForValueWithTimeout_def srv_validateResponse_def srv_sample_answer_def
      createInternalServerConnectResponseMessage_def srv_same_def isSame_def srv_priority_def
      srv_sendResponse_def srv_write_def le_bytes_header srv_sample_ip_def srv_update_def srv_push_def
      pushAndNotify_def split: if_splits)


lemma srv_sample_connected_facts:
  "srv_connectedDevices srv_sample_connected = [0]"
  "srv_fromInternalQueue srv_sample_connected = [InternalClientMessage False srv_sample_connect]"
  "co_written (srv_connections srv_sample_connected 0) = [1, 0, 0, 0, 5]"
proof -
  define st where "st = srv_update 0 (\<lambda>co. co\<lparr>co_receiving := False\<rparr>) srv_sample_accepted"
  obtain ok st' where m: "srv_handleMessage srv_sample_io srv_sample_env 0 [9] st = (ok, st')"
    by (cases "srv_handleMessage srv_sample_io srv_sample_env 0 [9] st")
  note facts = srv_sample_message [OF st_def m]
  have "co_connContext (srv_connections st 0) = empty_context"
    by (simp add: st_def srv_sample_accepted_eq new_connection_def)
  moreover obtain cx where "processBufferData (srv_handleMessage srv_sample_io srv_sample_env 0)
      (Suc (Suc (Suc (Suc (Suc 0))))) 0 (fill_buffer [1, 0, 0, 0, 9] empty_context) st = (ok, cx, st')"
    using srv_sample_handled [where h = "srv_handleMessage srv_sample_io srv_sample_env 0", OF m] by blast
  ultimately have eq: "srv_sample_connected =
      srv_addAsyncReceive 0 (srv_update 0 (\<lambda>co. co\<lparr>co_connContext := cx\<rparr>) st')"
    using facts(1) by (simp add: srv_sample_connected_def srv_asyncReceiveHandler_def
        srv_processBufferData_def flip: st_def)
  show "srv_connectedDevices srv_sample_connected = [0]"
    "srv_fromInternalQueue srv_sample_connected = [InternalClientMessage False srv_sample_connect]"
    "co_written (srv_connections srv_sample_connected 0) = [1, 0, 0, 0, 5]"
    unfolding eq using facts by (simp_all add: srv_addAsyncReceive_def)
qed


end
