(* ===== verification/Internal_Server_Handlers.thy ===== *)
theory Internal_Server_Handlers
  imports Internal_Server_Samples
begin

text \<open>
  What the handlers of the internal server do on each branch: which connect is taken, refused or
  replaces another connection, where a response goes, and what the late end of a
  replaced connection does to the one registered by then.
\<close>

lemma srv_sendResponse_written:
  assumes "co_open (srv_connections srv cid)"
    and "\<And>bs. io_write io cid bs = (bs, True)"
  shows "srv_sendResponse io cid m srv =
    (True, srv_update cid (\<lambda>co. co\<lparr>co_written :=
       co_written co @ le_bytes header_size (length (io_serialize io m)) @ io_serialize io m\<rparr>) srv)"
  using assms by (simp add: srv_sendResponse_def srv_write_def srv_update_def Let_def)

lemma srv_priority_Some: "co_deviceId (srv_connections srv c) = Some d \<Longrightarrow> srv_priority srv c = di_priority d"
  by (simp add: srv_priority_def)

lemma srv_remove_registered:
  assumes "srv_inv srv" and "c \<in> set (srv_connectedDevices srv)"
    and "co_deviceId (srv_connections srv c) = Some d"
  shows "srv_removeConnFromMap c srv = srv_push (InternalClientMessage_dev d)
    (srv_close c srv\<lparr>srv_connectedDevices := remove1 c (srv_connectedDevices srv)\<rparr>)"
proof -
  have "srv_findConnection d srv = Some c"
    using assms by (intro srv_find_registered) (auto simp: srv_same_iff isSame_simps)
  then show ?thesis by (simp add: srv_removeConnFromMap_def assms(3) srv_priority_def)
qed

section \<open>A small server for closed examples\<close>

text \<open>Connection 0 is registered with priority 3; connection 1 is open and has an older device.\<close>

definition srv_sample_device :: "u32 \<Rightarrow> device_identification" where
  "srv_sample_device priority = device_of_ip (srv_sample_ip\<lparr>ip_priority := priority\<rparr>)"

definition srv_sample_pair :: "device_identification option \<Rightarrow> server" where
  "srv_sample_pair old = InternalServer\<lparr>
     srv_connections := (\<lambda>_. new_connection)
       (0 := new_connection\<lparr>co_open := True, co_deviceId := Some (srv_sample_device 3), co_ready := True\<rparr>,
        1 := new_connection\<lparr>co_open := True, co_deviceId := old\<rparr>),
     srv_next := 2, srv_connectedDevices := [0]\<rparr>"

lemma srv_sample_pair_simps [simp]:
  "srv_connectedDevices (srv_sample_pair old) = [0]"
  "srv_fromInternalQueue (srv_sample_pair old) = []"
  "co_open (srv_connections (srv_sample_pair old) 0)"
  "co_open (srv_connections (srv_sample_pair old) (Suc 0))"
  "co_deviceId (srv_connections (srv_sample_pair old) 0) = Some (srv_sample_device 3)"
  "co_deviceId (srv_connections (srv_sample_pair old) (Suc 0)) = old"
  "\<not> co_ready (srv_connections (srv_sample_pair old) (Suc 0))"
  "srv_next (srv_sample_pair old) = 2"
  "co_written (srv_connections (srv_sample_pair old) n) = []"
  by (simp_all add: srv_sample_pair_def InternalServer_def new_connection_def)

lemma srv_sample_pair_inv: "srv_inv (srv_sample_pair old)"
  by (simp add: srv_inv_def reports_ok_def)

lemma srv_sample_device_simps [simp]:
  "di_priority (srv_sample_device p) = p"
  "isSame (srv_sample_device p) (srv_sample_device q)"
  "isSame (device_of_ip (srv_sample_ip\<lparr>ip_priority := p\<rparr>)) (srv_sample_device q)"
  by (simp_all add: srv_sample_device_def isSame_def)

lemma srv_sample_find [simp]:
  "srv_findConnection (device_of_ip (srv_sample_ip\<lparr>ip_priority := p\<rparr>)) (srv_sample_pair old) = Some 0"
  by (simp add: srv_findConnection_def srv_same_def)

lemma srv_sample_io_simps [simp]:
  "io_write srv_sample_io c bs = (bs, True)" "io_serialize srv_sample_io m = [5]"
  by (simp_all add: srv_sample_io_def)

section \<open>Connects\<close>

text \<open>
  C25: A connect of a device that is connected with a larger priority number (a lower priority)
  takes over: the old connection is closed and taken off the list, the new one is put on
  it, and the module handler is told of the disconnect first and of the connect then.
\<close>

theorem lower_priority_replaced:
  assumes "srv_inv srv" and "\<not> co_ready (srv_connections srv cid)"
    and "cid \<notin> set (srv_connectedDevices srv)"
    and "srv_findConnection (device_of_ip (cn_device (deviceconnect client))) srv = Some old"
    and "co_deviceId (srv_connections srv old) = Some d"
    and "ip_priority (cn_device (deviceconnect client)) < di_priority d"
  shows "case srv_handleConnection io cid client srv of (ok, srv') \<Rightarrow>
    ok \<and> srv_connectedDevices srv' = remove1 old (srv_connectedDevices srv) @ [cid] \<and>
    \<not> co_open (srv_connections srv' old) \<and>
    co_deviceId (srv_connections srv' cid) = Some (device_of_ip (cn_device (deviceconnect client))) \<and>
    srv_fromInternalQueue srv' = srv_fromInternalQueue srv @
      [InternalClientMessage_dev d, InternalClientMessage False client]"
proof -
  note old = srv_find_Some [OF assms(4)]
  have "old \<noteq> cid" using old(1) assms(3) by auto
  then show ?thesis
    using assms(2,4,6) srv_remove_registered [OF assms(1) old(1) assms(5)]
    by (auto simp: srv_handleConnection_def Let_def srv_priority_Some [OF assms(5)] srv_changeConnection_def
        srv_connectNewDevice_def)
qed

theorem lower_priority_replaced_witness:
  "case srv_handleConnection srv_sample_io 1
      (IC_DeviceConnect \<lparr>cn_device = srv_sample_ip\<lparr>ip_priority := 2\<rparr>\<rparr>) (srv_sample_pair None) of
    (ok, srv') \<Rightarrow> ok \<and> srv_connectedDevices srv' = [1] \<and> \<not> co_open (srv_connections srv' 0)"
  using lower_priority_replaced [OF srv_sample_pair_inv [of None], of 1
      "IC_DeviceConnect \<lparr>cn_device = srv_sample_ip\<lparr>ip_priority := 2\<rparr>\<rparr>" 0 "srv_sample_device 3" srv_sample_io]
  by auto

text \<open>
  A connect of a device that is connected with the same or a smaller priority number is
  refused: the client gets the framed response that says which, its connection is not accepted,
  and neither the list of connected devices nor the module handler's queue changes.
\<close>

lemma connect_refused:
  assumes "\<not> co_ready (srv_connections srv cid)" and "co_open (srv_connections srv cid)"
    and "\<And>bs. io_write io cid bs = (bs, True)"
    and "srv_findConnection (device_of_ip (cn_device (deviceconnect client))) srv = Some old"
    and "co_deviceId (srv_connections srv old) = Some d"
    and "di_priority d \<le> ip_priority (cn_device (deviceconnect client))"
    and "response = io_serialize io (createInternalServerConnectResponseMessage
      (cn_device (deviceconnect client))
      (if ip_priority (cn_device (deviceconnect client)) = di_priority d then CR_ALREADY_CONNECTED
       else CR_HIGHER_PRIORITY_ALREADY_CONNECTED))"
  shows "srv_handleConnection io cid client srv =
    (False, srv_update cid (\<lambda>co. co\<lparr>co_written :=
       co_written co @ le_bytes header_size (length response) @ response\<rparr>) srv)"
  using assms
  by (auto simp: srv_handleConnection_def Let_def srv_priority_Some [OF assms(5)]
      srv_respondWithAlreadyConnected_def srv_respondWithHigherPriorityConnected_def
      srv_sendResponse_written)

text \<open>
  A response of the module handler is written, framed, to the registered connection of its
  device when the priorities agree, and lets that connection's receive handler go on; in
  every other case it changes nothing.
\<close>

lemma response_to_its_client:
  assumes "srv_inv srv" and "c \<in> set (srv_connectedDevices srv)"
    and "co_deviceId (srv_connections srv c) = Some d" and "co_open (srv_connections srv c)"
    and "\<And>bs. io_write io c bs = (bs, True)"
    and "isSame (device_of_ip (response_device m)) d"
  shows "srv_validateResponse io m srv =
    (if ip_priority (response_device m) = di_priority d
     then srv_update c (\<lambda>co. co\<lparr>co_written := co_written co @
            le_bytes header_size (length (io_serialize io m)) @ io_serialize io m, co_ready := True\<rparr>) srv
     else srv)"
proof -
  have "srv_findConnection (device_of_ip (response_device m)) srv = Some c"
    using assms by (intro srv_find_registered) (auto simp: srv_same_iff)
  then show ?thesis
    using srv_sendResponse_written [OF assms(4,5), of m]
    by (auto simp: srv_validateResponse_def Let_def srv_priority_Some [OF assms(3)] srv_update_def)
qed

text \<open>
  C38: The end of a connection that is no longer registered takes a newer connection of the same
  device and priority off the list and reports its disconnect, although that connection stays
  open: connections are compared by device and priority, not by identity.
\<close>

theorem late_end_evicts_successor:
  assumes "srv_inv srv" and "old \<notin> set (srv_connectedDevices srv)"
    and "co_deviceId (srv_connections srv old) = Some d"
    and "new \<in> set (srv_connectedDevices srv)" and "co_deviceId (srv_connections srv new) = Some d'"
    and "isSame d d'" and "di_priority d = di_priority d'" and "co_open (srv_connections srv new)"
  shows "case srv_asyncReceiveHandler io env old Received_error srv of srv' \<Rightarrow>
    new \<notin> set (srv_connectedDevices srv') \<and> co_open (srv_connections srv' new) \<and>
    srv_fromInternalQueue srv' = srv_fromInternalQueue srv @ [InternalClientMessage_dev d]"
proof -
  let ?srv = "srv_update old (\<lambda>co. co\<lparr>co_receiving := False\<rparr>) srv"
  have inv: "srv_inv ?srv" by (rule srv_inv_cong [OF assms(1)]) auto
  have ne: "new \<noteq> old" using assms(2,4) by auto
  have "srv_findConnection d ?srv = Some new"
    using inv assms ne by (intro srv_find_registered) (auto simp: srv_same_def)
  then have "srv_removeConnFromMap old ?srv = srv_push (InternalClientMessage_dev d)
      (srv_close old ?srv\<lparr>srv_connectedDevices := remove1 new (srv_connectedDevices srv)\<rparr>)"
    using assms ne by (simp add: srv_removeConnFromMap_def srv_priority_def)
  then show ?thesis
    using assms(1,8) ne by (simp add: srv_asyncReceiveHandler_def srv_inv_def)
qed

theorem late_end_evicts_successor_witness:
  "srv_connectedDevices (srv_asyncReceiveHandler srv_sample_io id 1 Received_error
      (srv_sample_pair (Some (srv_sample_device 3)))) \<noteq> [0]"
  using late_end_evicts_successor [OF srv_sample_pair_inv [of "Some (srv_sample_device 3)"], of 1
      "srv_sample_device 3" 0 "srv_sample_device 3" srv_sample_io id]
  by auto

end
