(* ===== verification/Gateway.thy ===== *)
theory Gateway
  imports External_Client_Samples Module_Handler_Laws Internal_Server_Handlers
begin

text \<open>
  The components joined: what one of them puts on a queue or leaves in the shared module library,
  the next one takes. The lemmas follow a command from the external client over the module handler to
  the internal server, and a status from the module handler to the connection of its module.
\<close>

section \<open>A command on its way to the device\<close>

text \<open>A valid command of a known device waits in the device's queue.\<close>

lemma sa_update_command_queued:
  assumes "codes_ok c" and "lib_isDeviceTypeSupported h (di_deviceType d) = OK c"
    and "um_find device_eq d (sa_devices sa) = Some s" and "ds_externalCommandQueue s = []"
    and "valid_command c h (di_deviceType d) b"
  shows "\<exists>sa'. sa_update_command c h b d sa = (OK c, sa') \<and>
    um_find device_eq d (sa_devices sa') = Some (s\<lparr>ds_externalCommandQueue := [b]\<rparr>)"
  using assms codes_ok_distinct [OF assms(1)]
  by (auto simp: sa_update_command_def sa_is_device_type_supported_def um_contains_def valid_command_def
      map_laws ds_addExternalCommand_def max_external_commands_def Let_def)

lemma xl_handleCommand_forwarded:
  assumes "um_find num_eq (ip_module (cmd_device cmd)) (ml_statusAggregators (xl_library xl)) = Some (h, sa)"
    and "handler_at (ip_module (cmd_device cmd)) (ml_moduleLibraryHandlers (xl_library xl)) = Inr h"
    and "cmd_commanddata cmd \<noteq> []"
    and "bindE (lib_constructBuffer h (length (cmd_commanddata cmd))) (copyCommandToBuffer cmd) = Inr b"
    and "sa_update_command c h b (device_of_ip (cmd_device cmd)) sa = (OK c, sa')"
    and "lib_forwardCommandOnReceive h (ip_devicetype (cmd_device cmd)) = OK c"
  shows "xl_handleCommand c cmd xl = Inr (xl\<lparr>xl_library := xl_library xl\<lparr>ml_statusAggregators :=
      um_modify num_eq (ip_module (cmd_device cmd)) (\<lambda>_. (h, sa')) (ml_statusAggregators (xl_library xl))\<rparr>,
    xl_commandForwardingQueue := xl_commandForwardingQueue xl @ [makeCommandForward (device_of_ip (cmd_device cmd))]\<rparr>)"
  using assms by (auto simp: xl_handleCommand_def Let_def bindE_eq_Inr_iff pushAndNotify_def)

lemma mh_handleCommandForward_sends:
  assumes "codes_ok c" and "um_find num_eq (di_module d) (mh_statusAggregators mh) = Some (h, sa)"
    and "lib_isDeviceTypeSupported h (di_deviceType d) = OK c"
    and "um_find device_eq d (sa_devices sa) = Some s" and "ds_externalCommandQueue s = b # q"
    and "lib_generateCommand h (ds_status s) (ds_status s) b (di_deviceType d) = Inr (OK c, g)"
  shows "\<exists>mh'. mh_handleCommandForward c d mh = Inr mh' \<and>
    mh_toInternalQueue mh' = mh_toInternalQueue mh @
      [ModuleHandlerMessage False (createInternalServerCommandMessage (convertToIPDevice d) g)] \<and>
    mh_commandForwardingQueue mh' = mh_commandForwardingQueue mh"
proof -
  have "sa_isDeviceValidUnlocked c h d sa \<noteq> NOT_OK c"
    using sa_valid_registered [OF assms(1,3)] assms(4) by simp
  then show ?thesis
    using assms codes_ok_distinct [OF assms(1)]
    by (auto simp: mh_handleCommandForward_def sa_get_command_for_forwarding_def um_at_def
        sa_getCommandUnlocked_def sa_is_device_type_supported_def ds_consumeCommand_def ds_getStatus_def Let_def
        mh_to_internal_def mh_store_def pushAndNotify_def)
qed

lemma ip_priority_convert: "ip_priority (convertToIPDevice d) = di_priority d"
  by (simp add: convertToIPDevice_def)

lemma srv_listen_writes:
  assumes "srv_inv srv" and "cid \<in> set (srv_connectedDevices srv)"
    and "co_deviceId (srv_connections srv cid) = Some d'" and "co_open (srv_connections srv cid)"
    and "\<And>bs. io_write io cid bs = (bs, True)" and "\<not> srv_stopped srv" and "srv_toInternalQueue srv = []"
    and "isSame (device_of_ip (response_device m)) d'" and "ip_priority (response_device m) = di_priority d'"
  shows "co_written (srv_connections (srv_listenToQueue_round io [ModuleHandlerMessage False m] srv) cid) =
    co_written (srv_connections srv cid) @ le_bytes header_size (length (io_serialize io m)) @ io_serialize io m"
proof -
  let ?srv = "srv\<lparr>srv_toInternalQueue := [ModuleHandlerMessage False m]\<rparr>"
  have inv: "srv_inv ?srv" by (rule srv_inv_cong [OF assms(1)]) auto
  have "srv_findConnection (device_of_ip (response_device m)) ?srv = Some cid"
    using inv assms(2,3,8) by (intro srv_find_registered) (auto simp: srv_same_iff)
  moreover have "srv_priority ?srv cid = di_priority d'"
    using assms(3) by (simp add: srv_priority_def)
  ultimately show ?thesis
    using assms(4-7,9)
    by (simp add: srv_listenToQueue_round_def waitForValueWithTimeout_def Let_def srv_validateResponse_def
        srv_sendResponse_written srv_update_def device_of_ip_def)
qed

section \<open>Statuses on their way to the server\<close>

text \<open>
  A status of a device the connection knows, over a channel that takes it: what is sent, and that
  everything the next status relies on is kept.
\<close>

lemma xcn_sendStatus_taken:
  assumes "codes_ok (env_codes env)" and "d = device_of_ip (st_device status)" and "xcn_registered d xcn"
    and "handler_at (di_module d) (env_handlers env) = Inr h"
    and "\<And>m ch. fst (ch_sendMessage (env_channel env) m ch)"
  shows "\<exists>xcn' s. xcn_sendStatus env status RUNNING err xcn = Inr xcn' \<and>
    sm_notAckedStatuses (xcn_sent xcn') = sm_notAckedStatuses (xcn_sent xcn) @ [na_startTimer (NotAckedStatus s)] \<and>
    xs_devicestatus s = status \<and> xs_sessionid s = xcn_sessionId xcn \<and>
    xs_messagecounter s = xcn_clientMessageCounter xcn + 1 \<and>
    xcn_clientMessageCounter xcn' = xcn_clientMessageCounter xcn + 1 \<and>
    xcn_sessionId xcn' = xcn_sessionId xcn \<and> xcn_state xcn' = xcn_state xcn \<and>
    xcn_drained xcn' = xcn_drained xcn \<and> xcn_errorAggregators xcn' = xcn_errorAggregators xcn"
proof -
  obtain ea where ea: "um_find num_eq (di_module d) (xcn_errorAggregators xcn) = Some ea"
    "um_contains device_eq d (ea_devices ea)"
    using assms(3) by (auto simp: xcn_registered_def split: option.splits)
  have m: "ip_module (st_device status) = di_module d" by (simp add: assms(2))
  have reg: "xcn_register_device env status RUNNING ea = Inr (RUNNING, ea)"
    using assms(4) ea(2) codes_ok_distinct(8) [OF assms(1)]
    by (simp add: xcn_register_device_def ea_getters m assms(2) [symmetric] Let_def)
  obtain ds sm where sw: "xcn_device_state d RUNNING (xcn_sent xcn) = (ds, sm)" by fastforce
  let ?s = "createExternalClientStatus (xcn_sessionId xcn) ds (xcn_clientMessageCounter xcn + 1) status err"
  obtain ch where "ch_sendMessage (env_channel env) (EC_Status ?s) (xcn_channel xcn) = (True, ch)"
    using assms(5) by (metis prod.collapse)
  moreover have "um_modify num_eq (di_module d) (\<lambda>_. ea) (xcn_errorAggregators xcn) = xcn_errorAggregators xcn"
    using ea(1) by (rule um_modify_same) simp
  ultimately have "xcn_sendStatus env status RUNNING err xcn = Inr (xcn\<lparr>xcn_clientMessageCounter :=
      xcn_clientMessageCounter xcn + 1, xcn_sent := sm_addNotAckedStatus ?s sm, xcn_channel := ch\<rparr>)"
    using reg sw ea(1)
    by (simp add: xcn_sendStatus_def m xcn_transmit_def xcn_getNextStatusCounter_def xcn_channel_send_eq
        assms(2) [symmetric] Let_def)
  then show ?thesis
    using xcn_device_state_eq(2) [OF sw]
    by (auto simp: sm_addNotAckedStatus_def createExternalClientStatus_def xcn_drained_def)
qed

text \<open>\<open>n\<close> rounds of the client's loop during which nothing arrives.\<close>

fun xl_rounds :: "error_codes \<Rightarrow> connect_script \<Rightarrow> nat \<Rightarrow> 'c external_client \<Rightarrow> exn + 'c external_client" where
  "xl_rounds c sc 0 xl = Inr xl"
| "xl_rounds c sc (Suc n) xl = bindE (xl_handleAggregatedMessages_round c sc sc [] xl) (xl_rounds c sc n)"

text \<open>A connected connection that is ready for the status of a message.\<close>

definition ready_for :: "nat \<Rightarrow> 'c external_client \<Rightarrow> internal_client_message \<Rightarrow> bool" where
  "ready_for cid xl m \<longleftrightarrow> \<not> icm_disconnect m \<and>
     um_find num_eq (message_module m) (xl_externalConnectionMap xl) = Some cid \<and>
     xcn_registered (device_of_ip (st_device (devicestatus (icm_message m)))) (xl_conn cid xl) \<and>
     (\<exists>h. handler_at (message_module m) (ml_moduleLibraryHandlers (xl_library xl)) = Inr h)"

definition online :: "nat \<Rightarrow> 'c external_client \<Rightarrow> bool" where
  "online cid xl \<longleftrightarrow> cid < length (xl_externalConnectionsList xl) \<and>
     xcn_getState (xl_conn cid xl) = St_CONNECTED \<and> xcn_drained (xl_conn cid xl) \<and>
     xl_reconnectQueue xl = [] \<and> codes_ok (env_codes (xl_env cid xl)) \<and>
     (\<forall>m ch. fst (ch_sendMessage (env_channel (xl_env cid xl)) m ch))"

lemma xl_round_sends:
  assumes "online cid xl" and "xl_toExternalQueue xl = m # ms" and "ready_for cid xl m"
  shows "\<exists>xl' s. xl_handleAggregatedMessages_round c sc sc [] xl = Inr xl' \<and>
    online cid xl' \<and> xl_toExternalQueue xl' = ms \<and> (\<forall>m'. ready_for cid xl' m' = ready_for cid xl m') \<and>
    sm_notAckedStatuses (xcn_sent (xl_conn cid xl')) =
      sm_notAckedStatuses (xcn_sent (xl_conn cid xl)) @ [na_startTimer (NotAckedStatus s)] \<and>
    xs_devicestatus s = devicestatus (icm_message m) \<and> xs_sessionid s = xcn_sessionId (xl_conn cid xl) \<and>
    xs_messagecounter s = xcn_clientMessageCounter (xl_conn cid xl) + 1 \<and>
    xcn_clientMessageCounter (xl_conn cid xl') = xcn_clientMessageCounter (xl_conn cid xl) + 1 \<and>
    xcn_sessionId (xl_conn cid xl') = xcn_sessionId (xl_conn cid xl)"
proof -
  let ?status = "devicestatus (icm_message m)"
  let ?x = "xl\<lparr>xl_toExternalQueue := ms\<rparr>"
  have x: "xl_conn k ?x = xl_conn k xl" "xl_env k ?x = xl_env k xl" for k by (simp_all add: xl_conn_def xl_env_def)
  obtain h where h: "handler_at (di_module (device_of_ip (st_device ?status))) (env_handlers (xl_env cid xl)) = Inr h"
    using assms(3) by (auto simp: ready_for_def xl_env_def)
  obtain xcn s where xcn: "xcn_sendStatus (xl_env cid xl) ?status RUNNING empty_buffer (xl_conn cid xl) = Inr xcn"
    and s: "sm_notAckedStatuses (xcn_sent xcn) = sm_notAckedStatuses (xcn_sent (xl_conn cid xl)) @
        [na_startTimer (NotAckedStatus s)]"
      "xs_devicestatus s = ?status" "xs_sessionid s = xcn_sessionId (xl_conn cid xl)"
      "xs_messagecounter s = xcn_clientMessageCounter (xl_conn cid xl) + 1"
    and keep: "xcn_clientMessageCounter xcn = xcn_clientMessageCounter (xl_conn cid xl) + 1"
      "xcn_sessionId xcn = xcn_sessionId (xl_conn cid xl)" "xcn_state xcn = xcn_state (xl_conn cid xl)"
      "xcn_drained xcn = xcn_drained (xl_conn cid xl)"
      "xcn_errorAggregators xcn = xcn_errorAggregators (xl_conn cid xl)"
    using xcn_sendStatus_taken [OF _ refl _ h] assms(1,3) unfolding online_def ready_for_def by metis
  let ?y = "xl_store cid xcn ?x"
  have run: "xl_handleAggregatedMessages_round c sc sc [] xl = Inr ?y"
    using assms xcn
    by (simp add: xl_handleAggregatedMessages_round_def waitForValueWithTimeout_def xl_sendStatus_def
        xl_on_def online_def ready_for_def x)
  have conn: "xl_conn cid ?y = xcn"
    using assms(1) keep(4) by (simp add: online_def xl_conn_store x)
  have y: "xl_toExternalQueue ?y = ms" "xl_externalConnectionMap ?y = xl_externalConnectionMap xl"
    "xl_library ?y = xl_library xl" "xl_env cid ?y = xl_env cid xl"
    "length (xl_externalConnectionsList ?y) = length (xl_externalConnectionsList xl)"
    "xl_reconnectQueue ?y = []"
    using assms(1) keep(4) by (auto simp: xl_store_def xl_env_def online_def xcn_drained_def)
  have "online cid ?y" using assms(1) keep by (simp add: online_def y conn xcn_getState_def)
  moreover have "ready_for cid ?y m' = ready_for cid xl m'" for m'
    using keep(5) by (simp add: ready_for_def y conn xcn_registered_def)
  ultimately show ?thesis using run s keep conn y(1) by metis
qed

lemma xl_rounds_send:
  assumes "online cid xl" and "xl_toExternalQueue xl = ms" and "\<forall>m \<in> set ms. ready_for cid xl m"
  shows "\<exists>xl' ss. xl_rounds c sc (length ms) xl = Inr xl' \<and> xl_toExternalQueue xl' = [] \<and>
    sm_notAckedStatuses (xcn_sent (xl_conn cid xl')) =
      sm_notAckedStatuses (xcn_sent (xl_conn cid xl)) @ map (na_startTimer \<circ> NotAckedStatus) ss \<and>
    map xs_devicestatus ss = map (devicestatus \<circ> icm_message) ms \<and>
    map xs_messagecounter ss =
      map (\<lambda>i. xcn_clientMessageCounter (xl_conn cid xl) + 1 + of_nat i) [0..<length ms] \<and>
    list_all (\<lambda>s. xs_sessionid s = xcn_sessionId (xl_conn cid xl)) ss"
  using assms
proof (induction ms arbitrary: xl)
  case Nil
  then show ?case by (intro exI [of _ xl] exI [of _ "[]"]) simp
next
  case (Cons m ms)
  obtain y s where y: "xl_handleAggregatedMessages_round c sc sc [] xl = Inr y" "online cid y"
    "xl_toExternalQueue y = ms" "\<forall>m'. ready_for cid y m' = ready_for cid xl m'"
    and s: "sm_notAckedStatuses (xcn_sent (xl_conn cid y)) =
      sm_notAckedStatuses (xcn_sent (xl_conn cid xl)) @ [na_startTimer (NotAckedStatus s)]"
      "xs_devicestatus s = devicestatus (icm_message m)" "xs_sessionid s = xcn_sessionId (xl_conn cid xl)"
      "xs_messagecounter s = xcn_clientMessageCounter (xl_conn cid xl) + 1"
    and keep: "xcn_clientMessageCounter (xl_conn cid y) = xcn_clientMessageCounter (xl_conn cid xl) + 1"
      "xcn_sessionId (xl_conn cid y) = xcn_sessionId (xl_conn cid xl)"
    using xl_round_sends [OF Cons.prems(1,2), of c sc] Cons.prems(3) by auto
  have "\<forall>m \<in> set ms. ready_for cid y m" using Cons.prems(3) y(4) by simp
  from Cons.IH [OF y(2,3) this] obtain xl' ss where ih: "xl_rounds c sc (length ms) y = Inr xl'"
    "xl_toExternalQueue xl' = []"
    "sm_notAckedStatuses (xcn_sent (xl_conn cid xl')) =
      sm_notAckedStatuses (xcn_sent (xl_conn cid y)) @ map (na_startTimer \<circ> NotAckedStatus) ss"
    "map xs_devicestatus ss = map (devicestatus \<circ> icm_message) ms"
    "map xs_messagecounter ss = map (\<lambda>i. xcn_clientMessageCounter (xl_conn cid y) + 1 + of_nat i) [0..<length ms]"
    "list_all (\<lambda>s. xs_sessionid s = xcn_sessionId (xl_conn cid y)) ss"
    by blast
  have "map xs_messagecounter (s # ss) =
      map (\<lambda>i. xcn_clientMessageCounter (xl_conn cid xl) + 1 + of_nat i) [0..<length (m # ms)]"
    using ih(5) s(4) keep(1)
    by (simp add: upt_conv_Cons map_Suc_upt [symmetric] add.commute add.left_commute del: upt_Suc)
  then show ?case
    using y(1) ih s keep by (intro exI [of _ xl'] exI [of _ "s # ss"]) simp
qed

end
