(* ===== verification/Decimal.thy ===== *)
theory Decimal
  imports Prelude "HOL-Library.Char_ord"
begin

text \<open>
  The parts of the C++ standard library that turn numbers into decimal text and back: \<open>std::to_string\<close>
  and \<open>std::stoi\<close>, which skips white space, takes an optional sign and the digits that follow, ignores
  the rest, and throws when there is no digit or the number does not fit an \<open>int\<close>; and \<open>toupper\<close>.
\<close>

definition digit_char :: "nat \<Rightarrow> char" where
  "digit_char d = char_of (48 + d)"

definition is_digit :: "char \<Rightarrow> bool" where
  "is_digit ch \<longleftrightarrow> 48 \<le> (of_char ch :: nat) \<and> (of_char ch :: nat) \<le> 57"

definition digit_value :: "char \<Rightarrow> nat" where
  "digit_value ch = of_char ch - 48"

lemma digit_char_simps [simp]:
  assumes "d < 10"
  shows "is_digit (digit_char d)" and "digit_value (digit_char d) = d"
  using assms by (simp_all add: is_digit_def digit_value_def digit_char_def)

fun decimal :: "nat \<Rightarrow> string" where
  "decimal n = (if n < 10 then [digit_char n] else decimal (n div 10) @ [digit_char (n mod 10)])"

declare decimal.simps [simp del]

definition to_string :: "int \<Rightarrow> string" where
  "to_string n = (if n < 0 then CHR ''-'' # decimal (nat (- n)) else decimal (nat n))"

definition number_of_digits :: "string \<Rightarrow> nat" where
  "number_of_digits ds = foldl (\<lambda>n ch. 10 * n + digit_value ch) 0 ds"

definition is_space :: "char \<Rightarrow> bool" where
  "is_space ch \<longleftrightarrow> ch = CHR '' '' \<or> (of_char ch :: nat) \<in> {9, 10, 11, 12, 13}"

definition stoi :: "string \<Rightarrow> exn + int" where
  "stoi str =
     (let s = dropWhile is_space str;
          negative = (s \<noteq> [] \<and> hd s = CHR ''-'');
          s = (if s \<noteq> [] \<and> (hd s = CHR ''-'' \<or> hd s = CHR ''+'') then tl s else s);
          digits = takeWhile is_digit s;
          n = int (number_of_digits digits);
          n = (if negative then - n else n)
      in if digits = [] then Inl Invalid_argument
         else if n < - (2 ^ 31) \<or> 2 ^ 31 \<le> n then Inl Out_of_range
         else Inr n)"

lemma decimal_digits: "list_all is_digit (decimal n) \<and> decimal n \<noteq> []"
  by (induction n rule: decimal.induct) (subst (1 2) decimal.simps, simp add: list_all_iff)

lemma number_of_digits_decimal: "number_of_digits (decimal n) = n"
proof (induction n rule: decimal.induct)
  case (1 n)
  then show ?case by (subst decimal.simps) (simp add: number_of_digits_def)
qed

lemma is_digit_not_sign: "is_digit ch \<Longrightarrow> ch \<noteq> CHR ''-'' \<and> ch \<noteq> CHR ''+'' \<and> \<not> is_space ch"
  by (auto simp: is_digit_def is_space_def)

lemma takeWhile_decimal: "takeWhile is_digit (decimal n) = decimal n"
  using decimal_digits [of n] by (simp add: takeWhile_eq_all_conv list_all_iff)

lemma to_string_inject: "to_string a = to_string b \<longleftrightarrow> a = b"
proof -
  have digits: "decimal m = decimal n \<longleftrightarrow> m = n" for m n
    using number_of_digits_decimal by metis
  have sign: "decimal n \<noteq> CHR ''-'' # cs" for n cs
    using decimal_digits [of n] is_digit_not_sign [of "CHR ''-''"] by auto
  show ?thesis
    using sign [of "nat b" "decimal (nat (- a))"] sign [of "nat a" "decimal (nat (- b))"]
    by (auto simp: to_string_def digits)
qed

text \<open>Reading what was printed gives the number back.\<close>

lemma stoi_to_string:
  assumes "- (2 ^ 31) \<le> n" and "n < 2 ^ 31"
  shows "stoi (to_string n) = Inr n"
proof (cases "n < 0")
  case True
  have "dropWhile is_space (to_string n) = to_string n"
    using True by (simp add: to_string_def is_space_def)
  moreover have "number_of_digits (takeWhile is_digit (decimal (nat (- n)))) = nat (- n)"
    by (simp add: takeWhile_decimal number_of_digits_decimal)
  ultimately show ?thesis
    using True assms decimal_digits [of "nat (- n)"]
    by (simp add: stoi_def to_string_def takeWhile_decimal Let_def)
next
  case False
  obtain ch cs where d: "decimal (nat n) = ch # cs" "is_digit ch"
    using decimal_digits [of "nat n"] by (cases "decimal (nat n)") auto
  have "number_of_digits (takeWhile is_digit (ch # cs)) = nat n"
    using takeWhile_decimal [of "nat n"] number_of_digits_decimal [of "nat n"] d(1) by simp
  then show ?thesis
    using False assms d is_digit_not_sign [OF d(2)] takeWhile_decimal [of "nat n"]
    by (simp add: stoi_def to_string_def Let_def)
qed

text \<open>\<open>std::transform\<close> with \<open>toupper\<close>, for the letters of the C locale.\<close>

definition to_upper :: "char \<Rightarrow> char" where
  "to_upper ch = (if 97 \<le> (of_char ch :: nat) \<and> (of_char ch :: nat) \<le> 122
     then char_of ((of_char ch :: nat) - 32) else ch)"

end
