(* ===== verification/Enum_Utils.thy ===== *)
theory Enum_Utils
  imports Settings Decimal
begin

text \<open>The names of the enumerations (EnumUtils.hpp and .cpp); reading a name does not mind its case.\<close>

definition stringToProtocolType :: "string \<Rightarrow> protocol_type" where
  "stringToProtocolType toEnum =
     (let toEnum = map to_upper toEnum
      in if toEnum = MQTT then PT_MQTT
         else if toEnum = QUIC then PT_QUIC
         else if toEnum = DUMMY then PT_DUMMY
         else PT_INVALID)"

fun protocolTypeToString :: "protocol_type \<Rightarrow> string" where
  "protocolTypeToString PT_MQTT = MQTT"
| "protocolTypeToString PT_QUIC = QUIC"
| "protocolTypeToString PT_DUMMY = DUMMY"
| "protocolTypeToString PT_INVALID = []"

definition stringToLoggerVerbosity :: "string \<Rightarrow> logger_verbosity" where
  "stringToLoggerVerbosity toEnum =
     (let toEnum = map to_upper toEnum
      in if toEnum = LOG_LEVEL_DEBUG then V_Debug
         else if toEnum = LOG_LEVEL_INFO then V_Info
         else if toEnum = LOG_LEVEL_WARNING then V_Warning
         else if toEnum = LOG_LEVEL_ERROR then V_Error
         else if toEnum = LOG_LEVEL_CRITICAL then V_Critical
         else V_Debug)"

fun loggerVerbosityToString :: "logger_verbosity \<Rightarrow> string" where
  "loggerVerbosityToString V_Debug = LOG_LEVEL_DEBUG"
| "loggerVerbosityToString V_Info = LOG_LEVEL_INFO"
| "loggerVerbosityToString V_Warning = LOG_LEVEL_WARNING"
| "loggerVerbosityToString V_Error = LOG_LEVEL_ERROR"
| "loggerVerbosityToString V_Critical = LOG_LEVEL_CRITICAL"

fun connectionStateToString :: "connection_state \<Rightarrow> string" where
  "connectionStateToString St_NOT_INITIALIZED = LOG_CONNECTION_STATE_NOT_INITIALIZED"
| "connectionStateToString St_NOT_CONNECTED = LOG_CONNECTION_STATE_NOT_CONNECTED"
| "connectionStateToString St_CONNECTING = LOG_CONNECTION_STATE_CONNECTING"
| "connectionStateToString St_CONNECTED = LOG_CONNECTION_STATE_CONNECTED"
| "connectionStateToString St_CLOSING = LOG_CONNECTION_STATE_CLOSING"

lemma protocol_type_round_trip [simp]: "stringToProtocolType (protocolTypeToString t) = t"
  by (cases t) (simp_all add: stringToProtocolType_def to_upper_def)

lemma verbosity_round_trip [simp]: "stringToLoggerVerbosity (loggerVerbosityToString v) = v"
  by (cases v) (simp_all add: stringToLoggerVerbosity_def to_upper_def)

lemma to_upper_idem: "to_upper (to_upper ch) = to_upper ch"
proof -
  have "of_char (char_of ((of_char ch :: nat) - 32)) = (of_char ch :: nat) - 32"
    if "(of_char ch :: nat) \<le> 122"
    using that by simp
  then show ?thesis by (auto simp: to_upper_def)
qed

lemma stringToProtocolType_case: "stringToProtocolType (map to_upper s) = stringToProtocolType s"
  by (simp add: stringToProtocolType_def to_upper_idem comp_def)

end
