(* ===== verification/Json.thy ===== *)
theory Json
  imports Decimal "HOL-Library.List_Lexorder"
begin

text \<open>
  JSON values as the nlohmann library holds them, and its accessors, with the exceptions its
  documentation gives them (\<open>Json_error\<close> for those of the library). Reading and printing text are parameters of
  the theories that use them. A number with a fraction or an exponent is seen through its integral
  part and its text. The keys of an object are in the order of \<open>std::map\<close>.
\<close>

datatype json =
    J_null
  | J_bool bool
  | J_int int
  | J_float int string
  | J_string string
  | J_array "json list"
  | J_object "(string \<times> json) list"

section \<open>Reading\<close>

text \<open>The constant \<open>operator[]\<close> does not check that the key is there.\<close>

definition json_sub :: "json \<Rightarrow> string \<Rightarrow> exn + json" where
  "json_sub j key = (case j of
     J_object kvs \<Rightarrow> (case um_find (=) key kvs of None \<Rightarrow> Inl Undefined_behaviour | Some v \<Rightarrow> Inr v)
   | _ \<Rightarrow> Inl Json_error)"

definition json_find :: "json \<Rightarrow> string \<Rightarrow> json option" where
  "json_find j key = (case j of J_object kvs \<Rightarrow> um_find (=) key kvs | _ \<Rightarrow> None)"

definition json_at :: "json \<Rightarrow> string \<Rightarrow> exn + json" where
  "json_at j key = (case json_find j key of None \<Rightarrow> Inl Json_error | Some v \<Rightarrow> Inr v)"

text \<open>The pairs \<open>items()\<close> goes through, and the values a loop over the value itself goes through.\<close>

definition json_items :: "json \<Rightarrow> (string \<times> json) list" where
  "json_items j = (case j of
     J_null \<Rightarrow> []
   | J_array js \<Rightarrow> zip (map (\<lambda>i. to_string (int i)) [0..<length js]) js
   | J_object kvs \<Rightarrow> kvs
   | _ \<Rightarrow> [([], j)])"

definition json_elements :: "json \<Rightarrow> json list" where
  "json_elements j = map snd (json_items j)"

section \<open>Conversions\<close>

definition json_get_string :: "json \<Rightarrow> exn + string" where
  "json_get_string j = (case j of J_string s \<Rightarrow> Inr s | _ \<Rightarrow> Inl Json_error)"

definition json_get_bool :: "json \<Rightarrow> exn + bool" where
  "json_get_bool j = (case j of J_bool b \<Rightarrow> Inr b | _ \<Rightarrow> Inl Json_error)"

text \<open>
  To an integer type with the values \<open>lo\<close> to \<open>hi\<close>: an integer wraps around, a number with a fraction
  must fit, and a Boolean counts as 0 or 1.
\<close>

definition wrap_into :: "int \<Rightarrow> int \<Rightarrow> int \<Rightarrow> int" where
  "wrap_into lo hi n = (n - lo) mod (hi - lo + 1) + lo"

definition json_get_integer :: "int \<Rightarrow> int \<Rightarrow> json \<Rightarrow> exn + int" where
  "json_get_integer lo hi j = (case j of
     J_int n \<Rightarrow> Inr (wrap_into lo hi n)
   | J_float n _ \<Rightarrow> if lo \<le> n \<and> n \<le> hi then Inr n else Inl Undefined_behaviour
   | J_bool b \<Rightarrow> Inr (if b then 1 else 0)
   | _ \<Rightarrow> Inl Json_error)"

definition json_get_int :: "json \<Rightarrow> exn + int" where
  "json_get_int = json_get_integer (- (2 ^ 31)) (2 ^ 31 - 1)"

definition json_get_unsigned_short :: "json \<Rightarrow> exn + nat" where
  "json_get_unsigned_short j = bindE (json_get_integer 0 (2 ^ 16 - 1) j) (\<lambda>n. Inr (nat n))"

fun mapE :: "('a \<Rightarrow> exn + 'b) \<Rightarrow> 'a list \<Rightarrow> exn + 'b list" where
  "mapE f [] = Inr []"
| "mapE f (x # xs) = bindE (f x) (\<lambda>y. bindE (mapE f xs) (\<lambda>ys. Inr (y # ys)))"

definition json_get_vector_int :: "json \<Rightarrow> exn + int list" where
  "json_get_vector_int j = (case j of J_array js \<Rightarrow> mapE json_get_int js | _ \<Rightarrow> Inl Json_error)"

section \<open>Writing\<close>

text \<open>Assignment in an object, and through a path of \<open>operator[]\<close>, which makes the objects on the way.\<close>

fun jo_put :: "string \<Rightarrow> json \<Rightarrow> (string \<times> json) list \<Rightarrow> (string \<times> json) list" where
  "jo_put key v [] = [(key, v)]"
| "jo_put key v ((key', v') # kvs) =
     (if key' = key then (key, v) # kvs
      else if key < key' then (key, v) # (key', v') # kvs
      else (key', v') # jo_put key v kvs)"

definition json_members :: "json \<Rightarrow> (string \<times> json) list" where
  "json_members j = (case j of J_object kvs \<Rightarrow> kvs | _ \<Rightarrow> [])"

fun json_assign :: "string list \<Rightarrow> json \<Rightarrow> json \<Rightarrow> json" where
  "json_assign [] v j = v"
| "json_assign (key # path) v j =
     J_object (jo_put key
       (json_assign path v (case json_find j key of None \<Rightarrow> J_null | Some j' \<Rightarrow> j')) (json_members j))"

section \<open>Lemmas\<close>

lemma um_find_jo_put: "um_find (=) key' (jo_put key v kvs) = (if key = key' then Some v else um_find (=) key' kvs)"
  by (induction key v kvs rule: jo_put.induct) auto

lemma json_find_assign:
  "json_find (json_assign (key # path) v j) key' =
     (if key = key' then Some (json_assign path v (case json_find j key of None \<Rightarrow> J_null | Some j' \<Rightarrow> j'))
      else json_find j key')"
  by (simp add: json_find_def um_find_jo_put json_members_def split: json.split)

declare json_assign.simps(2) [simp del]

lemma json_assign_member [simp]:
  "json_assign [key] v (J_object kvs) = J_object (jo_put key v kvs)"
  "json_assign [key] v J_null = J_object [(key, v)]"
  by (simp_all add: json_assign.simps json_members_def)

lemma json_find_null [simp]: "json_find J_null key = None"
  by (simp add: json_find_def)

lemma json_sub_find: "json_find j key = Some v \<Longrightarrow> json_sub j key = Inr v"
  by (auto simp: json_find_def json_sub_def split: json.splits)

lemma json_at_find: "json_find j key = Some v \<Longrightarrow> json_at j key = Inr v"
  by (simp add: json_at_def)

lemma json_items_object: "json_find j key = Some v \<Longrightarrow> json_items j = json_members j"
  by (auto simp: json_find_def json_items_def json_members_def split: json.splits)

lemma keys_jo_put: "fst ` set (jo_put key v kvs) = insert key (fst ` set kvs)"
  by (induction key v kvs rule: jo_put.induct) auto

lemma sorted_jo_put: "sorted_wrt (<) (map fst kvs) \<Longrightarrow> sorted_wrt (<) (map fst (jo_put key v kvs))"
proof (induction key v kvs rule: jo_put.induct)
  case (2 key v key' v' kvs)
  show ?case
  proof (cases "key' = key \<or> key < key'")
    case True
    then show ?thesis using "2.prems" by auto
  next
    case False
    then have less: "key' < key" by auto
    have "sorted_wrt (<) (map fst (jo_put key v kvs))"
      using "2.IH" "2.prems" False by auto
    moreover have "key' < a" if "a \<in> fst ` set (jo_put key v kvs)" for a
      using that less "2.prems" by (auto simp: keys_jo_put)
    ultimately show ?thesis using False by auto
  qed
qed simp

lemma wrap_into_bounds: "lo \<le> hi \<Longrightarrow> lo \<le> wrap_into lo hi n \<and> wrap_into lo hi n \<le> hi"
  using pos_mod_bound [of "hi - lo + 1" "n - lo"] pos_mod_sign [of "hi - lo + 1" "n - lo"]
  by (simp add: wrap_into_def)

lemma wrap_into_id: "lo \<le> n \<Longrightarrow> n \<le> hi \<Longrightarrow> wrap_into lo hi n = n"
  by (simp add: wrap_into_def)

lemma json_get_integer_bounds:
  assumes "json_get_integer lo hi j = Inr n" and "lo \<le> 0" and "1 \<le> hi"
  shows "lo \<le> n \<and> n \<le> hi"
  using assms wrap_into_bounds [of lo hi]
  by (auto simp: json_get_integer_def split: json.splits if_splits)

lemma mapE_Inr_iff: "mapE f xs = Inr ys \<longleftrightarrow> list_all2 (\<lambda>x y. f x = Inr y) xs ys"
  by (induction xs arbitrary: ys) (auto simp: bindE_eq_Inr_iff list_all2_Cons1)

end
