(* ===== verification/Settings_Parser.thy ===== *)
theory Settings_Parser
  imports Enum_Utils Json
begin

text \<open>
  The settings parser (SettingsParser.hpp and .cpp): from the command line and the configuration file
  to the settings, their checks, and back to JSON. What the parser gets from outside (cxxopts, the file system, the text
  side of the JSON library) is the record \<open>parser_env\<close>.
\<close>

section \<open>The surroundings of the parser\<close>

text \<open>What cxxopts has parsed: how often an option occurs, the arguments it does not know, and the values.\<close>

record cmdline =
  cl_count :: "string \<Rightarrow> nat"
  cl_unmatched :: "string list"
  cl_config_path :: string
  cl_port :: int

text \<open>An option as it is declared to cxxopts: its short and long name and the type of its value, if it takes one.\<close>

datatype option_type = Option_string | Option_int

record cxx_option =
  op_short :: string
  op_long :: string
  op_type :: "option_type option"

text \<open>
  \<open>pe_options_parse\<close> is the parser of cxxopts for some options, which may be told to allow unrecognised ones;
  \<open>pe_read\<close> gives the content of a file, empty if it cannot be opened; \<open>pe_parse\<close> is \<open>json::parse\<close>, \<open>None\<close> where it
  throws and \<open>json::accept\<close> is false; \<open>pe_dump\<close> and \<open>pe_dump4\<close> are \<open>dump()\<close> and \<open>dump(4)\<close>.
\<close>

record parser_env =
  pe_options_parse :: "cxx_option list \<Rightarrow> bool \<Rightarrow> string list \<Rightarrow> exn + cmdline"
  pe_read :: "string \<Rightarrow> string"
  pe_exists :: "string \<Rightarrow> bool"
  pe_parse :: "string \<Rightarrow> json option"
  pe_dump :: "json \<Rightarrow> string"
  pe_dump4 :: "json \<Rightarrow> string"

definition default_settings :: settings where
  "default_settings =
     \<lparr>set_port = 0, set_company = [], set_vehicleName = [], set_modulePaths = [], set_moduleBinaryPath = [],
      set_externalConnectionSettingsList = [],
      set_loggingSettings = \<lparr>ls_console = \<lparr>cs_use = False, cs_level = V_Debug\<rparr>,
        ls_file = \<lparr>fs_use = False, fs_level = V_Debug, fs_path = []\<rparr>\<rparr>\<rparr>"

section \<open>Filling the settings\<close>

definition fillLoggingSettings :: "json \<Rightarrow> settings \<Rightarrow> exn + settings" where
  "fillLoggingSettings file s =
     bindE (json_sub file LOGGING) (\<lambda>logging.
     bindE (json_sub logging LOGGING_CONSOLE) (\<lambda>consoleLogging.
     bindE (json_sub logging LOGGING_FILE) (\<lambda>fileLogging.
     bindE (bindE (json_sub consoleLogging LOG_USE) json_get_bool) (\<lambda>consoleUse.
     bindE (bindE (json_sub consoleLogging LOG_LEVEL) json_get_string) (\<lambda>consoleLevel.
     bindE (bindE (json_sub fileLogging LOG_USE) json_get_bool) (\<lambda>fileUse.
     bindE (bindE (json_sub fileLogging LOG_LEVEL) json_get_string) (\<lambda>fileLevel.
     bindE (bindE (json_sub fileLogging LOG_PATH) json_get_string) (\<lambda>path.
       Inr (s\<lparr>set_loggingSettings :=
         \<lparr>ls_console = \<lparr>cs_use = consoleUse, cs_level = stringToLoggerVerbosity consoleLevel\<rparr>,
          ls_file = \<lparr>fs_use = fileUse, fs_level = stringToLoggerVerbosity fileLevel, fs_path = path\<rparr>\<rparr>\<rparr>)))))))))"

definition fillInternalServerSettings :: "cmdline \<Rightarrow> json \<Rightarrow> settings \<Rightarrow> exn + settings" where
  "fillInternalServerSettings cl file s =
     (if cl_count cl PORT \<noteq> 0
      then Inr (s\<lparr>set_port := nat (cl_port cl mod 2 ^ 16)\<rparr>)
      else
        bindE (json_sub file INTERNAL_SERVER_SETTINGS) (\<lambda>section.
        bindE (bindE (json_sub section PORT) json_get_unsigned_short) (\<lambda>port.
          Inr (s\<lparr>set_port := port\<rparr>))))"

fun fill_modulePaths :: "(string \<times> json) list \<Rightarrow> (int \<times> string) list \<Rightarrow> exn + (int \<times> string) list" where
  "fill_modulePaths [] modulePaths = Inr modulePaths"
| "fill_modulePaths ((key, val) # items) modulePaths =
     bindE (json_get_string val) (\<lambda>path.
     bindE (stoi key) (\<lambda>moduleNumber.
       fill_modulePaths items (um_put num_eq moduleNumber path modulePaths)))"

definition fillModulePathsSettings :: "json \<Rightarrow> settings \<Rightarrow> exn + settings" where
  "fillModulePathsSettings file s =
     bindE (json_sub file MODULE_PATHS) (\<lambda>section.
     bindE (fill_modulePaths (json_items section) (set_modulePaths s)) (\<lambda>modulePaths.
       let s = s\<lparr>set_modulePaths := modulePaths\<rparr>
       in case json_find file MODULE_BINARY_PATH of
            None \<Rightarrow> Inr s
          | Some j \<Rightarrow> bindE (json_get_string j) (\<lambda>path. Inr (s\<lparr>set_moduleBinaryPath := path\<rparr>))))"

text \<open>One endpoint: \<open>None\<close> is one whose protocol is not known, which is skipped.\<close>

definition settings_name :: "protocol_type \<Rightarrow> string" where
  "settings_name t = (case t of
     PT_MQTT \<Rightarrow> MQTT_SETTINGS | PT_QUIC \<Rightarrow> QUIC_SETTINGS | PT_DUMMY \<Rightarrow> [] | PT_INVALID \<Rightarrow> ''INVALID'')"

definition setting_value :: "parser_env \<Rightarrow> json \<Rightarrow> string" where
  "setting_value env val = (case val of J_string s \<Rightarrow> s | _ \<Rightarrow> pe_dump env val)"

fun fill_protocolSettings ::
  "parser_env \<Rightarrow> (string \<times> json) list \<Rightarrow> (string \<times> string) list \<Rightarrow> (string \<times> string) list" where
  "fill_protocolSettings env [] protocolSettings = protocolSettings"
| "fill_protocolSettings env ((key, val) # items) protocolSettings =
     fill_protocolSettings env items (um_put (=) key (setting_value env val) protocolSettings)"

definition fill_endpoint :: "parser_env \<Rightarrow> json \<Rightarrow> exn + external_connection_settings option" where
  "fill_endpoint env endpoint =
     bindE (bindE (json_sub endpoint PROTOCOL_TYPE) json_get_string) (\<lambda>protocol.
       let protocolType = stringToProtocolType protocol; settingsName = settings_name protocolType
       in if protocolType = PT_INVALID then Inr None
          else
            bindE (bindE (json_at endpoint SERVER_IP) json_get_string) (\<lambda>serverIp.
            bindE (bindE (json_sub endpoint PORT) json_get_unsigned_short) (\<lambda>port.
            bindE (bindE (json_sub endpoint MODULES) json_get_vector_int) (\<lambda>modules.
              Inr (Some \<lparr>es_protocolType = protocolType,
                es_protocolSettings =
                  (case (if settingsName = [] then None else json_find endpoint settingsName) of
                     None \<Rightarrow> []
                   | Some j \<Rightarrow> fill_protocolSettings env (json_items j) []),
                es_serverIp = serverIp, es_port = port, es_modules = modules\<rparr>)))))"

fun fill_endpoints ::
  "parser_env \<Rightarrow> json list \<Rightarrow> external_connection_settings list \<Rightarrow> exn + external_connection_settings list" where
  "fill_endpoints env [] externals = Inr externals"
| "fill_endpoints env (endpoint # endpoints) externals =
     bindE (fill_endpoint env endpoint) (\<lambda>external.
       case external of
         None \<Rightarrow> fill_endpoints env endpoints externals
       | Some e \<Rightarrow> fill_endpoints env endpoints (externals @ [e]))"

definition fillExternalConnectionSettings :: "parser_env \<Rightarrow> json \<Rightarrow> settings \<Rightarrow> exn + settings" where
  "fillExternalConnectionSettings env file s =
     bindE (bindE (bindE (json_at file EXTERNAL_CONNECTION) (\<lambda>j. json_at j VEHICLE_NAME)) json_get_string)
       (\<lambda>vehicleName.
     bindE (bindE (bindE (json_at file EXTERNAL_CONNECTION) (\<lambda>j. json_at j COMPANY)) json_get_string)
       (\<lambda>company.
     bindE (bindE (json_sub file EXTERNAL_CONNECTION) (\<lambda>j. json_sub j EXTERNAL_ENDPOINTS)) (\<lambda>endpoints.
     bindE (fill_endpoints env (json_elements endpoints) (set_externalConnectionSettingsList s)) (\<lambda>externals.
       Inr (s\<lparr>set_vehicleName := vehicleName, set_company := company,
              set_externalConnectionSettingsList := externals\<rparr>)))))"

definition fillSettings :: "parser_env \<Rightarrow> cmdline \<Rightarrow> exn + settings" where
  "fillSettings env cl =
     (case pe_parse env (pe_read env (cl_config_path cl)) of
        None \<Rightarrow> Inl Json_error
      | Some file \<Rightarrow>
          bindE (fillLoggingSettings file default_settings) (\<lambda>s.
          bindE (fillInternalServerSettings cl file s) (\<lambda>s.
          bindE (fillModulePathsSettings file s) (\<lambda>s.
            fillExternalConnectionSettings env file s))))"

section \<open>Checks\<close>

text \<open>The command line as cxxopts reads it, and whether the help text is printed.\<close>

definition cmd_options :: "cxx_option list" where
  "cmd_options =
     [\<lparr>op_short = ''h'', op_long = HELP, op_type = None\<rparr>,
      \<lparr>op_short = ''c'', op_long = CONFIG_PATH, op_type = Some Option_string\<rparr>,
      \<lparr>op_short = [], op_long = PORT, op_type = Some Option_int\<rparr>]"

definition parseCmdArguments :: "parser_env \<Rightarrow> string list \<Rightarrow> exn + cmdline \<times> bool" where
  "parseCmdArguments env argv =
     bindE (pe_options_parse env cmd_options True argv) (\<lambda>cl.
       Inr (cl, cl_count cl HELP \<noteq> 0 \<or> length argv = 1))"

definition areCmdArgumentsCorrect :: "cmdline \<Rightarrow> bool" where
  "areCmdArgumentsCorrect cl \<longleftrightarrow>
     list_all (\<lambda>param. cl_count cl param \<le> 1) [CONFIG_PATH, PORT, CONFIG_PATH] \<and>
     cl_unmatched cl = [] \<and>
     list_all (\<lambda>param. 1 \<le> cl_count cl param) [CONFIG_PATH]"

text \<open>The regular expression \<open>^[a-z0-9_]+$\<close>.\<close>

definition is_name_char :: "char \<Rightarrow> bool" where
  "is_name_char ch \<longleftrightarrow> (97 \<le> (of_char ch :: nat) \<and> (of_char ch :: nat) \<le> 122) \<or> is_digit ch \<or> ch = CHR ''_''"

definition is_name :: "string \<Rightarrow> bool" where
  "is_name s \<longleftrightarrow> s \<noteq> [] \<and> list_all is_name_char s"

definition areSettingsCorrect :: "parser_env \<Rightarrow> settings \<Rightarrow> bool" where
  "areSettingsCorrect env s \<longleftrightarrow>
     \<not> (fs_use (ls_file (set_loggingSettings s)) \<and> \<not> pe_exists env (fs_path (ls_file (set_loggingSettings s)))) \<and>
     set_modulePaths s \<noteq> [] \<and>
     \<not> (set_moduleBinaryPath s \<noteq> [] \<and> \<not> pe_exists env (set_moduleBinaryPath s)) \<and>
     is_name (set_company s) \<and>
     is_name (set_vehicleName s) \<and>
     list_all (\<lambda>e. list_all (\<lambda>m. um_contains num_eq m (set_modulePaths s)) (es_modules e))
       (set_externalConnectionSettingsList s)"

text \<open>\<open>None\<close> is the answer \<open>false\<close>, after the help text.\<close>

definition parseSettings :: "parser_env \<Rightarrow> string list \<Rightarrow> exn + settings option" where
  "parseSettings env argv =
     bindE (parseCmdArguments env argv) (\<lambda>(cl, _).
       if cl_count cl HELP \<noteq> 0 \<or> length argv = 1 then Inr None
       else if \<not> areCmdArgumentsCorrect cl then Inl Invalid_argument
       else
         bindE (fillSettings env cl) (\<lambda>s.
           if \<not> areSettingsCorrect env s then Inl Invalid_argument else Inr (Some s)))"

section \<open>Printing the settings\<close>

definition logging_to_json :: "logging_settings \<Rightarrow> json \<Rightarrow> json" where
  "logging_to_json l =
     json_assign [LOGGING, LOGGING_FILE, LOG_PATH] (J_string (fs_path (ls_file l))) \<circ>
     json_assign [LOGGING, LOGGING_FILE, LOG_LEVEL] (J_string (loggerVerbosityToString (fs_level (ls_file l)))) \<circ>
     json_assign [LOGGING, LOGGING_FILE, LOG_USE] (J_bool (fs_use (ls_file l))) \<circ>
     json_assign [LOGGING, LOGGING_CONSOLE, LOG_LEVEL] (J_string (loggerVerbosityToString (cs_level (ls_console l)))) \<circ>
     json_assign [LOGGING, LOGGING_CONSOLE, LOG_USE] (J_bool (cs_use (ls_console l)))"

definition setting_to_json :: "parser_env \<Rightarrow> string \<Rightarrow> json" where
  "setting_to_json env val = (case pe_parse env val of Some j \<Rightarrow> j | None \<Rightarrow> J_string val)"

fun protocol_settings_to_json ::
  "parser_env \<Rightarrow> string \<Rightarrow> (string \<times> string) list \<Rightarrow> json \<Rightarrow> json" where
  "protocol_settings_to_json env settingsName [] j = j"
| "protocol_settings_to_json env settingsName ((key, val) # protocolSettings) j =
     protocol_settings_to_json env settingsName protocolSettings
       (json_assign [settingsName, key] (setting_to_json env val) j)"

definition endpoint_to_json :: "parser_env \<Rightarrow> external_connection_settings \<Rightarrow> json" where
  "endpoint_to_json env e =
     protocol_settings_to_json env (settings_name (es_protocolType e)) (es_protocolSettings e)
       (json_assign [PROTOCOL_TYPE] (J_string (protocolTypeToString (es_protocolType e)))
       (json_assign [MODULES] (J_array (map J_int (es_modules e)))
       (json_assign [PORT] (J_int (int (es_port e)))
       (json_assign [SERVER_IP] (J_string (es_serverIp e)) J_null))))"

fun module_paths_to_json :: "(int \<times> string) list \<Rightarrow> json \<Rightarrow> json" where
  "module_paths_to_json [] j = j"
| "module_paths_to_json ((key, val) # modulePaths) j =
     module_paths_to_json modulePaths (json_assign [MODULE_PATHS, to_string key] (J_string val) j)"

definition settings_to_json :: "parser_env \<Rightarrow> settings \<Rightarrow> json" where
  "settings_to_json env s =
     json_assign [EXTERNAL_CONNECTION, EXTERNAL_ENDPOINTS]
       (J_array (map (endpoint_to_json env) (set_externalConnectionSettingsList s)))
     (json_assign [EXTERNAL_CONNECTION, VEHICLE_NAME] (J_string (set_vehicleName s))
     (json_assign [EXTERNAL_CONNECTION, COMPANY] (J_string (set_company s))
     (module_paths_to_json (set_modulePaths s)
     (json_assign [INTERNAL_SERVER_SETTINGS, PORT] (J_int (int (set_port s)))
     (logging_to_json (set_loggingSettings s) J_null)))))"

definition serializeToJson :: "parser_env \<Rightarrow> settings \<Rightarrow> string" where
  "serializeToJson env s = pe_dump4 env (settings_to_json env s)"

end
