(* ===== verification/Settings_Parser_Laws.thy ===== *)
theory Settings_Parser_Laws
  imports Settings_Parser
begin

text \<open>
  The settings parser: what every accepted configuration satisfies, and the round trip of the printed settings,
  which are a configuration that gives the same settings.
\<close>

section \<open>Accepted settings\<close>

definition int_range :: "int \<Rightarrow> bool" where
  "int_range n \<longleftrightarrow> - (2 ^ 31) \<le> n \<and> n < 2 ^ 31"

definition endpoint_ok :: "external_connection_settings \<Rightarrow> bool" where
  "endpoint_ok e \<longleftrightarrow> es_protocolType e \<noteq> PT_INVALID \<and> es_port e < 2 ^ 16 \<and> list_all int_range (es_modules e) \<and>
     um_distinct (=) (es_protocolSettings e) \<and>
     (es_protocolType e = PT_DUMMY \<longrightarrow> es_protocolSettings e = [])"

interpretation text_keys: key_equality "(=) :: string \<Rightarrow> string \<Rightarrow> bool"
  by unfold_locales auto

lemma stoi_range: "stoi s = Inr n \<Longrightarrow> int_range n"
  by (auto simp: stoi_def int_range_def Let_def split: if_splits)

lemma json_get_unsigned_short_range: "json_get_unsigned_short j = Inr n \<Longrightarrow> n < 2 ^ 16"
  by (auto simp: json_get_unsigned_short_def bindE_eq_Inr_iff dest!: json_get_integer_bounds)

lemma json_get_vector_int_range:
  assumes "json_get_vector_int j = Inr ns"
  shows "list_all int_range ns"
proof -
  have "list_all2 (\<lambda>j n. json_get_int j = Inr n) js ns \<Longrightarrow> list_all int_range ns" for js
    by (induction js ns rule: list_all2_induct)
      (auto simp: json_get_int_def int_range_def dest!: json_get_integer_bounds)
  then show ?thesis
    using assms by (auto simp: json_get_vector_int_def mapE_Inr_iff split: json.splits)
qed

lemma fill_modulePaths_ok:
  assumes "fill_modulePaths items m = Inr m'" and "um_distinct num_eq m" and "um_all (\<lambda>k _. int_range k) m"
  shows "um_distinct num_eq m' \<and> um_all (\<lambda>k _. int_range k) m'"
  using assms
proof (induction items m rule: fill_modulePaths.induct)
  case (2 key val items m)
  then show ?case
    by (auto simp: bindE_eq_Inr_iff stoi_range num.distinct_put um_all_put)
qed simp

lemma fill_protocolSettings_distinct:
  "um_distinct (=) m \<Longrightarrow> um_distinct (=) (fill_protocolSettings env items m)"
  by (induction env items m rule: fill_protocolSettings.induct) (simp_all add: text_keys.distinct_put)

lemma fill_endpoint_ok:
  assumes "fill_endpoint env j = Inr (Some e)"
  shows "endpoint_ok e"
proof -
  have nil: "um_distinct (=) ([] :: (string \<times> string) list)" by (simp add: um_distinct_def)
  show ?thesis
    using assms fill_protocolSettings_distinct [OF nil]
    by (auto simp: fill_endpoint_def bindE_eq_Inr_iff Let_def endpoint_ok_def settings_name_def nil
        dest: json_get_unsigned_short_range json_get_vector_int_range
        split: if_splits protocol_type.splits option.splits)
qed

lemma fill_endpoints_ok:
  assumes "fill_endpoints env js es = Inr es'" and "list_all endpoint_ok es"
  shows "list_all endpoint_ok es'"
  using assms
proof (induction env js es rule: fill_endpoints.induct)
  case (2 env j js es)
  then show ?case
    by (fastforce simp: bindE_eq_Inr_iff dest: fill_endpoint_ok split: option.splits)
qed simp

lemma fillSettings_ok:
  assumes "fillSettings env cl = Inr s"
  shows "set_port s < 2 ^ 16 \<and> um_distinct num_eq (set_modulePaths s) \<and>
    um_all (\<lambda>k _. int_range k) (set_modulePaths s) \<and>
    list_all endpoint_ok (set_externalConnectionSettingsList s)"
proof -
  obtain j s1 s2 s3 where fill: "fillLoggingSettings j default_settings = Inr s1"
    "fillInternalServerSettings cl j s1 = Inr s2" "fillModulePathsSettings j s2 = Inr s3"
    "fillExternalConnectionSettings env j s3 = Inr s"
    using assms by (auto simp: fillSettings_def bindE_eq_Inr_iff split: option.splits)
  have s1: "set_modulePaths s1 = []" "set_externalConnectionSettingsList s1 = []"
    using fill(1) by (auto simp: fillLoggingSettings_def bindE_eq_Inr_iff default_settings_def)
  have s2: "set_modulePaths s2 = []" "set_externalConnectionSettingsList s2 = []" "set_port s2 < 2 ^ 16"
    using fill(2) s1 pos_mod_bound [of "2 ^ 16" "cl_port cl"]
    by (auto simp: fillInternalServerSettings_def bindE_eq_Inr_iff nat_less_iff
        dest: json_get_unsigned_short_range split: if_splits)
  have s3: "um_distinct num_eq (set_modulePaths s3)" "um_all (\<lambda>k _. int_range k) (set_modulePaths s3)"
    "set_externalConnectionSettingsList s3 = []" "set_port s3 = set_port s2"
    using fill(3) s2 fill_modulePaths_ok [where m = "[]"]
    by (auto simp: fillModulePathsSettings_def bindE_eq_Inr_iff Let_def um_distinct_def split: option.splits)
  have "list_all endpoint_ok (set_externalConnectionSettingsList s)" "set_port s = set_port s3"
    "set_modulePaths s = set_modulePaths s3"
    using fill(4) s3(3) fill_endpoints_ok [where es = "[]"]
    by (auto simp: fillExternalConnectionSettings_def bindE_eq_Inr_iff)
  then show ?thesis using s2(3) s3 by simp
qed

lemma parseSettings_accepted:
  assumes "parseSettings env argv = Inr (Some s)"
  obtains cl where "pe_options_parse env cmd_options True argv = Inr cl" and "areCmdArgumentsCorrect cl"
    and "fillSettings env cl = Inr s" and "areSettingsCorrect env s"
  using assms by (auto simp: parseSettings_def parseCmdArguments_def bindE_eq_Inr_iff split: if_splits)

text \<open>
  C10: whatever the configuration file says, settings the parser accepts are well formed: the ports fit
  16 bits, the module numbers an \<open>int\<close>, every module has one path, company and vehicle are names, and every
  endpoint has a known protocol, one value per protocol setting and only modules that have a path.
\<close>

theorem accepted_settings_well_formed:
  assumes "parseSettings env argv = Inr (Some s)"
  shows "set_port s < 2 ^ 16 \<and> set_modulePaths s \<noteq> [] \<and> um_distinct num_eq (set_modulePaths s) \<and>
    um_all (\<lambda>k _. int_range k) (set_modulePaths s) \<and> is_name (set_company s) \<and> is_name (set_vehicleName s) \<and>
    list_all (\<lambda>e. endpoint_ok e \<and> list_all (\<lambda>m. um_contains num_eq m (set_modulePaths s)) (es_modules e))
      (set_externalConnectionSettingsList s)"
proof -
  obtain cl where "fillSettings env cl = Inr s" "areSettingsCorrect env s"
    using parseSettings_accepted [OF assms] by blast
  with fillSettings_ok [of env cl s] show ?thesis
    by (auto simp: areSettingsCorrect_def list_all_iff)
qed

section \<open>Objects that are filled one assignment at a time\<close>

fun assign_all :: "string \<Rightarrow> (string \<times> json) list \<Rightarrow> json \<Rightarrow> json" where
  "assign_all name [] j = j"
| "assign_all name ((key, val) # ps) j = assign_all name ps (json_assign [name, key] val j)"

fun jo_puts :: "(string \<times> json) list \<Rightarrow> (string \<times> json) list \<Rightarrow> (string \<times> json) list" where
  "jo_puts [] kvs = kvs"
| "jo_puts ((key, val) # ps) kvs = jo_puts ps (jo_put key val kvs)"

lemma module_paths_to_json_assign:
  "module_paths_to_json m j = assign_all ''module-paths'' (map (\<lambda>(k, v). (to_string k, J_string v)) m) j"
  by (induction m j rule: module_paths_to_json.induct) simp_all

lemma protocol_settings_to_json_assign:
  "protocol_settings_to_json env name m j = assign_all name (map (\<lambda>(k, v). (k, setting_to_json env v)) m) j"
  by (induction env name m j rule: protocol_settings_to_json.induct) simp_all

lemma assign_all_other: "key \<noteq> name \<Longrightarrow> json_find (assign_all name ps j) key = json_find j key"
  by (induction name ps j rule: assign_all.induct) (simp_all add: json_find_assign)

lemma assign_all_object:
  assumes "json_find j name = Some (J_object kvs)"
  shows "json_find (assign_all name ps j) name = Some (J_object (jo_puts ps kvs))"
  using assms
proof (induction name ps j arbitrary: kvs rule: assign_all.induct)
  case (2 name key val ps j)
  have "json_find (json_assign [name, key] val j) name = Some (J_object (jo_put key val kvs))"
    using "2.prems" by (simp add: json_find_assign)
  from "2.IH" [OF this] show ?case by simp
qed simp

lemma assign_all_new:
  assumes "json_find j name = None"
  shows "json_find (assign_all name ps j) name = (if ps = [] then None else Some (J_object (jo_puts ps [])))"
proof (cases ps)
  case (Cons p ps')
  obtain key val where p: "p = (key, val)" by (cases p)
  have "json_find (json_assign [name, key] val j) name = Some (J_object (jo_put key val []))"
    using assms by (simp add: json_find_assign)
  from assign_all_object [OF this] show ?thesis by (simp add: Cons p)
qed (simp add: assms)

lemma um_find_jo_puts:
  "distinct (map fst ps) \<Longrightarrow> um_find (=) key (jo_puts ps kvs) =
     (case um_find (=) key ps of None \<Rightarrow> um_find (=) key kvs | Some v \<Rightarrow> Some v)"
proof (induction ps kvs rule: jo_puts.induct)
  case (2 key' val ps kvs)
  have "um_find (=) key ps = None" if "key \<notin> fst ` set ps"
    using that by (induction ps) auto
  then show ?case using 2 by (auto simp: um_find_jo_put split: option.split)
qed simp

lemma sorted_jo_puts: "sorted_wrt (<) (map fst kvs) \<Longrightarrow> sorted_wrt (<) (map fst (jo_puts ps kvs))"
  by (induction ps kvs rule: jo_puts.induct) (simp_all add: sorted_jo_put)

lemma distinct_jo_puts: "distinct (map fst (jo_puts ps []))"
  using sorted_jo_puts [of "[]" ps] by (simp add: strict_sorted_iff)

lemma set_jo_puts:
  assumes "distinct (map fst ps)"
  shows "set (jo_puts ps []) = set ps"
proof -
  have find: "(key, v) \<in> set m \<longleftrightarrow> um_find (=) key m = Some v" if "distinct (map fst m)"
    for key v and m :: "(string \<times> json) list"
    using that by (induction m) force+
  have "(key, v) \<in> set (jo_puts ps []) \<longleftrightarrow> (key, v) \<in> set ps" for key v
    using find [OF distinct_jo_puts] find [OF assms] um_find_jo_puts [OF assms, of key "[]"]
    by (simp split: option.split)
  then show ?thesis by auto
qed

section \<open>Reading back what was printed\<close>

text \<open>Maps that hold the same values, in whatever order.\<close>

definition same_map :: "('k \<times> 'v) list \<Rightarrow> ('k \<times> 'v) list \<Rightarrow> bool" where
  "same_map m m' \<longleftrightarrow> (\<forall>k. um_find (=) k m = um_find (=) k m')"

definition endpoint_same :: "external_connection_settings \<Rightarrow> external_connection_settings \<Rightarrow> bool" where
  "endpoint_same e e' \<longleftrightarrow> es_protocolType e' = es_protocolType e \<and>
     same_map (es_protocolSettings e) (es_protocolSettings e') \<and> es_serverIp e' = es_serverIp e \<and>
     es_port e' = es_port e \<and> es_modules e' = es_modules e"

definition settings_same :: "settings \<Rightarrow> settings \<Rightarrow> bool" where
  "settings_same s s' \<longleftrightarrow> set_port s' = set_port s \<and> set_company s' = set_company s \<and>
     set_vehicleName s' = set_vehicleName s \<and> same_map (set_modulePaths s) (set_modulePaths s') \<and>
     list_all2 endpoint_same (set_externalConnectionSettingsList s) (set_externalConnectionSettingsList s') \<and>
     set_loggingSettings s' = set_loggingSettings s"

lemma um_find_mem: "um_distinct (=) m \<Longrightarrow> um_find (=) k m = Some v \<longleftrightarrow> (k, v) \<in> set m"
  using um_find_distinct [of "(=)" m k v] um_find_in [of "(=)" k m v] by auto

lemma um_distinct_map_keys: "um_distinct (=) m \<longleftrightarrow> distinct (map fst m)"
  by (induction m) (auto simp: um_distinct_def)

lemma fill_modulePaths_printed:
  assumes "\<forall>e \<in> set items. \<exists>k p. e = (to_string k, J_string p) \<and> int_range k"
    and "distinct (map fst items)"
  shows "\<exists>m'. fill_modulePaths items m = Inr m' \<and>
    (\<forall>k p. um_find num_eq k m' = Some p \<longleftrightarrow> (to_string k, J_string p) \<in> set items \<or>
       to_string k \<notin> fst ` set items \<and> um_find num_eq k m = Some p)"
  using assms
proof (induction items arbitrary: m)
  case (Cons e items)
  obtain k p where e: "e = (to_string k, J_string p)" "int_range k" using Cons.prems(1) by auto
  have "stoi (to_string k) = Inr k" using e(2) stoi_to_string by (simp add: int_range_def)
  then have step: "fill_modulePaths (e # items) m = fill_modulePaths items (um_put num_eq k p m)"
    by (simp add: e json_get_string_def)
  obtain m' where m': "fill_modulePaths items (um_put num_eq k p m) = Inr m'"
    "\<forall>k' p'. um_find num_eq k' m' = Some p' \<longleftrightarrow> (to_string k', J_string p') \<in> set items \<or>
       to_string k' \<notin> fst ` set items \<and> um_find num_eq k' (um_put num_eq k p m) = Some p'"
    using Cons.IH [of "um_put num_eq k p m"] Cons.prems by auto
  have "to_string k \<notin> fst ` set items" using Cons.prems(2) by (simp add: e)
  then show ?case
    unfolding step using m' by (force simp: e num.find_put to_string_inject)
qed simp

lemma fill_protocolSettings_printed:
  assumes "distinct (map fst items)"
  shows "um_find (=) k (fill_protocolSettings env items m) = Some v \<longleftrightarrow>
    (\<exists>j. (k, j) \<in> set items \<and> setting_value env j = v) \<or> k \<notin> fst ` set items \<and> um_find (=) k m = Some v"
  using assms
proof (induction env items m rule: fill_protocolSettings.induct)
  case (2 env key val items m)
  then show ?case by (force simp: text_keys.find_put)
qed simp

text \<open>
  A value of a protocol setting is stable if it is not the text of a JSON string, and prints as it
  was written if it is another JSON text.
\<close>

definition stable_value :: "parser_env \<Rightarrow> string \<Rightarrow> bool" where
  "stable_value env v \<longleftrightarrow> (case pe_parse env v of
     None \<Rightarrow> True | Some (J_string _) \<Rightarrow> False | Some j \<Rightarrow> pe_dump env j = v)"

lemma stable_value_round_trip: "stable_value env v \<Longrightarrow> setting_value env (setting_to_json env v) = v"
  by (auto simp: stable_value_def setting_value_def setting_to_json_def split: option.splits json.splits)

lemma option_eqI: "(\<And>x. a = Some x \<longleftrightarrow> b = Some x) \<Longrightarrow> a = b"
  by (cases a; cases b) auto

lemma protocol_settings_round_trip:
  assumes "um_distinct (=) ps" and "\<forall>(k, v) \<in> set ps. stable_value env v"
  shows "same_map ps (fill_protocolSettings env (jo_puts (map (\<lambda>(k, v). (k, setting_to_json env v)) ps) []) [])"
proof -
  let ?items = "map (\<lambda>(k, v). (k, setting_to_json env v)) ps"
  have d: "distinct (map fst ?items)"
    using assms(1) by (simp add: um_distinct_map_keys comp_def case_prod_unfold)
  have "um_find (=) k (fill_protocolSettings env (jo_puts ?items []) []) = Some v \<longleftrightarrow> um_find (=) k ps = Some v"
    for k v
    using assms(2) stable_value_round_trip [of env]
    by (force simp: fill_protocolSettings_printed [OF distinct_jo_puts] set_jo_puts [OF d] um_find_mem [OF assms(1)])
  then show ?thesis by (auto simp: same_map_def intro: option_eqI)
qed

lemma get_port_printed: "n < 2 ^ 16 \<Longrightarrow> json_get_unsigned_short (J_int (int n)) = Inr n"
  by (simp add: json_get_unsigned_short_def json_get_integer_def wrap_into_id)

lemma get_modules_printed:
  assumes "list_all int_range ns"
  shows "json_get_vector_int (J_array (map J_int ns)) = Inr ns"
  using assms
  by (induction ns)
    (simp_all add: json_get_vector_int_def json_get_int_def json_get_integer_def int_range_def wrap_into_id)

lemma fill_endpoint_printed:
  assumes "endpoint_ok e" and "\<forall>(k, v) \<in> set (es_protocolSettings e). stable_value env v"
  shows "\<exists>e'. fill_endpoint env (endpoint_to_json env e) = Inr (Some e') \<and> endpoint_same e e'"
proof -
  let ?t = "es_protocolType e" and ?ps = "map (\<lambda>(k, v). (k, setting_to_json env v)) (es_protocolSettings e)"
  let ?base = "json_assign [''protocol-type''] (J_string (protocolTypeToString (es_protocolType e)))
       (json_assign [''modules''] (J_array (map J_int (es_modules e)))
       (json_assign [''port''] (J_int (int (es_port e)))
       (json_assign [''server-ip''] (J_string (es_serverIp e)) J_null)))"
  let ?j = "endpoint_to_json env e"
  have j: "?j = assign_all (settings_name ?t) ?ps ?base"
    by (simp only: endpoint_to_json_def protocol_settings_to_json_assign constant_strings)
  have names: "settings_name ?t \<notin> {''protocol-type'', ''modules'', ''port'', ''server-ip''}"
    by (cases ?t) (simp_all add: settings_name_def)
  have fields: "json_find ?j ''protocol-type'' = Some (J_string (protocolTypeToString ?t))"
    "json_find ?j ''modules'' = Some (J_array (map J_int (es_modules e)))"
    "json_find ?j ''port'' = Some (J_int (int (es_port e)))"
    "json_find ?j ''server-ip'' = Some (J_string (es_serverIp e))"
    using names by (auto simp: j assign_all_other json_find_assign simp del: json_assign_member)
  have "json_find ?base (settings_name ?t) = None"
    using names by (auto simp: json_find_assign simp del: json_assign_member)
  then have settings: "json_find ?j (settings_name ?t) =
      (if es_protocolSettings e = [] then None else Some (J_object (jo_puts ?ps [])))"
    unfolding j by (subst assign_all_new) simp_all
  have ok: "?t \<noteq> PT_INVALID" "es_port e < 2 ^ 16" "list_all int_range (es_modules e)"
    "um_distinct (=) (es_protocolSettings e)" "?t = PT_DUMMY \<Longrightarrow> es_protocolSettings e = []"
    using assms(1) by (simp_all add: endpoint_ok_def)
  have dummy: "settings_name ?t = [] \<longleftrightarrow> ?t = PT_DUMMY"
    by (cases ?t) (simp_all add: settings_name_def)
  let ?e' = "\<lparr>es_protocolType = ?t,
    es_protocolSettings = fill_protocolSettings env (jo_puts ?ps []) [],
    es_serverIp = es_serverIp e, es_port = es_port e, es_modules = es_modules e\<rparr>"
  have "fill_endpoint env ?j = Inr (Some ?e')"
    using fields settings ok dummy
    by (simp add: fill_endpoint_def json_sub_find json_at_find json_get_string_def get_port_printed get_modules_printed
        json_items_def Let_def split: option.split)
  moreover have "endpoint_same e ?e'"
    using protocol_settings_round_trip [OF ok(4) assms(2)] by (simp add: endpoint_same_def)
  ultimately show ?thesis by blast
qed

lemma fill_endpoints_printed:
  assumes "\<forall>e \<in> set es. endpoint_ok e \<and> (\<forall>(k, v) \<in> set (es_protocolSettings e). stable_value env v)"
  shows "\<exists>es'. fill_endpoints env (map (endpoint_to_json env) es) acc = Inr (acc @ es') \<and>
    list_all2 endpoint_same es es'"
  using assms
proof (induction es arbitrary: acc)
  case (Cons e es)
  obtain e' where e': "fill_endpoint env (endpoint_to_json env e) = Inr (Some e')" "endpoint_same e e'"
    using fill_endpoint_printed [of e env] Cons.prems by auto
  obtain es' where "fill_endpoints env (map (endpoint_to_json env) es) (acc @ [e']) = Inr ((acc @ [e']) @ es')"
    "list_all2 endpoint_same es es'"
    using Cons.IH [of "acc @ [e']"] Cons.prems by auto
  with e' show ?case by (intro exI [of _ "e' # es'"]) simp
qed simp

lemma module_paths_round_trip:
  assumes "um_distinct num_eq m" and "um_all (\<lambda>k _. int_range k) m"
  shows "\<exists>m'. fill_modulePaths (jo_puts (map (\<lambda>(k, v). (to_string k, J_string v)) m) []) [] = Inr m' \<and> same_map m m'"
proof -
  let ?items = "map (\<lambda>(k, v). (to_string k, J_string v)) m"
  have keys: "map fst ?items = map to_string (map fst m)" by (induction m) auto
  have d: "distinct (map fst ?items)"
    using assms(1) unfolding um_distinct_map_keys keys
    by (subst distinct_map) (simp add: inj_on_def to_string_inject)
  have items: "\<forall>e \<in> set (jo_puts ?items []). \<exists>k p. e = (to_string k, J_string p) \<and> int_range k"
    using assms(2) by (auto simp: set_jo_puts [OF d] um_all_def list_all_iff)
  obtain m' where m': "fill_modulePaths (jo_puts ?items []) [] = Inr m'"
    "\<forall>k p. um_find num_eq k m' = Some p \<longleftrightarrow> (to_string k, J_string p) \<in> set ?items"
    using fill_modulePaths_printed [OF items distinct_jo_puts, of "[]"] by (auto simp: set_jo_puts [OF d])
  have "um_find num_eq k m' = um_find num_eq k m" for k
    using m'(2) um_find_mem [OF assms(1)] by (intro option_eqI) (auto simp: to_string_inject)
  then show ?thesis using m'(1) by (auto simp: same_map_def)
qed

section \<open>The round trip\<close>

lemma json_sub_eq:
  "json_sub j key = (case json_find j key of
     Some v \<Rightarrow> Inr v
   | None \<Rightarrow> (case j of J_object _ \<Rightarrow> Inl Undefined_behaviour | _ \<Rightarrow> Inl Json_error))"
  by (simp add: json_sub_def json_find_def split: json.split option.split)

lemmas printed_simps = json_sub_eq json_at_def json_find_assign module_paths_to_json_assign assign_all_other
  json_get_bool_def json_get_string_def

lemma logging_printed:
  "fillLoggingSettings (settings_to_json env s) s0 = Inr (s0\<lparr>set_loggingSettings := set_loggingSettings s\<rparr>)"
  by (simp add: settings_to_json_def logging_to_json_def fillLoggingSettings_def printed_simps
      del: json_assign_member)

lemma port_printed:
  assumes "set_port s < 2 ^ 16" and "cl_count cl ''port'' = 0"
  shows "fillInternalServerSettings cl (settings_to_json env s) s0 = Inr (s0\<lparr>set_port := set_port s\<rparr>)"
  using assms get_port_printed [of "set_port s"]
  by (simp add: settings_to_json_def logging_to_json_def fillInternalServerSettings_def printed_simps
      del: json_assign_member)

lemma module_paths_printed:
  assumes "um_distinct num_eq (set_modulePaths s)" and "um_all (\<lambda>k _. int_range k) (set_modulePaths s)"
    and "set_modulePaths s \<noteq> []" and "set_modulePaths s0 = []"
  shows "\<exists>m'. fillModulePathsSettings (settings_to_json env s) s0 = Inr (s0\<lparr>set_modulePaths := m'\<rparr>) \<and>
    same_map (set_modulePaths s) m'"
proof -
  let ?ps = "map (\<lambda>(k, v). (to_string k, J_string v)) (set_modulePaths s)" and ?j = "settings_to_json env s"
  obtain m' where m': "fill_modulePaths (jo_puts ?ps []) [] = Inr m'" "same_map (set_modulePaths s) m'"
    using module_paths_round_trip [OF assms(1,2)] by blast
  have "json_find ?j ''module-paths'' = Some (J_object (jo_puts ?ps []))"
    using assms(3)
    by (simp add: settings_to_json_def logging_to_json_def json_find_assign module_paths_to_json_assign assign_all_new
        del: json_assign_member)
  moreover have "json_find ?j ''module-binary-path'' = None"
    by (simp add: settings_to_json_def logging_to_json_def printed_simps del: json_assign_member)
  ultimately show ?thesis
    using m' assms(4) by (auto simp: fillModulePathsSettings_def json_sub_eq json_items_def)
qed

lemma external_printed:
  assumes "\<forall>e \<in> set (set_externalConnectionSettingsList s).
      endpoint_ok e \<and> (\<forall>(k, v) \<in> set (es_protocolSettings e). stable_value env v)"
    and "set_externalConnectionSettingsList s0 = []"
  shows "\<exists>es'. fillExternalConnectionSettings env (settings_to_json env s) s0 =
      Inr (s0\<lparr>set_vehicleName := set_vehicleName s, set_company := set_company s,
        set_externalConnectionSettingsList := es'\<rparr>) \<and>
    list_all2 endpoint_same (set_externalConnectionSettingsList s) es'"
proof -
  let ?es = "set_externalConnectionSettingsList s"
  obtain es' where es': "fill_endpoints env (map (endpoint_to_json env) ?es) [] = Inr es'"
    "list_all2 endpoint_same ?es es'"
    using fill_endpoints_printed [OF assms(1), of "[]"] by auto
  have "json_elements (J_array js) = js" for js
    by (simp add: json_elements_def json_items_def)
  then show ?thesis
    using es' assms(2)
    by (intro exI [of _ es']) (simp add: settings_to_json_def fillExternalConnectionSettings_def printed_simps del: json_assign_member)
qed

text \<open>The checks look at a map only through its keys.\<close>

lemma areSettingsCorrect_same:
  assumes "areSettingsCorrect env s" and "settings_same s s'" and "set_moduleBinaryPath s' = []"
  shows "areSettingsCorrect env s'"
proof -
  have same: "um_contains num_eq k (set_modulePaths s') = um_contains num_eq k (set_modulePaths s)" for k
    using assms(2) by (simp add: settings_same_def same_map_def um_contains_def)
  obtain k v m where "set_modulePaths s = (k, v) # m"
    using assms(1) by (cases "set_modulePaths s") (auto simp: areSettingsCorrect_def)
  then have "um_contains num_eq k (set_modulePaths s')" unfolding same by simp
  then have nonempty: "set_modulePaths s' \<noteq> []" by auto
  have "list_all (\<lambda>e. list_all (\<lambda>m. um_contains num_eq m (set_modulePaths s)) (es_modules e)) es'"
    if "list_all2 endpoint_same es es'"
      and "list_all (\<lambda>e. list_all (\<lambda>m. um_contains num_eq m (set_modulePaths s)) (es_modules e)) es" for es es'
    using that by (induction es es' rule: list_all2_induct) (auto simp: endpoint_same_def)
  then show ?thesis
    using assms nonempty by (auto simp: areSettingsCorrect_def settings_same_def same)
qed

text \<open>
  C9: the configuration the gateway prints at start-up is a configuration. If the parser has accepted
  \<open>s\<close>, its printed form, read as a configuration file without a \<open>--port\<close> option, is accepted again and gives
  the same settings: port, logging, names, the path of every module, and the endpoints in order with the
  same protocol, address, modules and value of every protocol setting. The one thing lost is the module binary
  path, which is not printed. The JSON library must read what it printed, and the
  protocol settings must hold no text that JSON would respell.
\<close>

theorem settings_round_trip:
  assumes "parseSettings env argv = Inr (Some s)"
    and "\<forall>e \<in> set (set_externalConnectionSettingsList s). \<forall>(k, v) \<in> set (es_protocolSettings e). stable_value env v"
    and "pe_parse env (serializeToJson env s) = Some (settings_to_json env s)"
    and "pe_options_parse env cmd_options True argv' = Inr cl" and "areCmdArgumentsCorrect cl" and "length argv' \<noteq> 1"
    and "cl_count cl ''help'' = 0" and "cl_count cl ''port'' = 0"
    and "pe_read env (cl_config_path cl) = serializeToJson env s"
  shows "\<exists>s'. parseSettings env argv' = Inr (Some s') \<and> settings_same s s' \<and> set_moduleBinaryPath s' = []"
proof -
  obtain cl0 where s: "fillSettings env cl0 = Inr s" "areSettingsCorrect env s"
    using parseSettings_accepted [OF assms(1)] by blast
  note ok = fillSettings_ok [OF s(1)]
  let ?s1 = "default_settings\<lparr>set_loggingSettings := set_loggingSettings s, set_port := set_port s\<rparr>"
  have "set_modulePaths s \<noteq> []" using s(2) by (simp add: areSettingsCorrect_def)
  then obtain m' where m': "fillModulePathsSettings (settings_to_json env s) ?s1 = Inr (?s1\<lparr>set_modulePaths := m'\<rparr>)"
    "same_map (set_modulePaths s) m'"
    using module_paths_printed [of s ?s1 env] ok by (auto simp: default_settings_def)
  have "\<forall>e \<in> set (set_externalConnectionSettingsList s).
      endpoint_ok e \<and> (\<forall>(k, v) \<in> set (es_protocolSettings e). stable_value env v)"
    using ok assms(2) by (auto simp: list_all_iff)
  from external_printed [OF this, of "?s1\<lparr>set_modulePaths := m'\<rparr>"]
  obtain es' where es': "fillExternalConnectionSettings env (settings_to_json env s) (?s1\<lparr>set_modulePaths := m'\<rparr>) =
      Inr (?s1\<lparr>set_modulePaths := m', set_vehicleName := set_vehicleName s, set_company := set_company s,
        set_externalConnectionSettingsList := es'\<rparr>)"
    "list_all2 endpoint_same (set_externalConnectionSettingsList s) es'"
    by (auto simp: default_settings_def)
  let ?s' = "?s1\<lparr>set_modulePaths := m', set_vehicleName := set_vehicleName s, set_company := set_company s,
        set_externalConnectionSettingsList := es'\<rparr>"
  have fill: "fillSettings env cl = Inr ?s'"
    using assms(3,8,9) ok m'(1) es'(1) by (simp add: fillSettings_def logging_printed port_printed)
  have same: "settings_same s ?s'" "set_moduleBinaryPath ?s' = []"
    using m'(2) es'(2) by (simp_all add: settings_same_def default_settings_def)
  have "parseSettings env argv' = Inr (Some ?s')"
    using assms(4-8) fill areSettingsCorrect_same [OF s(2) same] by (simp add: parseSettings_def parseCmdArguments_def)
  then show ?thesis using same by blast
qed

section \<open>A sample configuration\<close>

definition sample_file :: json where
  "sample_file = J_object
     [(''external-connection'', J_object
        [(''company'', J_string ''bringauto''),
         (''endpoints'', J_array [J_object
           [(''modules'', J_array [J_int 7]), (''mqtt-settings'', J_object [(''ssl'', J_bool True)]),
            (''port'', J_int 1883), (''protocol-type'', J_string ''mqtt''), (''server-ip'', J_string ''host'')]]),
         (''vehicle-name'', J_string ''virtual'')]),
      (''internal-server-settings'', J_object [(''port'', J_int 8888)]),
      (''logging'', J_object
        [(''console'', J_object [(''level'', J_string ''info''), (''use'', J_bool True)]),
         (''file'', J_object [(''level'', J_string ''debug''), (''path'', J_string []), (''use'', J_bool False)])]),
      (''module-paths'', J_object [(''7'', J_string ''a.so'')])]"

definition sample_parsed :: settings where
  "sample_parsed = \<lparr>set_port = 8888, set_company = ''bringauto'', set_vehicleName = ''virtual'',
     set_modulePaths = [(7, ''a.so'')], set_moduleBinaryPath = [],
     set_externalConnectionSettingsList = [\<lparr>es_protocolType = PT_MQTT, es_protocolSettings = [(''ssl'', ''true'')],
       es_serverIp = ''host'', es_port = 1883, es_modules = [7]\<rparr>],
     set_loggingSettings = \<lparr>ls_console = \<lparr>cs_use = True, cs_level = V_Info\<rparr>,
       ls_file = \<lparr>fs_use = False, fs_level = V_Debug, fs_path = []\<rparr>\<rparr>\<rparr>"

definition sample_cmdline :: "string list \<Rightarrow> cmdline" where
  "sample_cmdline argv = \<lparr>cl_count = (\<lambda>param. if param = ''config-path'' then 1 else 0), cl_unmatched = [],
     cl_config_path = last argv, cl_port = 0\<rparr>"

text \<open>
  A file system with the configuration and, as \<open>printed\<close>, what the gateway prints; a JSON library that
  reads these two texts and \<open>true\<close>.
\<close>

definition sample_parser0 :: parser_env where
  "sample_parser0 = \<lparr>pe_options_parse = (\<lambda>_ _ argv. Inr (sample_cmdline argv)), pe_read = id,
     pe_exists = (\<lambda>_. False),
     pe_parse = (\<lambda>text. if text = ''config.json'' then Some sample_file
       else if text = ''true'' then Some (J_bool True) else None),
     pe_dump = (\<lambda>j. if j = J_bool True then ''true'' else []), pe_dump4 = (\<lambda>_. ''printed'')\<rparr>"

definition sample_parser :: parser_env where
  "sample_parser = sample_parser0\<lparr>pe_parse := (\<lambda>text.
     if text = ''printed'' then Some (settings_to_json sample_parser0 sample_parsed)
     else pe_parse sample_parser0 text)\<rparr>"

lemma sample_decimal: "decimal 7 = ''7''"
  by code_simp

lemma sample_names:
  "stringToProtocolType ''mqtt'' = PT_MQTT" "stringToLoggerVerbosity ''info'' = V_Info"
  "stringToLoggerVerbosity ''debug'' = V_Debug"
  by code_simp+

lemma sample_stoi: "stoi ''7'' = Inr 7"
  using stoi_to_string [of 7] by (simp add: to_string_def sample_decimal)

lemma sample_accepted: "parseSettings sample_parser [''gateway'', ''config.json''] = Inr (Some sample_parsed)"
  by (simp add: parseSettings_def parseCmdArguments_def sample_parser_def sample_parser0_def sample_cmdline_def areCmdArgumentsCorrect_def
      fillSettings_def fillLoggingSettings_def fillInternalServerSettings_def fillModulePathsSettings_def
      fillExternalConnectionSettings_def json_sub_eq json_at_def json_find_def json_get_string_def json_get_bool_def
      sample_file_def json_items_def json_elements_def fill_endpoint_def json_get_unsigned_short_def
      json_get_integer_def wrap_into_def json_get_vector_int_def json_get_int_def setting_value_def
      sample_names settings_name_def sample_stoi
      areSettingsCorrect_def is_name_def is_name_char_def is_digit_def sample_parsed_def default_settings_def Let_def)

theorem accepted_settings_well_formed_witness:
  "set_port sample_parsed < 2 ^ 16 \<and> list_all endpoint_ok (set_externalConnectionSettingsList sample_parsed)"
  using accepted_settings_well_formed [OF sample_accepted] by (auto simp: list_all_iff)

theorem settings_round_trip_witness:
  "\<exists>s'. parseSettings sample_parser [''gateway'', ''printed''] = Inr (Some s') \<and> settings_same sample_parsed s'"
proof -
  have "settings_to_json sample_parser sample_parsed = settings_to_json sample_parser0 sample_parsed"
    by (simp add: settings_to_json_def endpoint_to_json_def setting_to_json_def sample_parsed_def sample_parser_def
        sample_parser0_def)
  then have printed: "pe_parse sample_parser (serializeToJson sample_parser sample_parsed) =
      Some (settings_to_json sample_parser sample_parsed)"
    by (simp add: serializeToJson_def sample_parser_def sample_parser0_def)
  have stable: "\<forall>e \<in> set (set_externalConnectionSettingsList sample_parsed).
      \<forall>(k, v) \<in> set (es_protocolSettings e). stable_value sample_parser v"
    by (simp add: sample_parsed_def stable_value_def sample_parser_def sample_parser0_def)
  show ?thesis
    using settings_round_trip [OF sample_accepted stable printed, of "[''gateway'', ''printed'']"
        "sample_cmdline [''gateway'', ''printed'']"]
    by (auto simp: sample_parser_def sample_parser0_def sample_cmdline_def areCmdArgumentsCorrect_def serializeToJson_def)
qed

end
