(* ===== verification/Program_Start.thy ===== *)
theory Program_Start
  imports External_Client_Routing Module_Handler Internal_Server Settings_Parser_Laws
begin

text \<open>
  The program (main.cpp): reading the settings, loading the modules, making the three components, starting them and
  ending them. Waiting for the threads and for the signals is left out. \<open>listens\<close> tells
  that the port could be opened; otherwise the run ends at once.
\<close>

section \<open>The program\<close>

record 'c gateway =
  gs_settings :: settings
  gs_log :: "logger_call list"
  gs_library :: gw_modules
  gs_internalServer :: server
  gs_moduleHandler :: module_handler
  gs_externalClient :: "'c external_client"

text \<open>A \<open>try\<close> block whose handler makes the program return 1; undefined behaviour is no exception.\<close>

definition or_return_1 :: "exn + 'a \<Rightarrow> ('a \<Rightarrow> exn + (nat + 'b)) \<Rightarrow> exn + (nat + 'b)" where
  "or_return_1 m f = (case m of
     Inl Undefined_behaviour \<Rightarrow> Inl Undefined_behaviour
   | Inl _ \<Rightarrow> Inr (Inl 1)
   | Inr x \<Rightarrow> f x)"

text \<open>
  From the start of \<open>main\<close> to the components: \<open>Inl\<close> of the number the program returns, or \<open>Inr\<close> of the
  gateway. \<open>load\<close> loads a library, with the module binary path as its first argument.
\<close>

definition gateway_main ::
  "parser_env \<Rightarrow> (string \<Rightarrow> int \<Rightarrow> string \<Rightarrow> exn + handler) \<Rightarrow> logger_verbosity \<Rightarrow> string \<Rightarrow> string list \<Rightarrow>
   exn + (nat + 'c gateway)" where
  "gateway_main env load verbosity version argv =
     or_return_1 (parseSettings env argv) (\<lambda>parsed.
       case parsed of
         None \<Rightarrow> Inr (Inl 0)
       | Some s \<Rightarrow>
           let calls = initLogger verbosity (set_loggingSettings s) [];
               calls = lw_logInfo verbosity (''Version: '' @ version) calls;
               calls = lw_logInfo verbosity (''Loaded config:'' @ CHR 0x0A # serializeToJson env s) calls
           in or_return_1
                (bindE (ml_loadLibraries (load (set_moduleBinaryPath s)) (set_modulePaths s) ModuleLibrary)
                   (ml_initStatusAggregators (set_externalConnectionSettingsList s)))
                (\<lambda>lib. Inr (Inr \<lparr>gs_settings = s, gs_log = calls, gs_library = lib,
                  gs_internalServer = InternalServer, gs_moduleHandler = ModuleHandler lib,
                  gs_externalClient = ExternalClient lib\<rparr>)))"

text \<open>What the threads do first: the external client makes its connections, the server starts to accept.\<close>

definition gateway_run ::
  "error_codes \<Rightarrow> 'c channel_factory \<Rightarrow> bool \<Rightarrow> 'c gateway \<Rightarrow> exn + 'c gateway" where
  "gateway_run c cf listens gs =
     (let srv = gs_internalServer gs;
          srv = (if listens then srv_run srv else srv\<lparr>srv_stopped := True\<rparr>)
      in bindE (xl_initConnections c (gs_settings gs) cf
                  (set_externalConnectionSettingsList (gs_settings gs)) (gs_externalClient gs))
           (\<lambda>xl. Inr (gs\<lparr>gs_internalServer := srv,
                gs_externalClient := xl\<lparr>xl_stopped := (xl_stopped xl \<or> \<not> listens)\<rparr>\<rparr>)))"

definition gateway_end :: "error_codes \<Rightarrow> 'c gateway \<Rightarrow> exn + 'c gateway" where
  "gateway_end c gs =
     (let gs = gs\<lparr>gs_internalServer := srv_destroy (gs_internalServer gs),
                  gs_moduleHandler := mh_destroy (gs_moduleHandler gs)\<rparr>
      in bindE (xl_destroy (gs_externalClient gs)) (\<lambda>xl.
           Inr (gs\<lparr>gs_externalClient := xl, gs_library := ml_destroy c (xl_library xl)\<rparr>)))"

section \<open>What a start needs and gives\<close>

lemma or_return_1_started:
  assumes "or_return_1 m f = Inr (Inr y)"
  obtains x where "m = Inr x" and "f x = Inr (Inr y)"
  using assms by (auto simp: or_return_1_def split: sum.splits exn.splits)

text \<open>What \<open>main\<close> has done when it gets to the components.\<close>

lemma gateway_main_started:
  assumes "gateway_main env load verbosity version argv = Inr (Inr gs)"
  obtains s lib0 lib where
    "ml_loadLibraries (load (set_moduleBinaryPath s)) (set_modulePaths s) ModuleLibrary = Inr lib0"
    and "ml_initStatusAggregators (set_externalConnectionSettingsList s) lib0 = Inr lib"
    and "gs_settings gs = s" and "gs_library gs = lib" and "gs_moduleHandler gs = ModuleHandler lib"
    and "gs_externalClient gs = ExternalClient lib"
    and "\<forall>e \<in> set (set_externalConnectionSettingsList s). es_protocolType e \<noteq> PT_INVALID \<and>
      (\<forall>m \<in> set (es_modules e). um_contains num_eq m (set_modulePaths s))"
proof -
  obtain s lib0 lib where s: "parseSettings env argv = Inr (Some s)"
    and gs: "ml_loadLibraries (load (set_moduleBinaryPath s)) (set_modulePaths s) ModuleLibrary = Inr lib0"
    "ml_initStatusAggregators (set_externalConnectionSettingsList s) lib0 = Inr lib"
    "gs_settings gs = s" "gs_library gs = lib" "gs_moduleHandler gs = ModuleHandler lib"
    "gs_externalClient gs = ExternalClient lib"
    using assms
    by (auto simp: gateway_main_def Let_def bindE_eq_Inr_iff split: option.splits elim!: or_return_1_started)
  obtain cl where "fillSettings env cl = Inr s" "areSettingsCorrect env s"
    using parseSettings_accepted [OF s] by blast
  with fillSettings_ok have "\<forall>e \<in> set (set_externalConnectionSettingsList s). es_protocolType e \<noteq> PT_INVALID \<and>
      (\<forall>m \<in> set (es_modules e). um_contains num_eq m (set_modulePaths s))"
    by (auto simp: areSettingsCorrect_def list_all_iff endpoint_ok_def)
  then show thesis by (rule that [OF gs])
qed

lemma gateway_main_server:
  "gateway_main env load verbosity version argv = Inr (Inr gs) \<Longrightarrow> gs_internalServer gs = InternalServer"
  by (auto simp: gateway_main_def Let_def split: option.splits elim!: or_return_1_started)

text \<open>Making the connections needs a known protocol, and leaves the handlers as they are if all are loaded.\<close>

lemma xcn_init_handlers:
  assumes "\<forall>m \<in> set ms. um_contains num_eq m handlers"
  shows "fst (xcn_init c ms handlers xcn) = handlers"
  using assms
  by (induction c ms handlers xcn rule: xcn_init.induct) (simp_all add: Let_def um_try_emplace_def)

lemma xl_initConnections_succeeds:
  assumes "\<forall>e \<in> set es. es_protocolType e \<noteq> PT_INVALID \<and>
      (\<forall>m \<in> set (es_modules e). um_contains num_eq m (ml_moduleLibraryHandlers (xl_library xl)))"
  shows "\<exists>xl'. xl_initConnections c gw cf es xl = Inr xl' \<and> xl_library xl' = xl_library xl"
  using assms
proof (induction c gw cf es xl rule: xl_initConnections.induct)
  case (2 c gw cf e rest xl)
  obtain ch where ch: "xl_make_channel cf e = Inr ch"
    using "2.prems" by (cases "es_protocolType e") (auto simp: xl_make_channel_def)
  let ?hs = "ml_moduleLibraryHandlers (xl_library xl)"
  have "fst (xcn_init c (es_modules e) ?hs (ExternalConnection (snd ch))) = ?hs"
    using "2.prems" by (simp add: xcn_init_handlers)
  then obtain xcn where "xcn_init c (es_modules e) ?hs (ExternalConnection (snd ch)) = (?hs, xcn)"
    by (metis prod.collapse)
  then have "xl_library (xl_initConnection c gw ch e xl) = xl_library xl"
    by (simp add: xl_initConnection_def)
  then show ?case using "2.IH" [OF ch] "2.prems" ch by simp
qed simp

text \<open>
  C8: if the program gets past loading its configuration and modules, it starts. No exception ends
  the external client's thread, since every endpoint has a known protocol; no null handler is made, since every module an
  endpoint names has been loaded under its own number; and each such module has a status aggregator and is
  routed to the first endpoint that names it.
\<close>

theorem gateway_starts:
  assumes "gateway_main env load verbosity version argv = Inr (Inr gs)"
  shows "\<exists>gs'. gateway_run c cf listens gs = Inr gs' \<and>
    xl_library (gs_externalClient gs') = gs_library gs \<and>
    map (env_settings \<circ> fst) (xl_externalConnectionsList (gs_externalClient gs')) =
      set_externalConnectionSettingsList (gs_settings gs) \<and>
    (\<forall>e \<in> set (set_externalConnectionSettingsList (gs_settings gs)). \<forall>m \<in> set (es_modules e).
      (\<exists>h. handler_at m (ml_moduleLibraryHandlers (gs_library gs)) = Inr h \<and> lib_getModuleNumber h = m) \<and>
      um_contains num_eq m (mh_statusAggregators (gs_moduleHandler gs)) \<and>
      um_find num_eq m (xl_externalConnectionMap (gs_externalClient gs')) =
        first_serving m (set_externalConnectionSettingsList (gs_settings gs)))"
proof -
  obtain s lib0 lib where load: "ml_loadLibraries (load (set_moduleBinaryPath s)) (set_modulePaths s) ModuleLibrary = Inr lib0"
    and aggs: "ml_initStatusAggregators (set_externalConnectionSettingsList s) lib0 = Inr lib"
    and gs: "gs_settings gs = s" "gs_library gs = lib" "gs_moduleHandler gs = ModuleHandler lib"
      "gs_externalClient gs = ExternalClient lib"
    and es: "\<forall>e \<in> set (set_externalConnectionSettingsList s). es_protocolType e \<noteq> PT_INVALID \<and>
      (\<forall>m \<in> set (es_modules e). um_contains num_eq m (set_modulePaths s))"
    by (rule gateway_main_started [OF assms])
  let ?es = "set_externalConnectionSettingsList s"
  note loaded = ml_loadLibraries_ok [OF load] modules_loaded [OF load, of ?es]
  have lib: "ml_moduleLibraryHandlers lib = ml_moduleLibraryHandlers lib0"
    using aggs by (auto simp: ml_initStatusAggregators_def bindE_eq_Inr_iff)
  have handlers: "um_contains num_eq m (ml_moduleLibraryHandlers lib) \<longleftrightarrow> um_contains num_eq m (set_modulePaths s)"
    for m using loaded(1) lib by (simp add: ModuleLibrary_def)
  obtain xl where xl: "xl_initConnections c s cf ?es (ExternalClient lib) = Inr xl" "xl_library xl = lib"
    using xl_initConnections_succeeds [of ?es "ExternalClient lib" c s cf] es
    by (auto simp: ExternalClient_def handlers)
  have routing: "routing_ok ?es xl"
    using xl_initConnections_routing [OF xl(1), of "[]"] by (simp add: routing_ok_def ExternalClient_def)
  have "(\<exists>h. handler_at m (ml_moduleLibraryHandlers lib) = Inr h \<and> lib_getModuleNumber h = m) \<and>
      um_contains num_eq m (ml_statusAggregators lib)"
    if "e \<in> set ?es" "m \<in> set (es_modules e)" for e m
  proof -
    have m: "um_contains num_eq m (set_modulePaths s)" using es that by blast
    then obtain p where p: "um_find num_eq m (ml_moduleLibraryHandlers lib0) = Some p"
      using handlers [of m] lib by (auto simp: um_contains_def)
    from loaded(2) have "um_all (\<lambda>k p. \<exists>h. p = Some h \<and> lib_getModuleNumber h = k) (ml_moduleLibraryHandlers lib0)"
      by (simp add: handlers_ok_def)
    from um_all_find [OF this p] obtain h where "p = Some h" "lib_getModuleNumber h = m" by blast
    then show ?thesis
      using p lib m loaded(2) aggs that by (auto simp: handler_at_Inr_iff list_ex_iff)
  qed
  then show ?thesis
    using gs xl routing
    by (auto simp: gateway_run_def Let_def routing_ok_def ModuleHandler_def comp_def)
qed

text \<open>The sample configuration, with a module that loads, over dummy channels.\<close>

definition dummy_factory :: "bool channel_factory" where
  "dummy_factory = \<lparr>cf_mqtt = (\<lambda>_. (dummy_channel, False)), cf_quic = (\<lambda>_. (dummy_channel, False)),
     cf_dummy = (\<lambda>_. (dummy_channel, False))\<rparr>"

theorem gateway_starts_witness:
  "\<exists>gs gs'. gateway_main sample_parser (\<lambda>_ _ _. Inr sample_handler) V_Info ''1.0'' [''gateway'', ''config.json''] =
      Inr (Inr gs) \<and> gateway_run sample_codes dummy_factory True gs = Inr gs' \<and>
    um_find num_eq 7 (xl_externalConnectionMap (gs_externalClient gs')) = Some 0"
proof -
  have "\<exists>lib0 lib. ml_loadLibraries (\<lambda>_ _. Inr sample_handler) (set_modulePaths sample_parsed) ModuleLibrary = Inr lib0 \<and>
      ml_initStatusAggregators (set_externalConnectionSettingsList sample_parsed) lib0 = Inr lib"
    by (simp add: sample_parsed_def sample_handler_simps ModuleLibrary_def ml_initStatusAggregators_def deref_def
        sa_get_module_number_def Let_def um_try_emplace_def)
  then obtain gs :: "bool gateway" where gs: "gateway_main sample_parser (\<lambda>_ _ _. Inr sample_handler) V_Info ''1.0''
      [''gateway'', ''config.json''] = Inr (Inr gs)" "gs_settings gs = sample_parsed"
    by (auto simp: gateway_main_def sample_accepted or_return_1_def Let_def)
  from gateway_starts [OF gs(1), of sample_codes dummy_factory True] gs show ?thesis
    by (auto simp: sample_parsed_def)
qed

end
