(* ===== verification/Module_Loading.thy ===== *)
theory Module_Loading
  imports Library_Handler
begin

text \<open>
  Loading a module (ModuleLibrary.cpp, library_loader_production.cpp and the constructors and \<open>loadLibrary\<close> of the two
  handlers): as a shared library, or in the process of a module binary if one is configured. \<open>dlmopen\<close>, the start of a
  process and Aeron are parameters. What is proved is that loading ends, and which handlers it gives.
\<close>

section \<open>Loading\<close>

text \<open>The arguments of \<open>dlmopen\<close> that the loader uses: every module gets a namespace of its own.\<close>

datatype dl_namespace = LM_ID_BASE | LM_ID_NEWLM

datatype dl_mode = RTLD_LAZY | RTLD_NOW

record module_env =
  me_dlmopen :: "dl_namespace \<Rightarrow> string \<Rightarrow> dl_mode \<Rightarrow> shared_object option"
  me_child :: "string \<Rightarrow> string list \<Rightarrow> binary_start"
  me_connect :: "int \<Rightarrow> aeron_client"

definition library_loader_load ::
  "(dl_namespace \<Rightarrow> string \<Rightarrow> dl_mode \<Rightarrow> 'm option) \<Rightarrow> string \<Rightarrow> 'm option" where
  "library_loader_load dlmopen path = dlmopen LM_ID_NEWLM path RTLD_LAZY"

text \<open>The constructor of the handler of a module binary: the client is connected to the channels of the module.\<close>

definition ModuleManagerLibraryHandlerAsync :: "module_env \<Rightarrow> int \<Rightarrow> aeron_client" where
  "ModuleManagerLibraryHandlerAsync env moduleNumber = me_connect env moduleNumber"

definition load_module :: "error_codes \<Rightarrow> module_env \<Rightarrow> string \<Rightarrow> int \<Rightarrow> string \<Rightarrow> exn + handler" where
  "load_module c env moduleBinaryPath key path =
     (if moduleBinaryPath = [] then
        bindE (loc_loadLibrary (library_loader_load (me_dlmopen env) path)) (\<lambda>ml. Inr (local_handler c ml))
      else
        let client = ModuleManagerLibraryHandlerAsync env key
        in bindE (asy_loadLibrary (me_child env) moduleBinaryPath path) (\<lambda>_. Inr (async_handler c client)))"

text \<open>
  The destructors: the shared library is closed if it has been opened, the process is asked to end and waited for if it has
  been started. An exception of the wait is swallowed.
\<close>

datatype 'm os_call = Call_dlclose 'm | Call_kill_SIGTERM | Call_wait

definition loc_destroy :: "'m option \<Rightarrow> 'm os_call list \<times> 'm option" where
  "loc_destroy module = (case module of None \<Rightarrow> ([], None) | Some m \<Rightarrow> ([Call_dlclose m], None))"

definition asy_destroy :: "bool \<Rightarrow> 'm os_call list" where
  "asy_destroy valid = (if \<not> valid then [] else [Call_kill_SIGTERM, Call_wait])"

section \<open>The start of a module binary ends\<close>

text \<open>The clock when the deadline of round \<open>i\<close> is checked.\<close>

fun poll_clock :: "binary_start \<Rightarrow> nat \<Rightarrow> nat" where
  "poll_clock b 0 = bs_delay b 0"
| "poll_clock b (Suc i) = poll_clock b i + module_binary_poll_interval + bs_delay b (Suc i)"

lemma poll_clock_runs: "i * module_binary_poll_interval \<le> poll_clock b i"
  by (induction i) simp_all

text \<open>Round \<open>i\<close> is followed by another one.\<close>

definition poll_goes_on :: "binary_start \<Rightarrow> nat \<Rightarrow> bool" where
  "poll_goes_on b i \<longleftrightarrow> bs_reply b i = None \<and> bs_running b i \<and> poll_clock b i < aeron_client_startup_timeout"

lemma asy_poll_step:
  "asy_poll b i (poll_clock b i) =
     (if bs_reply b i \<noteq> None then Inr () else if poll_goes_on b i then asy_poll b (Suc i) (poll_clock b (Suc i))
      else Inl Module_binary_error)"
  by (subst asy_poll.simps) (simp add: poll_goes_on_def)

lemma asy_poll_rounds:
  "\<forall>j < i. poll_goes_on b j \<Longrightarrow> asy_poll b 0 (poll_clock b 0) = asy_poll b i (poll_clock b i)"
proof (induction i)
  case (Suc i)
  then have "poll_goes_on b i" by simp
  then have "asy_poll b i (poll_clock b i) = asy_poll b (Suc i) (poll_clock b (Suc i))"
    by (subst asy_poll_step) (simp add: poll_goes_on_def)
  with Suc show ?case by simp
qed simp

lemma poll_stops: "\<exists>i \<le> 1000. \<not> poll_goes_on b i"
proof -
  have "\<not> poll_goes_on b 1000"
    using poll_clock_runs [of 1000 b]
    by (simp add: poll_goes_on_def module_binary_poll_interval_def aeron_client_startup_timeout_def)
  then show ?thesis by blast
qed

text \<open>
  C27: the start of a module binary is over after at most 1001 polls, since the clock moves on by at least
  10 ms in every round and the deadline is 10 s. The round it ends in is the first in which the module answers,
  the process no longer runs or the deadline has passed; loading succeeds exactly if the
  module answers in that round, and throws otherwise.
\<close>

theorem module_binary_start_ends:
  assumes "child moduleBinaryPath [''-m'', path] = b" and "bs_started b" and "bs_valid b"
  shows "\<exists>i \<le> 1000. (\<forall>j < i. poll_goes_on b j) \<and> \<not> poll_goes_on b i \<and>
    asy_loadLibrary child moduleBinaryPath path = (if bs_reply b i \<noteq> None then Inr () else Inl Module_binary_error)"
proof -
  obtain i where i: "i \<le> 1000" "\<not> poll_goes_on b i" "\<forall>j < i. poll_goes_on b j"
    using poll_stops [of b] exists_least_iff [of "\<lambda>i. \<not> poll_goes_on b i"] by (metis le_less_trans not_le)
  have "asy_loadLibrary child moduleBinaryPath path = asy_poll b i (poll_clock b i)"
    using asy_poll_rounds [OF i(3)] assms by (simp add: asy_loadLibrary_def Let_def)
  then show ?thesis using i asy_poll_step [of b i] by auto
qed

definition sample_start :: binary_start where
  "sample_start = \<lparr>bs_started = True, bs_valid = True, bs_reply = (\<lambda>i. if i = 2 then Some 7 else None),
     bs_running = (\<lambda>_. True), bs_delay = (\<lambda>_. 1)\<rparr>"

theorem module_binary_start_ends_witness:
  "asy_loadLibrary (\<lambda>_ _. sample_start) ''binary'' ''a.so'' = Inr ()"
proof -
  have run: "poll_goes_on sample_start j \<longleftrightarrow> j \<noteq> 2" if "j \<le> 2" for j
    using that by (auto simp: poll_goes_on_def sample_start_def aeron_client_startup_timeout_def
        module_binary_poll_interval_def numeral_2_eq_2 le_Suc_eq)
  obtain i where "\<forall>j < i. poll_goes_on sample_start j" "\<not> poll_goes_on sample_start i"
    "asy_loadLibrary (\<lambda>_ _. sample_start) ''binary'' ''a.so'' =
      (if bs_reply sample_start i \<noteq> None then Inr () else Inl Module_binary_error)"
    using module_binary_start_ends [of "\<lambda>_ _. sample_start" "''binary''" "''a.so''" sample_start]
    by (auto simp: sample_start_def)
  moreover from this have "i = 2" using run by (metis le_less_linear nat_less_le order_refl)
  ultimately show ?thesis by (simp add: sample_start_def)
qed

section \<open>Loaded modules do not throw\<close>

text \<open>
  The functions of the shared libraries keep to the interface: what answers \<open>OK\<close> has allocated its buffer. Nothing is
  asked of module binaries.
\<close>

definition libraries_ok :: "error_codes \<Rightarrow> module_env \<Rightarrow> bool" where
  "libraries_ok c env \<longleftrightarrow> (\<forall>path ml. loc_loadLibrary (library_loader_load (me_dlmopen env) path) = Inr ml \<longrightarrow>
     allocate_ok c ml \<and> results_allocated c ml)"

lemma load_module_steady:
  assumes "libraries_ok c env" and "load_module c env bin key path = Inr h"
  shows "steady_handler c h"
proof (cases "bin = []")
  case True
  then obtain ml where "loc_loadLibrary (library_loader_load (me_dlmopen env) path) = Inr ml" "h = local_handler c ml"
    using assms(2) by (auto simp: load_module_def bindE_eq_Inr_iff)
  then show ?thesis using assms(1) by (auto simp: libraries_ok_def intro: local_steady_handler)
next
  case False
  then show ?thesis
    using assms(2) asy.steady_handler_axioms by (auto simp: load_module_def Let_def bindE_eq_Inr_iff)
qed

text \<open>A shared library that keeps to the interface, and a module binary, for closed examples.\<close>

definition sample_object :: shared_object where
  "sample_object =
     \<lparr>so_is_device_type_supported = Some (\<lambda>_. 0), so_get_module_number = Some 7,
      so_generate_first_command = Some (\<lambda>_. (0, sample_buffer [0])),
      so_status_data_valid = Some (\<lambda>_ _. 0), so_command_data_valid = Some (\<lambda>_ _. 0),
      so_send_status_condition = Some (\<lambda>_ _ _. 0),
      so_aggregate_status = Some (\<lambda>_ new _. (0, sample_buffer (raw_bytes new))),
      so_generate_command = Some (\<lambda>_ _ _ _. (0, sample_buffer [1])),
      so_aggregate_error = Some (\<lambda>_ new _. (0, sample_buffer (raw_bytes new))),
      so_allocate = Some (\<lambda>_ n. (0, sample_buffer (replicate n 0))), so_deallocate = Some (),
      so_forward_command_on_receive = None\<rparr>"

definition sample_binary :: aeron_client where
  "sample_binary =
     \<lparr>ac_getModuleNumber = Some 7, ac_isDeviceTypeSupported = (\<lambda>_. Some 0),
      ac_sendStatusCondition = (\<lambda>_ _ _. Some 0), ac_generateCommand = (\<lambda>_ _ _ _. None),
      ac_aggregateStatus = (\<lambda>_ new _. Some (0, new)), ac_aggregateError = (\<lambda>_ _ _. None),
      ac_generateFirstCommand = (\<lambda>_. Some (0, sample_buffer [0])), ac_statusDataValid = (\<lambda>_ _. Some 0),
      ac_commandDataValid = (\<lambda>_ _. Some 0)\<rparr>"

definition sample_modules :: module_env where
  "sample_modules = \<lparr>me_dlmopen = (\<lambda>ns _ _. if ns = LM_ID_NEWLM then Some sample_object else None),
     me_child = (\<lambda>_ _. sample_start), me_connect = (\<lambda>_. sample_binary)\<rparr>"

lemma sample_libraries_ok: "libraries_ok sample_codes sample_modules"
  by (auto simp: libraries_ok_def library_loader_load_def sample_modules_def loc_loadLibrary_def sample_object_def
      checkFunction_def allocate_ok_def results_allocated_def allocated_if_OK_def sample_buffer_def)

end
