(* ===== verification/Module_Library_Steady.thy ===== *)
theory Module_Library_Steady
  imports Module_Library Status_Aggregator_Spec
begin

text \<open>
  The loaded modules when their handlers do not throw (\<open>steady_handler\<close>): no operation of a status
  aggregator throws then, but for a command that is asked of a device the aggregator does not know, and the
  invariant \<open>steady_modules\<close> of the aggregators survives them.
\<close>

section \<open>One aggregator\<close>

text \<open>The module is loaded, and calling its handler does not throw.\<close>

definition served :: "error_codes \<Rightarrow> module_handlers \<Rightarrow> int \<Rightarrow> bool" where
  "served c hs m \<longleftrightarrow> (\<exists>h. um_find num_eq m hs = Some (Some h) \<and> steady_handler c h)"

lemma served_handler:
  assumes "served c hs m"
  obtains h where "handler_at m hs = Inr h" and "steady_handler c h"
  using assms by (auto simp: served_def handler_at_Inr_iff)

text \<open>The aggregator of module \<open>m\<close>: in a state its operations lead to, and with devices of the module only.\<close>

definition aggregator_of :: "error_codes \<Rightarrow> int \<Rightarrow> handler \<Rightarrow> status_aggregator \<Rightarrow> bool" where
  "aggregator_of c m h sa \<longleftrightarrow> steady_handler c h \<and> sa_reachable c h sa \<and>
     (\<forall>d. um_contains device_eq d (sa_devices sa) \<longrightarrow> di_module d = m)"

lemma aggregator_of_new: "steady_handler c h \<Longrightarrow> aggregator_of c m h StatusAggregator"
  using sa_reachable.start [of c h] by (simp add: aggregator_of_def StatusAggregator_def)

lemma aggregator_of_step:
  assumes "aggregator_of c m h sa" and "sa_step c h sa (Some d) sa'" and "di_module d = m"
  shows "aggregator_of c m h sa'"
proof -
  have sa: "sa_reachable c h sa" "steady_handler c h" using assms(1) by (simp_all add: aggregator_of_def)
  have "di_module d' = m" if "um_contains device_eq d' (sa_devices sa')" for d'
  proof (cases "device_eq d d'")
    case True
    then show ?thesis using assms(3) device_eq_module by fastforce
  next
    case False
    then show ?thesis
      using that assms(1) sa_step_same_but [OF sa(1) assms(2)]
      by (auto simp: aggregator_of_def sa_same_but_def um_contains_def)
  qed
  then show ?thesis using sa sa_reachable.step [OF sa(1) assms(2)] by (simp add: aggregator_of_def)
qed

lemma aggregator_of_unset:
  "aggregator_of c m h sa \<Longrightarrow> aggregator_of c m h (sa_unsetTimeoutedMessageReady sa)"
  using sa_reachable.step [OF _ sa_step.unset_ready, of c h sa]
  by (simp add: aggregator_of_def sa_unsetTimeoutedMessageReady_def)

lemma aggregator_of_posted:
  assumes "aggregator_of c m h sa" and "d \<in> set (sa_posted sa)"
  shows "aggregator_of c m h (sa_run_posted d sa)"
  using assms sa_reachable.step [OF _ sa_step.run_posted [OF assms(2)], of c h]
  by (simp add: aggregator_of_def sa_run_posted_def map_laws)

lemma aggregator_of_timer:
  assumes "aggregator_of c m h sa"
  shows "aggregator_of c m h (sa_timer_event c h aborted d sa)"
proof (cases "um_contains device_eq d (sa_devices sa)")
  case True
  then have "di_module d = m" using assms by (simp add: aggregator_of_def)
  then show ?thesis by (rule aggregator_of_step [OF assms sa_step.timer])
next
  case False
  then show ?thesis using assms by (simp add: um_contains_def sa_timer_event_def)
qed

lemma aggregator_of_devices:
  assumes "aggregator_of c m h sa" and "d \<in> set (snd (sa_get_unique_devices [] sa))"
  shows "di_module d = m"
proof -
  have "d \<in> set (um_keys (sa_devices sa))"
    using assms(2) by (auto simp: sa_get_unique_devices_def Let_def split: if_splits)
  then have "um_contains device_eq d (sa_devices sa)"
    by (auto simp: dev.contains_keys intro: device_eq_refl)
  then show ?thesis using assms(1) by (simp add: aggregator_of_def)
qed

text \<open>The operations that can throw.\<close>

lemma sa_add_status_returns:
  assumes "codes_ok c" and "aggregator_of c m h sa" and "di_module d = m"
  shows "returns (sa_add_status_to_aggregator c h b d sa) (\<lambda>(rc, sa').
    aggregator_of c m h sa' \<and> (0 \<le> rc \<longrightarrow> um_contains device_eq d (sa_devices sa')))"
proof -
  have h: "steady_handler c h" using assms(2) by (simp add: aggregator_of_def)
  have first: "\<exists>rc cmd. lib_generateFirstCommand h t = Inr (rc, cmd)" for t
    by (rule steady_handler.generateFirstCommand_returns [OF h])
  have agg: "returns (sa_aggregateStatus c h s st t) (\<lambda>_. True)" for s st t
    using steady_handler.aggregateStatus_returns [OF h, of "ds_getStatus s" st t]
    by (auto simp: sa_aggregateStatus_def)
  obtain rc sa' where run: "sa_add_status_to_aggregator c h b d sa = Inr (rc, sa')"
  proof -
    have "returns (sa_add_status_to_aggregator c h b d sa) (\<lambda>_. True)"
      using first [of "di_deviceType d"]
      by (auto simp: sa_add_status_to_aggregator_def Let_def um_contains_def um_at_def sa_aggregateSetStatus_def
          sa_aggregateSetSendStatus_def bindE_assoc split: option.splits intro!: returns_bind [OF agg])
    then show thesis using that by (auto simp: returns_def)
  qed
  have "um_contains device_eq d (sa_devices sa')" if "0 \<le> rc"
    using run
    by (cases rule: sa_add_status_cases)
      (use that codes_okD [OF assms(1)] in \<open>auto simp: um_contains_def map_laws
        sa_forceAggregationOnDeviceUnlocked_def Let_def\<close>)
  then show ?thesis
    using run aggregator_of_step [OF assms(2) sa_step.add_status [OF run] assms(3)] by simp
qed

lemma sa_getCommand_returns:
  assumes "steady_handler c h" and "um_contains device_eq d (sa_devices sa)"
  shows "returns (sa_getCommandUnlocked c h b d out sa) (\<lambda>_. True)"
proof -
  obtain s where s: "um_find device_eq d (sa_devices sa) = Some s"
    using assms(2) by (auto simp: um_contains_def)
  obtain cur s' where s': "ds_consumeCommand s = (cur, s')" by fastforce
  have "\<exists>rc g. lib_generateCommand h b st cmd t = Inr (rc, g)" for st cmd t
    by (rule steady_handler.generateCommand_returns [OF assms(1)])
  then have gen: "returns (lib_generateCommand h b st cmd t) (\<lambda>_. True)" for st cmd t
    by (force simp: returns_def)
  show ?thesis
    by (auto simp: sa_getCommandUnlocked_def Let_def um_at_def s s' split: option.splits
        intro!: returns_bind [OF gen])
qed

lemma sa_get_command_returns:
  assumes "aggregator_of c m h sa" and "di_module d = m" and "um_contains device_eq d (sa_devices sa)"
  shows "returns (sa_get_command c h b d out sa) (\<lambda>(_, _, sa'). aggregator_of c m h sa')"
proof -
  have "steady_handler c h" using assms(1) by (simp add: aggregator_of_def)
  from sa_getCommand_returns [OF this assms(3)]
  obtain rc out' sa' where run: "sa_get_command c h b d out sa = Inr (rc, out', sa')"
    unfolding sa_get_command_def returns_def by fast
  then show ?thesis using aggregator_of_step [OF assms(1) sa_step.get_command [OF run] assms(2)] by simp
qed

lemma sa_get_command_for_forwarding_returns:
  assumes "aggregator_of c m h sa" and "di_module d = m" and "codes_ok c"
  shows "returns (sa_get_command_for_forwarding c h d out sa) (\<lambda>(_, _, sa'). aggregator_of c m h sa')"
proof -
  have h: "steady_handler c h" using assms(1) by (simp add: aggregator_of_def)
  have "returns (sa_get_command_for_forwarding c h d out sa) (\<lambda>_. True)"
    using sa_valid_NOT_OK [OF assms(3), of h d sa] sa_valid_OK [OF assms(3), of h d sa] sa_getCommand_returns [OF h]
    by (auto simp: sa_get_command_for_forwarding_def um_at_def um_contains_def)
  then obtain rc out' sa' where run: "sa_get_command_for_forwarding c h d out sa = Inr (rc, out', sa')"
    by (auto simp: returns_def)
  then show ?thesis using aggregator_of_step [OF assms(1) sa_step.get_forwarded [OF run] assms(2)] by simp
qed

section \<open>All aggregators\<close>

definition steady_modules :: "error_codes \<Rightarrow> module_handlers \<Rightarrow> status_aggregators \<Rightarrow> bool" where
  "steady_modules c hs aggs \<longleftrightarrow> um_all (\<lambda>m (h, sa). served c hs m \<and> aggregator_of c m h sa) aggs"

lemma steady_modules_find:
  assumes "steady_modules c hs aggs" and "um_find num_eq m aggs = Some (h, sa)"
  shows "served c hs m" and "aggregator_of c m h sa"
  using assms by (auto simp: steady_modules_def elim: um_all_find)

lemma steady_modules_modify:
  assumes "steady_modules c hs aggs" and "aggregator_of c m h sa"
  shows "steady_modules c hs (um_modify num_eq m (\<lambda>_. (h, sa)) aggs)"
  using assms unfolding steady_modules_def by (intro um_all_modify) auto

text \<open>After loading steady modules.\<close>

lemma ml_loadLibraries_steady:
  assumes "ml_loadLibraries load libPaths lib = Inr lib'"
    and "um_all (\<lambda>_ p. \<exists>h. p = Some h \<and> steady_handler c h) (ml_moduleLibraryHandlers lib)"
    and "\<And>m path h. load m path = Inr h \<Longrightarrow> steady_handler c h"
  shows "um_all (\<lambda>_ p. \<exists>h. p = Some h \<and> steady_handler c h) (ml_moduleLibraryHandlers lib')"
  using assms
proof (induction load libPaths lib rule: ml_loadLibraries.induct)
  case (2 load key path libPaths lib)
  obtain h where h: "load key path = Inr h" "lib_getModuleNumber h = key"
    "ml_loadLibraries load libPaths (lib\<lparr>ml_moduleLibraryHandlers :=
       um_try_emplace num_eq key (Some h) (ml_moduleLibraryHandlers lib)\<rparr>) = Inr lib'"
    using "2.prems"(1) by (auto simp: bindE_eq_Inr_iff Let_def split: if_splits)
  have "um_all (\<lambda>_ p. \<exists>h. p = Some h \<and> steady_handler c h)
      (um_try_emplace num_eq key (Some h) (ml_moduleLibraryHandlers lib))"
    using "2.prems"(2,3) h(1) by (intro um_all_try_emplace) blast+
  then show ?case
    using "2.IH" [OF h(1) refl _ h(3)] "2.prems"(3) h(2) by simp
qed simp

lemma ml_initStatusAggregators_loop_steady:
  assumes "ml_initStatusAggregators_loop endpoints rest aggs = Inr aggs'" and "steady_modules c hs aggs"
    and "\<forall>(k, p) \<in> set rest. um_find num_eq k hs = Some p \<and>
      (\<exists>h. p = Some h \<and> lib_getModuleNumber h = k \<and> steady_handler c h)"
  shows "steady_modules c hs aggs'"
  using assms
proof (induction endpoints rest aggs rule: ml_initStatusAggregators_loop.induct)
  case (2 endpoints key p rest aggs)
  obtain h where h: "p = Some h" "lib_getModuleNumber h = key" "steady_handler c h" "um_find num_eq key hs = Some p"
    using "2.prems"(3) by auto
  have "steady_modules c hs (um_try_emplace num_eq key (h, StatusAggregator) aggs)"
    using "2.prems"(2) h aggregator_of_new [OF h(3), of key]
    unfolding steady_modules_def by (intro um_all_try_emplace) (auto simp: served_def)
  then show ?case
    using 2 h by (auto simp: deref_def sa_get_module_number_def Let_def split: if_splits)
qed simp

lemma modules_steady:
  assumes "ml_loadLibraries load libPaths ModuleLibrary = Inr lib"
    and "ml_initStatusAggregators endpoints lib = Inr lib'"
    and "\<And>m path h. load m path = Inr h \<Longrightarrow> steady_handler c h"
  shows "steady_modules c (ml_moduleLibraryHandlers lib') (ml_statusAggregators lib')"
    and "um_contains num_eq m libPaths \<Longrightarrow> served c (ml_moduleLibraryHandlers lib') m"
proof -
  note ok = ml_loadLibraries_ok [OF assms(1)]
  have steady: "um_all (\<lambda>_ p. \<exists>h. p = Some h \<and> steady_handler c h) (ml_moduleLibraryHandlers lib)"
    by (rule ml_loadLibraries_steady [OF assms(1) _ assms(3)]) (simp add: ModuleLibrary_def)
  have hs: "handlers_ok (ml_moduleLibraryHandlers lib)" "ml_statusAggregators lib = []"
    using ok by (simp_all add: ModuleLibrary_def)
  obtain aggs where aggs: "ml_initStatusAggregators_loop endpoints (ml_moduleLibraryHandlers lib) [] = Inr aggs"
    "lib' = lib\<lparr>ml_statusAggregators := aggs\<rparr>"
    using assms(2) hs(2) by (auto simp: ml_initStatusAggregators_def bindE_eq_Inr_iff)
  have entries: "\<forall>(k, p) \<in> set (ml_moduleLibraryHandlers lib). um_find num_eq k (ml_moduleLibraryHandlers lib) = Some p \<and>
      (\<exists>h. p = Some h \<and> lib_getModuleNumber h = k \<and> steady_handler c h)"
    using hs(1) steady um_find_distinct [of num_eq "ml_moduleLibraryHandlers lib"]
    by (fastforce simp: handlers_ok_def um_all_def list_all_iff)
  show "steady_modules c (ml_moduleLibraryHandlers lib') (ml_statusAggregators lib')"
    using ml_initStatusAggregators_loop_steady [OF aggs(1) _ entries] aggs(2) by (simp add: steady_modules_def)
  assume "um_contains num_eq m libPaths"
  then have "um_contains num_eq m (ml_moduleLibraryHandlers lib)"
    using ok by (simp add: ModuleLibrary_def)
  then obtain p where p: "um_find num_eq m (ml_moduleLibraryHandlers lib) = Some p" by (auto simp: um_contains_def)
  then have "\<exists>h. p = Some h \<and> steady_handler c h" using steady by (auto elim: um_all_find)
  then show "served c (ml_moduleLibraryHandlers lib') m" using p aggs(2) by (auto simp: served_def)
qed

end
