(* ===== verification/Module_Handler_Steady.thy ===== *)
theory Module_Handler_Steady
  imports Module_Handler_Laws Module_Library_Steady
begin

text \<open>
  With modules whose handlers do not throw, no round of the module handler's two loops throws, whatever
  messages arrive, and the invariant of the aggregators survives.
\<close>

section \<open>Single messages\<close>

definition steady_handler_of ::
  "error_codes \<Rightarrow> module_handlers \<Rightarrow> module_handler \<Rightarrow> bool" where
  "steady_handler_of c hs mh \<longleftrightarrow> mh_moduleLibraryHandlers mh = hs \<and> steady_modules c hs (mh_statusAggregators mh)"

text \<open>The fields the invariant does not look at.\<close>

lemma steady_handler_fields [simp]:
  "steady_handler_of c hs (mh\<lparr>mh_fromInternalQueue := q\<rparr>) = steady_handler_of c hs mh"
  "steady_handler_of c hs (mh\<lparr>mh_commandForwardingQueue := q\<rparr>) = steady_handler_of c hs mh"
  "steady_handler_of c hs (mh\<lparr>mh_toInternalQueue := r\<rparr>) = steady_handler_of c hs mh"
  "steady_handler_of c hs (mh\<lparr>mh_toExternalQueue := q\<rparr>) = steady_handler_of c hs mh"
  "steady_handler_of c hs (mh_to_internal m mh) = steady_handler_of c hs mh"
  "steady_handler_of c hs (mh_to_external m' mh) = steady_handler_of c hs mh"
  by (simp_all add: steady_handler_of_def mh_to_internal_def mh_to_external_def)

lemma steady_handler_find:
  assumes "steady_handler_of c hs mh" and "um_find num_eq m (mh_statusAggregators mh) = Some (h, sa)"
  shows "served c hs m" and "aggregator_of c m h sa"
  using assms steady_modules_find unfolding steady_handler_of_def by blast+

lemma steady_handler_store:
  "steady_handler_of c hs mh \<Longrightarrow> aggregator_of c m h sa \<Longrightarrow> steady_handler_of c hs (mh_store m h sa mh)"
  by (simp add: steady_handler_of_def mh_store_def steady_modules_modify)

lemma contains_store [simp]:
  "um_contains num_eq k (mh_statusAggregators (mh_store m h sa mh)) =
   um_contains num_eq k (mh_statusAggregators mh)"
  by (simp add: mh_store_def)

lemma mh_sendAggregatedStatus_returns:
  assumes "steady_handler_of c hs mh" and "um_contains num_eq (di_module d) (mh_statusAggregators mh)"
  shows "returns (mh_sendAggregatedStatus c d device disc mh) (\<lambda>mh'. steady_handler_of c hs mh' \<and>
    um_contains num_eq (di_module d) (mh_statusAggregators mh'))"
proof -
  obtain h sa where find: "um_find num_eq (di_module d) (mh_statusAggregators mh) = Some (h, sa)"
    using assms(2) by (auto simp: um_contains_def)
  obtain rc b sa' where run: "sa_get_aggregated_status c h empty_buffer d sa = (rc, b, sa')"
    by (metis prod_cases3)
  have "aggregator_of c (di_module d) h sa'"
    by (rule aggregator_of_step [OF steady_handler_find(2) [OF assms(1) find] sa_step.get_aggregated [OF run] refl])
  then show ?thesis
    using assms by (simp add: mh_sendAggregatedStatus_def um_at_def find run steady_handler_store mh_to_external_def)
qed

lemma mh_sendAggregatedStatuses_returns:
  "steady_handler_of c hs mh \<Longrightarrow> um_contains num_eq (di_module d) (mh_statusAggregators mh) \<Longrightarrow>
   returns (mh_sendAggregatedStatuses c d device n mh) (steady_handler_of c hs)"
  by (induction n arbitrary: mh) (auto intro!: returns_bind [OF mh_sendAggregatedStatus_returns])

lemma mh_handleConnect_steady:
  "steady_handler_of c hs mh \<Longrightarrow> steady_handler_of c hs (mh_handleConnect c connect mh)"
  by (auto simp: mh_handleConnect_def mh_sendConnectResponse_def Let_def split: option.splits)

lemma mh_handleDisconnect_returns:
  assumes "steady_handler_of c hs mh"
  shows "returns (mh_handleDisconnect c d mh) (steady_handler_of c hs)"
proof (cases "um_find num_eq (di_module d) (mh_statusAggregators mh)")
  case (Some e)
  obtain h sa where e: "e = (h, sa)" by (cases e)
  obtain n sa1 where force: "sa_force_aggregation_on_device c h d sa = (n, sa1)" by fastforce
  have sa1: "aggregator_of c (di_module d) h sa1"
    by (rule aggregator_of_step [OF steady_handler_find(2) [OF assms Some [unfolded e]]
        sa_step.force_aggregation [OF force] refl])
  let ?mh = "mh_store (di_module d) h sa1 mh"
  have mh: "steady_handler_of c hs ?mh" "um_contains num_eq (di_module d) (mh_statusAggregators ?mh)"
    using steady_handler_store [OF assms sa1] Some by (simp_all add: um_contains_def num.find_modify)
  have rest: "returns (bindE (um_at num_eq (di_module d) (mh_statusAggregators x)) (\<lambda>(h, sa).
      Inr (mh_store (di_module d) h (snd (sa_remove_device c h d sa)) x))) (steady_handler_of c hs)"
    if x: "steady_handler_of c hs x \<and> um_contains num_eq (di_module d) (mh_statusAggregators x)" for x
  proof -
    obtain h' sa' where find: "um_find num_eq (di_module d) (mh_statusAggregators x) = Some (h', sa')"
      using x by (auto simp: um_contains_def)
    have "aggregator_of c (di_module d) h' (snd (sa_remove_device c h' d sa'))"
      by (rule aggregator_of_step [OF steady_handler_find(2) [OF conjunct1 [OF x] find]
          sa_step.remove [OF prod.collapse [symmetric]] refl])
    then show ?thesis using x find by (simp add: um_at_def steady_handler_store)
  qed
  show ?thesis
    using assms mh(1) returns_bind [OF mh_sendAggregatedStatus_returns [OF mh] rest]
    by (simp add: mh_handleDisconnect_def Some e force Let_def)
qed (use assms in \<open>simp add: mh_handleDisconnect_def\<close>)

lemma mh_answerStatus_returns:
  assumes "steady_handler_of c hs mh" and "um_contains num_eq (di_module d) (mh_statusAggregators mh)"
    and "d = device_of_ip (st_device status)" and "aggregator_of c (di_module d) h sa"
    and "um_contains device_eq d (sa_devices sa)"
  shows "returns (mh_answerStatus c status b n h sa mh) (steady_handler_of c hs)"
proof -
  note command = sa_get_command_returns [OF assms(4) refl assms(5), of b empty_buffer]
  show ?thesis
    using assms(1,2)
    by (auto simp: mh_answerStatus_def Let_def assms(3) [symmetric] steady_handler_store
        intro!: returns_bind [OF command] mh_sendAggregatedStatuses_returns)
qed

lemma mh_handleStatus_returns:
  assumes "codes_ok c" and "steady_handler_of c hs mh"
  shows "returns (mh_handleStatus c status mh) (steady_handler_of c hs)"
proof -
  let ?d = "device_of_ip (st_device status)"
  have m: "ip_module (st_device status) = di_module ?d" by simp
  show ?thesis
  proof (cases "um_find num_eq (di_module ?d) (mh_statusAggregators mh)")
    case (Some e)
    obtain h sa where e: "e = (h, sa)" by (cases e)
    note find = steady_handler_find [OF assms(2) Some [unfolded e]]
    obtain hl where hl: "handler_at (di_module ?d) hs = Inr hl" "steady_handler c hl"
      by (rule served_handler [OF find(1)])
    obtain b where b: "status_to_buffer hl status = Inr b"
      using steady_handler.status_to_buffer_returns [OF hl(2)] by blast
    have contains: "um_contains num_eq (di_module ?d) (mh_statusAggregators mh)"
      using Some by (simp add: um_contains_def)
    note answer = mh_answerStatus_returns [OF assms(2) contains refl]
    have mhs: "mh_moduleLibraryHandlers mh = hs" using assms(2) by (simp add: steady_handler_of_def)
    show ?thesis
      using assms(2) Some e hl(1) b
      by (auto simp: mh_handleStatus_def Let_def m mhs simp del: device_of_ip_simps
          intro!: returns_bind [OF sa_add_status_returns [OF assms(1) find(2) refl]] steady_handler_store answer)
  qed (use assms(2) in \<open>simp add: mh_handleStatus_def m del: device_of_ip_simps\<close>)
qed

lemma mh_handleCommandForward_returns:
  assumes "codes_ok c" and "steady_handler_of c hs mh"
  shows "returns (mh_handleCommandForward c d mh) (steady_handler_of c hs)"
proof (cases "um_find num_eq (di_module d) (mh_statusAggregators mh)")
  case (Some e)
  obtain h sa where e: "e = (h, sa)" by (cases e)
  note command = sa_get_command_for_forwarding_returns
    [OF steady_handler_find(2) [OF assms(2) Some [unfolded e]] refl assms(1), of empty_buffer]
  show ?thesis
    using assms(2)
    by (auto simp: mh_handleCommandForward_def Some e Let_def steady_handler_store intro!: returns_bind [OF command])
qed (use assms(2) in \<open>simp add: mh_handleCommandForward_def\<close>)

section \<open>Time-outs and rounds\<close>

lemma mh_drain_steady:
  "aggregator_of c m h sa \<Longrightarrow> di_module d = m \<Longrightarrow> aggregator_of c m h (snd (mh_drain c h d fuel sa))"
proof (induction fuel arbitrary: sa)
  case (Suc fuel)
  obtain rc b sa' where run: "sa_get_aggregated_status c h empty_buffer d sa = (rc, b, sa')"
    by (metis prod_cases3)
  have "aggregator_of c m h sa'"
    by (rule aggregator_of_step [OF Suc.prems(1) sa_step.get_aggregated [OF run] Suc.prems(2)])
  then show ?case using Suc by (simp add: run split_beta)
qed simp

lemma mh_check_devices_steady:
  "aggregator_of c m h sa \<Longrightarrow> \<forall>d \<in> set devices. di_module d = m \<Longrightarrow>
   aggregator_of c m h (snd (snd (mh_check_devices c h devices sa)))"
  by (induction devices arbitrary: sa) (simp_all add: Let_def split_beta mh_drain_steady)

lemma mh_check_aggregators_steady:
  "steady_handler_of c hs mh \<Longrightarrow> steady_handler_of c hs (mh_check_aggregators c keys mh)"
proof (induction keys arbitrary: mh)
  case (Cons key keys)
  show ?case
  proof (cases "um_find num_eq key (mh_statusAggregators mh)")
    case (Some e)
    obtain h sa where e: "e = (h, sa)" by (cases e)
    note agg = steady_handler_find(2) [OF Cons.prems Some [unfolded e]]
    obtain ret devices where devs: "sa_get_unique_devices [] sa = (ret, devices)" by fastforce
    obtain ext int sa' where check: "mh_check_devices c h devices sa = (ext, int, sa')" by (metis prod_cases3)
    have "aggregator_of c key h sa'"
      using mh_check_devices_steady [OF agg, of devices] aggregator_of_devices [OF agg] devs check by simp
    then have "steady_handler_of c hs (mh_store key h (sa_unsetTimeoutedMessageReady sa') mh)"
      by (intro steady_handler_store [OF Cons.prems] aggregator_of_unset)
    then show ?thesis
      using Cons by (simp add: Some e devs check Let_def)
  qed (use Cons in simp)
qed simp

lemma mh_checkTimeoutedMessages_steady:
  "steady_handler_of c hs mh \<Longrightarrow> steady_handler_of c hs (mh_checkTimeoutedMessages c mh)"
  by (simp add: mh_checkTimeoutedMessages_def mh_check_aggregators_steady)

lemma mh_dispatch_returns:
  assumes "codes_ok c" and "steady_handler_of c hs mh"
  shows "returns (mh_dispatch c m mh) (steady_handler_of c hs)"
  using assms by (simp add: mh_dispatch_def mh_handleDisconnect_returns mh_handleStatus_returns mh_handleConnect_steady)

text \<open>What is handled stays on its queue until it is done.\<close>

definition mh_inputs :: "module_handler \<Rightarrow> internal_client_message list \<times> internal_client_message list" where
  "mh_inputs mh = (mh_fromInternalQueue mh, mh_commandForwardingQueue mh)"

lemma mh_inputs_simps [simp]:
  "mh_inputs (mh_store m h sa mh) = mh_inputs mh"
  "mh_inputs (mh_to_internal r mh) = mh_inputs mh"
  "mh_inputs (mh_to_external e mh) = mh_inputs mh"
  "mh_inputs (mh\<lparr>mh_toInternalQueue := rq\<rparr>) = mh_inputs mh"
  "mh_inputs (mh\<lparr>mh_toExternalQueue := q\<rparr>) = mh_inputs mh"
  by (simp_all add: mh_inputs_def mh_store_def mh_to_internal_def mh_to_external_def)

lemma mh_sendAggregatedStatus_inputs:
  "mh_sendAggregatedStatus c d device disc mh = Inr mh' \<Longrightarrow> mh_inputs mh' = mh_inputs mh"
  by (auto simp: mh_sendAggregatedStatus_def bindE_eq_Inr_iff Let_def split_beta)

lemma mh_sendAggregatedStatuses_inputs:
  "mh_sendAggregatedStatuses c d device n mh = Inr mh' \<Longrightarrow> mh_inputs mh' = mh_inputs mh"
  by (induction n arbitrary: mh) (auto simp: bindE_eq_Inr_iff dest!: mh_sendAggregatedStatus_inputs)

lemma mh_dispatch_inputs: "mh_dispatch c m mh = Inr mh' \<Longrightarrow> mh_inputs mh' = mh_inputs mh"
  by (auto simp: mh_dispatch_def mh_handleDisconnect_def mh_handleConnect_def mh_sendConnectResponse_def
      mh_handleStatus_def mh_answerStatus_def Let_def bindE_eq_Inr_iff
      split: if_splits option.splits prod.splits
      dest!: mh_sendAggregatedStatus_inputs mh_sendAggregatedStatuses_inputs)

lemma mh_handleCommandForward_inputs:
  "mh_handleCommandForward c d mh = Inr mh' \<Longrightarrow> mh_inputs mh' = mh_inputs mh"
  by (auto simp: mh_handleCommandForward_def Let_def bindE_eq_Inr_iff split: if_splits option.splits)

lemma mh_check_aggregators_inputs: "mh_inputs (mh_check_aggregators c keys mh) = mh_inputs mh"
proof (induction keys arbitrary: mh)
  case (Cons key keys)
  show ?case
  proof (cases "um_find num_eq key (mh_statusAggregators mh)")
    case (Some e)
    then show ?thesis using Cons by (cases e) (simp add: Let_def split_beta)
  qed (use Cons in simp)
qed simp

text \<open>The rounds.\<close>

lemma mh_handleMessages_round_returns:
  assumes "codes_ok c" and "steady_handler_of c hs mh"
  shows "returns (mh_handleMessages_round c arrived mh) (steady_handler_of c hs)"
proof -
  let ?q = "mh_fromInternalQueue mh @ arrived"
  let ?mh = "mh_checkTimeoutedMessages c (mh\<lparr>mh_fromInternalQueue := ?q\<rparr>)"
  have mh: "steady_handler_of c hs ?mh" using assms(2) by (simp add: mh_checkTimeoutedMessages_steady)
  have q: "mh_fromInternalQueue ?mh = ?q"
    using mh_check_aggregators_inputs [of c _ "mh\<lparr>mh_fromInternalQueue := ?q\<rparr>"]
    by (simp add: mh_checkTimeoutedMessages_def mh_inputs_def)
  have kept: "returns (mh_dispatch c m ?mh) (\<lambda>x. steady_handler_of c hs x \<and> mh_fromInternalQueue x = ?q)" for m
    using mh_dispatch_inputs [of c m ?mh] q
    by (intro returns_conj [OF mh_dispatch_returns [OF assms(1) mh]]) (simp add: mh_inputs_def)
  show ?thesis
  proof (cases "?q = []")
    case False
    then obtain m rest where mq: "?q = m # rest" by (meson neq_Nil_conv)
    show ?thesis
      unfolding mh_handleMessages_round_def waitForValueWithTimeout_def Let_def prod.case
      using mq q by (auto simp: aq_front_def aq_pop_def mq intro!: returns_bind [OF kept [unfolded mq]])
  qed (use mh in \<open>simp add: mh_handleMessages_round_def waitForValueWithTimeout_def Let_def\<close>)
qed

lemma mh_handleCommandForwards_round_returns:
  assumes "codes_ok c" and "steady_handler_of c hs mh"
  shows "returns (mh_handleCommandForwards_round c arrived mh) (steady_handler_of c hs)"
proof -
  let ?q = "mh_commandForwardingQueue mh @ arrived"
  let ?mh = "mh\<lparr>mh_commandForwardingQueue := ?q\<rparr>"
  have mh: "steady_handler_of c hs ?mh" using assms(2) by simp
  have kept: "returns (mh_handleCommandForward c d ?mh)
      (\<lambda>x. steady_handler_of c hs x \<and> mh_commandForwardingQueue x = ?q)" for d
    using mh_handleCommandForward_inputs [of c d ?mh]
    by (intro returns_conj [OF mh_handleCommandForward_returns [OF assms(1) mh]]) (simp add: mh_inputs_def)
  show ?thesis
  proof (cases "?q = []")
    case False
    then obtain m rest where mq: "?q = m # rest" by (meson neq_Nil_conv)
    show ?thesis
      unfolding mh_handleCommandForwards_round_def waitForValueWithTimeout_def Let_def prod.case
      using mq by (auto simp: aq_front_def aq_pop_def mq intro!: returns_bind [OF kept [unfolded mq]])
  qed (use mh in \<open>simp add: mh_handleCommandForwards_round_def waitForValueWithTimeout_def Let_def\<close>)
qed

end
