(* ===== verification/External_Connection_Steady.thy ===== *)
theory External_Connection_Steady
  imports External_Client_Laws Module_Library_Steady
begin

text \<open>
  With modules whose handlers do not throw (\<open>steady_handler\<close>) no operation of an external connection
  throws, whatever the server sends and whatever the channel does: progress and preservation for the
  invariant \<open>steady_connection\<close>, as the laws of the locale \<open>returning_operation\<close>.
\<close>

section \<open>The invariant\<close>

definition steady_aggregator :: "error_codes \<Rightarrow> error_aggregator \<Rightarrow> bool" where
  "steady_aggregator c ea \<longleftrightarrow> (\<exists>h. ea_module ea = Some h \<and> steady_handler c h)"

definition steady_aggregators ::
  "error_codes \<Rightarrow> module_handlers \<Rightarrow> (int \<times> error_aggregator) list \<Rightarrow> bool" where
  "steady_aggregators c hs eas \<longleftrightarrow> um_all (\<lambda>m ea. served c hs m \<and> steady_aggregator c ea) eas"

definition steady_waiting :: "error_codes \<Rightarrow> module_handlers \<Rightarrow> not_acked_status list \<Rightarrow> bool" where
  "steady_waiting c hs ns \<longleftrightarrow> list_all (\<lambda>n. served c hs (ip_module (na_getDevice n))) ns"

definition steady_connection :: "'c connection_env \<Rightarrow> 'c external_connection \<Rightarrow> bool" where
  "steady_connection env xcn \<longleftrightarrow>
     steady_aggregators (env_codes env) (env_handlers env) (xcn_errorAggregators xcn) \<and>
     steady_waiting (env_codes env) (env_handlers env) (sm_notAckedStatuses (xcn_sent xcn))"

lemma steady_connection_fields [simp]:
  "steady_connection env (xcn\<lparr>xcn_state := st\<rparr>) = steady_connection env xcn"
  "steady_connection env (xcn\<lparr>xcn_channel := ch\<rparr>) = steady_connection env xcn"
  "steady_connection env (xcn\<lparr>xcn_clientMessageCounter := n\<rparr>) = steady_connection env xcn"
  "steady_connection env (xcn\<lparr>xcn_serverMessageCounter := n\<rparr>) = steady_connection env xcn"
  "steady_connection env (xcn\<lparr>xcn_sessionId := i\<rparr>) = steady_connection env xcn"
  "steady_connection env (xcn\<lparr>xcn_stopReceiving := b\<rparr>) = steady_connection env xcn"
  "steady_connection env (xcn\<lparr>xcn_listening := b\<rparr>) = steady_connection env xcn"
  "steady_connection env (xcn\<lparr>xcn_commandQueue := cq\<rparr>) = steady_connection env xcn"
  "steady_connection env (xcn\<lparr>xcn_reconnectQueue := rq\<rparr>) = steady_connection env xcn"
  by (simp_all add: steady_connection_def)

lemma steady_waiting_simps [simp]:
  "steady_waiting c hs []"
  "steady_waiting c hs (n # ns) \<longleftrightarrow> served c hs (ip_module (na_getDevice n)) \<and> steady_waiting c hs ns"
  "steady_waiting c hs (ns @ ns') \<longleftrightarrow> steady_waiting c hs ns \<and> steady_waiting c hs ns'"
  "steady_waiting c hs (map na_cancelTimer ns) = steady_waiting c hs ns"
  by (auto simp: steady_waiting_def list_all_iff na_getDevice_def na_cancelTimer_def)

lemma steady_waiting_erase:
  "steady_waiting c hs ns \<Longrightarrow> sm_erase_acked k ns = Some ns' \<Longrightarrow> steady_waiting c hs ns'"
  by (induction k ns arbitrary: ns' rule: sm_erase_acked.induct) (auto split: if_splits)

lemma steady_aggregators_find:
  assumes "steady_aggregators c hs eas" and "um_find num_eq m eas = Some ea"
  shows "served c hs m" and "steady_aggregator c ea"
  using assms by (auto simp: steady_aggregators_def elim: um_all_find)

lemma steady_aggregators_modify:
  "steady_aggregators c hs eas \<Longrightarrow> steady_aggregator c ea \<Longrightarrow>
   steady_aggregators c hs (um_modify num_eq m (\<lambda>_. ea) eas)"
  unfolding steady_aggregators_def by (rule um_all_modify) auto

section \<open>The parts\<close>

lemma ea_add_returns:
  assumes "steady_aggregator c ea"
  shows "returns (ea_add_status_to_error_aggregator c b d ea) (\<lambda>(_, ea'). steady_aggregator c ea')"
proof -
  obtain h where h: "ea_module ea = Some h" "steady_handler c h"
    using assms by (auto simp: steady_aggregator_def)
  then have "\<exists>rc e. lib_aggregateError h err b t = Inr (rc, e)" for err t
    by (simp add: steady_handler.aggregateError_returns)
  then have lib: "returns (lib_aggregateError h err b t) (\<lambda>_. True)" for err t
    by (force simp: returns_def)
  show ?thesis
    using h
    by (auto simp: ea_add_status_to_error_aggregator_def ea_is_device_type_supported_def ea_aggregateError_def
        steady_aggregator_def Let_def intro!: returns_bind [OF lib])
qed

lemma ea_supported_returns:
  "steady_aggregator c ea \<Longrightarrow> returns (ea_is_device_type_supported t ea) (\<lambda>_. True)"
  by (auto simp: steady_aggregator_def ea_is_device_type_supported_def)

lemma xcn_status_buffer_returns:
  assumes "served c hs (ip_module (st_device s))"
  shows "returns (xcn_status_buffer s hs) (\<lambda>_. True)"
proof -
  obtain h where h: "handler_at (ip_module (st_device s)) hs = Inr h" "steady_handler c h"
    by (rule served_handler [OF assms])
  then show ?thesis
    using steady_handler.status_to_buffer_returns [OF h(2), of s] by (auto simp: xcn_status_buffer_def)
qed

lemma xcn_fill_loop_returns:
  assumes "steady_waiting c hs ns" and "steady_aggregators c hs eas"
  shows "returns (xcn_fill_loop c hs ns eas) (steady_aggregators c hs)"
  using assms
proof (induction ns arbitrary: eas)
  case (Cons n ns)
  let ?status = "xs_devicestatus (na_status n)" and ?m = "ip_module (na_getDevice n)"
  have buffer: "returns (xcn_status_buffer ?status hs) (\<lambda>_. True)"
    by (rule xcn_status_buffer_returns [of c]) (use Cons.prems(1) in \<open>simp add: na_getDevice_def\<close>)
  have step: "returns (case um_find num_eq ?m eas of None \<Rightarrow> xcn_fill_loop c hs ns eas
      | Some ea \<Rightarrow> bindE (ea_add_status_to_error_aggregator c b (device_of_ip (na_getDevice n)) ea)
          (\<lambda>(_, ea). xcn_fill_loop c hs ns (um_modify num_eq ?m (\<lambda>_. ea) eas))) (steady_aggregators c hs)" for b
  proof (cases "um_find num_eq ?m eas")
    case (Some ea)
    note add = ea_add_returns [OF steady_aggregators_find(2) [OF Cons.prems(2) Some]]
    show ?thesis
      using Cons by (auto simp: Some intro!: returns_bind [OF add] steady_aggregators_modify)
  qed (use Cons in simp)
  show ?case using returns_bind [OF buffer step] by (simp add: Let_def)
qed simp

section \<open>The operations\<close>

locale returning_operation =
  fixes f :: "'c connection_env \<Rightarrow> 'c external_connection \<Rightarrow> exn + 'c external_connection"
  assumes returns_steady: "steady_connection env xcn \<Longrightarrow> returns (f env xcn) (steady_connection env)"

lemma xcn_fillImpl_returns:
  assumes "steady_connection env xcn"
  shows "returns (xcn_fillErrorAggregatorWithNotAckedStatusesImpl env xcn) (steady_connection env)"
  using assms
  by (auto simp: xcn_fillErrorAggregatorWithNotAckedStatusesImpl_def steady_connection_def sm_clearAll_def
      intro!: returns_bind [OF xcn_fill_loop_returns])

interpretation fill_notAcked: returning_operation xcn_fillErrorAggregatorWithNotAckedStatuses
  by unfold_locales (simp add: xcn_fillErrorAggregatorWithNotAckedStatuses_def xcn_fillImpl_returns)

lemma steady_connection_find:
  assumes "steady_connection env xcn" and "um_find num_eq m (xcn_errorAggregators xcn) = Some ea"
  shows "served (env_codes env) (env_handlers env) m" and "steady_aggregator (env_codes env) ea"
  using assms steady_aggregators_find unfolding steady_connection_def by blast+

lemma steady_connection_store:
  assumes "steady_connection env xcn" and "steady_aggregator (env_codes env) ea"
  shows "steady_connection env (xcn\<lparr>xcn_errorAggregators := um_modify num_eq m (\<lambda>_. ea) (xcn_errorAggregators xcn)\<rparr>)"
  using assms by (simp add: steady_connection_def steady_aggregators_modify)

lemma xcn_fillErrorAggregator_returns:
  assumes "steady_connection env xcn"
  shows "returns (xcn_fillErrorAggregator env status xcn) (steady_connection env)"
proof (cases "um_contains num_eq (ip_module (st_device status)) (xcn_errorAggregators xcn)")
  case True
  let ?m = "ip_module (st_device status)"
  let ?P = "\<lambda>x. steady_connection env x \<and> um_contains num_eq ?m (xcn_errorAggregators x)"
  have fill: "returns (xcn_fillErrorAggregatorWithNotAckedStatusesImpl env xcn) ?P"
    using xcn_fillImpl_modules [of env xcn _ ?m] True
    by (intro returns_conj [OF xcn_fillImpl_returns [OF assms]]) (simp add: xcn_isModuleSupported_def)
  have rest: "returns (bindE (xcn_status_buffer status (env_handlers env)) (\<lambda>statusBuffer.
      bindE (um_at num_eq ?m (xcn_errorAggregators x)) (\<lambda>ea.
      bindE (ea_add_status_to_error_aggregator (env_codes env) statusBuffer (device_of_ip (st_device status)) ea)
        (\<lambda>(_, ea). Inr (x\<lparr>xcn_errorAggregators := um_modify num_eq ?m (\<lambda>_. ea) (xcn_errorAggregators x)\<rparr>)))))
      (steady_connection env)" if P: "?P x" for x
  proof -
    obtain ea where ea: "um_find num_eq ?m (xcn_errorAggregators x) = Some ea"
      using P by (auto simp: um_contains_def)
    note find = steady_connection_find [OF conjunct1 [OF P] ea]
    show ?thesis
      using P ea
      by (auto simp: um_at_def intro!: returns_bind [OF xcn_status_buffer_returns [OF find(1)]]
          returns_bind [OF ea_add_returns [OF find(2)]] steady_connection_store)
  qed
  show ?thesis
    using True returns_bind [OF fill rest] by (simp add: xcn_fillErrorAggregator_def Let_def)
qed (use assms in \<open>simp add: xcn_fillErrorAggregator_def\<close>)

interpretation fill: returning_operation "\<lambda>env. xcn_fillErrorAggregator env status"
  by unfold_locales (rule xcn_fillErrorAggregator_returns)

lemma xcn_deinitializeConnection_returns:
  assumes "steady_connection env xcn"
  shows "returns (xcn_deinitializeConnection env full xcn) (steady_connection env)"
proof (cases full)
  case True
  have "steady_aggregators c hs (map (\<lambda>(k, ea). (k, snd (ea_destroy_error_aggregator c' ea))) eas) =
    steady_aggregators c hs eas" for c c' hs eas
    by (induction eas)
      (auto simp: steady_aggregators_def steady_aggregator_def ea_destroy_error_aggregator_def
        ea_clear_error_aggregator_def)
  then show ?thesis
    using True assms
    by (simp add: xcn_deinitializeConnection_def Let_def steady_connection_def sm_clearAllTimers_def)
next
  case False
  then show ?thesis
    using assms
    by (auto simp: xcn_deinitializeConnection_def Let_def sm_clearAllTimers_def
        intro!: fill_notAcked.returns_steady) (simp add: steady_connection_def)
qed

interpretation deinit: returning_operation "\<lambda>env. xcn_deinitializeConnection env full"
  by unfold_locales (rule xcn_deinitializeConnection_returns)

lemma steady_connection_sent:
  "steady_connection env xcn \<Longrightarrow> steady_waiting (env_codes env) (env_handlers env) (sm_notAckedStatuses sm) \<Longrightarrow>
   steady_connection env (xcn\<lparr>xcn_sent := sm\<rparr>)"
  by (simp add: steady_connection_def)

lemma steady_connection_waiting:
  "steady_connection env xcn \<Longrightarrow> steady_waiting (env_codes env) (env_handlers env) (sm_notAckedStatuses (xcn_sent xcn))"
  by (simp add: steady_connection_def)

lemma xcn_device_state_waiting:
  "sm_notAckedStatuses (snd (xcn_device_state d ds sm)) = sm_notAckedStatuses sm"
  by (cases ds) (auto simp: xcn_device_state_def sm_addDeviceAsConnected_def sm_deleteConnectedDevice_def)

lemma xcn_transmit_returns:
  assumes "steady_connection env xcn" and "served (env_codes env) (env_handlers env) (ip_module (st_device status))"
  shows "returns (xcn_transmit env status ds err xcn) (steady_connection env)"
proof -
  obtain ds' sm where sw: "xcn_device_state (device_of_ip (st_device status)) ds (xcn_sent xcn) = (ds', sm)"
    by fastforce
  have waiting: "sm_notAckedStatuses sm = sm_notAckedStatuses (xcn_sent xcn)"
    using xcn_device_state_waiting [of "device_of_ip (st_device status)" ds "xcn_sent xcn"] sw by simp
  have "steady_connection env (xcn\<lparr>xcn_clientMessageCounter := n, xcn_sent := sm_addNotAckedStatus
      (createExternalClientStatus (xcn_sessionId xcn) ds' n status err) sm\<rparr>)" for n
    using assms waiting
    by (simp add: steady_connection_def sm_addNotAckedStatus_def na_getDevice_def na_startTimer_def
        NotAckedStatus_def createExternalClientStatus_def)
  then show ?thesis
    by (auto simp: xcn_transmit_def sw xcn_getNextStatusCounter_def Let_def xcn_channel_send_eq
        intro!: deinit.returns_steady)
qed

lemma xcn_register_device_returns:
  assumes "served (env_codes env) (env_handlers env) (ip_module (st_device status))"
    and "steady_aggregator (env_codes env) ea"
  shows "returns (xcn_register_device env status ds ea) (\<lambda>(_, ea'). steady_aggregator (env_codes env) ea')"
proof -
  obtain h where h: "handler_at (ip_module (st_device status)) (env_handlers env) = Inr h"
    "steady_handler (env_codes env) h"
    by (rule served_handler [OF assms(1)])
  obtain b where "status_to_buffer h status = Inr b"
    using steady_handler.status_to_buffer_returns [OF h(2)] by blast
  then show ?thesis
    using h(1) assms(2)
    by (auto simp: xcn_register_device_def Let_def intro!: returns_bind [OF ea_add_returns])
qed

lemma xcn_sendStatus_returns:
  assumes "steady_connection env xcn"
  shows "returns (xcn_sendStatus env status ds err xcn) (steady_connection env)"
proof (cases "um_find num_eq (ip_module (st_device status)) (xcn_errorAggregators xcn)")
  case (Some ea)
  note find = steady_connection_find [OF assms Some]
  show ?thesis
    using assms
    by (auto simp: xcn_sendStatus_def Some intro!: returns_bind [OF xcn_register_device_returns [OF find]]
        xcn_transmit_returns steady_connection_store find(1))
qed (use assms in \<open>simp add: xcn_sendStatus_def\<close>)

interpretation send: returning_operation "\<lambda>env. xcn_sendStatus env status ds err"
  by unfold_locales (rule xcn_sendStatus_returns)

lemma xcn_handleCommand_returns:
  assumes "steady_connection env xcn"
  shows "returns (xcn_handleCommand env cmd xcn) (\<lambda>(_, xcn'). steady_connection env xcn')"
proof -
  let ?d = "device_of_ip (cmd_device (xc_devicecommand cmd))"
  show ?thesis
  proof (cases "um_find num_eq (di_module ?d) (xcn_errorAggregators xcn)")
    case (Some ea)
    note supported = ea_supported_returns [OF steady_connection_find(2) [OF assms Some], of "di_deviceType ?d"]
    then obtain rc where "ea_is_device_type_supported (di_deviceType ?d) ea = Inr rc" by (auto simp: returns_def)
    then show ?thesis
      using assms Some by (auto simp: xcn_handleCommand_def Let_def xcn_channel_send_eq)
  qed (use assms in \<open>auto simp: xcn_handleCommand_def Let_def\<close>)
qed

lemma steady_waiting_acknowledge:
  "sm_acknowledgeStatus c r sm = (rc, sm') \<Longrightarrow> steady_waiting c' hs (sm_notAckedStatuses sm) \<Longrightarrow>
   steady_waiting c' hs (sm_notAckedStatuses sm')"
  by (auto simp: sm_acknowledgeStatus_def Let_def split: option.splits if_splits dest: steady_waiting_erase)

lemma xcn_receive_round_returns:
  assumes "steady_connection env xcn"
  shows "returns (xcn_receive_round env xcn) (\<lambda>(_, xcn'). steady_connection env xcn')"
proof -
  have command: "returns (bindE (xcn_handleCommand env cmd x) (\<lambda>(rc, x). if P rc then Inr (False, f x) else Inr (True, x)))
      (\<lambda>(_, xcn'). steady_connection env xcn')"
    if "steady_connection env x" "\<And>x. steady_connection env (f x) = steady_connection env x" for cmd x f and P :: "int \<Rightarrow> bool"
    using that by (auto intro!: returns_bind [OF xcn_handleCommand_returns])
  show ?thesis
    using assms
    by (auto simp: xcn_receive_round_def Let_def xcn_channel_receive_eq split: prod.splits option.splits
        external_server_msg.splits intro!: command steady_connection_sent
        dest: steady_waiting_acknowledge [OF _ steady_connection_waiting])
qed

interpretation receive: returning_operation "\<lambda>env xcn. bindE (xcn_receive_round env xcn) (\<lambda>(_, xcn). Inr xcn)"
  by unfold_locales (auto intro: returns_bind [OF xcn_receive_round_returns])

section \<open>The connect sequence\<close>

lemma xcn_connectMessageHandle_steady:
  assumes "steady_connection env xcn"
  shows "steady_connection env (snd (xcn_connectMessageHandle env pick devices xcn))"
  using assms
  by (auto simp: xcn_connectMessageHandle_def Let_def xcn_channel_send_eq xcn_channel_receive_eq
      xcn_generateSessionId_def split: option.splits external_server_msg.splits)

text \<open>Every device belongs to a module the connection has an error aggregator for.\<close>

definition supports_devices :: "device_identification list \<Rightarrow> 'c external_connection \<Rightarrow> bool" where
  "supports_devices devices xcn \<longleftrightarrow> list_all (\<lambda>d. xcn_isModuleSupported (di_module d) xcn) devices"

lemma xcn_send_last_statuses_returns:
  assumes "steady_connection env xcn" and "supports_devices devices xcn"
  shows "returns (xcn_send_last_statuses env devices xcn) (\<lambda>(_, xcn'). steady_connection env xcn')"
  using assms
proof (induction devices arbitrary: xcn)
  case (Cons d devices)
  have sup: "um_contains num_eq (di_module d) (xcn_errorAggregators xcn)"
    using Cons.prems(2) by (simp add: supports_devices_def xcn_isModuleSupported_def)
  then have same: "xcn\<lparr>xcn_errorAggregators := um_try_emplace num_eq (di_module d) ErrorAggregator
      (xcn_errorAggregators xcn)\<rparr> = xcn" by (simp add: um_try_emplace_def)
  obtain ea where ea: "um_at num_eq (di_module d) (xcn_errorAggregators xcn) = Inr ea"
    using sup by (auto simp: um_contains_def um_at_def)
  have send: "returns (xcn_sendStatus env st CONNECTING err xcn)
      (\<lambda>x. steady_connection env x \<and> supports_devices devices x)" for st err
    using xcn_sendStatus_modules [of env st CONNECTING err xcn] Cons.prems
    by (intro returns_conj [OF send.returns_steady]) (auto simp: supports_devices_def list_all_iff)
  have rest: "returns (bindE (xcn_sendStatus env st CONNECTING err xcn) (xcn_send_last_statuses env devices))
      (\<lambda>(_, xcn'). steady_connection env xcn')" for st err
    by (rule returns_bind [OF send]) (use Cons.IH in blast)
  show ?case
    unfolding xcn_send_last_statuses.simps Let_def same
    using ea rest Cons.prems(1) by (auto split: prod.splits)
qed simp

lemma xcn_receive_responses_steady:
  "steady_connection env xcn \<Longrightarrow> steady_connection env (snd (xcn_receive_responses env n xcn))"
proof (induction n arbitrary: xcn)
  case (Suc n)
  obtain m ch where m: "ch_receiveMessage (env_channel env) (xcn_channel xcn) = (m, ch)" by fastforce
  have "steady_connection env (xcn\<lparr>xcn_channel := ch, xcn_sent :=
      snd (sm_acknowledgeStatus (env_codes env) r (xcn_sent xcn))\<rparr>)" for r
    using Suc.prems steady_waiting_acknowledge [OF surjective_pairing steady_connection_waiting [OF Suc.prems]]
    by (intro steady_connection_sent) simp_all
  then show ?case
    using Suc by (auto simp: Let_def xcn_channel_receive_eq m split: option.splits external_server_msg.splits)
qed simp

lemma xcn_commandMessageHandle_returns:
  "steady_connection env xcn \<Longrightarrow>
   returns (xcn_commandMessageHandle env n xcn) (\<lambda>(_, xcn'). steady_connection env xcn')"
proof (induction n arbitrary: xcn)
  case (Suc n)
  have "returns (bindE (xcn_handleCommand env cmd x) (\<lambda>(rc, x). if rc \<noteq> OK (env_codes env)
      then Inr (NOT_OK (env_codes env), x) else xcn_commandMessageHandle env n x))
      (\<lambda>(_, xcn'). steady_connection env xcn')" if "steady_connection env x" for cmd x
    using Suc.IH by (auto intro!: returns_bind [OF xcn_handleCommand_returns [OF that]])
  then show ?case
    using Suc.prems
    by (auto simp: Let_def xcn_channel_receive_eq split: option.splits external_server_msg.splits)
qed simp

lemma xcn_connect_sequence_returns:
  assumes "steady_connection env xcn" and "supports_devices devices xcn"
  shows "returns (xcn_connect_sequence env pick devices xcn) (\<lambda>(_, xcn'). steady_connection env xcn')"
proof -
  obtain rc x where x: "xcn_connectMessageHandle env pick devices xcn = (rc, x)" by fastforce
  have "steady_connection env x" "supports_devices devices x"
    using xcn_connectMessageHandle_steady [OF assms(1), of pick devices] assms(2) x
      xcn_connectMessageHandle_modules [of _ env pick devices xcn]
    by (simp_all add: supports_devices_def)
  then have status: "returns (xcn_statusMessageHandle env devices x) (\<lambda>(_, x). steady_connection env x)"
    using xcn_receive_responses_steady
    by (auto simp: xcn_statusMessageHandle_def split_beta intro!: returns_bind [OF xcn_send_last_statuses_returns])
  show ?thesis
    using x \<open>steady_connection env x\<close>
    by (auto simp: xcn_connect_sequence_def Let_def intro!: returns_bind [OF status]
        returns_bind [OF xcn_commandMessageHandle_returns])
qed

lemma xcn_initializeConnection_returns:
  assumes "steady_connection env xcn" and "supports_devices devices xcn"
  shows "returns (xcn_initializeConnection env pick devices xcn) (\<lambda>(_, xcn'). steady_connection env xcn')"
proof -
  have cleared: "steady_connection env (x\<lparr>xcn_listening := l, xcn_state := s, xcn_errorAggregators := xcn_clear_error_aggregators c (xcn_errorAggregators x)\<rparr>)"
    if "steady_connection env x" for c x l s
    using that
    by (auto simp: steady_connection_def steady_aggregators_def steady_aggregator_def um_all_def list_all_iff
        xcn_clear_error_aggregators_def ea_clear_error_aggregator_def)
  have sequence: "returns (xcn_connect_sequence env pick devices (x\<lparr>xcn_channel := ch, xcn_state := St_CONNECTING\<rparr>))
      (\<lambda>(_, xcn'). steady_connection env xcn')"
    if "steady_connection env x" "supports_devices devices x" for x ch
    by (rule xcn_connect_sequence_returns)
      (use that in \<open>simp_all add: supports_devices_def xcn_isModuleSupported_def\<close>)
  show ?thesis
    using assms
    by (auto simp: xcn_initializeConnection_def Let_def supports_devices_def xcn_isModuleSupported_def
        split: prod.splits sum.splits intro!: returns_bind [OF sequence] cleared)
qed

section \<open>What happens to a connection from outside\<close>

lemma xcn_responseTimeout_steady:
  assumes "steady_connection env xcn"
  shows "steady_connection env (xcn_responseTimeout i xcn)"
proof -
  have "steady_waiting c hs (sm_notAckedStatuses (snd (sm_timer_expires i sm)))"
    if "steady_waiting c hs (sm_notAckedStatuses sm)" for c hs sm
    using that
    by (auto simp: sm_timer_expires_def na_timeoutHandler_def steady_waiting_def na_getDevice_def list_all_length
        nth_list_update)
  then show ?thesis
    using assms steady_connection_sent [OF assms] steady_connection_waiting [OF assms]
    by (auto simp: xcn_responseTimeout_def Let_def split_beta)
qed

interpretation response_timeout: returning_operation "\<lambda>env xcn. Inr (xcn_responseTimeout i xcn)"
  by unfold_locales (simp add: xcn_responseTimeout_steady)

interpretation channel: returning_operation "\<lambda>env xcn. Inr (xcn\<lparr>xcn_channel := ch\<rparr>)"
  by unfold_locales simp

end
