(* ===== verification/External_Client_Steady.thy ===== *)
theory External_Client_Steady
  imports External_Client_Connect External_Client_Routing External_Connection_Steady
begin

text \<open>
  With modules whose handlers do not throw, no round of the external client's two loops throws, whatever
  the servers, the channels, the timer and the other threads do: progress and preservation for the invariant
  \<open>steady_client\<close>, lifted from the operations of a connection by the locale \<open>steady_operation\<close>.
\<close>

section \<open>The invariant\<close>

definition steady_link :: "error_codes \<Rightarrow> external_connection_settings \<Rightarrow> nat \<Rightarrow> 'c external_client \<Rightarrow> bool" where
  "steady_link c endpoint cid xl \<longleftrightarrow> env_codes (xl_env cid xl) = c \<and>
     steady_connection (xl_env cid xl) (xl_conn cid xl) \<and>
     (\<forall>m \<in> set (es_modules endpoint). xcn_isModuleSupported m (xl_conn cid xl))"

definition steady_client ::
  "error_codes \<Rightarrow> module_handlers \<Rightarrow> external_connection_settings list \<Rightarrow> bool \<Rightarrow> 'c external_client \<Rightarrow> bool" where
  "steady_client c hs endpoints inside xl \<longleftrightarrow>
     map (env_settings \<circ> fst) (xl_externalConnectionsList xl) = endpoints \<and>
     (\<forall>cid < length endpoints. steady_link c (endpoints ! cid) cid xl) \<and>
     (\<forall>m cid. um_find num_eq m (xl_externalConnectionMap xl) = Some cid \<longrightarrow> cid < length endpoints) \<and>
     (\<forall>item \<in> set (xl_reconnectQueue xl) \<union> set (xl_timerHandlers xl). fst item < length endpoints) \<and>
     ml_moduleLibraryHandlers (xl_library xl) = hs \<and> steady_modules c hs (ml_statusAggregators (xl_library xl)) \<and>
     xl_insideConnectSequence xl = inside"

lemma steady_link_fields [simp]:
  "steady_link c e cid (xl\<lparr>xl_toExternalQueue := q\<rparr>) = steady_link c e cid xl"
  "steady_link c e cid (xl\<lparr>xl_fromExternalQueue := cq\<rparr>) = steady_link c e cid xl"
  "steady_link c e cid (xl\<lparr>xl_commandForwardingQueue := q\<rparr>) = steady_link c e cid xl"
  "steady_link c e cid (xl\<lparr>xl_reconnectQueue := rq\<rparr>) = steady_link c e cid xl"
  "steady_link c e cid (xl\<lparr>xl_timerHandlers := ws\<rparr>) = steady_link c e cid xl"
  "steady_link c e cid (xl\<lparr>xl_stopped := b\<rparr>) = steady_link c e cid xl"
  "steady_link c e cid (xl\<lparr>xl_insideConnectSequence := b\<rparr>) = steady_link c e cid xl"
  "steady_link c e cid (xl\<lparr>xl_library := xl_library xl\<lparr>ml_statusAggregators := aggs\<rparr>\<rparr>) = steady_link c e cid xl"
  by (simp_all add: steady_link_def xl_env_def xl_conn_def)

text \<open>The fields the invariant does not look at.\<close>

lemma steady_client_fields [simp]:
  "steady_client c hs es i (xl\<lparr>xl_toExternalQueue := q\<rparr>) = steady_client c hs es i xl"
  "steady_client c hs es i (xl\<lparr>xl_fromExternalQueue := cq\<rparr>) = steady_client c hs es i xl"
  "steady_client c hs es i (xl\<lparr>xl_commandForwardingQueue := q\<rparr>) = steady_client c hs es i xl"
  "steady_client c hs es i (xl\<lparr>xl_stopped := b\<rparr>) = steady_client c hs es i xl"
  by (simp_all add: steady_client_def)

lemma steady_client_inside:
  "steady_client c hs es i xl \<Longrightarrow> steady_client c hs es i' (xl\<lparr>xl_insideConnectSequence := i'\<rparr>)"
  by (simp add: steady_client_def)

lemma steady_client_aggregators:
  "steady_client c hs es i xl \<Longrightarrow> steady_modules c hs aggs \<Longrightarrow>
   steady_client c hs es i (xl\<lparr>xl_library := xl_library xl\<lparr>ml_statusAggregators := aggs\<rparr>\<rparr>)"
  by (simp add: steady_client_def)

lemma steady_client_length: "steady_client c hs es i xl \<Longrightarrow> length (xl_externalConnectionsList xl) = length es"
  unfolding steady_client_def by (metis length_map)

lemma steady_client_link: "steady_client c hs es i xl \<Longrightarrow> cid < length es \<Longrightarrow> steady_link c (es ! cid) cid xl"
  by (simp add: steady_client_def)

lemma steady_client_settings:
  assumes "steady_client c hs es i xl" and "cid < length es"
  shows "env_settings (xl_env cid xl) = es ! cid"
proof -
  have "map (env_settings \<circ> fst) (xl_externalConnectionsList xl) ! cid = es ! cid"
    using assms(1) by (simp add: steady_client_def)
  then show ?thesis using assms(2) steady_client_length [OF assms(1)] by (simp add: xl_env_def)
qed

section \<open>Operations of a connection\<close>

lemma xl_store_steady:
  assumes "steady_client c hs es i xl" and "cid < length es" and "steady_connection (xl_env cid xl) xcn"
    and "\<And>m. xcn_isModuleSupported m (xl_conn cid xl) \<Longrightarrow> xcn_isModuleSupported m xcn"
  shows "steady_client c hs es i (xl_store cid xcn xl)"
proof -
  let ?l = "xl_externalConnectionsList xl"
  have len: "length ?l = length es" by (rule steady_client_length [OF assms(1)])
  have env: "xl_env k (xl_store cid xcn xl) = xl_env k xl" for k
    using len assms(2) by (cases "k = cid") (simp_all add: xl_env_def xl_store_def)
  have conn: "xl_conn k (xl_store cid xcn xl) =
      (if k = cid then xcn\<lparr>xcn_commandQueue := [], xcn_reconnectQueue := []\<rparr> else xl_conn k xl)" for k
    using len assms(2) by (simp add: xl_conn_def xl_store_def)
  have "steady_link c (es ! k) k (xl_store cid xcn xl)" if "k < length es" for k
    using steady_client_link [OF assms(1) that] assms(3,4)
    by (auto simp: steady_link_def env conn xcn_isModuleSupported_def)
  moreover have "map (env_settings \<circ> fst) (xl_externalConnectionsList (xl_store cid xcn xl)) =
      map (env_settings \<circ> fst) ?l"
    using assms(2) len by (simp add: xl_store_def map_update list_update_same_conv)
  ultimately show ?thesis
    using assms(1,2) by (auto simp: steady_client_def xl_store_def)
qed

locale steady_operation = returning_operation f + connection_operation f
  for f :: "'c connection_env \<Rightarrow> 'c external_connection \<Rightarrow> exn + 'c external_connection"
begin

lemma xl_on_returns:
  assumes "steady_client c hs es i xl" and "cid < length es"
  shows "returns (xl_on cid f xl) (steady_client c hs es i)"
proof -
  have "steady_connection (xl_env cid xl) (xl_conn cid xl)"
    using steady_client_link [OF assms] by (simp add: steady_link_def)
  then obtain xcn where xcn: "f (xl_env cid xl) (xl_conn cid xl) = Inr xcn" "steady_connection (xl_env cid xl) xcn"
    using returns_steady by (auto simp: returns_def)
  then show ?thesis
    using xl_store_steady [OF assms xcn(2)] keeps_modules [OF xcn(1)] by (simp add: xl_on_def)
qed

end

interpretation fill: steady_operation "\<lambda>env. xcn_fillErrorAggregator env status" ..
interpretation fill_notAcked: steady_operation xcn_fillErrorAggregatorWithNotAckedStatuses ..
interpretation deinit: steady_operation "\<lambda>env. xcn_deinitializeConnection env full" ..
interpretation send: steady_operation "\<lambda>env. xcn_sendStatus env status ds err" ..
interpretation receive: steady_operation "\<lambda>env xcn. bindE (xcn_receive_round env xcn) (\<lambda>(_, xcn). Inr xcn)" ..

interpretation response_timeout: steady_operation "\<lambda>env xcn. Inr (xcn_responseTimeout i xcn)"
  by unfold_locales (auto simp: xcn_responseTimeout_def xcn_isModuleSupported_def Let_def split_beta)

interpretation channel: steady_operation "\<lambda>env xcn. Inr (xcn\<lparr>xcn_channel := ch\<rparr>)"
  by unfold_locales (auto simp: xcn_isModuleSupported_def)

section \<open>Statuses\<close>

lemma xl_sendStatus_returns:
  fixes xl :: "'c external_client"
  assumes "steady_client c hs es i xl"
    and "\<And>cid x. cid < length es \<Longrightarrow> steady_client c hs es False x \<Longrightarrow> i = False \<Longrightarrow>
      returns (start cid x) (steady_client c hs es False)"
  shows "returns (xl_sendStatus start m xl) (\<lambda>(_, xl'). steady_client c hs es i xl')"
proof (cases "um_find num_eq (message_module m) (xl_externalConnectionMap xl)")
  case (Some cid)
  have cid: "cid < length es" using assms(1) Some by (auto simp: steady_client_def)
  have started: "returns (if xcn_getState (xl_conn cid x) = St_NOT_INITIALIZED then
      if xl_insideConnectSequence x then Inr (True, x) else bindE (start cid x) (\<lambda>xl. Inr (True, xl))
      else Inr (True, x)) (\<lambda>(_, xl'). steady_client c hs es i xl')" if x: "steady_client c hs es i x" for x :: "'c external_client"
  proof (cases i)
    case True
    then have "xl_insideConnectSequence x" using x by (simp add: steady_client_def)
    then show ?thesis using x by simp
  next
    case False
    then show ?thesis using x by (auto intro!: returns_bind [OF assms(2) [OF cid, of x]])
  qed
  show ?thesis
    unfolding xl_sendStatus_def Let_def Some option.case
    using started assms(1) cid
    by (auto intro!: returns_bind [OF fill.xl_on_returns] returns_bind [OF send.xl_on_returns])
qed (use assms(1) in \<open>simp add: xl_sendStatus_def\<close>)

lemma xl_no_start_returns:
  "steady_client c hs es True xl \<Longrightarrow>
   returns (xl_sendStatus xl_no_start m xl) (\<lambda>(_, xl'). steady_client c hs es True xl')"
  by (rule xl_sendStatus_returns) simp_all

lemma xl_feed_returns:
  assumes "steady_client c hs es True xl" and "cid < length es"
  shows "returns (xl_feed cid m xl) (steady_client c hs es True)"
  using assms
  by (auto simp: xl_feed_def intro!: fill.xl_on_returns returns_bind [OF xl_no_start_returns])

section \<open>The connect sequence\<close>

lemma xl_drainQueue_returns:
  "steady_client c hs es True xl \<Longrightarrow> cid < length es \<Longrightarrow>
   returns (xl_drainQueue cid ms xl) (steady_client c hs es True)"
  by (induction ms arbitrary: xl) (auto intro!: returns_bind [OF xl_feed_returns])

lemma xl_forced_message_returns:
  assumes "steady_client c hs es True xl" and "cid < length es"
  shows "returns (xl_forced_message cid m ds xl) (\<lambda>(_, xl'). steady_client c hs es True xl')"
  using assms
  by (auto simp: xl_forced_message_def Let_def intro!: returns_bind [OF fill.xl_on_returns]
      returns_bind [OF xl_no_start_returns])

lemma xl_forcedLoop_returns:
  fixes xl :: "'c external_client"
  assumes "steady_client c hs es True xl" and "cid < length es"
  shows "returns (xl_forcedLoop cid rounds ds xl) (steady_client c hs es True)"
  using assms
proof (induction rounds arbitrary: ds xl)
  case Nil
  then show ?case by (cases ds) simp_all
next
  case (Cons arrived rounds)
  let ?q = "xl_toExternalQueue xl @ arrived"
  show ?case
  proof (cases ds)
    case (Cons d ds')
    have rest: "returns (xl_forcedLoop cid rounds ds x) (steady_client c hs es True)"
      if "steady_client c hs es True x" for ds and x :: "'c external_client" using that Cons.IH Cons.prems(2) by simp
    show ?thesis
      unfolding Cons xl_forcedLoop.simps waitForValueWithTimeout_def Let_def prod.case
      using Cons.prems by (auto intro!: rest returns_bind [OF xl_forced_message_returns])
  qed (use Cons in simp)
qed

lemma xl_drainQueueDuringConnect_returns:
  fixes xl :: "'c external_client"
  assumes "steady_client c hs es True xl" and "cid < length es"
  shows "returns (xl_drainQueueDuringConnect cid rounds xl) (steady_client c hs es True)"
  using assms
proof (induction rounds arbitrary: xl)
  case (Cons arrived rounds)
  have rest: "returns (xl_drainQueueDuringConnect cid rounds x) (steady_client c hs es True)"
    if "steady_client c hs es True x" for x :: "'c external_client" using that Cons.IH Cons.prems(2) by simp
  show ?case
    unfolding xl_drainQueueDuringConnect.simps waitForValueWithTimeout_def Let_def prod.case
    using Cons.prems by (auto intro!: rest returns_bind [OF xl_feed_returns])
qed simp

text \<open>The devices of an endpoint's modules, as the aggregators know them.\<close>

definition devices_of :: "external_connection_settings \<Rightarrow> device_identification list \<Rightarrow> bool" where
  "devices_of endpoint ds \<longleftrightarrow> (\<forall>d \<in> set ds. di_module d \<in> set (es_modules endpoint))"

lemma devices_of_simps [simp]:
  "devices_of e []"
  "devices_of e (d # ds) \<longleftrightarrow> di_module d \<in> set (es_modules e) \<and> devices_of e ds"
  by (simp_all add: devices_of_def)

lemma xl_connectedDevices_of:
  assumes "steady_client c hs es i xl" and "cid < length es"
  shows "devices_of (es ! cid) (xl_connectedDevices cid xl)"
    and "\<forall>d \<in> set (xl_connectedDevices cid xl). um_contains num_eq (di_module d) (ml_statusAggregators (xl_library xl))"
proof -
  let ?aggs = "ml_statusAggregators (xl_library xl)"
  have aggs: "steady_modules c hs ?aggs" using assms(1) by (simp add: steady_client_def)
  have "\<forall>d \<in> set (xcn_getAllConnectedDevices ms ?aggs). di_module d \<in> set ms \<and> um_contains num_eq (di_module d) ?aggs" for ms
  proof (induction ms)
    case (Cons m ms)
    show ?case
    proof (cases "um_find num_eq m ?aggs")
      case (Some e)
      obtain h sa where e: "e = (h, sa)" by (cases e)
      obtain ret devices where devs: "sa_get_unique_devices [] sa = (ret, devices)" by fastforce
      have "\<forall>d \<in> set devices. di_module d = m"
        using aggregator_of_devices [OF steady_modules_find(2) [OF aggs Some [unfolded e]]] devs by simp
      then show ?thesis using Cons Some e devs by (auto simp: um_contains_def)
    qed (use Cons in simp)
  qed simp
  then show "devices_of (es ! cid) (xl_connectedDevices cid xl)"
    and "\<forall>d \<in> set (xl_connectedDevices cid xl). um_contains num_eq (di_module d) ?aggs"
    using steady_client_settings [OF assms] by (simp_all add: xl_connectedDevices_def devices_of_def)
qed

lemma xcn_forceAggregation_returns:
  assumes "steady_modules c hs aggs" and "supports_devices ds xcn"
    and "\<forall>d \<in> set ds. um_contains num_eq (di_module d) aggs"
  shows "returns (xcn_forceAggregationOnAllDevices c ds xcn aggs) (\<lambda>(_, aggs'). steady_modules c hs aggs')"
  using assms
proof (induction ds arbitrary: aggs)
  case (Cons d ds)
  obtain ea where ea: "um_find num_eq (di_module d) (xcn_errorAggregators xcn) = Some ea"
    using Cons.prems(2) by (auto simp: supports_devices_def xcn_isModuleSupported_def um_contains_def)
  obtain h sa where sa: "um_find num_eq (di_module d) aggs = Some (h, sa)"
    using Cons.prems(3) by (auto simp: um_contains_def)
  obtain n sa' where force: "sa_force_aggregation_on_device c h d sa = (n, sa')" by fastforce
  have "aggregator_of c (di_module d) h sa'"
    by (rule aggregator_of_step [OF steady_modules_find(2) [OF Cons.prems(1) sa]
        sa_step.force_aggregation [OF force] refl])
  then have "steady_modules c hs (um_modify num_eq (di_module d) (\<lambda>_. (h, sa')) aggs)"
    by (rule steady_modules_modify [OF Cons.prems(1)])
  moreover have "supports_devices ds xcn" using Cons.prems(2) by (simp add: supports_devices_def)
  ultimately show ?case
    using Cons.prems Cons.IH
    by (auto simp: um_at_def ea sa force intro!: returns_bind [OF Cons.IH])
qed simp

lemma steady_link_supports:
  "steady_client c hs es i xl \<Longrightarrow> cid < length es \<Longrightarrow> devices_of (es ! cid) ds \<Longrightarrow>
   supports_devices ds (xl_conn cid xl)"
  using steady_client_link [of c hs es i xl cid]
  by (auto simp: supports_devices_def devices_of_def list_all_iff steady_link_def)

lemma xl_prepare_returns:
  fixes xl :: "'c external_client"
  assumes "steady_client c hs es False xl" and "cid < length es"
  shows "returns (xl_prepare c sc cid xl) (\<lambda>(ds, xl'). devices_of (es ! cid) ds \<and> steady_client c hs es True xl')"
proof -
  have force: "returns (xl_force c cid (xl_connectedDevices cid x) x) (\<lambda>(_, xl'). steady_client c hs es True xl')"
    if x: "steady_client c hs es True x" for x :: "'c external_client"
  proof -
    have "steady_modules c hs (ml_statusAggregators (xl_library x))" using x by (simp add: steady_client_def)
    note run = xcn_forceAggregation_returns [OF this
      steady_link_supports [OF x assms(2) xl_connectedDevices_of(1) [OF x assms(2)]] xl_connectedDevices_of(2) [OF x assms(2)]]
    show ?thesis
      using steady_client_aggregators [OF x] by (auto simp: xl_force_def intro!: returns_bind [OF run])
  qed
  show ?thesis
    unfolding xl_prepare_def Let_def
    using assms steady_client_inside [OF assms(1), of True] xl_connectedDevices_of(1)
    by (auto intro!: returns_bind [OF xl_drainQueue_returns] returns_bind [OF force]
        returns_bind [OF xl_forcedLoop_returns] returns_bind [OF fill_notAcked.xl_on_returns])
qed

lemma xl_connect_returns:
  fixes xl :: "'c external_client"
  assumes "steady_client c hs es True xl" and "cid < length es" and "devices_of (es ! cid) ds"
  shows "returns (xl_connect sc cid ds xl) (\<lambda>(_, xl'). steady_client c hs es True xl')"
proof -
  have init: "returns (bindE (xcn_initializeConnection (xl_env cid x) (sc_pick sc) ds xcn)
      (\<lambda>(r, xcn). Inr (r, xl_store cid xcn x))) (\<lambda>(_, xl'). steady_client c hs es True xl')"
    if x: "steady_client c hs es True x"
      and xcn: "xcn = xl_conn cid x \<or> xcn = xcn_cancelPendingConnect (xl_env cid x) (xl_conn cid x)"
    for x :: "'c external_client" and xcn
  proof -
    have "steady_connection (xl_env cid x) xcn"
      using steady_client_link [OF x assms(2)] xcn by (auto simp: steady_link_def xcn_cancelPendingConnect_def)
    moreover have "supports_devices ds xcn"
      using steady_link_supports [OF x assms(2,3)] xcn
      by (auto simp: xcn_cancelPendingConnect_def supports_devices_def xcn_isModuleSupported_def)
    ultimately obtain r y where y: "xcn_initializeConnection (xl_env cid x) (sc_pick sc) ds xcn = Inr (r, y)"
      "steady_connection (xl_env cid x) y"
      using xcn_initializeConnection_returns [of "xl_env cid x" xcn ds "sc_pick sc"] by (auto simp: returns_def)
    have "xcn_isModuleSupported m y" if "xcn_isModuleSupported m (xl_conn cid x)" for m
      using xcn_initializeConnection_modules [OF y(1), of m] that xcn
      by (auto simp: xcn_cancelPendingConnect_def xcn_isModuleSupported_def)
    then show ?thesis using xl_store_steady [OF x assms(2) y(2)] y(1) by simp
  qed
  show ?thesis
    unfolding xl_connect_def Let_def
    using assms by (auto intro!: returns_bind [OF xl_drainQueueDuringConnect_returns] init)
qed

lemma steady_client_armTimer:
  "steady_client c hs es i xl \<Longrightarrow> cid < length es \<Longrightarrow> steady_client c hs es i (xl_armTimer cid xl)"
  by (simp add: steady_client_def xl_armTimer_def split_beta ball_Un)

lemma xl_startExternalConnectSequence_returns:
  assumes "steady_client c hs es False xl" and "cid < length es"
  shows "returns (xl_startExternalConnectSequence c sc cid xl) (steady_client c hs es False)"
  unfolding xl_startExternalConnectSequence_def Let_def
  using assms
  by (auto intro!: returns_bind [OF xl_prepare_returns] returns_bind [OF xl_connect_returns]
      steady_client_inside [where i = True] steady_client_armTimer)

section \<open>The rounds\<close>

lemma xl_handleReconnect_returns:
  assumes "steady_client c hs es False xl" and "fst item < length es"
  shows "returns (xl_handleReconnect c sc item xl) (steady_client c hs es False)"
proof -
  obtain cid reconnect where item: "item = (cid, reconnect)" by (cases item)
  have unset: "steady_client c hs es False (xl_store cid (xcn_setNotInitialized (xl_conn cid x)) x)"
    if x: "steady_client c hs es False x" for x :: "'a external_client"
  proof (rule xl_store_steady [OF x])
    show "cid < length es" using assms(2) item by simp
    then show "steady_connection (xl_env cid x) (xcn_setNotInitialized (xl_conn cid x))"
      using steady_client_link [OF x] by (simp add: steady_link_def xcn_setNotInitialized_def)
  qed (simp add: xcn_setNotInitialized_def xcn_isModuleSupported_def)
  show ?thesis
    using assms item
    by (auto simp: xl_handleReconnect_def intro!: returns_bind [OF deinit.xl_on_returns]
        xl_startExternalConnectSequence_returns unset)
qed

lemma steady_client_pop:
  "steady_client c hs es i xl \<Longrightarrow> set q \<subseteq> set (xl_reconnectQueue xl) \<Longrightarrow>
   steady_client c hs es i (xl\<lparr>xl_reconnectQueue := q\<rparr>)"
  by (auto simp: steady_client_def)

lemma xl_handleAggregatedMessages_round_returns:
  assumes "steady_client c hs es False xl"
  shows "returns (xl_handleAggregatedMessages_round c sc1 sc2 arrived xl) (steady_client c hs es False)"
proof -
  have reconnect: "returns (case xl_reconnectQueue xl of [] \<Rightarrow> Inr xl
      | item # _ \<Rightarrow> bindE (xl_handleReconnect c sc1 item xl) (\<lambda>xl.
          bindE (aq_pop (xl_reconnectQueue xl)) (\<lambda>q. Inr (xl\<lparr>xl_reconnectQueue := q\<rparr>))))
      (steady_client c hs es False)"
  proof (cases "xl_reconnectQueue xl")
    case (Cons item rest)
    have "fst item < length es" using assms Cons by (simp add: steady_client_def)
    have kept: "returns (xl_handleReconnect c sc1 item xl)
        (\<lambda>x. steady_client c hs es False x \<and> prefix (item # rest) (xl_reconnectQueue x))"
      using xl_handleReconnect_prefix [of c sc1 item xl] Cons
      by (intro returns_conj [OF xl_handleReconnect_returns [OF assms \<open>fst item < length es\<close>]]) simp
    show ?thesis
      by (auto simp: Cons aq_pop_def prefix_def intro!: returns_bind [OF kept] steady_client_pop)
  qed (use assms in simp)
  show ?thesis
    unfolding xl_handleAggregatedMessages_round_def waitForValueWithTimeout_def Let_def prod.case
    by (rule returns_bind [OF reconnect])
      (auto intro!: returns_bind [OF xl_sendStatus_returns] xl_startExternalConnectSequence_returns)
qed

lemma xl_handleCommand_returns:
  assumes "steady_client c hs es i xl"
  shows "returns (xl_handleCommand c cmd xl) (steady_client c hs es i)"
proof (cases "um_find num_eq (ip_module (cmd_device cmd)) (ml_statusAggregators (xl_library xl))")
  case (Some e)
  obtain h sa where e: "e = (h, sa)" by (cases e)
  have aggs: "steady_modules c hs (ml_statusAggregators (xl_library xl))"
    "ml_moduleLibraryHandlers (xl_library xl) = hs" using assms by (simp_all add: steady_client_def)
  note find = steady_modules_find [OF aggs(1) Some [unfolded e]]
  show ?thesis
  proof (cases "cmd_commanddata cmd = []")
    case False
    obtain hl where hl: "handler_at (ip_module (cmd_device cmd)) hs = Inr hl" "steady_handler c hl"
      by (rule served_handler [OF find(1)])
    obtain b b' where b: "lib_constructBuffer hl (length (cmd_commanddata cmd)) = Inr b"
      "copyCommandToBuffer cmd b = Inr b'"
      using steady_handler.command_to_buffer_returns [OF hl(2) False] by blast
    obtain rc sa' where upd: "sa_update_command c h b' (device_of_ip (cmd_device cmd)) sa = (rc, sa')" by fastforce
    have "aggregator_of c (ip_module (cmd_device cmd)) h sa'"
      by (rule aggregator_of_step [OF find(2) sa_step.update_command [OF upd]]) simp
    then have "steady_client c hs es i (xl\<lparr>xl_library := xl_library xl\<lparr>ml_statusAggregators :=
        um_modify num_eq (ip_module (cmd_device cmd)) (\<lambda>_. (h, sa')) (ml_statusAggregators (xl_library xl))\<rparr>\<rparr>)"
      by (intro steady_client_aggregators [OF assms] steady_modules_modify [OF aggs(1)])
    then show ?thesis
      using False hl(1) b upd by (simp add: xl_handleCommand_def Some e aggs(2) Let_def)
  qed (use assms in \<open>simp add: xl_handleCommand_def Some e Let_def\<close>)
qed (use assms in \<open>simp add: xl_handleCommand_def\<close>)

lemma xl_handleCommand_queue:
  "xl_handleCommand c cmd xl = Inr xl' \<Longrightarrow> xl_fromExternalQueue xl' = xl_fromExternalQueue xl"
  by (erule xl_handleCommand_cases) simp_all

lemma xl_handleCommands_round_returns:
  assumes "steady_client c hs es i xl"
  shows "returns (xl_handleCommands_round c arrived xl) (steady_client c hs es i)"
proof -
  let ?q = "xl_fromExternalQueue xl @ arrived"
  let ?xl = "xl\<lparr>xl_fromExternalQueue := ?q\<rparr>"
  have xl: "steady_client c hs es i ?xl" using assms by simp
  have kept: "returns (xl_handleCommand c cmd ?xl)
      (\<lambda>x. steady_client c hs es i x \<and> xl_fromExternalQueue x = ?q)" for cmd
    using xl_handleCommand_queue [of c cmd ?xl] by (intro returns_conj [OF xl_handleCommand_returns [OF xl]]) simp
  show ?thesis
  proof (cases "?q = []")
    case False
    then obtain cmd rest where q: "?q = cmd # rest" by (meson neq_Nil_conv)
    show ?thesis
      unfolding xl_handleCommands_round_def waitForValueWithTimeout_def Let_def prod.case
      using q by (auto simp: aq_front_def aq_pop_def intro!: returns_bind [OF kept [unfolded q]])
  qed (use xl in \<open>simp add: xl_handleCommands_round_def waitForValueWithTimeout_def Let_def\<close>)
qed

lemma xl_timerHandler_steady:
  assumes "steady_client c hs es i xl"
  shows "steady_client c hs es i (xl_timerHandler k xl)"
proof (cases "k < length (xl_timerHandlers xl)")
  case True
  then have "set (take k (xl_timerHandlers xl) @ drop (Suc k) (xl_timerHandlers xl)) \<subseteq> set (xl_timerHandlers xl)"
    "xl_timerHandlers xl ! k \<in> set (xl_timerHandlers xl)"
    by (auto dest: in_set_takeD in_set_dropD)
  then show ?thesis
    using assms True by (auto simp: steady_client_def xl_timerHandler_def pushAndNotify_def)
qed (use assms in \<open>simp add: xl_timerHandler_def\<close>)

section \<open>Start and end\<close>

lemma xcn_init_steady:
  assumes "\<forall>m \<in> set ms. served c hs m" and "steady_aggregators c hs (xcn_errorAggregators xcn)"
  shows "fst (xcn_init c ms hs xcn) = hs \<and>
    steady_aggregators c hs (xcn_errorAggregators (snd (xcn_init c ms hs xcn))) \<and>
    xcn_sent (snd (xcn_init c ms hs xcn)) = xcn_sent xcn"
  using assms
proof (induction ms arbitrary: xcn)
  case (Cons m ms)
  obtain h where h: "um_find num_eq m hs = Some (Some h)" "steady_handler c h"
    using Cons.prems(1) by (auto simp: served_def)
  let ?ea = "snd (ea_init_error_aggregator c (Some h) ErrorAggregator)"
  have "steady_aggregators c hs (um_put num_eq m ?ea (xcn_errorAggregators xcn))"
    using Cons.prems h(2) unfolding steady_aggregators_def
    by (intro um_all_put) (auto simp: steady_aggregator_def ea_init_error_aggregator_def)
  then show ?case
    using Cons by (simp add: um_try_emplace_def um_contains_def h(1))
qed simp

lemma xl_initConnection_steady:
  assumes "steady_client c hs es False xl" and "\<forall>m \<in> set (es_modules e). served c hs m"
  shows "steady_client c hs (es @ [e]) False (xl_initConnection c gw ch e xl)"
proof -
  have len: "length (xl_externalConnectionsList xl) = length es" by (rule steady_client_length [OF assms(1)])
  have hs: "ml_moduleLibraryHandlers (xl_library xl) = hs" using assms(1) by (simp add: steady_client_def)
  obtain xcn where init: "xcn_init c (es_modules e) hs (ExternalConnection (snd ch)) = (hs, xcn)"
    and xcn: "steady_aggregators c hs (xcn_errorAggregators xcn)" "sm_notAckedStatuses (xcn_sent xcn) = []"
    using xcn_init_steady [OF assms(2), of "ExternalConnection (snd ch)"]
    by (cases "xcn_init c (es_modules e) hs (ExternalConnection (snd ch))")
      (auto simp: ExternalConnection_def steady_aggregators_def SentMessagesHandler_def)
  have supported: "xcn_isModuleSupported m xcn" if "m \<in> set (es_modules e)" for m
    using xcn_init_modules [of m c "es_modules e" hs "ExternalConnection (snd ch)"] init that by simp
  let ?xl = "xl_initConnection c gw ch e xl"
  have new: "steady_link c e (length es) ?xl"
    using xcn supported
    by (simp add: steady_link_def xl_initConnection_def hs init xl_env_def xl_conn_def nth_append len
        steady_connection_def)
  have old: "steady_link c (es ! cid) cid ?xl" if "cid < length es" for cid
    using steady_client_link [OF assms(1) that] that
    by (simp add: steady_link_def xl_initConnection_def hs init xl_env_def xl_conn_def nth_append len)
  have "steady_link c ((es @ [e]) ! cid) cid ?xl" if "cid < length (es @ [e])" for cid
    using that new old by (cases "cid = length es") (simp_all add: nth_append less_Suc_eq)
  then show ?thesis
    using assms(1)
    by (auto simp: steady_client_def xl_initConnection_def hs init len find_fold_emplace less_Suc_eq
        split: option.splits if_splits)
qed

lemma xl_initConnections_steady:
  assumes "xl_initConnections c gw cf es' xl = Inr xl'" and "steady_client c hs es False xl"
    and "\<forall>e \<in> set es'. \<forall>m \<in> set (es_modules e). served c hs m"
  shows "steady_client c hs (es @ es') False xl'"
  using assms
proof (induction c gw cf es' xl arbitrary: es rule: xl_initConnections.induct)
  case (2 c gw cf e rest xl)
  obtain ch where ch: "xl_make_channel cf e = Inr ch"
    "xl_initConnections c gw cf rest (xl_initConnection c gw ch e xl) = Inr xl'"
    using "2.prems"(1) by (auto simp: bindE_eq_Inr_iff)
  have "steady_client c hs (es @ [e]) False (xl_initConnection c gw ch e xl)"
    using "2.prems"(2,3) by (intro xl_initConnection_steady) simp_all
  from "2.IH" [OF ch this] "2.prems"(3) show ?case by simp
qed simp

lemma steady_client_new:
  "steady_modules c (ml_moduleLibraryHandlers lib) (ml_statusAggregators lib) \<Longrightarrow>
   steady_client c (ml_moduleLibraryHandlers lib) [] False (ExternalClient lib)"
  by (simp add: steady_client_def ExternalClient_def)

lemma xl_destroy_returns:
  assumes "steady_client c hs es i xl"
  shows "returns (xl_destroy xl) (steady_client c hs es i)"
proof -
  have "returns (xl_destroy_loop cids x) (steady_client c hs es i)"
    if "steady_client c hs es i x" "\<forall>cid \<in> set cids. cid < length es" for cids and x :: "'a external_client"
    using that by (induction cids arbitrary: x) (auto intro!: returns_bind [OF deinit.xl_on_returns])
  then show ?thesis using assms steady_client_length [OF assms] by (simp add: xl_destroy_def)
qed

end
