(* ===== verification/Gateway_Runs.thy ===== *)
theory Gateway_Runs
  imports Program_Start Module_Loading Module_Handler_Steady External_Client_Steady
begin

text \<open>
  The running gateway: the rounds of its threads in any order, on the queues and the module library they
  share. A round is one step here; what a closure that erases a device does in the middle of one is
  the subject of \<open>removal_overtakes_status\<close>. The internal clients are whatever they send (the messages the internal server pushes are
  arbitrary), the servers whatever the channels deliver. The property proved of all runs is that no
  thread is ended by an exception.
\<close>

section \<open>Runs\<close>

text \<open>
  A round of the module handler or of the external client leaves the shared queues and aggregators as
  it has changed them; \<open>gs_library\<close> is only what \<open>main\<close> loaded.
\<close>

definition share_moduleHandler :: "module_handler \<Rightarrow> 'c gateway \<Rightarrow> 'c gateway" where
  "share_moduleHandler mh gs = gs\<lparr>gs_moduleHandler := mh,
     gs_externalClient := (gs_externalClient gs)
       \<lparr>xl_toExternalQueue := mh_toExternalQueue mh,
        xl_commandForwardingQueue := mh_commandForwardingQueue mh,
        xl_library := (xl_library (gs_externalClient gs))\<lparr>ml_statusAggregators := mh_statusAggregators mh\<rparr>\<rparr>\<rparr>"

definition share_externalClient :: "'c external_client \<Rightarrow> 'c gateway \<Rightarrow> 'c gateway" where
  "share_externalClient xl gs = gs\<lparr>gs_externalClient := xl,
     gs_moduleHandler := (gs_moduleHandler gs)
       \<lparr>mh_toExternalQueue := xl_toExternalQueue xl,
        mh_commandForwardingQueue := xl_commandForwardingQueue xl,
        mh_statusAggregators := ml_statusAggregators (xl_library xl)\<rparr>\<rparr>"

text \<open>What can happen; the numbers are those of a connection, a timer or a module.\<close>

datatype 'c event =
    Handle_messages "internal_client_message list"
  | Handle_forwards
  | Handle_statuses connect_script connect_script
  | Handle_commands
  | Receive nat
  | Channel_changes nat 'c
  | Response_timeout nat nat
  | Reconnect_timer nat
  | Device_timer bool int device_identification
  | Device_erased int device_identification
  | Answers_taken nat
  | Stopped

definition on_aggregator ::
  "(handler \<Rightarrow> status_aggregator \<Rightarrow> status_aggregator) \<Rightarrow> int \<Rightarrow> 'c gateway \<Rightarrow> 'c gateway" where
  "on_aggregator f m gs =
     (case um_find num_eq m (mh_statusAggregators (gs_moduleHandler gs)) of
        None \<Rightarrow> gs
      | Some (h, sa) \<Rightarrow> share_moduleHandler (mh_store m h (f h sa) (gs_moduleHandler gs)) gs)"

definition on_connection ::
  "nat \<Rightarrow> ('c connection_env \<Rightarrow> 'c external_connection \<Rightarrow> exn + 'c external_connection) \<Rightarrow>
   'c gateway \<Rightarrow> exn + 'c gateway" where
  "on_connection cid f gs =
     (if cid < length (xl_externalConnectionsList (gs_externalClient gs))
      then bindE (xl_on cid f (gs_externalClient gs)) (\<lambda>xl. Inr (share_externalClient xl gs))
      else Inr gs)"

fun gateway_step :: "error_codes \<Rightarrow> 'c event \<Rightarrow> 'c gateway \<Rightarrow> exn + 'c gateway" where
  "gateway_step c (Handle_messages arrived) gs =
     bindE (mh_handleMessages_round c arrived (gs_moduleHandler gs)) (\<lambda>mh. Inr (share_moduleHandler mh gs))"
| "gateway_step c Handle_forwards gs =
     bindE (mh_handleCommandForwards_round c [] (gs_moduleHandler gs)) (\<lambda>mh. Inr (share_moduleHandler mh gs))"
| "gateway_step c (Handle_statuses sc1 sc2) gs =
     bindE (xl_handleAggregatedMessages_round c sc1 sc2 [] (gs_externalClient gs))
       (\<lambda>xl. Inr (share_externalClient xl gs))"
| "gateway_step c Handle_commands gs =
     bindE (xl_handleCommands_round c [] (gs_externalClient gs)) (\<lambda>xl. Inr (share_externalClient xl gs))"
| "gateway_step c (Receive cid) gs =
     on_connection cid (\<lambda>env xcn. bindE (xcn_receive_round env xcn) (\<lambda>(_, xcn). Inr xcn)) gs"
| "gateway_step c (Channel_changes cid ch) gs = on_connection cid (\<lambda>_ xcn. Inr (xcn\<lparr>xcn_channel := ch\<rparr>)) gs"
| "gateway_step c (Response_timeout cid i) gs = on_connection cid (\<lambda>_ xcn. Inr (xcn_responseTimeout i xcn)) gs"
| "gateway_step c (Reconnect_timer i) gs =
     Inr (share_externalClient (xl_timerHandler i (gs_externalClient gs)) gs)"
| "gateway_step c (Device_timer aborted m d) gs =
     Inr (on_aggregator (\<lambda>h. sa_timer_event c h aborted d) m gs)"
| "gateway_step c (Device_erased m d) gs =
     Inr (on_aggregator (\<lambda>_ sa. if d \<in> set (sa_posted sa) then sa_run_posted d sa else sa) m gs)"
| "gateway_step c (Answers_taken n) gs =
     Inr (gs\<lparr>gs_moduleHandler := (gs_moduleHandler gs)
       \<lparr>mh_toInternalQueue := drop n (mh_toInternalQueue (gs_moduleHandler gs))\<rparr>\<rparr>)"
| "gateway_step c Stopped gs =
     Inr (gs\<lparr>gs_externalClient := (gs_externalClient gs)\<lparr>xl_stopped := True\<rparr>\<rparr>)"

fun gateway_steps :: "error_codes \<Rightarrow> 'c event list \<Rightarrow> 'c gateway \<Rightarrow> exn + 'c gateway" where
  "gateway_steps c [] gs = Inr gs"
| "gateway_steps c (e # es) gs = bindE (gateway_step c e gs) (gateway_steps c es)"

section \<open>No thread is ended by an exception\<close>

definition steady_gateway ::
  "error_codes \<Rightarrow> module_handlers \<Rightarrow> external_connection_settings list \<Rightarrow> 'c gateway \<Rightarrow> bool" where
  "steady_gateway c hs es gs \<longleftrightarrow> steady_handler_of c hs (gs_moduleHandler gs) \<and>
     steady_client c hs es False (gs_externalClient gs)"

lemma share_moduleHandler_steady:
  assumes "steady_gateway c hs es gs" and "steady_handler_of c hs mh"
  shows "steady_gateway c hs es (share_moduleHandler mh gs)"
proof -
  let ?xl = "(gs_externalClient gs)\<lparr>xl_toExternalQueue := mh_toExternalQueue mh,
    xl_commandForwardingQueue := mh_commandForwardingQueue mh\<rparr>"
  have "steady_client c hs es False ?xl" using assms(1) by (simp add: steady_gateway_def)
  from steady_client_aggregators [OF this, of "mh_statusAggregators mh"] assms(2) show ?thesis
    by (simp add: steady_gateway_def share_moduleHandler_def steady_handler_of_def)
qed

lemma share_externalClient_steady:
  assumes "steady_gateway c hs es gs" and "steady_client c hs es False xl"
  shows "steady_gateway c hs es (share_externalClient xl gs)"
  using assms by (auto simp: steady_gateway_def share_externalClient_def steady_handler_of_def steady_client_def)

lemma on_aggregator_steady:
  assumes "steady_gateway c hs es gs" and "\<And>h sa. aggregator_of c m h sa \<Longrightarrow> aggregator_of c m h (f h sa)"
  shows "steady_gateway c hs es (on_aggregator f m gs)"
proof (cases "um_find num_eq m (mh_statusAggregators (gs_moduleHandler gs))")
  case (Some e)
  obtain h sa where e: "e = (h, sa)" by (cases e)
  have mh: "steady_handler_of c hs (gs_moduleHandler gs)" using assms(1) by (simp add: steady_gateway_def)
  from share_moduleHandler_steady [OF assms(1) steady_handler_store [OF mh assms(2)]]
    steady_handler_find(2) [OF mh Some [unfolded e]]
  show ?thesis by (simp add: on_aggregator_def Some e)
qed (use assms(1) in \<open>simp add: on_aggregator_def\<close>)

lemma on_connection_returns:
  assumes "steady_operation f" and "steady_gateway c hs es gs"
  shows "returns (on_connection cid f gs) (steady_gateway c hs es)"
proof -
  have xl: "steady_client c hs es False (gs_externalClient gs)" using assms(2) by (simp add: steady_gateway_def)
  show ?thesis
    using assms(2) steady_client_length [OF xl]
    by (auto simp: on_connection_def intro!: returns_bind [OF steady_operation.xl_on_returns [OF assms(1) xl]]
        share_externalClient_steady)
qed

lemma gateway_step_returns:
  assumes "codes_ok c" and "steady_gateway c hs es gs"
  shows "returns (gateway_step c e gs) (steady_gateway c hs es)"
proof -
  have mh: "steady_handler_of c hs (gs_moduleHandler gs)"
    and xl: "steady_client c hs es False (gs_externalClient gs)"
    using assms(2) by (simp_all add: steady_gateway_def)
  note mh_shared = share_moduleHandler_steady [OF assms(2)] and xl_shared = share_externalClient_steady [OF assms(2)]
  show ?thesis
  proof (cases e)
    case (Handle_messages arrived)
    then show ?thesis
      by (auto intro!: returns_bind [OF mh_handleMessages_round_returns [OF assms(1) mh]] mh_shared)
  next
    case Handle_forwards
    then show ?thesis
      by (auto intro!: returns_bind [OF mh_handleCommandForwards_round_returns [OF assms(1) mh]] mh_shared)
  next
    case (Handle_statuses sc1 sc2)
    then show ?thesis
      by (auto intro!: returns_bind [OF xl_handleAggregatedMessages_round_returns [OF xl]] xl_shared)
  next
    case Handle_commands
    then show ?thesis
      by (auto intro!: returns_bind [OF xl_handleCommands_round_returns [OF xl]] xl_shared)
  next
    case (Receive cid)
    then show ?thesis using on_connection_returns [OF receive.steady_operation_axioms assms(2)] by simp
  next
    case (Channel_changes cid ch)
    then show ?thesis using on_connection_returns [OF channel.steady_operation_axioms assms(2)] by simp
  next
    case (Response_timeout cid i)
    then show ?thesis using on_connection_returns [OF response_timeout.steady_operation_axioms assms(2)] by simp
  next
    case (Reconnect_timer i)
    then show ?thesis using xl_shared [OF xl_timerHandler_steady [OF xl]] by simp
  next
    case (Device_timer aborted m d)
    then show ?thesis using on_aggregator_steady [OF assms(2) aggregator_of_timer] by simp
  next
    case (Device_erased m d)
    then show ?thesis
      using on_aggregator_steady [OF assms(2), of m "\<lambda>_ sa. if d \<in> set (sa_posted sa) then sa_run_posted d sa else sa"]
        aggregator_of_posted by auto
  qed (use assms(2) in \<open>simp_all add: steady_gateway_def\<close>)
qed

lemma gateway_steps_return:
  "codes_ok c \<Longrightarrow> steady_gateway c hs es gs \<Longrightarrow> returns (gateway_steps c events gs) (steady_gateway c hs es)"
  by (induction events arbitrary: gs) (auto intro!: returns_bind [OF gateway_step_returns])

lemma started_gateway_steady:
  assumes "gateway_main env (load_module c modules) verbosity version argv = Inr (Inr gs)"
    and "gateway_run c cf listens gs = Inr gs'" and "libraries_ok c modules"
  shows "steady_gateway c (ml_moduleLibraryHandlers (gs_library gs))
    (set_externalConnectionSettingsList (gs_settings gs)) gs'"
proof -
  obtain s lib0 lib where load: "ml_loadLibraries (load_module c modules (set_moduleBinaryPath s)) (set_modulePaths s) ModuleLibrary = Inr lib0"
    and aggs: "ml_initStatusAggregators (set_externalConnectionSettingsList s) lib0 = Inr lib"
    and gs: "gs_settings gs = s" "gs_library gs = lib" "gs_moduleHandler gs = ModuleHandler lib"
      "gs_externalClient gs = ExternalClient lib"
    and es: "\<forall>e \<in> set (set_externalConnectionSettingsList s). es_protocolType e \<noteq> PT_INVALID \<and>
      (\<forall>m \<in> set (es_modules e). um_contains num_eq m (set_modulePaths s))"
    by (rule gateway_main_started [OF assms(1)])
  let ?hs = "ml_moduleLibraryHandlers lib"
  note steady = modules_steady [OF load aggs load_module_steady [OF assms(3)]]
  have served: "\<forall>e \<in> set (set_externalConnectionSettingsList s). \<forall>m \<in> set (es_modules e). served c ?hs m"
    using es steady(2) by simp
  obtain xl stopped where xl: "xl_initConnections c s cf (set_externalConnectionSettingsList s) (ExternalClient lib) = Inr xl"
    and gs': "gs_moduleHandler gs' = ModuleHandler lib" "gs_externalClient gs' = xl\<lparr>xl_stopped := stopped\<rparr>"
    using assms(2) gs by (auto simp: gateway_run_def Let_def bindE_eq_Inr_iff)
  have "steady_client c ?hs ([] @ set_externalConnectionSettingsList s) False xl"
    by (rule xl_initConnections_steady [OF xl steady_client_new [OF steady(1)] served])
  then show ?thesis
    using steady(1) by (simp add: steady_gateway_def gs gs' steady_handler_of_def ModuleHandler_def)
qed

lemma gateway_steady_aggregators:
  assumes "steady_gateway c hs es gs" and "um_find num_eq m (mh_statusAggregators (gs_moduleHandler gs)) = Some (h, sa)"
  shows "sa_reachable c h sa"
  using assms steady_handler_find(2) by (fastforce simp: steady_gateway_def aggregator_of_def)

lemma gateway_steady_end:
  assumes "steady_gateway c hs es gs"
  shows "\<exists>gs'. gateway_end c gs = Inr gs'"
proof -
  have "returns (xl_destroy (gs_externalClient gs)) (steady_client c hs es False)"
    using assms by (intro xl_destroy_returns) (simp add: steady_gateway_def)
  then show ?thesis by (auto simp: gateway_end_def Let_def returns_def)
qed

text \<open>
  The module handler, the external client, the receiving loops, the timers and the erasing closures in any order, with any messages of
  internal clients: no round ends in an exception or in undefined behaviour.
\<close>

lemma gateway_never_stops:
  assumes "codes_ok c"
    and "gateway_main env (load_module c modules) verbosity version argv = Inr (Inr gs)"
    and "gateway_run c cf listens gs = Inr gs0" and "libraries_ok c modules"
  shows "\<exists>gs'. gateway_steps c events gs0 = Inr gs' \<and>
    (\<forall>m h sa. um_find (=) m (mh_statusAggregators (gs_moduleHandler gs')) = Some (h, sa) \<longrightarrow> sa_reachable c h sa) \<and>
    (\<exists>gs''. gateway_end c gs' = Inr gs'')"
  using gateway_steps_return [OF assms(1) started_gateway_steady [OF assms(2-4)], of events]
    gateway_steady_aggregators gateway_steady_end
  by (fastforce simp: returns_def)

text \<open>The sample configuration with a shared library.\<close>

lemma sample_gateway_loaded:
  obtains gs gs0 :: "bool gateway" and h
  where "gateway_main sample_parser (load_module sample_codes sample_modules) V_Info ''1.0''
      [''gateway'', ''config.json''] = Inr (Inr gs)"
    and "gateway_run sample_codes dummy_factory True gs = Inr gs0" and "gs_settings gs = sample_parsed"
    and "\<not> xl_stopped (gs_externalClient gs0)"
    and "load_module sample_codes sample_modules [] 7 [] = Inr h"
    and "um_find num_eq 7 (ml_moduleLibraryHandlers (gs_library gs)) = Some (Some h)"
    and "mh_statusAggregators (gs_moduleHandler gs0) = [(7, h, StatusAggregator)]"
proof -
  obtain h where h: "load_module sample_codes sample_modules [] 7 path = Inr h" "lib_getModuleNumber h = 7" for path
    by (auto simp: load_module_def library_loader_load_def sample_modules_def loc_loadLibrary_def sample_object_def
        checkFunction_def local_handler_def)
  let ?lib = "\<lparr>ml_moduleLibraryHandlers = [(7, Some h)], ml_statusAggregators = [(7, h, StatusAggregator)]\<rparr>"
  have "\<exists>lib0. ml_loadLibraries (load_module sample_codes sample_modules (set_moduleBinaryPath sample_parsed))
      (set_modulePaths sample_parsed) ModuleLibrary = Inr lib0 \<and>
      ml_initStatusAggregators (set_externalConnectionSettingsList sample_parsed) lib0 = Inr ?lib"
    by (simp add: sample_parsed_def h ModuleLibrary_def ml_initStatusAggregators_def deref_def
        sa_get_module_number_def Let_def um_try_emplace_def)
  then obtain gs :: "bool gateway" where gs: "gateway_main sample_parser (load_module sample_codes sample_modules) V_Info ''1.0''
      [''gateway'', ''config.json''] = Inr (Inr gs)" "gs_settings gs = sample_parsed" "gs_library gs = ?lib"
      "gs_moduleHandler gs = ModuleHandler ?lib" "gs_externalClient gs = ExternalClient ?lib"
    by (auto simp: gateway_main_def sample_accepted or_return_1_def Let_def)
  obtain xl where xl: "xl_initConnections sample_codes sample_parsed dummy_factory
      (set_externalConnectionSettingsList sample_parsed) (ExternalClient ?lib) = Inr xl" "\<not> xl_stopped xl"
    by (auto simp: sample_parsed_def xl_make_channel_def xl_initConnection_def ExternalClient_def Let_def split_beta)
  then obtain gs0 where "gateway_run sample_codes dummy_factory True gs = Inr gs0" "gs_externalClient gs0 = xl"
      "gs_moduleHandler gs0 = ModuleHandler ?lib"
    using xl(2) by (auto simp: gateway_run_def gs)
  then show thesis using that [OF gs(1) _ gs(2) _ h(1)] gs(3) xl(2) by (simp add: ModuleHandler_def)
qed

lemma sample_gateway_started:
  obtains gs gs0 :: "bool gateway"
  where "gateway_main sample_parser (load_module sample_codes sample_modules) V_Info ''1.0''
      [''gateway'', ''config.json''] = Inr (Inr gs)"
    and "gateway_run sample_codes dummy_factory True gs = Inr gs0" and "gs_settings gs = sample_parsed"
    and "\<not> xl_stopped (gs_externalClient gs0)"
  by (rule sample_gateway_loaded)

end
