(* ===== verification/Program_Runs.thy ===== *)
theory Program_Runs
  imports Gateway_Runs Internal_Server_Samples
begin

text \<open>
  The whole program at work: the internal server and the rest of the gateway on the two queues between them. The state of the
  program is the state of the server, extended by the gateway, so that the operations of the server work on it as they are; a
  receive handler waits while the whole program goes on.
\<close>

section \<open>The state\<close>

record 'c program = server +
  pr_gateway :: "'c gateway"

text \<open>
  The queues between the internal server and the module handler are those of the server; the gateway's view of
  itself has the server and the queues as they are now.
\<close>

definition program_of :: "'c gateway \<Rightarrow> 'c program" where
  "program_of gs = server.extend (gs_internalServer gs) (program.fields gs)"

definition gateway_of :: "'c program \<Rightarrow> 'c gateway" where
  "gateway_of p = (pr_gateway p)\<lparr>gs_internalServer := server.truncate p,
     gs_moduleHandler := (gs_moduleHandler (pr_gateway p))
       \<lparr>mh_fromInternalQueue := srv_fromInternalQueue p, mh_toInternalQueue := srv_toInternalQueue p\<rparr>\<rparr>"

definition share_gateway :: "'c gateway \<Rightarrow> 'c program \<Rightarrow> 'c program" where
  "share_gateway gs p = p\<lparr>srv_fromInternalQueue := mh_fromInternalQueue (gs_moduleHandler gs),
     srv_toInternalQueue := mh_toInternalQueue (gs_moduleHandler gs), pr_gateway := gs\<rparr>"

lemma share_gateway_simps [simp]:
  "srv_connections (share_gateway gs p) = srv_connections p"
  "srv_connectedDevices (share_gateway gs p) = srv_connectedDevices p"
  "srv_next (share_gateway gs p) = srv_next p"
  "srv_accepting (share_gateway gs p) = srv_accepting p"
  "srv_stopped (share_gateway gs p) = srv_stopped p"
  "srv_fromInternalQueue (share_gateway gs p) = mh_fromInternalQueue (gs_moduleHandler gs)"
  "srv_toInternalQueue (share_gateway gs p) = mh_toInternalQueue (gs_moduleHandler gs)"
  "pr_gateway (share_gateway gs p) = gs"
  by (simp_all add: share_gateway_def)

lemma gateway_of_simps [simp]:
  "mh_fromInternalQueue (gs_moduleHandler (gateway_of p)) = srv_fromInternalQueue p"
  "mh_toInternalQueue (gs_moduleHandler (gateway_of p)) = srv_toInternalQueue p"
  by (simp_all add: gateway_of_def)

text \<open>SIGINT or SIGTERM, and a port that cannot be opened, stop the event loop all threads look at.\<close>

definition program_stop :: "'c program \<Rightarrow> 'c program" where
  "program_stop p = p\<lparr>srv_stopped := True, pr_gateway := (pr_gateway p)
     \<lparr>gs_externalClient := (gs_externalClient (pr_gateway p))\<lparr>xl_stopped := True\<rparr>\<rparr>\<rparr>"

section \<open>Runs\<close>

text \<open>
  The events of the gateway without the server: what the server pushes and takes, and the end of the event loop, are
  steps of the program.
\<close>

fun own_event :: "'c event \<Rightarrow> bool" where
  "own_event (Handle_messages arrived) = (arrived = [])"
| "own_event (Answers_taken n) = False"
| "own_event Stopped = False"
| "own_event e = True"

text \<open>\<open>busy\<close> are the connections whose receive handlers are running.\<close>

inductive program_reaches ::
  "error_codes \<Rightarrow> server_io \<Rightarrow> nat set \<Rightarrow> 'c program \<Rightarrow> 'c program \<Rightarrow> bool" for c io where
  start: "program_reaches c io busy p p"
| accept: "program_reaches c io busy p p' \<Longrightarrow> srv_accepting p' \<Longrightarrow>
    program_reaches c io busy p (srv_accepted error p')"
| listen: "program_reaches c io busy p p' \<Longrightarrow> program_reaches c io busy p (srv_listenToQueue_round io [] p')"
| round: "program_reaches c io busy p p' \<Longrightarrow> own_event e \<Longrightarrow> gateway_step c e (gateway_of p') = Inr gs \<Longrightarrow>
    program_reaches c io busy p (share_gateway gs p')"
| stop: "program_reaches c io busy p p' \<Longrightarrow> program_reaches c io busy p (program_stop p')"
| receive: "program_reaches c io busy p p' \<Longrightarrow> cid \<notin> busy \<Longrightarrow> cid < srv_next p' \<Longrightarrow>
    co_receiving (srv_connections p' cid) \<Longrightarrow> (\<And>t. program_reaches c io (insert cid busy) t (env t)) \<Longrightarrow>
    program_reaches c io busy p (srv_asyncReceiveHandler io env cid r p')"

lemma program_reaches_trans:
  assumes "program_reaches c io busy p p'" and "program_reaches c io busy p' p''"
  shows "program_reaches c io busy p p''"
  using assms(2,1)
proof induction
  case (accept busy p' q error)
  then show ?case by (intro program_reaches.accept)
next
  case (listen busy p' q)
  then show ?case by (intro program_reaches.listen)
next
  case (round busy p' q e gs)
  then show ?case by (intro program_reaches.round)
next
  case (stop busy p' q)
  then show ?case by (intro program_reaches.stop)
next
  case (receive busy p' q cid env r)
  then show ?case by (intro program_reaches.receive)
qed

section \<open>What a step of the gateway leaves of the server\<close>

lemma mh_checkTimeoutedMessages_queue [simp]:
  "mh_fromInternalQueue (mh_checkTimeoutedMessages c mh) = mh_fromInternalQueue mh"
  using mh_check_aggregators_inputs [of c _ mh] by (simp add: mh_checkTimeoutedMessages_def mh_inputs_def)

lemma mh_handleMessages_round_queue:
  assumes "mh_handleMessages_round c [] mh = Inr mh'"
  shows "mh_fromInternalQueue mh' = tl (mh_fromInternalQueue mh)"
proof (cases "mh_fromInternalQueue mh")
  case Nil
  then show ?thesis using assms by (auto simp: mh_handleMessages_round_def waitForValueWithTimeout_def Let_def)
next
  case (Cons m q)
  then show ?thesis
    using assms
    by (auto simp: mh_handleMessages_round_def waitForValueWithTimeout_def Let_def bindE_eq_Inr_iff aq_pop_def mh_inputs_def
        dest!: mh_dispatch_inputs)
qed

lemma gateway_step_queue:
  assumes "gateway_step c e gs = Inr gs'" and "own_event e"
  shows "mh_fromInternalQueue (gs_moduleHandler gs') \<in>
    {mh_fromInternalQueue (gs_moduleHandler gs), tl (mh_fromInternalQueue (gs_moduleHandler gs))}"
proof (cases e)
  case (Handle_messages arrived)
  then show ?thesis
    using assms by (auto simp: bindE_eq_Inr_iff share_moduleHandler_def dest!: mh_handleMessages_round_queue)
next
  case Handle_forwards
  then show ?thesis
    using assms
    by (auto simp: bindE_eq_Inr_iff share_moduleHandler_def mh_handleCommandForwards_round_def waitForValueWithTimeout_def
        Let_def mh_inputs_def dest!: mh_handleCommandForward_inputs split: if_splits)
qed (use assms in \<open>auto simp: bindE_eq_Inr_iff share_externalClient_def share_moduleHandler_def on_connection_def
    on_aggregator_def mh_store_def split: if_splits option.splits\<close>)

text \<open>The server's own operations leave the gateway alone.\<close>

lemma srv_primitives_gateway [simp]:
  "pr_gateway (srv_update cid f p) = pr_gateway p"
  "pr_gateway (srv_push m p) = pr_gateway p"
  "pr_gateway (srv_close cid p) = pr_gateway p"
  "pr_gateway (snd (srv_sendResponse io cid r p)) = pr_gateway p"
  "pr_gateway (srv_accepted error p) = pr_gateway p"
  by (auto simp: srv_update_def srv_push_def srv_close_def srv_sendResponse_def srv_write_def srv_accepted_def
      srv_addAsyncAccept_def srv_addAsyncReceive_def Let_def split: prod.split)

lemma srv_removeConnFromMap_gateway [simp]: "pr_gateway (srv_removeConnFromMap cid p) = pr_gateway p"
  by (simp add: srv_removeConnFromMap_def split: option.split)

lemma srv_connectNewDevice_gateway [simp]: "pr_gateway (srv_connectNewDevice cid client d p) = pr_gateway p"
  by (simp add: srv_connectNewDevice_def Let_def)

lemma srv_dispatch_gateway [simp]: "pr_gateway (snd (srv_dispatch io cid m p)) = pr_gateway p"
  by (auto simp: srv_dispatch_def srv_handleStatus_def srv_handleConnection_def srv_changeConnection_def
      srv_respondWithAlreadyConnected_def srv_respondWithHigherPriorityConnected_def Let_def split: option.split)

lemma srv_listenToQueue_gateway [simp]: "pr_gateway (srv_listenToQueue_round io arrived p) = pr_gateway p"
  by (auto simp: srv_listenToQueue_round_def srv_handleDisconnect_def srv_validateResponse_def Let_def
      split: option.split prod.split)

text \<open>What every wait keeps of the gateway, a receive handler keeps.\<close>

lemma srv_handleMessage_gateway:
  assumes "\<And>p. P (pr_gateway p) \<Longrightarrow> P (pr_gateway (env p))" and "P (pr_gateway p)"
  shows "P (pr_gateway (snd (srv_handleMessage io env cid m p)))"
proof -
  obtain ok p1 where d: "srv_dispatch io cid m p = (ok, p1)" by (cases "srv_dispatch io cid m p")
  have "P (pr_gateway p1)" using srv_dispatch_gateway [of io cid m p] assms(2) by (simp add: d)
  with assms(1) show ?thesis by (simp add: srv_handleMessage_def d Let_def split: bool.split)
qed

lemma srv_asyncReceiveHandler_gateway:
  assumes "\<And>p. P (pr_gateway p) \<Longrightarrow> P (pr_gateway (env p))" and "P (pr_gateway p)"
  shows "P (pr_gateway (srv_asyncReceiveHandler io env cid r p))"
proof (cases r)
  case (Received_bytes bs)
  define p0 where "p0 = srv_update cid (\<lambda>co. co\<lparr>co_receiving := False\<rparr>) p"
  obtain ok cx' p' where run: "processBufferData (srv_handleMessage io env cid) (length bs) 0
      (fill_buffer bs (co_connContext (srv_connections p0 cid))) p0 = (ok, cx', p')"
    by (metis prod_cases3)
  have "P (pr_gateway p') \<and> (ok \<longrightarrow> P (pr_gateway p'))"
    by (rule processBufferData_keeps [where I = "\<lambda>p. P (pr_gateway p)" and R = "\<lambda>_ _ p. P (pr_gateway p)", OF _ _ _ _ run])
      (use assms srv_handleMessage_gateway [of P env] in \<open>auto simp: p0_def\<close>)
  then show ?thesis
    by (auto simp: srv_asyncReceiveHandler_def srv_processBufferData_def Received_bytes Let_def run srv_addAsyncReceive_def
        simp flip: p0_def split: bool.split)
qed (use assms(2) in \<open>simp add: srv_asyncReceiveHandler_def\<close>)

section \<open>The invariant of the program\<close>

lemma steady_gateway_of [simp]: "steady_gateway c hs es (gateway_of p) = steady_gateway c hs es (pr_gateway p)"
  by (simp add: steady_gateway_def gateway_of_def)

lemma share_gateway_ok:
  assumes "srv_ok busy p"
    and "mh_fromInternalQueue (gs_moduleHandler gs) \<in> {srv_fromInternalQueue p, tl (srv_fromInternalQueue p)}"
  shows "srv_ok busy (share_gateway gs p)"
proof -
  let ?q = "mh_fromInternalQueue (gs_moduleHandler gs)"
  have "srv_ok busy (p\<lparr>srv_fromInternalQueue := ?q\<rparr>)"
  proof (cases "srv_fromInternalQueue p")
    case Nil
    then show ?thesis using assms by (auto elim!: srv_ok_cong)
  next
    case (Cons m q)
    then show ?thesis using assms srv_ok_consume [OF assms(1) Cons] by (auto elim!: srv_ok_cong)
  qed
  then show ?thesis by (rule srv_ok_cong) (auto simp: share_gateway_def)
qed

lemma share_gateway_rely [simp]: "srv_rely k p (share_gateway gs p')  = srv_rely k p p'"
  by (simp add: srv_rely_def)

lemma program_stop_ok: "srv_ok busy p \<Longrightarrow> srv_ok busy (program_stop p)"
  by (erule srv_ok_cong) (auto simp: program_stop_def)

lemma program_stop_keeps [simp]:
  "srv_rely k p (program_stop p') = srv_rely k p p'"
  "steady_gateway c hs es (pr_gateway (program_stop p)) = steady_gateway c hs es (pr_gateway p)"
  by (simp_all add: program_stop_def srv_rely_def steady_gateway_def)

lemma program_reaches_ok:
  assumes "program_reaches c io busy p p'" and "srv_ok busy p"
  shows "srv_ok busy p' \<and> (\<forall>k \<in> busy. srv_rely k p p')"
  using assms
proof induction
  case (accept busy p p' error)
  moreover have "srv_rely k p' (srv_accepted error p')" if "k \<in> busy" for k
    using accept that by (intro srv_rely_accepted) (auto simp: srv_ok_def)
  ultimately show ?case by (auto intro: srv_ok_accepted srv_rely_trans)
next
  case (listen busy p p')
  then show ?case by (auto intro: srv_ok_listenToQueue_round srv_rely_trans [OF _ srv_rely_listenToQueue_round])
next
  case (round busy p p' e gs)
  then show ?case using share_gateway_ok [of busy p' gs] gateway_step_queue [OF round.hyps(3)] by simp
next
  case (stop busy p p')
  then show ?case by (simp add: program_stop_ok)
next
  case (receive busy p p' cid env r)
  have env: "srv_environment (insert cid busy) env"
    using receive.IH(2) by unfold_locales auto
  note H = srv_asyncReceiveHandler_ok [OF env _ receive.hyps(2,3), where io = io and r = r]
  show ?case using H receive.IH(1) receive.prems srv_rely_trans [OF _ H(2)] by simp
qed simp

lemma program_reaches_steady:
  assumes "program_reaches c io busy p p'" and "codes_ok c" and "steady_gateway c hs es (pr_gateway p)"
  shows "steady_gateway c hs es (pr_gateway p')"
  using assms
proof induction
  case (round busy p p' e gs)
  then show ?case using gateway_step_returns [of c hs es "gateway_of p'" e] by (simp add: returns_def)
next
  case (receive busy p p' cid env r)
  then show ?case by (intro srv_asyncReceiveHandler_gateway [where P = "steady_gateway c hs es"]) auto
qed simp_all

section \<open>The started program\<close>

lemma started_program:
  assumes "gateway_main env (load_module c modules) verbosity version argv = Inr (Inr gs)"
    and "gateway_run c cf listens gs = Inr gs0" and "libraries_ok c modules"
  shows "srv_ok {} (program_of gs0)"
    and "steady_gateway c (ml_moduleLibraryHandlers (gs_library gs))
      (set_externalConnectionSettingsList (gs_settings gs)) (pr_gateway (program_of gs0))"
proof -
  have "gs_internalServer gs0 = (if listens then srv_run InternalServer else InternalServer\<lparr>srv_stopped := True\<rparr>)"
    using assms(2) gateway_main_server [OF assms(1)] by (auto simp: gateway_run_def Let_def bindE_eq_Inr_iff)
  then have "srv_ok {} (gs_internalServer gs0)"
    using srv_ok_initial by (auto elim!: srv_ok_cong simp: srv_run_def srv_addAsyncAccept_def split: if_splits)
  then show "srv_ok {} (program_of gs0)"
    by (auto simp: srv_ok_def srv_inv_def srv_idle_def srv_registered_def srv_same_def program_of_def server.extend_def)
  show "steady_gateway c (ml_moduleLibraryHandlers (gs_library gs))
      (set_externalConnectionSettingsList (gs_settings gs)) (pr_gateway (program_of gs0))"
    using started_gateway_steady [OF assms] by (simp add: program_of_def server.extend_def program.fields_def)
qed

lemma reachable_program:
  assumes "codes_ok c" and "gateway_main env (load_module c modules) verbosity version argv = Inr (Inr gs)"
    and "gateway_run c cf listens gs = Inr gs0" and "libraries_ok c modules"
    and "program_reaches c io {} (program_of gs0) p"
  shows "srv_ok {} p"
    and "steady_gateway c (ml_moduleLibraryHandlers (gs_library gs))
      (set_externalConnectionSettingsList (gs_settings gs)) (pr_gateway p)"
  using program_reaches_ok [OF assms(5)] program_reaches_steady [OF assms(5,1)] started_program [OF assms(2-4)] by blast+


text \<open>
  A client of the sample program is accepted, the external client runs its connect sequence, and the connect message of the
  client arrives; it is the next thing the module handler handles.
\<close>

lemma program_of_simps [simp]:
  "srv_accepting (program_of gs) = srv_accepting (gs_internalServer gs)"
  "srv_next (program_of gs) = srv_next (gs_internalServer gs)"
  "pr_gateway (program_of gs) = gs"
  by (simp_all add: program_of_def server.extend_def program.fields_def)


end
