(* ===== verification/Module_Handler_Answers.thy ===== *)
theory Module_Handler_Answers
  imports Module_Handler_Steady
begin

text \<open>
  A module that is ready to serve a device answers every message of its client: the connect and each valid status get
  exactly one answer, whatever state the device is in. What a round of the module handler leaves alone of the
  aggregators is collected in \<open>mh_shape\<close>.
\<close>

section \<open>What a message leaves alone\<close>

text \<open>The handlers, and of every aggregator its handler and its ready flag.\<close>

definition mh_shape :: "module_handler \<Rightarrow> module_handlers \<times> (int \<times> handler \<times> bool) list" where
  "mh_shape mh = (mh_moduleLibraryHandlers mh,
     map (\<lambda>(k, a). (k, fst a, sa_timeoutedMessageReady (snd a))) (mh_statusAggregators mh))"

lemma mh_shape_fields [simp]:
  "mh_shape (mh\<lparr>mh_fromInternalQueue := q\<rparr>) = mh_shape mh"
  "mh_shape (mh\<lparr>mh_toInternalQueue := r\<rparr>) = mh_shape mh"
  "mh_shape (mh_to_internal m mh) = mh_shape mh"
  "mh_shape (mh_to_external m' mh) = mh_shape mh"
  by (simp_all add: mh_shape_def mh_to_internal_def mh_to_external_def)

lemma um_find_map: "um_find eq k (map (\<lambda>(k, v). (k, g v)) m) = map_option g (um_find eq k m)"
  by (induction m) auto

lemma um_modify_map_same:
  "um_find eq k m = Some v \<Longrightarrow> g v' = g v \<Longrightarrow>
   map (\<lambda>(k, v). (k, g v)) (um_modify eq k (\<lambda>_. v') m) = map (\<lambda>(k, v). (k, g v)) m"
  by (induction m) auto

lemma mh_shape_store:
  assumes "um_find num_eq k (mh_statusAggregators mh) = Some (h, sa)"
    and "sa_timeoutedMessageReady sa' = sa_timeoutedMessageReady sa"
  shows "mh_shape (mh_store k h sa' mh) = mh_shape mh"
  using um_modify_map_same [OF assms(1), of "\<lambda>a. (fst a, sa_timeoutedMessageReady (snd a))" "(h, sa')"] assms(2)
  by (simp add: mh_shape_def mh_store_def)

lemma mh_shape_find:
  assumes "mh_shape mh' = mh_shape mh" and "um_find num_eq k (mh_statusAggregators mh) = Some (h, sa)"
  shows "\<exists>sa'. um_find num_eq k (mh_statusAggregators mh') = Some (h, sa')"
proof -
  let ?g = "\<lambda>a :: handler \<times> status_aggregator. (fst a, sa_timeoutedMessageReady (snd a))"
  have "map_option ?g (um_find num_eq k (mh_statusAggregators mh')) = map_option ?g (Some (h, sa))"
    using arg_cong [OF assms(1), of "\<lambda>s. um_find num_eq k (snd s)"] assms(2)
    by (simp add: mh_shape_def um_find_map [where g = ?g])
  then show ?thesis by auto
qed

text \<open>No device timer has expired since the last check.\<close>

definition mh_quiet :: "module_handler \<Rightarrow> bool" where
  "mh_quiet mh \<longleftrightarrow> list_all (\<lambda>(_, _, ready). \<not> ready) (snd (mh_shape mh))"

lemma mh_quiet_shape: "mh_shape mh' = mh_shape mh \<Longrightarrow> mh_quiet mh' = mh_quiet mh"
  by (simp add: mh_quiet_def)

lemma mh_quiet_find:
  assumes "mh_quiet mh" and "um_find num_eq k (mh_statusAggregators mh) = Some (h, sa)"
  shows "\<not> sa_timeoutedMessageReady sa"
proof -
  have "um_all (\<lambda>_ (h, sa). \<not> sa_timeoutedMessageReady sa) (mh_statusAggregators mh)"
    using assms(1) by (simp add: mh_quiet_def mh_shape_def um_all_def list_all_iff split_beta)
  from um_all_find [OF this assms(2)] show ?thesis by auto
qed

lemma mh_quiet_check: "mh_quiet mh \<Longrightarrow> mh_checkTimeoutedMessages c mh = mh"
proof -
  assume quiet: "mh_quiet mh"
  have "mh_check_aggregators c ks mh = mh" for ks
    using mh_quiet_find [OF quiet]
    by (induction ks) (auto simp: sa_getTimeoutedMessageReady_def split: option.split)
  then show ?thesis by (simp add: mh_checkTimeoutedMessages_def)
qed

section \<open>The handlers keep it\<close>

lemma sa_add_status_ready:
  assumes "sa_add_status_to_aggregator c h b d sa = Inr (n, sa')"
  shows "sa_timeoutedMessageReady sa' = sa_timeoutedMessageReady sa"
  using assms
  by (cases rule: sa_add_status_cases) (auto simp: sa_forceAggregationOnDeviceUnlocked_def Let_def)

lemma sa_get_command_ready:
  assumes "sa_get_command c h b d out sa = Inr (rc, out', sa')"
  shows "sa_timeoutedMessageReady sa' = sa_timeoutedMessageReady sa"
  using assms unfolding sa_get_command_def by (cases rule: sa_getCommand_cases) auto

lemma sa_get_aggregated_ready:
  "sa_timeoutedMessageReady (snd (snd (sa_get_aggregated_status c h out d sa))) = sa_timeoutedMessageReady sa"
  by (auto simp: sa_get_aggregated_status_def split: option.split list.split)

lemma sa_get_aggregated_posted:
  "sa_posted (snd (snd (sa_get_aggregated_status c h out d sa))) = sa_posted sa"
  by (auto simp: sa_get_aggregated_status_def split: option.split list.split)

lemma sa_force_aggregation_keeps:
  assumes "sa_force_aggregation_on_device c h d sa = (n, sa')"
  shows "sa_posted sa' = sa_posted sa" and "sa_timeoutedMessageReady sa' = sa_timeoutedMessageReady sa"
  using assms
  by (auto simp: sa_force_aggregation_on_device_def sa_forceAggregationOnDeviceUnlocked_def Let_def split: if_splits)

lemma sa_remove_device_posts:
  "sa_posted (snd (sa_remove_device c h d sa)) \<in> {sa_posted sa, sa_posted sa @ [d]}"
  "sa_timeoutedMessageReady (snd (sa_remove_device c h d sa)) = sa_timeoutedMessageReady sa"
  by (auto simp: sa_remove_device_def sa_clearDeviceUnlocked_def Let_def)

lemma mh_sendAggregatedStatus_shape:
  "mh_sendAggregatedStatus c d device disc mh = Inr mh' \<Longrightarrow> mh_shape mh' = mh_shape mh"
  using sa_get_aggregated_ready
  by (auto simp: mh_sendAggregatedStatus_def bindE_eq_Inr_iff um_at_Inr_iff Let_def split_beta mh_shape_store)

lemma mh_sendAggregatedStatuses_shape:
  "mh_sendAggregatedStatuses c d device n mh = Inr mh' \<Longrightarrow> mh_shape mh' = mh_shape mh"
  by (induction n arbitrary: mh) (auto simp: bindE_eq_Inr_iff dest!: mh_sendAggregatedStatus_shape)

lemma mh_answerStatus_shape:
  assumes "mh_answerStatus c status b n h sa mh = Inr mh'" and "d = device_of_ip (st_device status)"
    and "um_find num_eq (di_module d) (mh_statusAggregators mh) = Some (h, sa0)"
    and "sa_timeoutedMessageReady sa = sa_timeoutedMessageReady sa0"
  shows "mh_shape mh' = mh_shape mh"
proof -
  obtain rc cmd sa' where get: "sa_get_command c h b d empty_buffer sa = Inr (rc, cmd, sa')"
    using assms(1,2) by (auto simp: mh_answerStatus_def Let_def bindE_eq_Inr_iff simp del: device_of_ip_simps)
  then have "mh_shape (mh_store (di_module d) h sa' mh) = mh_shape mh"
    using sa_get_command_ready [OF get] assms(4) by (intro mh_shape_store [OF assms(3)]) simp
  then show ?thesis
    using assms(1) get unfolding mh_answerStatus_def Let_def assms(2) [symmetric]
    by (auto split: if_splits dest!: mh_sendAggregatedStatuses_shape)
qed

lemma mh_handleStatus_shape:
  assumes "mh_handleStatus c status mh = Inr mh'"
  shows "mh_shape mh' = mh_shape mh"
proof -
  let ?d = "device_of_ip (st_device status)"
  have m: "ip_module (st_device status) = di_module ?d" by simp
  show ?thesis
  proof (cases "um_find num_eq (di_module ?d) (mh_statusAggregators mh)")
    case (Some e)
    obtain h sa where e: "e = (h, sa)" by (cases e)
    note find = Some [unfolded e]
    have "mh_shape x = mh_shape mh"
      if "sa_add_status_to_aggregator c h b ?d sa = Inr (n, sa')"
        "x = mh_store (di_module ?d) h sa' mh \<or> mh_answerStatus c status b n h sa' mh = Inr x" for x b n sa'
      using that mh_shape_store [OF find] mh_answerStatus_shape [OF _ refl find] sa_add_status_ready [OF that(1)] by blast
    with assms show ?thesis
      by (fastforce simp: mh_handleStatus_def m Let_def find bindE_eq_Inr_iff simp del: device_of_ip_simps split: if_splits)
  qed (use assms in \<open>simp add: mh_handleStatus_def m del: device_of_ip_simps\<close>)
qed

text \<open>The disconnect of a device leaves at most one more closure waiting, the one that erases the device.\<close>

lemma mh_handleDisconnect_keeps:
  assumes "um_find num_eq (di_module d) (mh_statusAggregators mh) = Some (h, sa)"
    and "mh_handleDisconnect c d mh = Inr mh'"
  shows "mh_shape mh' = mh_shape mh" and "\<exists>sa'. um_find num_eq (di_module d) (mh_statusAggregators mh') = Some (h, sa') \<and>
    sa_posted sa' \<in> {sa_posted sa, sa_posted sa @ [d]}"
proof -
  obtain n sa1 where force: "sa_force_aggregation_on_device c h d sa = (n, sa1)" by fastforce
  note kept = sa_force_aggregation_keeps [OF force]
  have shape: "mh_shape (mh_store (di_module d) h sa1 mh) = mh_shape mh"
    by (rule mh_shape_store [OF assms(1) kept(2)])
  obtain rc b sa2 where get: "sa_get_aggregated_status c h empty_buffer d sa1 = (rc, b, sa2)" by (metis prod_cases3)
  have sa2: "sa_posted sa2 = sa_posted sa" "sa_timeoutedMessageReady sa2 = sa_timeoutedMessageReady sa"
    using sa_get_aggregated_posted [of c h empty_buffer d sa1] sa_get_aggregated_ready [of c h empty_buffer d sa1] kept
    by (simp_all add: get)
  let ?sa3 = "snd (sa_remove_device c h d sa2)"
  have find': "um_find num_eq (di_module d) (mh_statusAggregators (mh_store (di_module d) h x y)) = Some (h, x)"
    if "um_find num_eq (di_module d) (mh_statusAggregators y) = Some v" for x y v
    using that by (simp add: mh_store_def num.find_modify)
  let ?mh1 = "mh_store (di_module d) h sa1 mh"
  define e where "e = InternalClientMessage True (createInternalClientStatusMessage (convertToIPDevice d) b)"
  let ?mh2 = "mh_to_external e (mh_store (di_module d) h sa2 ?mh1)"
  have find2: "um_find num_eq (di_module d) (mh_statusAggregators ?mh2) = Some (h, sa2)"
    using find' [OF find' [OF assms(1)]] by (simp add: mh_to_external_def)
  have shape2: "mh_shape ?mh2 = mh_shape mh"
    using mh_shape_store [OF find' [OF assms(1)], of sa2 sa1] shape sa2 kept by simp
  have send: "mh_sendAggregatedStatus c d (convertToIPDevice d) True ?mh1 = Inr ?mh2"
    using find' [OF assms(1), of sa1] by (simp add: mh_sendAggregatedStatus_def um_at_def get e_def)
  have "mh' = mh \<or> mh' = ?mh1 \<or> mh' = mh_store (di_module d) h ?sa3 ?mh2"
    using assms(2) send find2 by (auto simp: mh_handleDisconnect_def assms(1) force Let_def um_at_def split: if_splits)
  then have "mh_shape mh' = mh_shape mh \<and> (\<exists>sa'. um_find num_eq (di_module d) (mh_statusAggregators mh') = Some (h, sa') \<and>
      sa_posted sa' \<in> {sa_posted sa, sa_posted sa @ [d]})"
  proof (elim disjE)
    assume "mh' = mh_store (di_module d) h ?sa3 ?mh2"
    then show ?thesis
      using mh_shape_store [OF find2, of ?sa3] shape2 find' [OF find2, of ?sa3] sa_remove_device_posts [of c h d sa2] sa2
      by simp
  qed (use assms(1) shape kept find' [OF assms(1)] in auto)
  then show "mh_shape mh' = mh_shape mh" "\<exists>sa'. um_find num_eq (di_module d) (mh_statusAggregators mh') = Some (h, sa') \<and>
    sa_posted sa' \<in> {sa_posted sa, sa_posted sa @ [d]}" by simp_all
qed

lemma mh_dispatch_shape:
  assumes "mh_dispatch c m mh = Inr mh'"
  shows "mh_shape mh' = mh_shape mh"
proof -
  have "mh_shape mh' = mh_shape mh" if "mh_handleDisconnect c d mh = Inr mh'" for d
    using that mh_handleDisconnect_keeps(1) [OF _ that]
    by (cases "um_find num_eq (di_module d) (mh_statusAggregators mh)") (auto simp: mh_handleDisconnect_def)
  moreover have "mh_shape (mh_handleConnect c connect mh) = mh_shape mh" for connect
    by (auto simp: mh_handleConnect_def mh_sendConnectResponse_def Let_def split: option.split)
  ultimately show ?thesis
    using assms mh_handleStatus_shape by (auto simp: mh_dispatch_def split: if_splits)
qed

text \<open>The answers to a message come behind those that wait; handling a message ends no connection.\<close>

definition mh_answers :: "module_handler \<Rightarrow> module_handler \<Rightarrow> bool" where
  "mh_answers mh mh' \<longleftrightarrow> (\<exists>rs. mh_toInternalQueue mh' = mh_toInternalQueue mh @ rs \<and> list_all (\<lambda>r. \<not> mhm_disconnect r) rs)"

lemma mh_answers_refl [simp]: "mh_answers mh mh"
  by (simp add: mh_answers_def)

lemma mh_answers_simps [simp]:
  "mh_answers mh (mh_store k h sa mh') = mh_answers mh mh'"
  "mh_answers mh (mh_to_external e mh') = mh_answers mh mh'"
  by (simp_all add: mh_answers_def mh_store_def mh_to_external_def)

lemma mh_answers_push: "mh_answers mh mh' \<Longrightarrow> mh_answers mh (mh_to_internal (ModuleHandlerMessage False r) mh')"
  by (force simp: mh_answers_def mh_to_internal_def pushAndNotify_def)

lemma mh_answers_send:
  "mh_sendAggregatedStatus c d device disc mh1 = Inr mh' \<Longrightarrow> mh_answers mh mh1 \<Longrightarrow> mh_answers mh mh'"
  by (auto simp: mh_sendAggregatedStatus_def bindE_eq_Inr_iff Let_def split_beta)

lemma mh_answers_sends:
  "mh_sendAggregatedStatuses c d device n mh1 = Inr mh' \<Longrightarrow> mh_answers mh mh1 \<Longrightarrow> mh_answers mh mh'"
  by (induction n arbitrary: mh1) (auto simp: bindE_eq_Inr_iff dest: mh_answers_send)

lemma mh_dispatch_answers: "mh_dispatch c m mh = Inr mh' \<Longrightarrow> mh_answers mh mh'"
  by (auto simp: mh_dispatch_def mh_handleDisconnect_def mh_handleConnect_def mh_sendConnectResponse_def
      mh_handleStatus_def mh_answerStatus_def Let_def bindE_eq_Inr_iff
      split: if_splits option.splits prod.splits
      intro!: mh_answers_push elim!: mh_answers_send mh_answers_sends)

section \<open>A module that serves a device\<close>

text \<open>
  The module has a first command for the type of the device, makes a command for every status and does not throw
  (\<open>steady_handler_of\<close>), and no time-out is waiting to be checked.
\<close>

definition answers_type :: "error_codes \<Rightarrow> handler \<Rightarrow> u32 \<Rightarrow> bool" where
  "answers_type c h t \<longleftrightarrow> lib_isDeviceTypeSupported h t = OK c \<and>
     (\<exists>b. lib_generateFirstCommand h t = Inr (OK c, b)) \<and>
     (\<forall>new cur cmd. \<exists>b. lib_generateCommand h new cur cmd t = Inr (OK c, b))"

definition serves :: "error_codes \<Rightarrow> module_handlers \<Rightarrow> handler \<Rightarrow> ip_device \<Rightarrow> module_handler \<Rightarrow> bool" where
  "serves c hs h dev mh \<longleftrightarrow> steady_handler_of c hs mh \<and> mh_quiet mh \<and>
     answers_type c h (ip_devicetype dev) \<and> um_find num_eq (ip_module dev) hs = Some (Some h) \<and>
     (\<exists>sa. um_find num_eq (ip_module dev) (mh_statusAggregators mh) = Some (h, sa))"

definition accepts_status :: "error_codes \<Rightarrow> handler \<Rightarrow> device_status \<Rightarrow> bool" where
  "accepts_status c h status \<longleftrightarrow> (\<forall>b. status_to_buffer h status = Inr b \<longrightarrow>
     lib_statusDataValid h b (ip_devicetype (st_device status)) \<noteq> NOT_OK c)"

lemma serves_shape:
  assumes "serves c hs h dev mh" and "mh_shape mh' = mh_shape mh" and "steady_handler_of c hs mh'"
  shows "serves c hs h dev mh'"
  using assms mh_shape_find [OF assms(2)] mh_quiet_shape [OF assms(2)] unfolding serves_def by blast

lemma serves_queues [simp]:
  "serves c hs h dev (mh\<lparr>mh_fromInternalQueue := q\<rparr>) = serves c hs h dev mh"
  "serves c hs h dev (mh\<lparr>mh_toInternalQueue := r\<rparr>) = serves c hs h dev mh"
  by (simp_all add: serves_def mh_quiet_def)

lemma serves_connect:
  assumes "codes_ok c" and "serves c hs h dev mh"
  shows "mh_handleConnect c \<lparr>cn_device = dev\<rparr> mh = mh_to_internal (ModuleHandlerMessage False
    (createInternalServerConnectResponseMessage dev CR_OK)) mh"
  using assms codes_ok_distinct [OF assms(1)]
  by (auto simp: mh_handleConnect_def serves_def answers_type_def sa_is_device_type_supported_def
      mh_sendConnectResponse_def)

lemma serves_status:
  assumes "codes_ok c" and "serves c hs h dev mh" and "st_device status = dev" and "accepts_status c h status"
  shows "returns (mh_handleStatus c status mh) (\<lambda>mh'. serves c hs h dev mh' \<and>
    (\<exists>cmd. mh_toInternalQueue mh' = mh_toInternalQueue mh @
      [ModuleHandlerMessage False (createInternalServerCommandMessage dev cmd)]))"
proof -
  let ?d = "device_of_ip dev"
  obtain sa where find: "um_find num_eq (di_module ?d) (mh_statusAggregators mh) = Some (h, sa)"
    and steady: "steady_handler_of c hs mh" and type: "answers_type c h (di_deviceType ?d)"
    and hs: "um_find num_eq (di_module ?d) (mh_moduleLibraryHandlers mh) = Some (Some h)"
    using assms(2) by (auto simp: serves_def steady_handler_of_def)
  note agg = steady_handler_find(2) [OF steady find]
  have h: "steady_handler c h" using agg by (simp add: aggregator_of_def)
  obtain b where b: "status_to_buffer h status = Inr b"
    using steady_handler.status_to_buffer_returns [OF h] by blast
  obtain n sa1 where add: "sa_add_status_to_aggregator c h b ?d sa = Inr (n, sa1)"
    and agg1: "aggregator_of c (di_module ?d) h sa1" "0 \<le> n \<Longrightarrow> um_contains device_eq ?d (sa_devices sa1)"
    using sa_add_status_returns [OF assms(1) agg refl, of b] by (auto simp: returns_def)
  have n: "0 \<le> n"
    using add type codes_ok_distinct [OF assms(1)]
    by (cases rule: sa_add_status_cases)
      (auto simp: answers_type_def sa_is_device_type_supported_def simp del: device_of_ip_simps)
  obtain rc cmd sa2 where get: "sa_get_command c h b ?d empty_buffer sa1 = Inr (rc, cmd, sa2)"
    using sa_get_command_returns [OF agg1(1) refl agg1(2) [OF n], of b empty_buffer] by (auto simp: returns_def)
  have gen: "\<exists>g. lib_generateCommand h new cur cmd' (di_deviceType ?d) = Inr (OK c, g)" for new cur cmd'
    using type by (auto simp: answers_type_def simp del: device_of_ip_simps)
  have "rc = OK c \<or> rc = NO_MESSAGE_AVAILABLE c"
    using get unfolding sa_get_command_def
  proof (cases rule: sa_getCommand_cases)
    case (generated s s' current rc')
    then show ?thesis using gen [of b "ds_status s'" current] by auto
  qed (use type codes_ok_distinct [OF assms(1)] in \<open>auto simp: answers_type_def sa_is_device_type_supported_def
      simp del: device_of_ip_simps\<close>)
  moreover have "lib_statusDataValid h b (ip_devicetype dev) \<noteq> NOT_OK c"
    using assms(3,4) b by (auto simp: accepts_status_def)
  ultimately obtain mh' where mh': "mh_handleStatus c status mh = Inr mh'"
    "mh_toInternalQueue mh' = mh_toInternalQueue mh @ [ModuleHandlerMessage False
       (createInternalServerCommandMessage dev (if rc = OK c then cmd else empty_buffer))]"
    using mh_handleStatus_answered [OF assms(1), of status mh h sa b ?d n sa1 rc cmd sa2]
      find hs type b add n get assms(3) by (auto simp: answers_type_def)
  have "steady_handler_of c hs mh'"
    using mh_handleStatus_returns [OF assms(1) steady, of status] mh'(1) by simp
  with serves_shape [OF assms(2) mh_handleStatus_shape [OF mh'(1)]] mh' show ?thesis by auto
qed

text \<open>What a client may send in turn, and the answer to it.\<close>

definition answer_to :: "ip_device \<Rightarrow> internal_client \<Rightarrow> internal_server_msg \<Rightarrow> bool" where
  "answer_to dev client answer \<longleftrightarrow>
     (if has_deviceconnect client then answer = createInternalServerConnectResponseMessage dev CR_OK
      else \<exists>cmd. answer = createInternalServerCommandMessage dev cmd)"

definition may_send :: "error_codes \<Rightarrow> handler \<Rightarrow> ip_device \<Rightarrow> internal_client \<Rightarrow> bool" where
  "may_send c h dev client \<longleftrightarrow> client = IC_DeviceConnect \<lparr>cn_device = dev\<rparr> \<or>
     (\<exists>status. client = IC_DeviceStatus status \<and> st_device status = dev \<and> accepts_status c h status)"

lemma serves_dispatch:
  assumes "codes_ok c" and "serves c hs h dev mh" and "may_send c h dev client"
  shows "returns (mh_dispatch c (InternalClientMessage False client) mh) (\<lambda>mh'. serves c hs h dev mh' \<and>
    (\<exists>answer. answer_to dev client answer \<and>
      mh_toInternalQueue mh' = mh_toInternalQueue mh @ [ModuleHandlerMessage False answer]))"
  using assms(3) unfolding may_send_def
proof (elim disjE exE conjE)
  fix status
  assume status: "client = IC_DeviceStatus status" "st_device status = dev" "accepts_status c h status"
  then have "mh_dispatch c (InternalClientMessage False client) mh = mh_handleStatus c status mh"
    by (simp add: mh_dispatch_def InternalClientMessage_def)
  moreover have "answer_to dev client (createInternalServerCommandMessage dev cmd)" for cmd
    by (auto simp: answer_to_def status(1))
  ultimately show ?thesis
    using serves_status [OF assms(1,2) status(2,3)] by (auto simp: returns_def)
next
  assume client: "client = IC_DeviceConnect \<lparr>cn_device = dev\<rparr>"
  have "serves c hs h dev (mh_to_internal r mh)" for r
    by (rule serves_shape [OF assms(2)]) (use assms(2) in \<open>simp_all add: serves_def\<close>)
  then show ?thesis
    using serves_connect [OF assms(1,2)]
    by (simp add: client mh_dispatch_def answer_to_def InternalClientMessage_def mh_to_internal_def pushAndNotify_def)
qed

text \<open>Handling any message keeps it served.\<close>

lemma serves_any_dispatch:
  assumes "codes_ok c" and "serves c hs h dev mh"
  shows "returns (mh_dispatch c m mh) (\<lambda>mh'. serves c hs h dev mh' \<and> mh_answers mh mh')"
proof -
  have "steady_handler_of c hs mh" using assms(2) by (simp add: serves_def)
  from mh_dispatch_returns [OF assms(1) this, of m] show ?thesis
    using serves_shape [OF assms(2) mh_dispatch_shape] mh_dispatch_answers by (fastforce simp: returns_def)
qed

end
