(* ===== verification/Gateway_Session.thy ===== *)
theory Gateway_Session
  imports Program_Runs Internal_Server_Handlers Module_Handler_Answers
begin

text \<open>
  The session of one internal client with the running program: the receive handler of its connection passes each message to the
  module handler and waits, a round of the module handler handles it, and a round of the listening thread
  sends the answer back over the connection.
\<close>

section \<open>What happens during a wait\<close>

text \<open>A round of the module handler on what the internal server has pushed, and one of the listening thread on its answers.\<close>

definition handle_round :: "error_codes \<Rightarrow> 'c program \<Rightarrow> 'c program" where
  "handle_round c p =
     (case gateway_step c (Handle_messages []) (gateway_of p) of Inl _ \<Rightarrow> p | Inr gs \<Rightarrow> share_gateway gs p)"

definition answer_round :: "error_codes \<Rightarrow> server_io \<Rightarrow> 'c program \<Rightarrow> 'c program" where
  "answer_round c io p = srv_listenToQueue_round io [] (handle_round c p)"

text \<open>The receive handler runs on a message that has arrived in one piece.\<close>

definition client_message :: "error_codes \<Rightarrow> server_io \<Rightarrow> nat \<Rightarrow> bytes \<Rightarrow> 'c program \<Rightarrow> 'c program" where
  "client_message c io cid m p = srv_asyncReceiveHandler io (answer_round c io) cid (Received_bytes (frame m)) p"

definition session :: "error_codes \<Rightarrow> server_io \<Rightarrow> nat \<Rightarrow> bytes list \<Rightarrow> 'c program \<Rightarrow> 'c program" where
  "session c io cid = fold (client_message c io cid)"

text \<open>Both are runs of the program.\<close>

lemma handle_round_reaches:
  assumes "program_reaches c io busy p0 p"
  shows "program_reaches c io busy p0 (handle_round c p)"
proof (cases "gateway_step c (Handle_messages []) (gateway_of p)")
  case (Inr gs)
  have "program_reaches c io busy p0 (share_gateway gs p)"
    by (rule program_reaches.round [OF assms _ Inr]) simp
  then show ?thesis by (simp only: handle_round_def Inr sum.case)
qed (use assms in \<open>simp add: handle_round_def\<close>)

lemma answer_round_reaches: "program_reaches c io busy p (answer_round c io p)"
  unfolding answer_round_def by (intro program_reaches.listen handle_round_reaches program_reaches.start)

lemma client_message_reaches:
  assumes "program_reaches c io {} p0 p" and "cid < srv_next p" and "co_receiving (srv_connections p cid)"
  shows "program_reaches c io {} p0 (client_message c io cid m p)"
  unfolding client_message_def
  by (rule program_reaches.receive [OF assms(1) _ assms(2,3) answer_round_reaches]) simp

section \<open>One message\<close>

text \<open>The connection is open and waits for the next message (\<open>receives\<close>), and nothing else is going on.\<close>

definition receives :: "nat \<Rightarrow> 'c program \<Rightarrow> bool" where
  "receives cid p \<longleftrightarrow> srv_ok {} p \<and> cid < srv_next p \<and>
     co_open (srv_connections p cid) \<and> co_receiving (srv_connections p cid) \<and>
     context_at (co_connContext (srv_connections p cid)) [] 0 \<and>
     length (cx_buffer (co_connContext (srv_connections p cid))) = buffer_length \<and> \<not> srv_stopped p"

definition listening_to :: "nat \<Rightarrow> 'c program \<Rightarrow> bool" where
  "listening_to cid p \<longleftrightarrow> receives cid p \<and> srv_fromInternalQueue p = [] \<and> srv_toInternalQueue p = []"

definition seated :: "nat \<Rightarrow> ip_device \<Rightarrow> 'z server_scheme \<Rightarrow> bool" where
  "seated cid dev p \<longleftrightarrow> cid \<in> set (srv_connectedDevices p) \<and>
     co_deviceId (srv_connections p cid) = Some (device_of_ip dev)"

text \<open>A connect comes first, a status after it.\<close>

definition in_turn :: "nat \<Rightarrow> ip_device \<Rightarrow> internal_client \<Rightarrow> 'c program \<Rightarrow> bool" where
  "in_turn cid dev client p \<longleftrightarrow>
     (if has_deviceconnect client
      then \<not> co_ready (srv_connections p cid) \<and> \<not> srv_registered (device_of_ip dev) p
      else seated cid dev p \<and> co_ready (srv_connections p cid))"

text \<open>The module of the device serves it.\<close>

abbreviation served_by :: "error_codes \<Rightarrow> module_handlers \<Rightarrow> handler \<Rightarrow> ip_device \<Rightarrow> 'c program \<Rightarrow> bool" where
  "served_by c hs h dev p \<equiv> serves c hs h dev (gs_moduleHandler (pr_gateway p))"

lemma registered_update [simp]:
  "srv_registered d (srv_update cid (\<lambda>co. co\<lparr>co_receiving := b\<rparr>) srv) = srv_registered d srv"
  by (auto simp: srv_registered_def srv_same_def)

lemma dispatch_in_turn:
  assumes "receives cid p" and "may_send c h dev client" and "in_turn cid dev client p"
    and "io_parse io m = Some client" and "p0 = srv_update cid (\<lambda>co. co\<lparr>co_receiving := False\<rparr>) p"
  shows "\<exists>p1. srv_dispatch io cid m p0 = (True, p1) \<and> srv_ok {cid} p1 \<and> seated cid dev p1 \<and>
    co_open (srv_connections p1 cid) \<and> co_written (srv_connections p1 cid) = co_written (srv_connections p cid) \<and>
    srv_fromInternalQueue p1 = srv_fromInternalQueue p @ [InternalClientMessage False client] \<and>
    srv_toInternalQueue p1 = srv_toInternalQueue p \<and> \<not> srv_stopped p1 \<and> pr_gateway p1 = pr_gateway p"
proof -
  have l: "cid < srv_next p0" "co_open (srv_connections p0 cid)" "\<not> srv_stopped p0" "pr_gateway p0 = pr_gateway p"
    "co_written (srv_connections p0 cid) = co_written (srv_connections p cid)"
    "srv_fromInternalQueue p0 = srv_fromInternalQueue p" "srv_toInternalQueue p0 = srv_toInternalQueue p"
    using assms(1) by (simp_all add: receives_def assms(5))
  have ok: "srv_ok {} p0" unfolding assms(5) by (rule srv_ok_cong [of "{}" p]) (use assms(1) in \<open>auto simp: receives_def\<close>)
  have "srv_ok {cid} (snd (srv_dispatch io cid m p0))"
    using srv_ok_dispatch [OF ok _ l(1), of io m] by simp
  moreover have "\<exists>p1. srv_dispatch io cid m p0 = (True, p1) \<and> seated cid dev p1 \<and>
    co_open (srv_connections p1 cid) \<and> co_written (srv_connections p1 cid) = co_written (srv_connections p0 cid) \<and>
    srv_fromInternalQueue p1 = srv_fromInternalQueue p0 @ [InternalClientMessage False client] \<and>
    srv_toInternalQueue p1 = srv_toInternalQueue p0 \<and> \<not> srv_stopped p1 \<and> pr_gateway p1 = pr_gateway p"
    using assms(2) unfolding may_send_def
  proof (elim disjE exE conjE)
    assume client: "client = IC_DeviceConnect \<lparr>cn_device = dev\<rparr>"
    then have "\<not> co_ready (srv_connections p0 cid)" "srv_findConnection (device_of_ip dev) p0 = None"
      using assms(3) by (simp_all add: in_turn_def assms(5) srv_find_None)
    then show ?thesis
      using l by (simp add: srv_dispatch_def assms(4) client srv_handleConnection_def Let_def srv_connectNewDevice_def
          seated_def)
  next
    fix status
    assume client: "client = IC_DeviceStatus status"
    then have "co_ready (srv_connections p0 cid)" "seated cid dev p0"
      using assms(3) by (auto simp: in_turn_def assms(5) seated_def)
    then show ?thesis
      using l by (simp add: srv_dispatch_def assms(4) client srv_handleStatus_def seated_def)
  qed
  ultimately show ?thesis using l by auto
qed

text \<open>The listening thread sends the only answer to the connection of its device.\<close>

lemma listen_answers:
  assumes "srv_inv srv" and "seated cid dev srv" and "co_open (srv_connections srv cid)"
    and "\<And>bs. io_write io cid bs = (bs, True)" and "\<not> srv_stopped srv"
    and "srv_toInternalQueue srv = [ModuleHandlerMessage False m]" and "response_device m = dev"
  shows "srv_listenToQueue_round io [] srv = (srv_update cid (\<lambda>co. co\<lparr>co_written := co_written co @
    frame (io_serialize io m), co_ready := True\<rparr>) srv)\<lparr>srv_toInternalQueue := []\<rparr>"
proof -
  let ?one = "[ModuleHandlerMessage False m]"
  have same: "srv\<lparr>srv_toInternalQueue := ?one\<rparr> = srv" by (simp flip: assms(6))
  have "srv_listenToQueue_round io [] srv = (srv_validateResponse io m (srv\<lparr>srv_toInternalQueue := ?one\<rparr>))
      \<lparr>srv_toInternalQueue := []\<rparr>"
    using assms(5,6) by (simp add: srv_listenToQueue_round_def waitForValueWithTimeout_def Let_def)
  also have "srv_validateResponse io m (srv\<lparr>srv_toInternalQueue := ?one\<rparr>) = srv_update cid (\<lambda>co. co\<lparr>co_written :=
      co_written co @ frame (io_serialize io m), co_ready := True\<rparr>) srv"
    unfolding same using response_to_its_client [OF assms(1), of cid "device_of_ip dev" io m] assms(2-4,7)
    by (simp add: seated_def isSame_simps device_of_ip_def frame_def)
  finally show ?thesis .
qed

lemma response_device_answer: "answer_to dev client answer \<Longrightarrow> response_device answer = dev"
  by (auto simp: answer_to_def createInternalServerConnectResponseMessage_def createInternalServerCommandMessage_def
      split: if_splits)

text \<open>A round of the module handler, when no device timer has expired.\<close>

lemma round_dispatches:
  assumes "mh_quiet (gs_moduleHandler (pr_gateway p))" and "srv_fromInternalQueue p = msg # q"
    and "mh_dispatch c msg (gs_moduleHandler (gateway_of p)) = Inr mh"
  shows "gateway_step c (Handle_messages []) (gateway_of p) =
    Inr (share_moduleHandler (mh\<lparr>mh_fromInternalQueue := q\<rparr>) (gateway_of p))"
proof -
  define mh0 where "mh0 = gs_moduleHandler (gateway_of p)"
  have mh0: "mh_quiet mh0" "mh_fromInternalQueue mh0 = msg # q"
    using assms(1,2) by (simp_all add: mh0_def gateway_of_def mh_quiet_def)
  have "mh0\<lparr>mh_fromInternalQueue := msg # q\<rparr> = mh0" by (simp flip: mh0(2))
  then have check: "mh_checkTimeoutedMessages c (mh0\<lparr>mh_fromInternalQueue := msg # q\<rparr>) = mh0"
    using mh_quiet_check [OF mh0(1)] by metis
  have "mh_fromInternalQueue mh = msg # q"
    using mh_dispatch_inputs [OF assms(3)] mh0(2) by (simp add: mh_inputs_def mh0_def)
  then have "mh_handleMessages_round c [] mh0 = Inr (mh\<lparr>mh_fromInternalQueue := q\<rparr>)"
    using assms(3) mh0(2) by (simp add: mh_handleMessages_round_def waitForValueWithTimeout_def check aq_front_def
        aq_pop_def flip: mh0_def)
  then show ?thesis by (simp add: mh0_def)
qed

lemma answer_round_serves:
  assumes "codes_ok c" and "served_by c hs h dev p" and "may_send c h dev client" and "srv_ok {cid} p"
    and "seated cid dev p" and "co_open (srv_connections p cid)" and "\<And>bs. io_write io cid bs = (bs, True)"
    and "srv_fromInternalQueue p = [InternalClientMessage False client]" and "srv_toInternalQueue p = []"
    and "\<not> srv_stopped p"
  shows "\<exists>answer p'. answer_to dev client answer \<and> answer_round c io p = p' \<and> served_by c hs h dev p' \<and>
    srv_connections p' = (srv_connections p)(cid := (srv_connections p cid)\<lparr>co_written :=
      co_written (srv_connections p cid) @ frame (io_serialize io answer), co_ready := True\<rparr>) \<and>
    srv_connectedDevices p' = srv_connectedDevices p \<and> srv_next p' = srv_next p \<and> \<not> srv_stopped p' \<and>
    srv_fromInternalQueue p' = [] \<and> srv_toInternalQueue p' = []"
proof -
  define mh where "mh = gs_moduleHandler (gateway_of p)"
  have mh: "serves c hs h dev mh" "mh_toInternalQueue mh = []"
    using assms(2,9) by (simp_all add: gateway_of_def mh_def)
  have quiet: "mh_quiet (gs_moduleHandler (pr_gateway p))" using assms(2) by (simp add: serves_def)
  obtain mh0 answer where
    run: "mh_dispatch c (InternalClientMessage False client) mh = Inr mh0" "serves c hs h dev mh0"
    and answer: "answer_to dev client answer" "mh_toInternalQueue mh0 = [ModuleHandlerMessage False answer]"
    using serves_dispatch [OF assms(1) mh(1) assms(3)] mh(2) by (auto simp: returns_def)
  let ?mh' = "mh0\<lparr>mh_fromInternalQueue := []\<rparr>"
  let ?p1 = "share_gateway (share_moduleHandler ?mh' (gateway_of p)) p"
  have "gateway_step c (Handle_messages []) (gateway_of p) = Inr (share_moduleHandler ?mh' (gateway_of p))"
    by (rule round_dispatches [OF quiet assms(8) run(1) [unfolded mh_def]])
  then have round: "answer_round c io p = srv_listenToQueue_round io [] ?p1"
    by (simp add: answer_round_def handle_round_def del: gateway_step.simps)
  have p1: "gs_moduleHandler (pr_gateway ?p1) = ?mh'" "srv_fromInternalQueue ?p1 = []"
    "srv_toInternalQueue ?p1 = [ModuleHandlerMessage False answer]"
    using answer by (simp_all add: share_moduleHandler_def)
  have "srv_ok {cid} ?p1" by (rule share_gateway_ok) (use assms(4,8) in \<open>simp_all add: share_moduleHandler_def\<close>)
  then have "srv_inv ?p1" by (simp add: srv_ok_def)
  from listen_answers [OF this, of cid dev io answer] show ?thesis
    unfolding round
    using p1 run(2) answer response_device_answer [OF answer(1)] assms(5-7,10)
    by (intro exI [of _ answer]) (auto simp: seated_def)
qed

text \<open>A message that arrives in one piece is handled once.\<close>

lemma receive_frame:
  assumes "context_at cx [] 0" and "length (cx_buffer cx) = buffer_length" and "message_ok m"
    and "length (frame m) \<le> buffer_length" and "h m st = (ok, st')"
  shows "\<exists>cx'. processBufferData h (length (frame m)) 0 (fill_buffer (frame m) cx) st = (ok, cx', st') \<and>
    (ok \<longrightarrow> context_at cx' [] 0) \<and> length (cx_buffer cx') = buffer_length"
proof -
  have "context_at cx [m] 0" using assms(1) by (simp add: context_at_def)
  from receive_one [OF _ this _ _ _ _ , of "frame m" "[]" "[m]" "[]" 0 h st ok st'] assms(2-5)
  show ?thesis by (auto simp: outside_header_def header_size_def)
qed

lemma receive_handled:
  assumes "receives cid p" and "message_ok m" and "length (frame m) \<le> buffer_length"
    and "srv_handleMessage io env cid m (srv_update cid (\<lambda>co. co\<lparr>co_receiving := False\<rparr>) p) = (True, p2)"
    and "p' = srv_asyncReceiveHandler io env cid (Received_bytes (frame m)) p"
  shows "\<exists>cx'. p' = srv_addAsyncReceive cid (srv_update cid (\<lambda>co. co\<lparr>co_connContext := cx'\<rparr>) p2) \<and>
    context_at cx' [] 0 \<and> length (cx_buffer cx') = buffer_length"
proof -
  define p0 where "p0 = srv_update cid (\<lambda>co. co\<lparr>co_receiving := False\<rparr>) p"
  have cx: "context_at (co_connContext (srv_connections p0 cid)) [] 0"
    "length (cx_buffer (co_connContext (srv_connections p0 cid))) = buffer_length"
    using assms(1) by (simp_all add: p0_def receives_def)
  obtain cx' where b: "processBufferData (srv_handleMessage io env cid) (length (frame m)) 0
      (fill_buffer (frame m) (co_connContext (srv_connections p0 cid))) p0 = (True, cx', p2)"
      and cx': "context_at cx' [] 0" "length (cx_buffer cx') = buffer_length"
    using receive_frame [where h = "srv_handleMessage io env cid", OF cx assms(2,3) assms(4) [folded p0_def]] by auto
  have "p' = srv_addAsyncReceive cid (srv_update cid (\<lambda>co. co\<lparr>co_connContext := cx'\<rparr>) p2)"
    using b by (simp add: assms(5) srv_asyncReceiveHandler_def srv_processBufferData_def Let_def flip: p0_def)
  then show ?thesis using cx' by blast
qed

lemma client_message_answered:
  assumes "codes_ok c" and "served_by c hs h dev p" and "listening_to cid p" and "may_send c h dev client"
    and "in_turn cid dev client p" and "\<And>bs. io_write io cid bs = (bs, True)" and "io_parse io m = Some client"
    and "message_ok m" and "length (frame m) \<le> buffer_length" and "p' = client_message c io cid m p"
  shows "\<exists>answer. answer_to dev client answer \<and>
    co_written (srv_connections p' cid) = co_written (srv_connections p cid) @ frame (io_serialize io answer) \<and>
    listening_to cid p' \<and> seated cid dev p' \<and> co_ready (srv_connections p' cid) \<and> served_by c hs h dev p'"
proof -
  have l: "receives cid p" "srv_fromInternalQueue p = []" "srv_toInternalQueue p = []" "srv_ok {} p" "cid < srv_next p"
      "co_receiving (srv_connections p cid)"
    using assms(3) by (simp_all add: listening_to_def receives_def)
  obtain p1 where d: "srv_dispatch io cid m (srv_update cid (\<lambda>co. co\<lparr>co_receiving := False\<rparr>) p) = (True, p1)"
    and p1: "srv_ok {cid} p1" "seated cid dev p1" "co_open (srv_connections p1 cid)"
      "co_written (srv_connections p1 cid) = co_written (srv_connections p cid)"
      "srv_fromInternalQueue p1 = [InternalClientMessage False client]" "srv_toInternalQueue p1 = []"
      "\<not> srv_stopped p1" "pr_gateway p1 = pr_gateway p"
    using dispatch_in_turn [OF l(1) assms(4,5,7) refl] l(2,3) by auto
  have "served_by c hs h dev p1" using assms(2) p1(8) by simp
  from answer_round_serves [OF assms(1) this assms(4) p1(1-3) assms(6) p1(5-7)]
  obtain answer p2 where answer: "answer_to dev client answer" and p2: "answer_round c io p1 = p2" "served_by c hs h dev p2"
    "srv_connections p2 = (srv_connections p1)(cid := (srv_connections p1 cid)\<lparr>co_written :=
      co_written (srv_connections p1 cid) @ frame (io_serialize io answer), co_ready := True\<rparr>)"
    "srv_connectedDevices p2 = srv_connectedDevices p1" "srv_next p2 = srv_next p1" "\<not> srv_stopped p2"
    "srv_fromInternalQueue p2 = []" "srv_toInternalQueue p2 = []"
    by auto
  have "srv_handleMessage io (answer_round c io) cid m (srv_update cid (\<lambda>co. co\<lparr>co_receiving := False\<rparr>) p) = (True, p2)"
    using p2 by (simp add: srv_handleMessage_def d Let_def)
  from receive_handled [OF l(1) assms(8,9) this refl] obtain cx' where
    p': "p' = srv_addAsyncReceive cid (srv_update cid (\<lambda>co. co\<lparr>co_connContext := cx'\<rparr>) p2)"
    and cx': "context_at cx' [] 0" "length (cx_buffer cx') = buffer_length"
    by (auto simp: assms(10) client_message_def)
  have "srv_ok {} p'"
    using program_reaches_ok [OF client_message_reaches [OF program_reaches.start l(5,6)] l(4)] assms(10) by simp
  moreover have "cid < srv_next p2" using p1(1) p2(5) by (simp add: srv_ok_def)
  ultimately show ?thesis
    using answer p1 p2 cx'
    by (intro exI [of _ answer]) (auto simp: p' listening_to_def receives_def seated_def srv_addAsyncReceive_def)
qed

section \<open>The session\<close>

lemma session_simps [simp]:
  "session c io cid [] p = p"
  "session c io cid (m # ms) p = session c io cid ms (client_message c io cid m p)"
  by (simp_all add: session_def)

lemma session_answered:
  assumes "codes_ok c" and "\<And>bs. io_write io cid bs = (bs, True)"
    and "list_all2 (\<lambda>m client. io_parse io m = Some client \<and> message_ok m \<and> length (frame m) \<le> buffer_length) ms clients"
    and "\<forall>client \<in> set clients. may_send c h dev client \<and> \<not> has_deviceconnect client"
    and "served_by c hs h dev p" and "listening_to cid p" and "seated cid dev p" and "co_ready (srv_connections p cid)"
  shows "\<exists>p' answers. session c io cid ms p = p' \<and> list_all2 (answer_to dev) clients answers \<and>
    co_written (srv_connections p' cid) = co_written (srv_connections p cid) @ stream_of (map (io_serialize io) answers) \<and>
    listening_to cid p' \<and> seated cid dev p' \<and> co_ready (srv_connections p' cid) \<and>
    (\<forall>p0. program_reaches c io {} p0 p \<longrightarrow> program_reaches c io {} p0 p')"
  using assms(3-8)
proof (induction ms clients arbitrary: p rule: list_all2_induct)
  case Nil
  then show ?case by (intro exI [of _ p] exI [of _ "[]"]) simp
next
  case (Cons m ms client clients)
  have "in_turn cid dev client p" using Cons by (simp add: in_turn_def)
  from client_message_answered [OF assms(1) Cons.prems(2,3) _ this assms(2) _ _ _ refl, of m] Cons
  obtain answer where one: "answer_to dev client answer" and inv: "served_by c hs h dev (client_message c io cid m p)"
    "listening_to cid (client_message c io cid m p)" "seated cid dev (client_message c io cid m p)"
    "co_ready (srv_connections (client_message c io cid m p) cid)"
    and written: "co_written (srv_connections (client_message c io cid m p) cid) =
      co_written (srv_connections p cid) @ frame (io_serialize io answer)"
    by auto
  from Cons.IH [OF _ inv] Cons.prems(1) obtain p' answers where
    "session c io cid ms (client_message c io cid m p) = p'" "list_all2 (answer_to dev) clients answers"
    "co_written (srv_connections p' cid) = co_written (srv_connections (client_message c io cid m p) cid) @
      stream_of (map (io_serialize io) answers)"
    "listening_to cid p'" "seated cid dev p'" "co_ready (srv_connections p' cid)"
    "\<forall>p0. program_reaches c io {} p0 (client_message c io cid m p) \<longrightarrow> program_reaches c io {} p0 p'"
    by auto
  with one written client_message_reaches [of c io _ p cid m] Cons.prems(3) show ?case
    by (intro exI [of _ p'] exI [of _ "answer # answers"]) (simp add: listening_to_def receives_def)
qed

lemma accepted_receives:
  assumes "srv_ok {} p" and "\<not> srv_stopped p"
  shows "receives (srv_next p) (srv_accepted False p)"
    and "srv_fromInternalQueue (srv_accepted False p) = srv_fromInternalQueue p"
    and "srv_toInternalQueue (srv_accepted False p) = srv_toInternalQueue p"
    and "pr_gateway (srv_accepted False p) = pr_gateway p" and "srv_accepting (srv_accepted False p)"
    and "srv_connectedDevices (srv_accepted False p) = srv_connectedDevices p"
    and "srv_next (srv_accepted False p) = Suc (srv_next p)"
    and "\<not> co_ready (srv_connections (srv_accepted False p) (srv_next p))"
    and "co_written (srv_connections (srv_accepted False p) (srv_next p)) = []"
    and "srv_registered d (srv_accepted False p) = srv_registered d p"
proof -
  have fresh: "srv_next p \<notin> set (srv_connectedDevices p)" using assms(1) by (auto simp: srv_ok_def srv_inv_def)
  note defs = srv_accepted_def Let_def srv_addAsyncAccept_def srv_addAsyncReceive_def new_connection_def
  show "receives (srv_next p) (srv_accepted False p)"
    using assms srv_ok_accepted [OF assms(1), of False] context_at_empty by (auto simp: receives_def defs)
  show "srv_fromInternalQueue (srv_accepted False p) = srv_fromInternalQueue p"
    "srv_toInternalQueue (srv_accepted False p) = srv_toInternalQueue p"
    "pr_gateway (srv_accepted False p) = pr_gateway p" "srv_accepting (srv_accepted False p)"
    "srv_connectedDevices (srv_accepted False p) = srv_connectedDevices p"
    "srv_next (srv_accepted False p) = Suc (srv_next p)"
    "\<not> co_ready (srv_connections (srv_accepted False p) (srv_next p))"
    "co_written (srv_connections (srv_accepted False p) (srv_next p)) = []"
    using assms(2) by (simp_all add: defs)
  show "srv_registered d (srv_accepted False p) = srv_registered d p"
    using fresh by (auto simp: srv_registered_def srv_same_def defs intro!: bex_cong split: if_splits)
qed

lemma accepted_listening:
  assumes "srv_ok {} p" and "\<not> srv_stopped p" and "srv_fromInternalQueue p = []" and "srv_toInternalQueue p = []"
  shows "listening_to (srv_next p) (srv_accepted False p)"
  using accepted_receives [OF assms(1,2)] assms(3,4) by (simp add: listening_to_def)

lemma answer_to_status:
  "answer_to dev (IC_DeviceStatus status) answer \<longleftrightarrow> (\<exists>cmd. answer = createInternalServerCommandMessage dev cmd)"
  by (simp add: answer_to_def)

lemma commands_of_answers:
  "list_all2 (answer_to dev) (map IC_DeviceStatus statuses) answers \<Longrightarrow>
   \<exists>cmds. length cmds = length statuses \<and> answers = map (createInternalServerCommandMessage dev) cmds"
proof (induction statuses arbitrary: answers)
  case (Cons status statuses)
  then obtain cmd answers' where a: "answers = createInternalServerCommandMessage dev cmd # answers'"
    "list_all2 (answer_to dev) (map IC_DeviceStatus statuses) answers'"
    by (auto simp: list_all2_Cons1 answer_to_status)
  from Cons.IH [OF a(2)] obtain cmds where
    "length cmds = length statuses" "answers' = map (createInternalServerCommandMessage dev) cmds" by blast
  then show ?case by (intro exI [of _ "cmd # cmds"]) (simp add: a(1))
qed simp

lemma new_session_answered:
  assumes "codes_ok c" and "srv_ok {} p" and "served_by c hs h dev p" and "\<And>bs. io_write io (srv_next p) bs = (bs, True)"
    and "srv_accepting p" and "\<not> srv_stopped p" and "srv_fromInternalQueue p = []" and "srv_toInternalQueue p = []"
    and "\<not> srv_registered (device_of_ip dev) p"
    and "clients = IC_DeviceConnect \<lparr>cn_device = dev\<rparr> # map IC_DeviceStatus statuses"
    and "\<forall>status \<in> set statuses. st_device status = dev \<and> accepts_status c h status"
    and "list_all2 (\<lambda>m client. io_parse io m = Some client \<and> message_ok m \<and> length (frame m) \<le> buffer_length) ms clients"
    and "p' = session c io (srv_next p) ms (srv_accepted False p)"
  shows "\<exists>cmds. length cmds = length statuses \<and>
    co_written (srv_connections p' (srv_next p)) = stream_of (map (io_serialize io)
      (createInternalServerConnectResponseMessage dev CR_OK # map (createInternalServerCommandMessage dev) cmds)) \<and>
    listening_to (srv_next p) p' \<and> seated (srv_next p) dev p' \<and> co_ready (srv_connections p' (srv_next p)) \<and>
    (\<forall>p0. program_reaches c io {} p0 p \<longrightarrow> program_reaches c io {} p0 p')"
proof -
  let ?cid = "srv_next p" and ?connect = "IC_DeviceConnect \<lparr>cn_device = dev\<rparr>" and ?p = "srv_accepted False p"
  note acc = accepted_listening [OF assms(2,6-8)] accepted_receives(8-10) [OF assms(2,6)]
  obtain m ms' where ms: "ms = m # ms'" "io_parse io m = Some ?connect" "message_ok m" "length (frame m) \<le> buffer_length"
    and rest: "list_all2 (\<lambda>m client. io_parse io m = Some client \<and> message_ok m \<and> length (frame m) \<le> buffer_length)
      ms' (map IC_DeviceStatus statuses)"
    using assms(10,12) by (auto simp: list_all2_Cons2)
  let ?p1 = "client_message c io ?cid m ?p"
  have "may_send c h dev ?connect" "in_turn ?cid dev ?connect ?p" "served_by c hs h dev ?p"
    using acc assms(3,9) by (simp_all add: may_send_def in_turn_def)
  from client_message_answered [OF assms(1) this(3) acc(1) this(1,2) assms(4) ms(2-4) refl] acc(3)
  obtain answer where one: "answer_to dev ?connect answer" and inv: "served_by c hs h dev ?p1"
      "listening_to ?cid ?p1" "seated ?cid dev ?p1" "co_ready (srv_connections ?p1 ?cid)"
    and written: "co_written (srv_connections ?p1 ?cid) = frame (io_serialize io answer)"
    by auto
  have "\<forall>client \<in> set (map IC_DeviceStatus statuses). may_send c h dev client \<and> \<not> has_deviceconnect client"
    using assms(11) by (auto simp: may_send_def)
  from session_answered [OF assms(1,4) rest this inv] obtain answers where
    answers: "list_all2 (answer_to dev) (map IC_DeviceStatus statuses) answers"
      "co_written (srv_connections p' ?cid) = frame (io_serialize io answer) @ stream_of (map (io_serialize io) answers)"
    and end_: "listening_to ?cid p'" "seated ?cid dev p'" "co_ready (srv_connections p' ?cid)"
      "\<forall>p0. program_reaches c io {} p0 ?p1 \<longrightarrow> program_reaches c io {} p0 p'"
    unfolding written by (auto simp: assms(13) ms(1))
  obtain cmds where cmds: "length cmds = length statuses" "answers = map (createInternalServerCommandMessage dev) cmds"
    using commands_of_answers [OF answers(1)] by blast
  have "program_reaches c io {} p0 p'" if "program_reaches c io {} p0 p" for p0
    using end_(4) client_message_reaches [OF program_reaches.accept [OF that assms(5)], of ?cid False m] acc(1)
    by (simp add: listening_to_def receives_def)
  then show ?thesis
    using one answers(2) end_(1-3) cmds by (intro exI [of _ cmds]) (auto simp: answer_to_def)
qed

text \<open>
  C3: a client that is accepted at any moment of a run of the started program at which nothing is under way, connects a device
  that is not connected yet and then sends
  statuses of it, gets an answer to each of its messages, in their order and framed so that it can tell them
  apart: the connect is accepted, and every status is answered with one command for the device. Its connection stays registered
  and waits for the next message, and the program has run on. It is enough that the module of the device is loaded, serves the
  type of the device and accepts its
  statuses, that each message arrives in one piece, and that a round of the module handler and one of the
  listening thread come to pass during each wait.
\<close>

theorem client_session_answered:
  assumes "codes_ok c" and "gateway_main env (load_module c modules) verbosity version argv = Inr (Inr gs)"
    and "gateway_run c cf listens gs = Inr gs0" and "libraries_ok c modules"
    and "program_reaches c io {} (program_of gs0) p" and "srv_accepting p" and "\<not> srv_stopped p"
    and "srv_fromInternalQueue p = []" and "srv_toInternalQueue p = []" and "mh_quiet (gs_moduleHandler (pr_gateway p))"
    and "\<not> srv_registered (device_of_ip dev) p"
    and "um_find num_eq (ip_module dev) (ml_moduleLibraryHandlers (gs_library gs)) = Some (Some h)"
    and "um_find num_eq (ip_module dev) (mh_statusAggregators (gs_moduleHandler (pr_gateway p))) = Some (h, sa)"
    and "answers_type c h (ip_devicetype dev)" and "\<forall>bs. io_write io (srv_next p) bs = (bs, True)"
    and "clients = IC_DeviceConnect \<lparr>cn_device = dev\<rparr> # map IC_DeviceStatus statuses"
    and "\<forall>status \<in> set statuses. st_device status = dev \<and> accepts_status c h status"
    and "list_all2 (\<lambda>m client. io_parse io m = Some client \<and> message_ok m \<and> length (frame m) \<le> buffer_length) ms clients"
  shows "\<exists>p' cmds. session c io (srv_next p) ms (srv_accepted False p) = p' \<and>
    program_reaches c io {} (program_of gs0) p' \<and> length cmds = length statuses \<and>
    co_written (srv_connections p' (srv_next p)) = stream_of (map (io_serialize io)
      (createInternalServerConnectResponseMessage dev CR_OK # map (createInternalServerCommandMessage dev) cmds)) \<and>
    srv_findConnection (device_of_ip dev) p' = Some (srv_next p) \<and>
    co_ready (srv_connections p' (srv_next p)) \<and> co_receiving (srv_connections p' (srv_next p))"
proof -
  let ?p' = "session c io (srv_next p) ms (srv_accepted False p)"
  note inv = reachable_program [OF assms(1-5)]
  have "served_by c (ml_moduleLibraryHandlers (gs_library gs)) h dev p"
    using inv(2) assms(10,12-14) by (simp add: serves_def steady_gateway_def)
  from new_session_answered [OF assms(1) inv(1) this _ assms(6-9,11,16-18) refl] assms(15) obtain cmds where
    s: "length cmds = length statuses" "co_written (srv_connections ?p' (srv_next p)) = stream_of (map (io_serialize io)
      (createInternalServerConnectResponseMessage dev CR_OK # map (createInternalServerCommandMessage dev) cmds))"
    "listening_to (srv_next p) ?p'" "seated (srv_next p) dev ?p'" "co_ready (srv_connections ?p' (srv_next p))"
    "program_reaches c io {} (program_of gs0) ?p'"
    using assms(5) by blast
  have "srv_findConnection (device_of_ip dev) ?p' = Some (srv_next p)"
    using s(3,4) by (intro srv_find_registered) (auto simp: listening_to_def receives_def srv_ok_def seated_def srv_same_def isSame_simps)
  then show ?thesis using s by (auto simp: listening_to_def receives_def)
qed

text \<open>The first client of the sample program connects a lock and sends one status.\<close>

definition session_status :: device_status where
  "session_status = \<lparr>st_device = convertToIPDevice sample_device, st_statusdata = [5]\<rparr>"

definition session_io :: server_io where
  "session_io = \<lparr>io_parse = \<lambda>bs. if bs = [9] then Some (IC_DeviceConnect \<lparr>cn_device = convertToIPDevice sample_device\<rparr>)
       else if bs = [8] then Some (IC_DeviceStatus session_status) else None,
     io_serialize = \<lambda>_. [5], io_write = \<lambda>_ bs. (bs, True)\<rparr>"

lemma sample_module_answers:
  assumes "load_module sample_codes sample_modules [] 7 path = Inr h"
  shows "answers_type sample_codes h t" and "accepts_status sample_codes h status"
  using assms
  by (auto simp: load_module_def library_loader_load_def sample_modules_def loc_loadLibrary_def sample_object_def
      checkFunction_def local_handler_def answers_type_def accepts_status_def loc_generateFirstCommand_def
      loc_generateCommand_def loc_statusDataValid_def constructBufferByTakeOwnership_def sample_buffer_def)

theorem client_session_answered_witness:
  "\<exists>gs gs0 p'. gateway_main sample_parser (load_module sample_codes sample_modules) V_Info ''1.0''
      [''gateway'', ''config.json''] = Inr (Inr gs) \<and>
    gateway_run sample_codes dummy_factory True gs = Inr gs0 \<and>
    session sample_codes session_io 0 [[9], [8]] (srv_accepted False (program_of gs0)) = p' \<and>
    co_written (srv_connections p' 0) = [1, 0, 0, 0, 5, 1, 0, 0, 0, 5]"
proof -
  obtain gs gs0 h where gs: "gateway_main sample_parser (load_module sample_codes sample_modules) V_Info ''1.0''
      [''gateway'', ''config.json''] = Inr (Inr gs)" "gateway_run sample_codes dummy_factory True gs = Inr gs0"
    and h: "load_module sample_codes sample_modules [] 7 [] = Inr h"
      "um_find num_eq 7 (ml_moduleLibraryHandlers (gs_library gs)) = Some (Some h)"
      "mh_statusAggregators (gs_moduleHandler gs0) = [(7, h, StatusAggregator)]"
    by (rule sample_gateway_loaded)
  have "gs_internalServer gs0 = srv_run InternalServer"
    using gs(2) gateway_main_server [OF gs(1)] by (auto simp: gateway_run_def Let_def bindE_eq_Inr_iff)
  then have p: "srv_next (program_of gs0) = 0" "srv_accepting (program_of gs0)" "\<not> srv_stopped (program_of gs0)"
    "srv_fromInternalQueue (program_of gs0) = []" "srv_toInternalQueue (program_of gs0) = []"
    "\<not> srv_registered d (program_of gs0)" for d
    by (simp_all add: program_of_def server.extend_def srv_run_def srv_addAsyncAccept_def InternalServer_def
        srv_registered_def)
  let ?dev = "convertToIPDevice sample_device"
  have dev: "ip_module ?dev = 7" by (simp add: sample_device_def convertToIPDevice_def)
  have mh: "mh_quiet (gs_moduleHandler (pr_gateway (program_of gs0)))"
    "um_find num_eq 7 (mh_statusAggregators (gs_moduleHandler (pr_gateway (program_of gs0)))) = Some (h, StatusAggregator)"
    using h(3) by (simp_all add: mh_quiet_def mh_shape_def StatusAggregator_def)
  let ?clients = "IC_DeviceConnect \<lparr>cn_device = ?dev\<rparr> # map IC_DeviceStatus [session_status]"
  have io: "\<forall>bs. io_write session_io (srv_next (program_of gs0)) bs = (bs, True)" "io_serialize session_io a = [5]" for a
    by (simp_all add: session_io_def)
  have statuses: "\<forall>status \<in> set [session_status]. st_device status = ?dev \<and> accepts_status sample_codes h status"
    using sample_module_answers(2) [OF h(1)] by (simp add: session_status_def)
  have messages: "list_all2 (\<lambda>m client. io_parse session_io m = Some client \<and> message_ok m \<and>
      length (frame m) \<le> buffer_length) [[9], [8]] ?clients"
    by (simp add: session_io_def message_ok_def header_size_def buffer_length_def)
  from client_session_answered [OF sample_codes_ok gs sample_libraries_ok program_reaches.start p(2-5) mh(1) p(6) _ _
      sample_module_answers(1) [OF h(1)] io(1) refl statuses messages, unfolded dev, OF h(2) mh(2)]
  obtain p' cmds where "session sample_codes session_io 0 [[9], [8]] (srv_accepted False (program_of gs0)) = p'"
    "length cmds = 1" "co_written (srv_connections p' 0) = stream_of (map (io_serialize session_io)
      (createInternalServerConnectResponseMessage ?dev CR_OK # map (createInternalServerCommandMessage ?dev) cmds))"
    unfolding p(1) by auto
  moreover from this have "co_written (srv_connections p' 0) = [1, 0, 0, 0, 5, 1, 0, 0, 0, 5]"
    by (auto simp: io(2) length_Suc_conv frame_def le_bytes_header)
  ultimately show ?thesis using gs by blast
qed

end
