(* ===== verification/Removed_Client.thy ===== *)
theory Removed_Client
  imports Gateway_Session
begin

text \<open>
  A client whose connection is removed while bytes it has sent are still to be handled: the removal does not make the connection
  unready, so its last status is passed to the module handler behind the report of the disconnect.
\<close>

section \<open>Which devices the module handler knows\<close>

text \<open>The device is in the aggregator of its module, where the closures \<open>q\<close> that erase devices wait.\<close>

definition mh_knows :: "device_identification \<Rightarrow> device_identification list \<Rightarrow> module_handler \<Rightarrow> bool" where
  "mh_knows d q mh \<longleftrightarrow> (\<exists>h sa. um_find num_eq (di_module d) (mh_statusAggregators mh) = Some (h, sa) \<and>
     um_contains device_eq d (sa_devices sa) \<and> sa_posted sa = q)"

lemma mh_knows_queues [simp]:
  "mh_knows d q (mh_to_internal m mh) = mh_knows d q mh"
  "mh_knows d q (mh_to_external e mh) = mh_knows d q mh"
  "mh_knows d q (mh\<lparr>mh_fromInternalQueue := r\<rparr>) = mh_knows d q mh"
  by (simp_all add: mh_knows_def mh_to_internal_def mh_to_external_def)

lemma mh_knows_store:
  assumes "um_find num_eq (di_module d) (mh_statusAggregators mh) = Some v"
  shows "mh_knows d q (mh_store (di_module d) h sa mh) \<longleftrightarrow> um_contains device_eq d (sa_devices sa) \<and> sa_posted sa = q"
  using assms by (simp add: mh_knows_def mh_store_def num.find_modify)

lemma sa_get_aggregated_contains:
  "um_contains device_eq d' (sa_devices (snd (snd (sa_get_aggregated_status c h out d sa)))) =
     um_contains device_eq d' (sa_devices sa)"
  by (auto simp: sa_get_aggregated_status_def map_laws split: option.split list.split)

lemma sa_get_command_keeps:
  assumes "sa_get_command c h b d out sa = Inr (rc, out', sa')"
  shows "um_contains device_eq d' (sa_devices sa') = um_contains device_eq d' (sa_devices sa)"
    and "sa_posted sa' = sa_posted sa"
  using assms unfolding sa_get_command_def by (cases rule: sa_getCommand_cases; simp add: map_laws)+

lemma mh_knows_sendAggregated:
  "mh_sendAggregatedStatus c d device disc mh = Inr mh' \<Longrightarrow> mh_knows d q mh \<Longrightarrow> mh_knows d q mh'"
  by (auto simp: mh_sendAggregatedStatus_def bindE_eq_Inr_iff um_at_Inr_iff Let_def split_beta mh_knows_store
      sa_get_aggregated_contains sa_get_aggregated_posted) (auto simp: mh_knows_def)

lemma mh_knows_sendAggregateds:
  "mh_sendAggregatedStatuses c d device n mh = Inr mh' \<Longrightarrow> mh_knows d q mh \<Longrightarrow> mh_knows d q mh'"
  by (induction n arbitrary: mh) (auto simp: bindE_eq_Inr_iff dest: mh_knows_sendAggregated)

text \<open>A status of a device that is served makes it known; closures wait as before.\<close>

lemma mh_handleStatus_knows:
  assumes "codes_ok c" and "serves c hs h dev mh" and "st_device status = dev" and "accepts_status c h status"
    and "um_find num_eq (ip_module dev) (mh_statusAggregators mh) = Some (h, sa)"
    and "mh_handleStatus c status mh = Inr mh'"
  shows "mh_knows (device_of_ip dev) (sa_posted sa) mh'"
proof -
  let ?d = "device_of_ip dev"
  have steady: "steady_handler_of c hs mh" and type: "answers_type c h (di_deviceType ?d)"
    and hs: "um_find num_eq (ip_module dev) (mh_moduleLibraryHandlers mh) = Some (Some h)"
    and find: "um_find num_eq (di_module ?d) (mh_statusAggregators mh) = Some (h, sa)"
    using assms(2,5) by (auto simp: serves_def steady_handler_of_def)
  note agg = steady_handler_find(2) [OF steady find]
  have h: "steady_handler c h" using agg by (simp add: aggregator_of_def)
  obtain b where b: "status_to_buffer h status = Inr b"
    using steady_handler.status_to_buffer_returns [OF h] by blast
  obtain n sa1 where add: "sa_add_status_to_aggregator c h b ?d sa = Inr (n, sa1)"
    and known: "0 \<le> n \<Longrightarrow> um_contains device_eq ?d (sa_devices sa1)"
    using sa_add_status_returns [OF assms(1) agg refl, of b] by (auto simp: returns_def)
  have n: "0 \<le> n" and posted: "sa_posted sa1 = sa_posted sa"
    using add type codes_ok_distinct [OF assms(1)]
    by (cases rule: sa_add_status_cases;
        auto simp: answers_type_def sa_is_device_type_supported_def sa_forceAggregationOnDeviceUnlocked_def Let_def
          simp del: device_of_ip_simps)+
  have valid: "lib_statusDataValid h b (ip_devicetype dev) \<noteq> NOT_OK c"
    using assms(3,4) b by (auto simp: accepts_status_def)
  have run: "mh_answerStatus c status b n h sa1 mh = Inr mh'"
    using assms(3,5,6) handler_at_Inr_iff [of "ip_module dev" "mh_moduleLibraryHandlers mh" h] hs b add n valid
    by (simp add: mh_handleStatus_def Let_def)
  then obtain rc cmd sa2 where get: "sa_get_command c h b ?d empty_buffer sa1 = Inr (rc, cmd, sa2)"
    using assms(3) by (auto simp: mh_answerStatus_def Let_def bindE_eq_Inr_iff)
  have "mh_knows ?d (sa_posted sa) (mh_store (di_module ?d) h sa2 mh)"
    using sa_get_command_keeps [OF get] known [OF n] posted by (simp add: mh_knows_store [OF find] del: device_of_ip_simps)
  then show ?thesis
    using run get assms(3)
    by (auto simp: mh_answerStatus_def Let_def simp del: device_of_ip_simps split: if_splits
        elim!: mh_knows_sendAggregateds)
qed

lemma mh_handleDisconnect_posts:
  assumes "serves c hs h dev mh" and "d = device_of_ip dev"
    and "um_find num_eq (di_module d) (mh_statusAggregators mh) = Some (h, sa)"
    and "mh_handleDisconnect c d mh = Inr mh'"
  shows "serves c hs h dev mh'" and "\<exists>sa'. um_find num_eq (di_module d) (mh_statusAggregators mh') = Some (h, sa') \<and>
    sa_posted sa' \<in> {sa_posted sa, sa_posted sa @ [d]}"
proof -
  note ends = mh_handleDisconnect_keeps [OF assms(3,4)]
  have "steady_handler_of c hs mh'"
    using mh_handleDisconnect_returns [of c hs mh d] assms(1,4) by (simp add: serves_def)
  then show "serves c hs h dev mh'" using serves_shape [OF assms(1) ends(1)] by blast
qed (rule mh_handleDisconnect_keeps(2) [OF assms(3,4)])

section \<open>The removal and the status behind it\<close>

text \<open>The listening thread ends the connection, which stays ready and may have bytes to handle.\<close>

lemma listen_removes:
  assumes "listening_to cid q" and "seated cid dev q" and "co_ready (srv_connections q cid)" and "d = device_of_ip dev"
    and "p = q\<lparr>srv_toInternalQueue := [ModuleHandlerMessage_dev d]\<rparr>" and "p1 = srv_listenToQueue_round io [] p"
  shows "p1 = (srv_removeConnFromMap cid q)\<lparr>srv_toInternalQueue := []\<rparr>" and "srv_ok {} p1"
    and "\<not> srv_registered d p1" and "srv_fromInternalQueue p1 = [InternalClientMessage_dev d]"
    and "co_ready (srv_connections p1 cid)" and "co_receiving (srv_connections p1 cid)"
    and "co_deviceId (srv_connections p1 cid) = Some d"
proof -
  have q: "srv_ok {} q" "srv_inv q" "srv_fromInternalQueue q = []" "\<not> srv_stopped q" "co_receiving (srv_connections q cid)"
    "co_deviceId (srv_connections q cid) = Some d"
    using assms(1,2,4) by (simp_all add: listening_to_def receives_def srv_ok_def seated_def)
  have find: "srv_findConnection d q = Some cid"
    using q assms(2,4) by (intro srv_find_registered) (auto simp: seated_def srv_same_def isSame_simps)
  have "srv_findConnection d p = srv_findConnection d q"
    by (simp add: assms(5) srv_findConnection_def srv_same_def [abs_def])
  then have "p1 = (srv_removeConnFromMap cid p)\<lparr>srv_toInternalQueue := []\<rparr>"
    using find q(4) by (simp add: assms(5,6) srv_listenToQueue_round_def waitForValueWithTimeout_def Let_def
        srv_handleDisconnect_def)
  moreover have "srv_removeConnFromMap cid p = (srv_removeConnFromMap cid q)\<lparr>srv_toInternalQueue :=
      [ModuleHandlerMessage_dev d]\<rparr>"
    by (simp add: assms(5) srv_removeConnFromMap_def srv_findConnection_def srv_same_def [abs_def] srv_priority_def
        srv_push_def srv_close_def srv_update_def split: option.split)
  ultimately show p1: "p1 = (srv_removeConnFromMap cid q)\<lparr>srv_toInternalQueue := []\<rparr>" by simp
  show "srv_ok {} p1" using srv_ok_removeConnFromMap_other [OF q(1)] by (simp add: p1)
  show "\<not> srv_registered d p1"
    using srv_remove_found [OF q(2) find] by (simp add: p1 srv_registered_def srv_same_def)
  show "srv_fromInternalQueue p1 = [InternalClientMessage_dev d]" "co_ready (srv_connections p1 cid)"
    "co_receiving (srv_connections p1 cid)" "co_deviceId (srv_connections p1 cid) = Some d"
    using q find assms(3) by (simp_all add: p1 srv_removeConnFromMap_def srv_priority_def)
qed

text \<open>The status is passed on; the handler then ends, since nobody answers.\<close>

lemma receive_after_removal:
  assumes "p1 = (srv_removeConnFromMap cid q)\<lparr>srv_toInternalQueue := []\<rparr>" and "listening_to cid q"
    and "\<not> srv_registered d p1" and "co_deviceId (srv_connections p1 cid) = Some d" and "co_ready (srv_connections p1 cid)"
    and "io_parse io m = Some (IC_DeviceStatus status)" and "message_ok m" and "length (frame m) \<le> buffer_length"
    and "p2 = srv_asyncReceiveHandler io (\<lambda>p. p) cid (Received_bytes (frame m)) p1"
  shows "srv_fromInternalQueue p2 = srv_fromInternalQueue p1 @ [InternalClientMessage False (IC_DeviceStatus status)]"
    and "\<not> srv_registered d p2" and "pr_gateway p2 = pr_gateway q"
proof -
  define p0 where "p0 = srv_update cid (\<lambda>co. co\<lparr>co_receiving := False\<rparr>) p1"
  define st where "st = srv_update cid (\<lambda>co. co\<lparr>co_ready := False\<rparr>)
    (srv_push (InternalClientMessage False (IC_DeviceStatus status)) p0)"
  have handled: "srv_handleMessage io (\<lambda>p. p) cid m p0 = (False, st)"
    using assms(5) by (simp add: srv_handleMessage_def srv_dispatch_def assms(6) srv_handleStatus_def p0_def st_def)
  have cx: "context_at (co_connContext (srv_connections p0 cid)) [] 0"
    "length (cx_buffer (co_connContext (srv_connections p0 cid))) = buffer_length"
    using assms(2) by (simp_all add: p0_def assms(1) listening_to_def receives_def)
  obtain cx' where run: "processBufferData (srv_handleMessage io (\<lambda>p. p) cid) (length (frame m)) 0
      (fill_buffer (frame m) (co_connContext (srv_connections p0 cid))) p0 = (False, cx', st)"
    using receive_frame [where h = "srv_handleMessage io (\<lambda>p. p) cid", OF cx assms(7,8) handled] by auto
  let ?st = "srv_update cid (\<lambda>co. co\<lparr>co_connContext := cx'\<rparr>) st"
  have "srv_same ?st = srv_same p1" by (simp add: fun_eq_iff srv_same_def st_def p0_def)
  then have unregistered: "\<not> srv_registered d ?st" using assms(3) by (simp add: srv_registered_def st_def p0_def)
  then have "srv_findConnection d ?st = None" by (simp add: srv_find_None)
  moreover have "co_deviceId (srv_connections ?st cid) = Some d" using assms(4) by (simp add: st_def p0_def)
  moreover have "p2 = srv_removeConnFromMap cid ?st"
    using run by (simp add: assms(9) srv_asyncReceiveHandler_def srv_processBufferData_def Let_def flip: p0_def)
  ultimately have p2: "p2 = srv_close cid ?st" by (simp add: srv_removeConnFromMap_def)
  show "srv_fromInternalQueue p2 = srv_fromInternalQueue p1 @ [InternalClientMessage False (IC_DeviceStatus status)]"
    "pr_gateway p2 = pr_gateway q"
    by (simp_all add: p2 st_def p0_def assms(1))
  have "srv_same p2 = srv_same ?st" by (simp add: fun_eq_iff srv_same_def p2)
  then show "\<not> srv_registered d p2" using unregistered by (simp add: srv_registered_def p2)
qed

text \<open>Steps of the gateway on the way: the disconnect is handled, the closure it may have posted runs, the status is handled.\<close>

lemma disconnect_round:
  assumes "served_by c hs h dev p" and "d = device_of_ip dev" and "srv_fromInternalQueue p = InternalClientMessage_dev d # q"
    and "um_find num_eq (di_module d) (mh_statusAggregators (gs_moduleHandler (pr_gateway p))) = Some (h, sa)"
    and "sa_posted sa = []"
  shows "\<exists>gs sa'. gateway_step c (Handle_messages []) (gateway_of p) = Inr gs \<and>
    served_by c hs h dev (share_gateway gs p) \<and> mh_fromInternalQueue (gs_moduleHandler gs) = q \<and>
    um_find num_eq (di_module d) (mh_statusAggregators (gs_moduleHandler gs)) = Some (h, sa') \<and> sa_posted sa' \<in> {[], [d]}"
proof -
  define mh where "mh = gs_moduleHandler (gateway_of p)"
  have mh: "serves c hs h dev mh" "um_find num_eq (di_module d) (mh_statusAggregators mh) = Some (h, sa)"
    using assms(1,4) by (simp_all add: mh_def gateway_of_def)
  obtain mh' where run: "mh_handleDisconnect c d mh = Inr mh'"
    using mh_handleDisconnect_returns [of c hs mh d] mh(1) by (auto simp: serves_def returns_def)
  note posts = mh_handleDisconnect_posts [OF mh(1) assms(2) mh(2) run]
  have "mh_quiet (gs_moduleHandler (pr_gateway p))" using assms(1) by (simp add: serves_def)
  from round_dispatches [OF this assms(3), of c mh'] run
  have "gateway_step c (Handle_messages []) (gateway_of p) =
      Inr (share_moduleHandler (mh'\<lparr>mh_fromInternalQueue := q\<rparr>) (gateway_of p))"
    by (simp add: mh_dispatch_def mh_def)
  then show ?thesis using posts assms(5) by (auto simp: share_moduleHandler_def)
qed

lemma erase_step:
  assumes "served_by c hs h dev p"
    and "um_find num_eq m (mh_statusAggregators (gs_moduleHandler (pr_gateway p))) = Some (h, sa)"
    and "sa_posted sa \<in> {[], [d]}" and "srv_fromInternalQueue p = q"
  shows "\<exists>gs sa'. gateway_step c (Device_erased m d) (gateway_of p) = Inr gs \<and>
    served_by c hs h dev (share_gateway gs p) \<and> mh_fromInternalQueue (gs_moduleHandler gs) = q \<and>
    um_find num_eq m (mh_statusAggregators (gs_moduleHandler gs)) = Some (h, sa') \<and> sa_posted sa' = []"
proof -
  define mh where "mh = gs_moduleHandler (gateway_of p)"
  have mh: "serves c hs h dev mh" "um_find num_eq m (mh_statusAggregators mh) = Some (h, sa)" "mh_fromInternalQueue mh = q"
    using assms(1,2,4) by (simp_all add: mh_def gateway_of_def)
  let ?sa' = "if d \<in> set (sa_posted sa) then sa_run_posted d sa else sa"
  have sa': "sa_posted ?sa' = []" "sa_timeoutedMessageReady ?sa' = sa_timeoutedMessageReady sa"
    using assms(3) by (auto simp: sa_run_posted_def)
  have steady: "steady_handler_of c hs mh" using mh(1) by (simp add: serves_def)
  have "steady_handler_of c hs (mh_store m h ?sa' mh)"
    using steady_handler_store [OF steady] steady_handler_find(2) [OF steady mh(2)] aggregator_of_posted by auto
  then have "serves c hs h dev (mh_store m h ?sa' mh)"
    using serves_shape [OF mh(1) mh_shape_store [OF mh(2) sa'(2)]] by blast
  moreover have "gateway_step c (Device_erased m d) (gateway_of p) =
      Inr (share_moduleHandler (mh_store m h ?sa' mh) (gateway_of p))"
    using mh(2) by (simp add: on_aggregator_def flip: mh_def)
  ultimately show ?thesis
    using sa'(1) mh(2,3) by (auto simp: share_moduleHandler_def mh_store_def num.find_modify simp del: if_split_asm)
qed

lemma status_round:
  assumes "codes_ok c" and "served_by c hs h dev p" and "st_device status = dev" and "accepts_status c h status"
    and "srv_fromInternalQueue p = [InternalClientMessage False (IC_DeviceStatus status)]"
    and "um_find num_eq (ip_module dev) (mh_statusAggregators (gs_moduleHandler (pr_gateway p))) = Some (h, sa)"
    and "sa_posted sa = []"
  shows "\<exists>gs. gateway_step c (Handle_messages []) (gateway_of p) = Inr gs \<and>
    mh_fromInternalQueue (gs_moduleHandler gs) = [] \<and> mh_knows (device_of_ip dev) [] (gs_moduleHandler gs)"
proof -
  define mh where "mh = gs_moduleHandler (gateway_of p)"
  have mh: "serves c hs h dev mh" "um_find num_eq (ip_module dev) (mh_statusAggregators mh) = Some (h, sa)"
    using assms(2,6) by (simp_all add: mh_def gateway_of_def)
  obtain mh' where run: "mh_handleStatus c status mh = Inr mh'"
    using serves_status [OF assms(1) mh(1) assms(3,4)] by (auto simp: returns_def)
  have "mh_quiet (gs_moduleHandler (pr_gateway p))" using assms(2) by (simp add: serves_def)
  from round_dispatches [OF this assms(5), of c mh'] run
  have "gateway_step c (Handle_messages []) (gateway_of p) =
      Inr (share_moduleHandler (mh'\<lparr>mh_fromInternalQueue := []\<rparr>) (gateway_of p))"
    by (simp add: mh_dispatch_def mh_def)
  then show ?thesis
    using mh_handleStatus_knows [OF assms(1) mh(1) assms(3,4) mh(2) run] assms(7) by (simp add: share_moduleHandler_def)
qed

text \<open>
  C19: a client that is connected and ready sends a status just when the module handler, which has heard nothing of it for too long,
  asks the server to end the connection of the device. If the receive handler of the status runs after the connection has been removed,
  the status is passed to the module handler behind the report of the disconnect, and the program comes to a state
  in which the device is not connected, nothing about it is under way, but the module handler has a status aggregator entry
  for it that nothing erases: the next request to end its connection finds none and reports no disconnect.
\<close>

theorem removed_client_returns:
  assumes "codes_ok c" and "listening_to cid q" and "seated cid dev q" and "co_ready (srv_connections q cid)"
    and "served_by c hs h dev q" and "d = device_of_ip dev"
    and "um_find num_eq (di_module d) (mh_statusAggregators (gs_moduleHandler (pr_gateway q))) = Some (h, sa)"
    and "sa_posted sa = []" and "p = q\<lparr>srv_toInternalQueue := [ModuleHandlerMessage_dev d]\<rparr>"
    and "io_parse io m = Some (IC_DeviceStatus status)" and "st_device status = dev" and "accepts_status c h status"
    and "message_ok m" and "length (frame m) \<le> buffer_length"
  shows "\<exists>p2 p'. p2 = srv_asyncReceiveHandler io (\<lambda>p. p) cid (Received_bytes (frame m)) (srv_listenToQueue_round io [] p) \<and>
    srv_fromInternalQueue p2 =
      [InternalClientMessage_dev d, InternalClientMessage False (IC_DeviceStatus status)] \<and>
    program_reaches c io {} p p2 \<and> program_reaches c io {} p2 p' \<and>
    \<not> srv_registered d p' \<and> srv_fromInternalQueue p' = [] \<and> mh_knows d [] (gs_moduleHandler (pr_gateway p')) \<and>
    srv_handleDisconnect d p' = p'"
proof -
  define p1 where "p1 = srv_listenToQueue_round io [] p"
  define p2 where "p2 = srv_asyncReceiveHandler io (\<lambda>p. p) cid (Received_bytes (frame m)) p1"
  note removed = listen_removes [OF assms(2-4,6,9) p1_def]
  note received = receive_after_removal [OF removed(1) assms(2) removed(3,7,5) assms(10,13,14) p2_def]
  have "cid < srv_next p1" using assms(2) by (simp add: removed(1) listening_to_def receives_def)
  then have reach2: "program_reaches c io {} p p2"
    unfolding p2_def p1_def [symmetric]
    by (intro program_reaches.receive program_reaches.start)
      (use removed(6) program_reaches.listen [OF program_reaches.start] in \<open>auto simp: p1_def\<close>)
  have q2: "srv_fromInternalQueue p2 = [InternalClientMessage_dev d, InternalClientMessage False (IC_DeviceStatus status)]"
    using received(1) removed(4) by simp
  have "served_by c hs h dev p2" using assms(5) received(3) by simp
  from disconnect_round [OF this assms(6) q2 _ assms(8)] assms(7) received(3)
  obtain gs1 sa1 where gs1: "gateway_step c (Handle_messages []) (gateway_of p2) = Inr gs1"
    "served_by c hs h dev (share_gateway gs1 p2)"
    "mh_fromInternalQueue (gs_moduleHandler gs1) = [InternalClientMessage False (IC_DeviceStatus status)]"
    "um_find num_eq (di_module d) (mh_statusAggregators (gs_moduleHandler gs1)) = Some (h, sa1)" "sa_posted sa1 \<in> {[], [d]}"
    by auto
  let ?p3 = "share_gateway gs1 p2"
  have reach3: "program_reaches c io {} p2 ?p3" by (rule program_reaches.round [OF program_reaches.start _ gs1(1)]) simp
  from erase_step [OF gs1(2) _ gs1(5), of "di_module d" "srv_fromInternalQueue ?p3"] gs1(3,4)
  obtain gs2 sa2 where gs2: "gateway_step c (Device_erased (di_module d) d) (gateway_of ?p3) = Inr gs2"
    "served_by c hs h dev (share_gateway gs2 ?p3)"
    "mh_fromInternalQueue (gs_moduleHandler gs2) = [InternalClientMessage False (IC_DeviceStatus status)]"
    "um_find num_eq (di_module d) (mh_statusAggregators (gs_moduleHandler gs2)) = Some (h, sa2)" "sa_posted sa2 = []"
    by auto
  let ?p4 = "share_gateway gs2 ?p3"
  have reach4: "program_reaches c io {} p2 ?p4" by (rule program_reaches.round [OF reach3 _ gs2(1)]) simp
  from status_round [OF assms(1) gs2(2) assms(11,12)] gs2(3-5) assms(6)
  obtain gs3 where gs3: "gateway_step c (Handle_messages []) (gateway_of ?p4) = Inr gs3"
    "mh_fromInternalQueue (gs_moduleHandler gs3) = []" "mh_knows d [] (gs_moduleHandler gs3)"
    by auto
  let ?p5 = "share_gateway gs3 ?p4"
  have "program_reaches c io {} p2 ?p5" by (rule program_reaches.round [OF reach4 _ gs3(1)]) simp
  moreover have "srv_same ?p5 = srv_same p2" by (simp add: fun_eq_iff srv_same_def)
  then have gone: "\<not> srv_registered d ?p5" using received(2) by (simp add: srv_registered_def)
  moreover have "srv_handleDisconnect d ?p5 = ?p5" using gone by (simp add: srv_handleDisconnect_def srv_find_None [symmetric])
  ultimately show ?thesis
    using q2 reach2 gs3 by (intro exI [of _ p2] exI [of _ ?p5]) (simp add: p2_def p1_def)
qed

text \<open>The lock of the sample program is connected.\<close>

definition sample_connected :: "bool gateway \<Rightarrow> bool program" where
  "sample_connected gs = \<lparr>srv_connections = (\<lambda>_. new_connection)(0 := \<lparr>co_open = True, co_written = [],
       co_receiving = True, co_deviceId = Some (device_of_ip (convertToIPDevice sample_device)),
       co_connContext = empty_context, co_ready = True\<rparr>),
     srv_next = 1, srv_accepting = True, srv_connectedDevices = [0], srv_fromInternalQueue = [],
     srv_toInternalQueue = [], srv_stopped = False, pr_gateway = gs\<rparr>"

lemma sample_connected_listening:
  "listening_to 0 (sample_connected gs)" "seated 0 (convertToIPDevice sample_device) (sample_connected gs)"
  "co_ready (srv_connections (sample_connected gs) 0)"
  using context_at_empty
  by (auto simp: listening_to_def receives_def seated_def sample_connected_def srv_ok_def srv_inv_def srv_idle_def reports_ok_def
      empty_context_def)

theorem removed_client_returns_witness:
  "\<exists>gs0 p'. program_reaches sample_codes session_io {} ((sample_connected gs0)\<lparr>srv_toInternalQueue :=
      [ModuleHandlerMessage_dev sample_device]\<rparr>) p' \<and>
    \<not> srv_registered sample_device p' \<and> mh_knows sample_device [] (gs_moduleHandler (pr_gateway p'))"
proof -
  obtain gs gs0 h where gs: "gateway_main sample_parser (load_module sample_codes sample_modules) V_Info ''1.0''
      [''gateway'', ''config.json''] = Inr (Inr gs)" "gateway_run sample_codes dummy_factory True gs = Inr gs0"
    and h: "load_module sample_codes sample_modules [] 7 [] = Inr h"
      "um_find num_eq 7 (ml_moduleLibraryHandlers (gs_library gs)) = Some (Some h)"
      "mh_statusAggregators (gs_moduleHandler gs0) = [(7, h, StatusAggregator)]"
    by (rule sample_gateway_loaded)
  let ?q = "sample_connected gs0" and ?dev = "convertToIPDevice sample_device"
  have dev: "device_of_ip ?dev = sample_device" "ip_module ?dev = 7" "di_module sample_device = 7"
    by (simp_all add: sample_device_def convertToIPDevice_def device_of_ip_def)
  have serves: "served_by sample_codes (ml_moduleLibraryHandlers (gs_library gs)) h ?dev ?q"
    using started_gateway_steady [OF gs sample_libraries_ok] sample_module_answers(1) [OF h(1)] h(2,3)
    by (simp add: serves_def steady_gateway_def sample_connected_def dev mh_quiet_def mh_shape_def StatusAggregator_def)
  have sa: "um_find num_eq (di_module sample_device) (mh_statusAggregators (gs_moduleHandler (pr_gateway ?q))) =
      Some (h, StatusAggregator)" "sa_posted StatusAggregator = []"
    using h(3) by (simp_all add: sample_connected_def dev StatusAggregator_def)
  have m: "io_parse session_io [8] = Some (IC_DeviceStatus session_status)" "st_device session_status = ?dev"
    "message_ok [8]" "length (frame [8]) \<le> buffer_length"
    by (simp_all add: session_io_def session_status_def message_ok_def header_size_def buffer_length_def)
  from removed_client_returns [OF sample_codes_ok sample_connected_listening serves dev(1) [symmetric] sa refl m(1,2)
      sample_module_answers(2) [OF h(1)] m(3,4)]
  obtain p2 p' where reach: "program_reaches sample_codes session_io {} (?q\<lparr>srv_toInternalQueue :=
      [ModuleHandlerMessage_dev sample_device]\<rparr>) p2" "program_reaches sample_codes session_io {} p2 p'"
    and end_: "\<not> srv_registered sample_device p'" "mh_knows sample_device [] (gs_moduleHandler (pr_gateway p'))"
    by blast
  from program_reaches_trans [OF reach] end_ show ?thesis by blast
qed

end
