(* ===== verification/Client_Waits.thy ===== *)
theory Client_Waits
  imports Gateway_Session
begin

text \<open>
  A client that is answered although the queues are not empty: as many rounds of the module handler as there are messages before
  its own, and as many of the listening thread as there are answers, are enough.
\<close>

section \<open>The rounds of the module handler\<close>

text \<open>What a round of the module handler leaves alone of the server.\<close>

definition same_server :: "'c program \<Rightarrow> 'c program \<Rightarrow> bool" where
  "same_server p p' \<longleftrightarrow> srv_connections p' = srv_connections p \<and> srv_connectedDevices p' = srv_connectedDevices p \<and>
     srv_next p' = srv_next p \<and> srv_stopped p' = srv_stopped p"

lemma handle_round_dispatches:
  assumes "served_by c hs h dev p" and "srv_fromInternalQueue p = msg # q"
    and "mh_dispatch c msg (gs_moduleHandler (gateway_of p)) = Inr mh" and "serves c hs h dev mh"
  shows "same_server p (handle_round c p)" and "served_by c hs h dev (handle_round c p)"
    and "srv_fromInternalQueue (handle_round c p) = q"
    and "srv_toInternalQueue (handle_round c p) = mh_toInternalQueue mh"
    and "srv_ok busy p \<Longrightarrow> srv_ok busy (handle_round c p)"
proof -
  have "mh_quiet (gs_moduleHandler (pr_gateway p))" using assms(1) by (simp add: serves_def)
  note run = round_dispatches [OF this assms(2,3)]
  then have p': "handle_round c p =
      share_gateway (share_moduleHandler (mh\<lparr>mh_fromInternalQueue := q\<rparr>) (gateway_of p)) p"
    by (simp add: handle_round_def del: gateway_step.simps)
  show "same_server p (handle_round c p)" "served_by c hs h dev (handle_round c p)"
    "srv_fromInternalQueue (handle_round c p) = q" "srv_toInternalQueue (handle_round c p) = mh_toInternalQueue mh"
    using assms(4) by (simp_all add: p' same_server_def share_moduleHandler_def)
  show "srv_ok busy (handle_round c p)" if "srv_ok busy p"
    unfolding p' by (rule share_gateway_ok [OF that]) (simp add: share_moduleHandler_def assms(2))
qed

lemma served_gateway_of: "served_by c hs h dev p \<Longrightarrow> serves c hs h dev (gs_moduleHandler (gateway_of p))"
  by (simp add: gateway_of_def)

text \<open>The messages before the client's own are handled, then its own; the answer comes last.\<close>

lemma handle_rounds_answer:
  assumes "codes_ok c" and "served_by c hs h dev p" and "may_send c h dev client" and "srv_ok busy p"
    and "srv_fromInternalQueue p = q @ [InternalClientMessage False client]"
    and "p' = (handle_round c ^^ Suc (length q)) p"
  shows "\<exists>rs answer. answer_to dev client answer \<and> same_server p p' \<and> served_by c hs h dev p' \<and> srv_ok busy p' \<and>
    srv_toInternalQueue p' = srv_toInternalQueue p @ rs @ [ModuleHandlerMessage False answer] \<and>
    list_all (\<lambda>r. \<not> mhm_disconnect r) rs"
  using assms(2,4-6)
proof (induction q arbitrary: p)
  case Nil
  obtain mh answer where "mh_dispatch c (InternalClientMessage False client) (gs_moduleHandler (gateway_of p)) = Inr mh"
    "serves c hs h dev mh" "answer_to dev client answer"
    "mh_toInternalQueue mh = srv_toInternalQueue p @ [ModuleHandlerMessage False answer]"
    using serves_dispatch [OF assms(1) served_gateway_of [OF Nil.prems(1)] assms(3)] by (auto simp: returns_def)
  with handle_round_dispatches [OF Nil.prems(1), of "InternalClientMessage False client" "[]" mh] Nil.prems show ?case
    by (intro exI [of _ "[]"] exI [of _ answer]) simp
next
  case (Cons msg q)
  obtain mh where run: "mh_dispatch c msg (gs_moduleHandler (gateway_of p)) = Inr mh" "serves c hs h dev mh"
    and answers: "mh_answers (gs_moduleHandler (gateway_of p)) mh"
    using serves_any_dispatch [OF assms(1) served_gateway_of [OF Cons.prems(1)]] by (auto simp: returns_def)
  then obtain rs1 where rs1: "mh_toInternalQueue mh = srv_toInternalQueue p @ rs1" "list_all (\<lambda>r. \<not> mhm_disconnect r) rs1"
    by (auto simp: mh_answers_def)
  have "srv_fromInternalQueue p = msg # q @ [InternalClientMessage False client]" using Cons.prems(3) by simp
  note one = handle_round_dispatches [OF Cons.prems(1) this run]
  have "p' = (handle_round c ^^ Suc (length q)) (handle_round c p)"
    using Cons.prems(4) by (simp add: funpow_swap1)
  from Cons.IH [OF one(2) one(5) [OF Cons.prems(2)] one(3) this] obtain rs answer where
    rest: "answer_to dev client answer" "same_server (handle_round c p) p'" "served_by c hs h dev p'" "srv_ok busy p'"
    "srv_toInternalQueue p' = srv_toInternalQueue (handle_round c p) @ rs @ [ModuleHandlerMessage False answer]"
    "list_all (\<lambda>r. \<not> mhm_disconnect r) rs"
    by auto
  then show ?case
    using one(1) rs1 one(4) by (intro exI [of _ "rs1 @ rs"] exI [of _ answer]) (auto simp: same_server_def)
qed

section \<open>The rounds of the listening thread\<close>

text \<open>A connection only gets bytes appended, whatever is sent.\<close>

lemma srv_sendResponse_appends:
  "\<exists>pre. co_written (srv_connections (snd (srv_sendResponse io k r srv)) cid) = co_written (srv_connections srv cid) @ pre"
  "co_open (srv_connections (snd (srv_sendResponse io k r srv)) cid) = co_open (srv_connections srv cid)"
  by (auto simp: srv_sendResponse_def srv_write_def Let_def split: prod.split)

lemma remove_other:
  assumes "srv_inv p" and "srv_findConnection d p = Some k" and "seated cid dev p" and "\<not> isSame d (device_of_ip dev)"
  shows "seated cid dev (srv_removeConnFromMap k p)"
    and "srv_connections (srv_removeConnFromMap k p) cid = srv_connections p cid"
proof -
  note k = srv_find_Some [OF assms(2)]
  have cid: "co_deviceId (srv_connections p cid) = Some (device_of_ip dev)" "cid \<in> set (srv_connectedDevices p)"
    using assms(3) by (simp_all add: seated_def)
  have "k \<noteq> cid" using k(2) cid(1) assms(4) by (auto simp: srv_same_def)
  obtain di where di: "co_deviceId (srv_connections p k) = Some di"
    using k(2) by (auto simp: srv_same_def split: option.splits)
  have find: "srv_findConnection di p = Some k"
    using k(1) assms(1) di by (intro srv_find_registered) (auto simp: srv_same_iff isSame_simps)
  show "srv_connections (srv_removeConnFromMap k p) cid = srv_connections p cid"
    using \<open>k \<noteq> cid\<close> by (simp add: srv_removeConnFromMap_def di find)
  then show "seated cid dev (srv_removeConnFromMap k p)"
    using cid \<open>k \<noteq> cid\<close> by (auto simp: seated_def srv_removeConnFromMap_def di find)
qed

lemma validate_appends:
  assumes "seated cid dev p"
  shows "seated cid dev (srv_validateResponse io m p)"
    and "co_open (srv_connections (srv_validateResponse io m p) cid) = co_open (srv_connections p cid)"
    and "\<exists>pre. co_written (srv_connections (srv_validateResponse io m p) cid) = co_written (srv_connections p cid) @ pre"
    and "srv_stopped (srv_validateResponse io m p) = srv_stopped p"
    and "pr_gateway (srv_validateResponse io m p) = pr_gateway p"
  using assms srv_sendResponse_appends(1) [where io = io and r = m and srv = p and cid = cid]
  by (auto simp: srv_validateResponse_def seated_def Let_def srv_sendResponse_keeps srv_sendResponse_appends(2)
      split: option.split)

lemma listen_other:
  assumes "srv_ok {cid} p" and "seated cid dev p" and "co_open (srv_connections p cid)" and "\<not> srv_stopped p"
    and "srv_toInternalQueue p = r # rs" and "mhm_disconnect r \<longrightarrow> \<not> isSame (mhm_deviceId r) (device_of_ip dev)"
    and "p' = srv_listenToQueue_round io [] p"
  shows "srv_ok {cid} p' \<and> seated cid dev p' \<and> co_open (srv_connections p' cid) \<and> \<not> srv_stopped p' \<and>
    srv_toInternalQueue p' = rs \<and> pr_gateway p' = pr_gateway p \<and>
    (\<exists>pre. co_written (srv_connections p' cid) = co_written (srv_connections p cid) @ pre)"
proof -
  have ok: "srv_ok {cid} p'" unfolding assms(7) by (rule srv_ok_listenToQueue_round [OF assms(1)])
  have same: "p\<lparr>srv_toInternalQueue := r # rs\<rparr> = p" by (simp flip: assms(5))
  have "p' = (if mhm_disconnect r then srv_handleDisconnect (mhm_deviceId r) (p\<lparr>srv_toInternalQueue := r # rs\<rparr>)
      else srv_validateResponse io (mhm_message r) (p\<lparr>srv_toInternalQueue := r # rs\<rparr>))\<lparr>srv_toInternalQueue := rs\<rparr>"
    using assms(4,5) by (simp add: assms(7) srv_listenToQueue_round_def waitForValueWithTimeout_def Let_def)
  note round = this [unfolded same]
  have inv: "srv_inv p" using assms(1) by (simp add: srv_ok_def)
  show ?thesis
  proof (cases "mhm_disconnect r")
    case True
    then have d: "\<not> isSame (mhm_deviceId r) (device_of_ip dev)" using assms(6) by simp
    show ?thesis
    proof (cases "srv_findConnection (mhm_deviceId r) p")
      case None
      then show ?thesis using True round ok assms(2-4) by (auto simp: srv_handleDisconnect_def seated_def)
    next
      case (Some k)
      then show ?thesis
        using True round ok assms(3,4) remove_other [OF inv Some assms(2) d] by (auto simp: srv_handleDisconnect_def seated_def)
    qed
  next
    case False
    then show ?thesis using round ok assms(3,4) validate_appends [OF assms(2), of io "mhm_message r"] by (auto simp: seated_def)
  qed
qed

text \<open>The rounds come to the answer, which is sent and releases the waiting handler.\<close>

lemma listen_rounds_answer:
  assumes "srv_ok {cid} p" and "seated cid dev p" and "co_open (srv_connections p cid)" and "\<not> srv_stopped p"
    and "srv_toInternalQueue p = rs @ [ModuleHandlerMessage False answer]" and "response_device answer = dev"
    and "\<forall>r \<in> set rs. mhm_disconnect r \<longrightarrow> \<not> isSame (mhm_deviceId r) (device_of_ip dev)"
    and "\<And>bs. io_write io cid bs = (bs, True)"
    and "p' = (srv_listenToQueue_round io [] ^^ Suc (length rs)) p"
  shows "\<exists>pre. co_written (srv_connections p' cid) = co_written (srv_connections p cid) @ pre @ frame (io_serialize io answer) \<and>
    seated cid dev p' \<and> co_ready (srv_connections p' cid) \<and> \<not> srv_stopped p' \<and> pr_gateway p' = pr_gateway p"
  using assms(1-5,7,9)
proof (induction rs arbitrary: p)
  case Nil
  have "srv_inv p" using Nil.prems(1) by (simp add: srv_ok_def)
  from listen_answers [OF this Nil.prems(2,3) assms(8) Nil.prems(4) _ assms(6)] Nil.prems
  show ?case by (auto simp: seated_def)
next
  case (Cons r rs)
  have p': "p' = (srv_listenToQueue_round io [] ^^ Suc (length rs)) (srv_listenToQueue_round io [] p)"
    using Cons.prems(7) by (simp add: funpow_swap1)
  have to: "srv_toInternalQueue p = r # rs @ [ModuleHandlerMessage False answer]" using Cons.prems(5) by simp
  have r: "mhm_disconnect r \<longrightarrow> \<not> isSame (mhm_deviceId r) (device_of_ip dev)" using Cons.prems(6) by simp
  from listen_other [OF Cons.prems(1-4) to r refl] obtain pre1 where
    one: "srv_ok {cid} (srv_listenToQueue_round io [] p)" "seated cid dev (srv_listenToQueue_round io [] p)"
      "co_open (srv_connections (srv_listenToQueue_round io [] p) cid)" "\<not> srv_stopped (srv_listenToQueue_round io [] p)"
      "srv_toInternalQueue (srv_listenToQueue_round io [] p) = rs @ [ModuleHandlerMessage False answer]"
    and kept: "pr_gateway (srv_listenToQueue_round io [] p) = pr_gateway p"
      "co_written (srv_connections (srv_listenToQueue_round io [] p) cid) = co_written (srv_connections p cid) @ pre1"
    by blast
  from Cons.IH [OF one _ p'] Cons.prems(6) kept show ?case by auto
qed

section \<open>An answer that is late\<close>

text \<open>
  An answer to a client that has given up goes to the next connection of its device and ends the wait of that
  one's own message, which has not been handled yet: from then on each message gets the answer to the one before it.
\<close>

lemma stale_answer_taken:
  assumes "receives cid p" and "may_send c h dev client" and "in_turn cid dev client p"
    and "\<And>bs. io_write io cid bs = (bs, True)" and "io_parse io m = Some client" and "message_ok m"
    and "length (frame m) \<le> buffer_length"
    and "srv_toInternalQueue p = [ModuleHandlerMessage False stale]" and "response_device stale = dev"
    and "p' = srv_asyncReceiveHandler io (srv_listenToQueue_round io []) cid (Received_bytes (frame m)) p"
  shows "co_written (srv_connections p' cid) = co_written (srv_connections p cid) @ frame (io_serialize io stale)"
    and "co_receiving (srv_connections p' cid)" and "co_ready (srv_connections p' cid)"
    and "srv_fromInternalQueue p' = srv_fromInternalQueue p @ [InternalClientMessage False client]"
proof -
  obtain p1 where d: "srv_dispatch io cid m (srv_update cid (\<lambda>co. co\<lparr>co_receiving := False\<rparr>) p) = (True, p1)"
    and p1: "srv_ok {cid} p1" "seated cid dev p1" "co_open (srv_connections p1 cid)"
      "co_written (srv_connections p1 cid) = co_written (srv_connections p cid)"
      "srv_fromInternalQueue p1 = srv_fromInternalQueue p @ [InternalClientMessage False client]"
      "srv_toInternalQueue p1 = [ModuleHandlerMessage False stale]" "\<not> srv_stopped p1"
    using dispatch_in_turn [OF assms(1-3,5) refl] assms(8) by auto
  have "srv_inv p1" using p1(1) by (simp add: srv_ok_def)
  note round = listen_answers [OF this p1(2,3) assms(4) p1(7,6) assms(9)]
  then have "srv_handleMessage io (srv_listenToQueue_round io []) cid m
      (srv_update cid (\<lambda>co. co\<lparr>co_receiving := False\<rparr>) p) = (True, srv_listenToQueue_round io [] p1)"
    using p1(7) by (simp add: srv_handleMessage_def d Let_def)
  from receive_handled [OF assms(1,6,7) this assms(10)] obtain cx' where
    "p' = srv_addAsyncReceive cid (srv_update cid (\<lambda>co. co\<lparr>co_connContext := cx'\<rparr>) (srv_listenToQueue_round io [] p1))"
    by blast
  then show "co_written (srv_connections p' cid) = co_written (srv_connections p cid) @ frame (io_serialize io stale)"
    "co_receiving (srv_connections p' cid)" "co_ready (srv_connections p' cid)"
    "srv_fromInternalQueue p' = srv_fromInternalQueue p @ [InternalClientMessage False client]"
    using round p1 by (simp_all add: srv_addAsyncReceive_def)
qed

section \<open>The client is answered\<close>

text \<open>What happens during the wait: \<open>n\<close> rounds of the module handler, and one of the listening thread for each answer.\<close>

definition answer_rounds :: "error_codes \<Rightarrow> server_io \<Rightarrow> nat \<Rightarrow> 'c program \<Rightarrow> 'c program" where
  "answer_rounds c io n p =
     (let p' = (handle_round c ^^ n) p in (srv_listenToQueue_round io [] ^^ length (srv_toInternalQueue p')) p')"

lemma handle_rounds_reach: "program_reaches c io busy p0 p \<Longrightarrow> program_reaches c io busy p0 ((handle_round c ^^ n) p)"
  by (induction n) (auto intro: handle_round_reaches)

lemma listen_rounds_reach:
  "program_reaches c io busy p0 p \<Longrightarrow> program_reaches c io busy p0 ((srv_listenToQueue_round io [] ^^ n) p)"
  by (induction n) (auto intro: program_reaches.listen)

lemma answer_rounds_reaches: "program_reaches c io busy p (answer_rounds c io n p)"
  unfolding answer_rounds_def Let_def by (intro listen_rounds_reach handle_rounds_reach program_reaches.start)

lemma receive_rounds_reaches:
  assumes "receives cid p"
  shows "program_reaches c io {} p (srv_asyncReceiveHandler io (answer_rounds c io n) cid r p)"
  using assms by (intro program_reaches.receive [OF program_reaches.start] answer_rounds_reaches) (simp_all add: receives_def)

text \<open>The answer is there after all these rounds, behind those that were waiting.\<close>

lemma answer_rounds_serve:
  assumes "codes_ok c" and "served_by c hs h dev p" and "may_send c h dev client" and "srv_ok {cid} p"
    and "seated cid dev p" and "co_open (srv_connections p cid)" and "\<And>bs. io_write io cid bs = (bs, True)"
    and "srv_fromInternalQueue p = q @ [InternalClientMessage False client]" and "\<not> srv_stopped p"
    and "\<forall>r \<in> set (srv_toInternalQueue p). mhm_disconnect r \<longrightarrow> \<not> isSame (mhm_deviceId r) (device_of_ip dev)"
    and "p' = answer_rounds c io (Suc (length q)) p"
  shows "\<exists>pre answer. answer_to dev client answer \<and> seated cid dev p' \<and> co_ready (srv_connections p' cid) \<and> \<not> srv_stopped p' \<and>
    co_written (srv_connections p' cid) = co_written (srv_connections p cid) @ pre @ frame (io_serialize io answer)"
proof -
  let ?p1 = "(handle_round c ^^ Suc (length q)) p"
  obtain rs answer where answer: "answer_to dev client answer" and p1: "same_server p ?p1" "srv_ok {cid} ?p1"
    and rs: "srv_toInternalQueue ?p1 = (srv_toInternalQueue p @ rs) @ [ModuleHandlerMessage False answer]"
      "list_all (\<lambda>r. \<not> mhm_disconnect r) rs"
    using handle_rounds_answer [OF assms(1-4,8) refl] by auto
  have "p' = (srv_listenToQueue_round io [] ^^ Suc (length (srv_toInternalQueue p @ rs))) ?p1"
    unfolding assms(11) answer_rounds_def Let_def rs(1) by simp
  moreover have "\<forall>r \<in> set (srv_toInternalQueue p @ rs). mhm_disconnect r \<longrightarrow> \<not> isSame (mhm_deviceId r) (device_of_ip dev)"
    using assms(10) rs(2) by (auto simp: list_all_iff)
  moreover have "seated cid dev ?p1" "co_open (srv_connections ?p1 cid)" "\<not> srv_stopped ?p1"
    "co_written (srv_connections ?p1 cid) = co_written (srv_connections p cid)"
    using p1(1) assms(5,6,9) by (simp_all add: same_server_def seated_def del: funpow.simps)
  ultimately show ?thesis
    using listen_rounds_answer [OF p1(2) _ _ _ rs(1) response_device_answer [OF answer] _ assms(7)] answer
    by (auto simp del: funpow.simps)
qed

text \<open>
  C5: at any moment of a run of the started program, however many messages and answers wait in the two queues between the internal
  server and the module handler, a client whose message is in turn is answered: when the module handler has run once for
  each message waiting before it and once for its own, and the listening thread once for each answer, the answer to
  the message is the last thing written to its connection, the receive handler returns and the connection waits for
  the next message. It is enough that the module of the device serves it, that no disconnect of the
  same device waits to be carried out and that what is written to the client is accepted.
\<close>

theorem waiting_client_answered:
  assumes "codes_ok c" and "gateway_main env (load_module c modules) verbosity version argv = Inr (Inr gs)"
    and "gateway_run c cf listens gs = Inr gs0" and "libraries_ok c modules"
    and "program_reaches c io {} (program_of gs0) p" and "receives cid p" and "mh_quiet (gs_moduleHandler (pr_gateway p))"
    and "um_find num_eq (ip_module dev) (ml_moduleLibraryHandlers (gs_library gs)) = Some (Some h)"
    and "um_find num_eq (ip_module dev) (mh_statusAggregators (gs_moduleHandler (pr_gateway p))) = Some (h, sa)"
    and "answers_type c h (ip_devicetype dev)" and "may_send c h dev client" and "in_turn cid dev client p"
    and "\<forall>bs. io_write io cid bs = (bs, True)" and "io_parse io m = Some client" and "message_ok m"
    and "length (frame m) \<le> buffer_length"
    and "\<forall>r \<in> set (srv_toInternalQueue p). mhm_disconnect r \<longrightarrow> \<not> isSame (mhm_deviceId r) (device_of_ip dev)"
  shows "\<exists>p' pre answer. p' = srv_asyncReceiveHandler io
      (answer_rounds c io (Suc (length (srv_fromInternalQueue p)))) cid (Received_bytes (frame m)) p \<and>
    answer_to dev client answer \<and>
    co_written (srv_connections p' cid) = co_written (srv_connections p cid) @ pre @ frame (io_serialize io answer) \<and>
    co_receiving (srv_connections p' cid) \<and> srv_findConnection (device_of_ip dev) p' = Some cid \<and>
    program_reaches c io {} (program_of gs0) p'"
proof -
  let ?rounds = "answer_rounds c io (Suc (length (srv_fromInternalQueue p)))"
  define p' where "p' = srv_asyncReceiveHandler io ?rounds cid (Received_bytes (frame m)) p"
  note inv = reachable_program [OF assms(1-5)]
  let ?hs = "ml_moduleLibraryHandlers (gs_library gs)"
  have served: "served_by c ?hs h dev p"
    using inv(2) assms(7-10) by (simp add: serves_def steady_gateway_def)
  obtain p1 where d: "srv_dispatch io cid m (srv_update cid (\<lambda>co. co\<lparr>co_receiving := False\<rparr>) p) = (True, p1)"
    and p1: "srv_ok {cid} p1" "seated cid dev p1" "co_open (srv_connections p1 cid)"
      "co_written (srv_connections p1 cid) = co_written (srv_connections p cid)"
      "srv_fromInternalQueue p1 = srv_fromInternalQueue p @ [InternalClientMessage False client]"
      "srv_toInternalQueue p1 = srv_toInternalQueue p" "\<not> srv_stopped p1" "pr_gateway p1 = pr_gateway p"
    using dispatch_in_turn [OF assms(6,11,12,14) refl] by auto
  define p2 where "p2 = ?rounds p1"
  obtain pre answer where answer: "answer_to dev client answer" and p2: "seated cid dev p2" "co_ready (srv_connections p2 cid)"
    "\<not> srv_stopped p2" "co_written (srv_connections p2 cid) = co_written (srv_connections p cid) @ pre @ frame (io_serialize io answer)"
    using answer_rounds_serve [where hs = ?hs, OF assms(1) _ assms(11) p1(1-3) _ p1(5,7) _ p2_def] served assms(13,17) p1(4,6,8)
    by auto
  have "srv_handleMessage io ?rounds cid m (srv_update cid (\<lambda>co. co\<lparr>co_receiving := False\<rparr>) p) = (True, p2)"
    using p2 by (simp add: srv_handleMessage_def d Let_def p2_def)
  from receive_handled [OF assms(6,15,16) this p'_def] obtain cx' where
    "p' = srv_addAsyncReceive cid (srv_update cid (\<lambda>co. co\<lparr>co_connContext := cx'\<rparr>) p2)"
    by blast
  then have end_: "seated cid dev p'" "co_receiving (srv_connections p' cid)"
    "co_written (srv_connections p' cid) = co_written (srv_connections p cid) @ pre @ frame (io_serialize io answer)"
    using p2 by (auto simp: seated_def srv_addAsyncReceive_def)
  have reach: "program_reaches c io {} (program_of gs0) p'"
    unfolding p'_def by (rule program_reaches_trans [OF assms(5) receive_rounds_reaches [OF assms(6)]])
  have "srv_ok {} p'" using reachable_program(1) [OF assms(1-4) reach] .
  then have "srv_findConnection (device_of_ip dev) p' = Some cid"
    using end_(1) by (intro srv_find_registered) (auto simp: srv_ok_def seated_def srv_same_def isSame_simps)
  then show ?thesis using answer end_ reach unfolding p'_def by blast
qed

text \<open>
  The first client of the sample program is not answered in time and comes back: its first connect and its disconnect still wait
  to be handled when its second connect arrives.
\<close>

definition given_up :: "server_io \<Rightarrow> bytes \<Rightarrow> 'c program \<Rightarrow> 'c program" where
  "given_up io m p = srv_asyncReceiveHandler io (\<lambda>p. p) (srv_next p) (Received_bytes (frame m)) (srv_accepted False p)"

lemma connect_unanswered:
  assumes "receives cid p" and "srv_connectedDevices p = []" and "\<not> co_ready (srv_connections p cid)"
    and "io_parse io m = Some (IC_DeviceConnect \<lparr>cn_device = dev\<rparr>)" and "message_ok m" and "length (frame m) \<le> buffer_length"
    and "p' = srv_asyncReceiveHandler io (\<lambda>p. p) cid (Received_bytes (frame m)) p"
  shows "srv_connectedDevices p' = []" and "srv_toInternalQueue p' = srv_toInternalQueue p"
    and "srv_fromInternalQueue p' = srv_fromInternalQueue p @
      [InternalClientMessage False (IC_DeviceConnect \<lparr>cn_device = dev\<rparr>), InternalClientMessage_dev (device_of_ip dev)]"
    and "srv_next p' = srv_next p" and "srv_stopped p' = srv_stopped p" and "srv_accepting p' = srv_accepting p"
    and "pr_gateway p' = pr_gateway p"
proof -
  define p0 where "p0 = srv_update cid (\<lambda>co. co\<lparr>co_receiving := False\<rparr>) p"
  let ?client = "IC_DeviceConnect \<lparr>cn_device = dev\<rparr>"
  let ?p1 = "srv_connectNewDevice cid ?client (device_of_ip dev) p0"
  have "srv_handleMessage io (\<lambda>p. p) cid m p0 = (False, ?p1)"
    using assms(2,3) by (simp add: srv_handleMessage_def srv_dispatch_def assms(4) srv_handleConnection_def Let_def
        srv_findConnection_def srv_connectNewDevice_def p0_def)
  moreover have "context_at (co_connContext (srv_connections p0 cid)) [] 0"
    "length (cx_buffer (co_connContext (srv_connections p0 cid))) = buffer_length"
    using assms(1) by (simp_all add: p0_def receives_def)
  ultimately obtain cx' where "processBufferData (srv_handleMessage io (\<lambda>p. p) cid) (length (frame m)) 0
      (fill_buffer (frame m) (co_connContext (srv_connections p0 cid))) p0 = (False, cx', ?p1)"
    using receive_frame [where h = "srv_handleMessage io (\<lambda>p. p) cid", OF _ _ assms(5,6)] by blast
  then have "p' = srv_removeConnFromMap cid (srv_update cid (\<lambda>co. co\<lparr>co_connContext := cx'\<rparr>) ?p1)"
    by (simp add: assms(7) srv_asyncReceiveHandler_def srv_processBufferData_def Let_def flip: p0_def)
  then show "srv_connectedDevices p' = []" "srv_toInternalQueue p' = srv_toInternalQueue p"
    "srv_fromInternalQueue p' = srv_fromInternalQueue p @
      [InternalClientMessage False (IC_DeviceConnect \<lparr>cn_device = dev\<rparr>), InternalClientMessage_dev (device_of_ip dev)]"
    "srv_next p' = srv_next p" "srv_stopped p' = srv_stopped p" "srv_accepting p' = srv_accepting p"
    "pr_gateway p' = pr_gateway p"
    using assms(2) by (simp_all add: srv_removeConnFromMap_def srv_connectNewDevice_def p0_def srv_findConnection_def srv_same_def
        isSame_simps srv_priority_def srv_close_def srv_push_def
        pushAndNotify_def)
qed

theorem waiting_client_answered_witness:
  "\<exists>gs gs0 p' pre. gateway_main sample_parser (load_module sample_codes sample_modules) V_Info ''1.0''
      [''gateway'', ''config.json''] = Inr (Inr gs) \<and>
    gateway_run sample_codes dummy_factory True gs = Inr gs0 \<and>
    p' = srv_asyncReceiveHandler session_io (answer_rounds sample_codes session_io 3) 1 (Received_bytes (frame [9]))
      (srv_accepted False (given_up session_io [9] (program_of gs0))) \<and>
    co_written (srv_connections p' 1) = pre @ [1, 0, 0, 0, 5] \<and> co_receiving (srv_connections p' 1)"
proof -
  obtain gs gs0 h where gs: "gateway_main sample_parser (load_module sample_codes sample_modules) V_Info ''1.0''
      [''gateway'', ''config.json''] = Inr (Inr gs)" "gateway_run sample_codes dummy_factory True gs = Inr gs0"
    and h: "load_module sample_codes sample_modules [] 7 [] = Inr h"
      "um_find num_eq 7 (ml_moduleLibraryHandlers (gs_library gs)) = Some (Some h)"
      "mh_statusAggregators (gs_moduleHandler gs0) = [(7, h, StatusAggregator)]"
    by (rule sample_gateway_loaded)
  let ?dev = "convertToIPDevice sample_device" and ?P = "program_of gs0"
  let ?connect = "IC_DeviceConnect \<lparr>cn_device = ?dev\<rparr>"
  let ?G = "given_up session_io [9] ?P"
  let ?p = "srv_accepted False ?G"
  have "gs_internalServer gs0 = srv_run InternalServer"
    using gs(2) gateway_main_server [OF gs(1)] by (auto simp: gateway_run_def Let_def bindE_eq_Inr_iff)
  then have P: "srv_next ?P = 0" "srv_accepting ?P" "\<not> srv_stopped ?P" "srv_fromInternalQueue ?P = []"
    "srv_toInternalQueue ?P = []" "srv_connectedDevices ?P = []"
    by (simp_all add: program_of_def server.extend_def srv_run_def srv_addAsyncAccept_def InternalServer_def)
  have m: "io_parse session_io [9] = Some ?connect" "message_ok [9]" "length (frame [9]) \<le> buffer_length"
    by (simp_all add: session_io_def message_ok_def header_size_def buffer_length_def)
  note ok = reachable_program(1) [OF sample_codes_ok gs sample_libraries_ok]
  note first = accepted_receives [OF ok [OF program_reaches.start] P(3), unfolded P]
  note gone = connect_unanswered [OF first(1,6,8) m given_up_def [of session_io "[9]" ?P, unfolded P(1)], unfolded first P]
  have "program_reaches sample_codes session_io {} ?P ?G"
    unfolding given_up_def P(1)
    using first(1) by (intro program_reaches.receive [OF program_reaches.accept [OF program_reaches.start P(2)]] program_reaches.start)
      (simp_all add: receives_def)
  note reach = this
  have "\<not> srv_stopped ?G" using gone(5) first(1) by (simp add: receives_def)
  note again = accepted_receives [OF ok [OF reach] this, unfolded gone]
  have dev: "ip_module ?dev = 7" by (simp add: sample_device_def convertToIPDevice_def)
  have gateway: "pr_gateway ?p = gs0" using again(4) by simp
  have mh: "mh_quiet (gs_moduleHandler (pr_gateway ?p))"
    "um_find num_eq 7 (mh_statusAggregators (gs_moduleHandler (pr_gateway ?p))) = Some (h, StatusAggregator)"
    unfolding gateway using h(3) by (simp_all add: mh_quiet_def mh_shape_def StatusAggregator_def)
  have turn: "may_send sample_codes h ?dev ?connect" "in_turn (Suc 0) ?dev ?connect ?p"
    using again(6,8) by (simp_all add: may_send_def in_turn_def srv_registered_def)
  have io: "\<forall>bs. io_write session_io (Suc 0) bs = (bs, True)" by (simp add: session_io_def)
  have to: "\<forall>r \<in> set (srv_toInternalQueue ?p). mhm_disconnect r \<longrightarrow> \<not> isSame (mhm_deviceId r) (device_of_ip ?dev)"
    by (simp add: again(3))
  have rounds: "Suc (length (srv_fromInternalQueue ?p)) = 3" by (simp add: again(2))
  have "program_reaches sample_codes session_io {} ?P ?p"
    using gone(6) first(5) by (intro program_reaches.accept reach) simp
  from waiting_client_answered [OF sample_codes_ok gs sample_libraries_ok this again(1) mh(1) _ _
      sample_module_answers(1) [OF h(1)] turn io m to, unfolded dev rounds, OF h(2) mh(2)]
  show ?thesis using gs by (auto simp: session_io_def frame_def le_bytes_header)
qed

end
