(* ===== verification/External_Client_Wait.thy ===== *)
theory External_Client_Wait
  imports Gateway_Runs
begin

text \<open>
  The wait of the connect sequence for the forced statuses has no time-out: it ends only when every awaited
  device has sent a status, or the gateway is stopped. Here is what makes it end: once a status of every
  awaited device is on the queue, one pass through the queue is enough.
\<close>

section \<open>One pass through the queue\<close>

text \<open>Handling one message of the wait neither stops the gateway nor makes a module unknown.\<close>

interpretation stopped: client_relation "\<lambda>a b. xl_stopped b = xl_stopped a"
  by unfold_locales (simp_all add: xl_store_def)

definition awaited :: "device_identification list \<Rightarrow> internal_client_message list \<Rightarrow> bool" where
  "awaited ds ms \<longleftrightarrow> sorted_wrt (\<lambda>a b. \<not> device_eq a b) ds \<and>
     (\<forall>d \<in> set ds. \<exists>m \<in> set ms. device_eq d (device_of_ip (st_device (devicestatus (icm_message m)))))"

lemma erase_device_set:
  "sorted_wrt (\<lambda>a b. \<not> device_eq a b) ds \<Longrightarrow>
   sorted_wrt (\<lambda>a b. \<not> device_eq a b) (erase_device d ds) \<and>
   set (erase_device d ds) = {x \<in> set ds. \<not> device_eq x d}"
proof (induction ds)
  case (Cons x ds)
  show ?case
  proof (cases "device_eq x d")
    case True
    then have "\<not> device_eq y d" if "y \<in> set ds" for y
      using Cons.prems that by (auto dest: dev.eq_sym dev.eq_trans)
    then show ?thesis using Cons.prems True by auto
  qed (use Cons in auto)
qed simp

lemma awaited_step:
  assumes "awaited ds (m # ms)"
  shows "awaited (erase_device (device_of_ip (st_device (devicestatus (icm_message m)))) ds) ms"
  using assms erase_device_set [of ds] by (auto simp: awaited_def)

lemma erase_device_none: "\<not> list_ex (\<lambda>x. device_eq x d) ds \<Longrightarrow> erase_device d ds = ds"
  by (induction ds) auto

lemma xl_forced_message_kept:
  assumes "xl_forced_message cid m ds xl = Inr (ds', xl')" and "supports_devices ds (xl_conn cid xl)"
  shows "ds' = erase_device (device_of_ip (st_device (devicestatus (icm_message m)))) ds \<and>
    xl_stopped xl' = xl_stopped xl \<and> (\<exists>ns. xl_toExternalQueue xl' = xl_toExternalQueue xl @ ns)"
proof -
  let ?d = "device_of_ip (st_device (devicestatus (icm_message m)))"
  show ?thesis
  proof (cases "xcn_isModuleSupported (message_module m) (xl_conn cid xl)")
    case True
    show ?thesis
    proof (cases "list_ex (\<lambda>x. device_eq x ?d) ds")
      case False
      then show ?thesis
        using assms(1) True erase_device_none
        by (auto simp: xl_forced_message_def Let_def pushAndNotify_def)
    next
      case found: True
      then show ?thesis
        using assms(1) True stopped.on_fill queue.on_fill
        by (fastforce simp: xl_forced_message_def Let_def bindE_eq_Inr_iff)
    qed
  next
    case False
    have "\<not> device_eq x ?d" if "x \<in> set ds" for x
      using that assms(2) False device_eq_module [of x ?d]
      by (auto simp: supports_devices_def list_all_iff)
    then have "erase_device ?d ds = ds" by (intro erase_device_none) (simp add: list_ex_iff)
    then show ?thesis
      using assms(1) False stopped.no_start_R queue.no_start_R
      by (fastforce simp: xl_forced_message_def Let_def bindE_eq_Inr_iff)
  qed
qed

lemma xl_forcedLoop_ends:
  fixes xl :: "'c external_client"
  assumes "steady_client c hs es True xl" and "cid < length es" and "devices_of (es ! cid) ds"
    and "xl_toExternalQueue xl = ms @ ns" and "awaited ds ms" and "\<not> xl_stopped xl" and "length ms \<le> n"
  shows "returns (xl_forcedLoop cid (replicate n []) ds xl) (\<lambda>xl'. \<not> xl_stopped xl')"
  using assms
proof (induction n arbitrary: ds ms ns xl)
  case 0
  then have "ds = []" by (cases ds) (auto simp: awaited_def)
  then show ?case using 0 by simp
next
  case (Suc n)
  show ?case
  proof (cases ds)
    case (Cons d ds')
    then obtain m ms' where ms: "ms = m # ms'" using Suc.prems(5) by (cases ms) (auto simp: awaited_def)
    let ?x = "xl\<lparr>xl_toExternalQueue := ms' @ ns\<rparr>"
    have x: "steady_client c hs es True ?x" using Suc.prems(1) by simp
    have sup: "supports_devices ds (xl_conn cid ?x)"
      by (rule steady_link_supports [OF x Suc.prems(2,3)])
    obtain ds2 y where run: "xl_forced_message cid m ds ?x = Inr (ds2, y)" and y: "steady_client c hs es True y"
      using xl_forced_message_returns [OF x Suc.prems(2), of m ds] by (auto simp: returns_def)
    note kept = xl_forced_message_kept [OF run sup]
    then obtain ns' where q: "xl_toExternalQueue y = ms' @ ns'" by auto
    have "devices_of (es ! cid) ds2"
      using Suc.prems(3,5) kept erase_device_set [of ds] by (auto simp: devices_of_def awaited_def)
    moreover have "awaited ds2 ms'" using kept awaited_step [of ds m ms'] Suc.prems(5) ms by simp
    ultimately have "returns (xl_forcedLoop cid (replicate n []) ds2 y) (\<lambda>xl'. \<not> xl_stopped xl')"
      using Suc.IH [OF y Suc.prems(2) _ q] kept Suc.prems(6,7) ms by simp
    then show ?thesis
      using run Suc.prems(4,6) ms by (simp add: Cons waitForValueWithTimeout_def)
  qed (use Suc.prems in simp)
qed

text \<open>
  C28: in a started gateway, in whatever state its threads have brought it, the wait of a connect sequence for the
  forced statuses ends by itself once the queue holds a status of every awaited device: after at most as
  many rounds as there are messages up to the last of these, without an exception and
  without the gateway being stopped (which is how the model ends a wait that would go on).
\<close>

theorem forced_wait_ends:
  assumes "codes_ok c"
    and "gateway_main env (load_module c modules) verbosity version argv = Inr (Inr gs)"
    and "gateway_run c cf listens gs = Inr gs0" and "libraries_ok c modules"
    and "gateway_steps c events gs0 = Inr gs'"
    and "cid < length (set_externalConnectionSettingsList (gs_settings gs))"
    and "devices_of (set_externalConnectionSettingsList (gs_settings gs) ! cid) ds" and "awaited ds ms"
    and "xl = (gs_externalClient gs')\<lparr>xl_insideConnectSequence := True, xl_toExternalQueue := ms @ ns\<rparr>"
    and "\<not> xl_stopped xl" and "length ms \<le> n"
  shows "\<exists>xl'. xl_forcedLoop cid (replicate n []) ds xl = Inr xl' \<and> \<not> xl_stopped xl'"
proof -
  let ?es = "set_externalConnectionSettingsList (gs_settings gs)" and ?hs = "ml_moduleLibraryHandlers (gs_library gs)"
  have "steady_gateway c ?hs ?es gs'"
    using gateway_steps_return [OF assms(1) started_gateway_steady [OF assms(2-4)], of events] assms(5)
    by (simp add: returns_def)
  then have "steady_client c ?hs ?es False (gs_externalClient gs')" by (simp add: steady_gateway_def)
  from steady_client_inside [OF this, of True] have "steady_client c ?hs ?es True xl"
    by (simp add: assms(9))
  from xl_forcedLoop_ends [OF this assms(6,7) _ assms(8,10,11), of ns] assms(9) show ?thesis
    by (auto simp: returns_def)
qed

theorem forced_wait_ends_witness:
  "\<exists>gs0 xl'. xl_forcedLoop 0 [[]] [device_of_ip (st_device sample_mh_status)]
      ((gs_externalClient (gs0 :: bool gateway))\<lparr>xl_insideConnectSequence := True,
        xl_toExternalQueue := [InternalClientMessage False (IC_DeviceStatus sample_mh_status)]\<rparr>) = Inr xl' \<and>
    \<not> xl_stopped xl'"
proof -
  obtain gs gs0 where gs: "gateway_main sample_parser (load_module sample_codes sample_modules) V_Info ''1.0''
      [''gateway'', ''config.json''] = Inr (Inr gs)" "gateway_run sample_codes dummy_factory True gs = Inr gs0"
    and settings: "gs_settings gs = sample_parsed" and stopped: "\<not> xl_stopped (gs_externalClient gs0)"
    by (rule sample_gateway_started)
  let ?ds = "[device_of_ip (st_device sample_mh_status)]"
  let ?ms = "[InternalClientMessage False (IC_DeviceStatus sample_mh_status)]"
  have "awaited ?ds ?ms" by (simp add: awaited_def InternalClientMessage_def)
  from forced_wait_ends [OF sample_codes_ok gs sample_libraries_ok, of "[]" gs0 0 ?ds ?ms, OF _ _ _ this refl, of "[]" 1]
    settings stopped show ?thesis
    by (auto simp: sample_parsed_def sample_mh_status_def)
qed

end
