(* ===== verification/Quic_Settings.thy ===== *)
theory Quic_Settings
  imports Json Settings
begin

text \<open>
  The transport settings of a QUIC endpoint (QuicSettingsParser.cpp): four numbers of the endpoint's
  settings, each JSON text, put into the fields of the \<open>QUIC_SETTINGS\<close> of MsQuic, which are 64, 32 and 16
  bits wide. \<open>None\<close> is a field whose \<open>IsSet\<close> bit is off. \<open>parse_json\<close> reads a JSON text.
\<close>

record quic_settings =
  qs_IdleTimeoutMs :: "64 word option"
  qs_HandshakeIdleTimeoutMs :: "64 word option"
  qs_DisconnectTimeoutMs :: "32 word option"
  qs_PeerUnidiStreamCount :: "16 word option"

definition getOptionalUint ::
  "(string \<Rightarrow> json option) \<Rightarrow> external_connection_settings \<Rightarrow> string \<Rightarrow> 64 word option" where
  "getOptionalUint parse_json settings key =
     (case um_find (=) key (es_protocolSettings settings) of
        None \<Rightarrow> None
      | Some raw \<Rightarrow> (case parse_json raw of
            Some (J_int n) \<Rightarrow> if 0 \<le> n then Some (word_of_int n) else None
          | _ \<Rightarrow> None))"

definition quic_settings_parse ::
  "(string \<Rightarrow> json option) \<Rightarrow> external_connection_settings \<Rightarrow> quic_settings" where
  "quic_settings_parse parse_json settings =
     \<lparr>qs_IdleTimeoutMs = getOptionalUint parse_json settings ''IdleTimeoutMs'',
      qs_HandshakeIdleTimeoutMs = getOptionalUint parse_json settings ''HandshakeIdleTimeoutMs'',
      qs_DisconnectTimeoutMs = map_option ucast (getOptionalUint parse_json settings ''DisconnectTimeoutMs''),
      qs_PeerUnidiStreamCount = map_option ucast (getOptionalUint parse_json settings ''PeerUnidiStreamCount'')\<rparr>"

text \<open>
  A number that does not fit its field is cut down to the field's width: \<open>65536\<close> unidirectional
  streams are none.
\<close>

lemma quic_settings_parse_count:
  assumes "um_find (=) ''PeerUnidiStreamCount'' (es_protocolSettings settings) = Some raw"
    and "parse_json raw = Some (J_int n)" and "0 \<le> n" and "n < 2 ^ 64"
  shows "map_option uint (qs_PeerUnidiStreamCount (quic_settings_parse parse_json settings)) =
    Some (n mod 2 ^ 16)"
  using assms by (simp add: quic_settings_parse_def getOptionalUint_def unsigned_ucast_eq take_bit_eq_mod uint_word_of_int)

end
