(* ===== verification/Quic_Channel.thy ===== *)
theory Quic_Channel
  imports Comm_Channel Buffers Quic_Settings
begin

text \<open>
  The QUIC channel (QuicCommunication.hpp and .cpp): the queues between the threads of the gateway and
  the callbacks of the MsQuic library, and the state of the connection. MsQuic is not part of the
  repository: every call of its table is appended to the history \<open>qc_calls\<close> with its outcome, which
  the parameter \<open>qi_succeeds\<close> gives for the calls made so far; its events are the arguments of the
  callbacks. A call through the null table of an unloaded library is \<open>Undefined_behaviour\<close>.
\<close>

section \<open>The library's interface\<close>

datatype stream_mode = Unidirectional | Bidirectional

datatype quic_call =
    MsQuicOpen
  | RegistrationOpen
  | ConfigurationOpen string quic_settings
  | ConfigurationLoadCredential string string string
  | ConnectionOpen
  | ConnectionStart string nat
  | ConnectionShutdown
  | ConnectionClose
  | StreamOpen stream_mode
  | StreamSend bytes
  | StreamShutdown
  | StreamClose
  | SetCallbackHandler
  | StreamReceiveSetEnabled
  | ConfigurationClose
  | RegistrationClose
  | MsQuicClose

text \<open>The events the callbacks tell apart.\<close>

datatype quic_connection_event =
    Ev_Connected
  | Ev_PeerStreamStarted
  | Ev_ShutdownComplete
  | Ev_ShutdownInitiatedByPeer
  | Ev_OtherConnectionEvent

datatype quic_stream_event =
    Ev_Receive "bytes list"
  | Ev_SendComplete bool
  | Ev_StreamShutdownComplete
  | Ev_OtherStreamEvent

text \<open>\<open>qi_json\<close> reads a JSON text.\<close>

record quic_io =
  qi_succeeds :: "(quic_call \<times> bool) list \<Rightarrow> quic_call \<Rightarrow> bool"
  qi_serialize :: "external_client_msg \<Rightarrow> bytes option"
  qi_parse :: "bytes \<Rightarrow> external_server_msg option"
  qi_json :: "string \<Rightarrow> json option"

section \<open>State\<close>

text \<open>
  The handles are seen through whether they are null. \<open>qc_sender\<close> tells that the loop of the sender
  thread runs, \<open>qc_sending\<close> is the message it has taken from the queue and not handed over yet.
\<close>

record quic =
  qc_settings :: external_connection_settings
  qc_quic :: bool
  qc_registration :: bool
  qc_config :: bool
  qc_connection :: bool
  qc_alpn :: string
  qc_certFile :: string
  qc_keyFile :: string
  qc_caFile :: string
  qc_streamMode :: stream_mode
  qc_connectionState :: connection_state
  qc_cancelReceive :: bool
  qc_inboundQueue :: "external_server_msg list"
  qc_outboundQueue :: "external_client_msg list"
  qc_sender :: bool
  qc_sending :: "external_client_msg option"
  qc_calls :: "(quic_call \<times> bool) list"

definition qc_call :: "quic_io \<Rightarrow> quic_call \<Rightarrow> quic \<Rightarrow> bool \<times> quic" where
  "qc_call io call q =
     (let ok = qi_succeeds io (qc_calls q) call in (ok, q\<lparr>qc_calls := qc_calls q @ [(call, ok)]\<rparr>))"

abbreviation qc_do :: "quic_io \<Rightarrow> quic_call \<Rightarrow> quic \<Rightarrow> quic" where
  "qc_do io call q \<equiv> snd (qc_call io call q)"

section \<open>Settings of the protocol\<close>

definition getProtocolSettingsString ::
  "quic_io \<Rightarrow> external_connection_settings \<Rightarrow> string \<Rightarrow> string \<Rightarrow> string" where
  "getProtocolSettingsString io settings key defaultValue =
     (case um_find (=) key (es_protocolSettings settings) of
        None \<Rightarrow> defaultValue
      | Some raw \<Rightarrow> (case qi_json io raw of Some (J_string s) \<Rightarrow> s | _ \<Rightarrow> raw))"

definition parseStreamMode :: "quic_io \<Rightarrow> external_connection_settings \<Rightarrow> stream_mode" where
  "parseStreamMode io settings =
     (let mode = getProtocolSettingsString io settings STREAM_MODE []
      in if mode = ''unidirectional'' \<or> mode = ''unidir'' then Unidirectional else Bidirectional)"

section \<open>Construction\<close>

definition loadMsQuic :: "quic_io \<Rightarrow> quic \<Rightarrow> quic" where
  "loadMsQuic io q = (let (ok, q) = qc_call io MsQuicOpen q in q\<lparr>qc_quic := ok\<rparr>)"

definition initRegistration :: "quic_io \<Rightarrow> quic \<Rightarrow> quic" where
  "initRegistration io q = (let (ok, q) = qc_call io RegistrationOpen q in q\<lparr>qc_registration := ok\<rparr>)"

definition configurationOpen :: "quic_io \<Rightarrow> quic \<Rightarrow> quic" where
  "configurationOpen io q =
     (let settings = quic_settings_parse (qi_json io) (qc_settings q);
          (ok, q) = qc_call io (ConfigurationOpen (qc_alpn q) settings) q
      in q\<lparr>qc_config := ok\<rparr>)"

definition configurationLoadCredential :: "quic_io \<Rightarrow> string \<Rightarrow> string \<Rightarrow> string \<Rightarrow> quic \<Rightarrow> quic" where
  "configurationLoadCredential io certificate key ca q = qc_do io (ConfigurationLoadCredential certificate key ca) q"

definition initConfiguration :: "quic_io \<Rightarrow> quic \<Rightarrow> quic" where
  "initConfiguration io q =
     configurationLoadCredential io (qc_certFile q) (qc_keyFile q) (qc_caFile q) (configurationOpen io q)"

definition QuicCommunication :: "quic_io \<Rightarrow> external_connection_settings \<Rightarrow> quic" where
  "QuicCommunication io settings =
     (let q = \<lparr>qc_settings = settings, qc_quic = False, qc_registration = False, qc_config = False,
                qc_connection = False,
                qc_alpn = getProtocolSettingsString io settings ALPN [],
                qc_certFile = getProtocolSettingsString io settings CLIENT_CERT [],
                qc_keyFile = getProtocolSettingsString io settings CLIENT_KEY [],
                qc_caFile = getProtocolSettingsString io settings CA_FILE [],
                qc_streamMode = parseStreamMode io settings,
                qc_connectionState = St_NOT_CONNECTED, qc_cancelReceive = False, qc_inboundQueue = [],
                qc_outboundQueue = [], qc_sender = False, qc_sending = None, qc_calls = []\<rparr>;
          q = loadMsQuic io q;
          q = (if qc_quic q then initRegistration io q else q)
      in if qc_quic q \<and> qc_registration q then initConfiguration io q else q)"

section \<open>The channel's operations\<close>

definition quic_initializeConnection :: "quic_io \<Rightarrow> quic \<Rightarrow> (exn + unit) \<times> quic" where
  "quic_initializeConnection io q =
     (let q = q\<lparr>qc_cancelReceive := False\<rparr>
      in if qc_connectionState q \<noteq> St_NOT_CONNECTED then (Inr (), q)
         else
           let q = q\<lparr>qc_connectionState := St_CONNECTING\<rparr>
           in if \<not> qc_quic q then (Inl Undefined_behaviour, q)
              else
                let (opened, q) = qc_call io ConnectionOpen q
                in if \<not> opened then (Inr (), q\<lparr>qc_connectionState := St_NOT_CONNECTED\<rparr>)
                   else
                     let q = q\<lparr>qc_connection := True\<rparr>;
                         (started, q) = qc_call io
                           (ConnectionStart (es_serverIp (qc_settings q)) (es_port (qc_settings q))) q
                     in if \<not> started
                        then (Inr (), (qc_do io ConnectionClose q)
                               \<lparr>qc_connection := False, qc_connectionState := St_NOT_CONNECTED\<rparr>)
                        else (Inr (), q))"

definition quic_sendMessage :: "external_client_msg \<Rightarrow> quic \<Rightarrow> bool \<times> quic" where
  "quic_sendMessage message q =
     (if qc_connectionState q = St_NOT_CONNECTED then (False, q)
      else (True, q\<lparr>qc_outboundQueue := qc_outboundQueue q @ [message]\<rparr>))"

text \<open>
  The states in which a receiver waits, and the predicate of the wait. \<open>during\<close> is what the other
  threads do until the wait ends.
\<close>

definition quic_may_receive :: "quic \<Rightarrow> bool" where
  "quic_may_receive q \<longleftrightarrow> qc_connectionState q \<in> {St_CONNECTING, St_CLOSING, St_CONNECTED}"

definition quic_wakes_receiver :: "quic \<Rightarrow> bool" where
  "quic_wakes_receiver q \<longleftrightarrow> qc_inboundQueue q \<noteq> [] \<or> qc_cancelReceive q \<or> \<not> quic_may_receive q"

definition quic_receiveMessage :: "(quic \<Rightarrow> quic) \<Rightarrow> quic \<Rightarrow> external_server_msg option \<times> quic" where
  "quic_receiveMessage during q0 =
     (let q = (if quic_wakes_receiver q0 then q0 else during q0)
      in if \<not> quic_wakes_receiver q then (None, q)
         else if \<not> quic_may_receive q then (None, q)
         else case qc_inboundQueue q of
                [] \<Rightarrow> (None, q)
              | message # rest \<Rightarrow> (Some message, q\<lparr>qc_inboundQueue := rest\<rparr>))"

definition quic_closeConnection :: "quic_io \<Rightarrow> quic \<Rightarrow> quic" where
  "quic_closeConnection io q = (if \<not> qc_connection q then q else qc_do io ConnectionShutdown q)"

definition quic_cancelReceive :: "quic \<Rightarrow> quic" where
  "quic_cancelReceive q = q\<lparr>qc_cancelReceive := True\<rparr>"

definition quic_consumeServerDisconnectNotification :: "quic \<Rightarrow> bool \<times> quic" where
  "quic_consumeServerDisconnectNotification q = (False, q)"

definition closeConfiguration :: "quic_io \<Rightarrow> quic \<Rightarrow> quic" where
  "closeConfiguration io q =
     (if qc_config q then qc_do io ConfigurationClose q else q)\<lparr>qc_config := False\<rparr>"

definition closeRegistration :: "quic_io \<Rightarrow> quic \<Rightarrow> quic" where
  "closeRegistration io q =
     (if qc_registration q then qc_do io RegistrationClose q else q)\<lparr>qc_registration := False\<rparr>"

definition closeMsQuic :: "quic_io \<Rightarrow> quic \<Rightarrow> quic" where
  "closeMsQuic io q = (if qc_quic q then qc_do io MsQuicClose q else q)\<lparr>qc_quic := False\<rparr>"

definition quic_stop :: "quic_io \<Rightarrow> quic \<Rightarrow> quic" where
  "quic_stop io q =
     closeMsQuic io (closeRegistration io (closeConfiguration io (quic_closeConnection io q)))"

section \<open>Sending and receiving\<close>

definition onMessageDecoded :: "external_server_msg \<Rightarrow> quic \<Rightarrow> quic" where
  "onMessageDecoded msg q = q\<lparr>qc_inboundQueue := qc_inboundQueue q @ [msg]\<rparr>"

definition sendViaQuicStream :: "quic_io \<Rightarrow> external_client_msg \<Rightarrow> quic \<Rightarrow> quic" where
  "sendViaQuicStream io message q =
     (let (opened, q) = qc_call io (StreamOpen (qc_streamMode q)) q
      in if \<not> opened then q
         else case qi_serialize io message of
                None \<Rightarrow> qc_do io StreamShutdown q
              | Some bs \<Rightarrow>
                  let (sent, q) = qc_call io (StreamSend bs) q
                  in if \<not> sent then qc_do io StreamShutdown q else q)"

text \<open>
  A round of \<open>senderLoop\<close>, in two steps, since it sends without the lock: taking a message, with
  what happens \<open>during\<close> the wait, and sending it. The first result tells that the loop goes on.
\<close>

definition quic_senderLoop_take :: "(quic \<Rightarrow> quic) \<Rightarrow> quic \<Rightarrow> bool \<times> quic" where
  "quic_senderLoop_take during q0 =
     (if qc_connectionState q0 \<noteq> St_CONNECTED then (False, q0\<lparr>qc_sender := False\<rparr>)
      else
        let q = (if qc_outboundQueue q0 = [] then during q0 else q0)
        in if qc_connectionState q \<noteq> St_CONNECTED then (False, q\<lparr>qc_sender := False\<rparr>)
           else case qc_outboundQueue q of
                  [] \<Rightarrow> (True, q)
                | msg # rest \<Rightarrow> (True, q\<lparr>qc_outboundQueue := rest, qc_sending := Some msg\<rparr>))"

definition quic_senderLoop_send :: "quic_io \<Rightarrow> quic \<Rightarrow> quic" where
  "quic_senderLoop_send io q =
     (case qc_sending q of
        None \<Rightarrow> q
      | Some msg \<Rightarrow> (sendViaQuicStream io msg q)\<lparr>qc_sending := None\<rparr>)"

section \<open>The callbacks\<close>

text \<open>
  Starting the sender thread waits for the thread of the session before; its loop is taken to have
  ended.
\<close>

fun quic_connectionCallback :: "quic_io \<Rightarrow> quic_connection_event \<Rightarrow> quic \<Rightarrow> quic" where
  "quic_connectionCallback io Ev_Connected q =
     (if qc_connectionState q = St_CONNECTING
      then q\<lparr>qc_connectionState := St_CONNECTED, qc_sender := True\<rparr> else q)"
| "quic_connectionCallback io Ev_PeerStreamStarted q =
     qc_do io StreamReceiveSetEnabled (qc_do io SetCallbackHandler q)"
| "quic_connectionCallback io Ev_ShutdownComplete q =
     (let q = q\<lparr>qc_connectionState := St_NOT_CONNECTED\<rparr>;
          q = (if qc_quic q then qc_do io ConnectionClose q else q)
      in q\<lparr>qc_connection := False\<rparr>)"
| "quic_connectionCallback io Ev_ShutdownInitiatedByPeer q = q\<lparr>qc_connectionState := St_CLOSING\<rparr>"
| "quic_connectionCallback io Ev_OtherConnectionEvent q = q"

fun quic_streamCallback :: "quic_io \<Rightarrow> quic_stream_event \<Rightarrow> quic \<Rightarrow> quic" where
  "quic_streamCallback io (Ev_Receive buffers) q =
     (if buffers = [] then q
      else case qi_parse io (concat buffers) of
             None \<Rightarrow> q
           | Some msg \<Rightarrow> onMessageDecoded msg q)"
| "quic_streamCallback io (Ev_SendComplete canceled) q = q"
| "quic_streamCallback io Ev_StreamShutdownComplete q = qc_do io StreamClose q"
| "quic_streamCallback io Ev_OtherStreamEvent q = q"

section \<open>The channel\<close>

definition quic_channel :: "quic_io \<Rightarrow> (quic \<Rightarrow> quic) \<Rightarrow> quic channel" where
  "quic_channel io during =
     \<lparr>ch_initializeConnection = quic_initializeConnection io,
      ch_sendMessage = quic_sendMessage,
      ch_receiveMessage = quic_receiveMessage during,
      ch_closeConnection = quic_closeConnection io,
      ch_cancelReceive = quic_cancelReceive,
      ch_consumeServerDisconnectNotification = quic_consumeServerDisconnectNotification\<rparr>"

text \<open>
  It refuses to send while there is no connection, but it is not refused from \<open>closeConnection\<close> on:
  the connection ends only with the event that reports its shutdown.
\<close>

interpretation quic: guarded_channel "quic_channel io during" "\<lambda>q. qc_connectionState q \<noteq> St_NOT_CONNECTED"
  by unfold_locales (simp add: quic_channel_def quic_sendMessage_def)

end
