(* ===== verification/Quic_Channel_Laws.thy ===== *)
theory Quic_Channel_Laws
  imports Quic_Channel External_Connection_Samples "HOL-Library.Sublist"
begin

text \<open>
  What the QUIC channel guarantees: how it uses the connection handle of the library in every run, what
  becomes of the messages it accepts, and what a message that is left from the session before does to
  the connect sequence.
\<close>

section \<open>The connection handle\<close>

text \<open>
  The rules of the handle, as an automaton over the calls: whether the handle is open, or \<open>None\<close> when a
  call breaks them by opening a second handle or using one that is not open.
\<close>

fun handle_step :: "bool \<Rightarrow> quic_call \<times> bool \<Rightarrow> bool option" where
  "handle_step open (ConnectionOpen, ok) = (if open then None else Some ok)"
| "handle_step open (ConnectionStart ip port, ok) = (if open then Some True else None)"
| "handle_step open (ConnectionShutdown, ok) = (if open then Some True else None)"
| "handle_step open (ConnectionClose, ok) = (if open then Some False else None)"
| "handle_step open (call, ok) = Some open"

definition handle_use :: "(quic_call \<times> bool) list \<Rightarrow> bool option \<Rightarrow> bool option" where
  "handle_use calls h = fold (\<lambda>c h. Option.bind h (\<lambda>h. handle_step h c)) calls h"

definition handle_run :: "(quic_call \<times> bool) list \<Rightarrow> bool option" where
  "handle_run calls = handle_use calls (Some False)"

lemma handle_use_simps [simp]:
  "handle_use [] h = h"
  "handle_use (c # calls) h = handle_use calls (Option.bind h (\<lambda>h. handle_step h c))"
  by (simp_all add: handle_use_def)

lemma handle_run_append [simp]: "handle_run (calls @ calls2) = handle_use calls2 (handle_run calls)"
  by (simp add: handle_run_def handle_use_def)

text \<open>The runs: the gateway's threads and the library's callbacks in any order.\<close>

inductive quic_reaches :: "quic_io \<Rightarrow> external_connection_settings \<Rightarrow> quic \<Rightarrow> bool" for io settings where
    start: "quic_reaches io settings (QuicCommunication io settings)"
  | initialize: "quic_reaches io settings q \<Longrightarrow> quic_initializeConnection io q = (Inr (), q') \<Longrightarrow>
      quic_reaches io settings q'"
  | send: "quic_reaches io settings q \<Longrightarrow> quic_reaches io settings (snd (quic_sendMessage m q))"
  | receive: "quic_reaches io settings q \<Longrightarrow> quic_reaches io settings (during q) \<Longrightarrow>
      quic_reaches io settings (snd (quic_receiveMessage during q))"
  | close: "quic_reaches io settings q \<Longrightarrow> quic_reaches io settings (quic_closeConnection io q)"
  | cancel: "quic_reaches io settings q \<Longrightarrow> quic_reaches io settings (quic_cancelReceive q)"
  | take: "quic_reaches io settings q \<Longrightarrow> quic_reaches io settings (during q) \<Longrightarrow>
      quic_reaches io settings (snd (quic_senderLoop_take during q))"
  | transmit: "quic_reaches io settings q \<Longrightarrow> quic_reaches io settings (quic_senderLoop_send io q)"
  | connection_event: "quic_reaches io settings q \<Longrightarrow> qc_connection q \<Longrightarrow>
      quic_reaches io settings (quic_connectionCallback io ev q)"
  | stream_event: "quic_reaches io settings q \<Longrightarrow> quic_reaches io settings (quic_streamCallback io sev q)"

inductive_cases quic_reachesE: "quic_reaches io settings q"

definition quic_inv :: "quic \<Rightarrow> bool" where
  "quic_inv q \<longleftrightarrow> handle_run (qc_calls q) = Some (qc_connection q) \<and>
     (qc_connection q \<longleftrightarrow> qc_connectionState q \<noteq> St_NOT_CONNECTED) \<and> (qc_connection q \<longrightarrow> qc_quic q)"

text \<open>Calls that are not about the handle keep the invariant.\<close>

definition handle_call :: "quic_call \<Rightarrow> bool" where
  "handle_call call \<longleftrightarrow> (case call of ConnectionOpen \<Rightarrow> True | ConnectionStart _ _ \<Rightarrow> True
     | ConnectionShutdown \<Rightarrow> True | ConnectionClose \<Rightarrow> True | _ \<Rightarrow> False)"

lemma handle_use_other: "list_all (\<lambda>(call, ok). \<not> handle_call call) calls \<Longrightarrow> handle_use calls h = h"
proof (induction calls)
  case (Cons c calls)
  obtain call ok where c: "c = (call, ok)" by (cases c)
  then have "handle_step g (call, ok) = Some g" for g
    using Cons.prems by (cases call) (simp_all add: handle_call_def)
  then show ?case using Cons c by (cases h) simp_all
qed simp

lemma qc_call_fields [simp]:
  "qc_settings (snd (qc_call io call q)) = qc_settings q"
  "qc_quic (snd (qc_call io call q)) = qc_quic q"
  "qc_registration (snd (qc_call io call q)) = qc_registration q"
  "qc_connection (snd (qc_call io call q)) = qc_connection q"
  "qc_streamMode (snd (qc_call io call q)) = qc_streamMode q"
  "qc_connectionState (snd (qc_call io call q)) = qc_connectionState q"
  "qc_inboundQueue (snd (qc_call io call q)) = qc_inboundQueue q"
  "qc_outboundQueue (snd (qc_call io call q)) = qc_outboundQueue q"
  "qc_sending (snd (qc_call io call q)) = qc_sending q"
  "qc_calls (snd (qc_call io call q)) = qc_calls q @ [(call, fst (qc_call io call q))]"
  "fst (qc_call io call q) = qi_succeeds io (qc_calls q) call"
  by (simp_all add: qc_call_def Let_def)

lemma qc_call_eq: "qc_call io call q = (qi_succeeds io (qc_calls q) call,
    q\<lparr>qc_calls := qc_calls q @ [(call, qi_succeeds io (qc_calls q) call)]\<rparr>)"
  by (simp add: qc_call_def Let_def)

lemma quic_inv_calls: "quic_inv q \<Longrightarrow> list_all (\<lambda>(call, ok). \<not> handle_call call) calls \<Longrightarrow>
    quic_inv (q\<lparr>qc_calls := qc_calls q @ calls\<rparr>)"
  by (simp add: quic_inv_def handle_use_other)

lemma quic_inv_call: "quic_inv q \<Longrightarrow> \<not> handle_call call \<Longrightarrow> quic_inv (qc_do io call q)"
  by (simp add: qc_call_eq quic_inv_calls)

lemma quic_inv_fields [simp]:
  "quic_inv (q\<lparr>qc_cancelReceive := b\<rparr>) = quic_inv q"
  "quic_inv (q\<lparr>qc_inboundQueue := im\<rparr>) = quic_inv q"
  "quic_inv (q\<lparr>qc_outboundQueue := om\<rparr>) = quic_inv q"
  "quic_inv (q\<lparr>qc_sender := b\<rparr>) = quic_inv q"
  "quic_inv (q\<lparr>qc_sending := s\<rparr>) = quic_inv q"
  "quic_inv (q\<lparr>qc_registration := b\<rparr>) = quic_inv q"
  "quic_inv (q\<lparr>qc_config := b\<rparr>) = quic_inv q"
  by (simp_all add: quic_inv_def)

lemma quic_inv_start: "quic_inv (QuicCommunication io settings)"
  by (simp add: QuicCommunication_def loadMsQuic_def initRegistration_def initConfiguration_def
      configurationOpen_def configurationLoadCredential_def qc_call_eq quic_inv_def handle_run_def Let_def)

lemma quic_inv_initialize:
  assumes "quic_inv q" and "quic_initializeConnection io q = (Inr (), q')"
  shows "quic_inv q'"
  using assms
  by (auto simp: quic_initializeConnection_def qc_call_eq quic_inv_def Let_def split: if_splits)

lemma quic_inv_send: "quic_inv q \<Longrightarrow> quic_inv (sendViaQuicStream io m q)"
  by (auto simp: sendViaQuicStream_def qc_call_eq Let_def handle_call_def split: option.split
      intro!: quic_inv_calls)

lemma quic_inv_connection_event:
  "quic_inv q \<Longrightarrow> qc_connection q \<Longrightarrow> quic_inv (quic_connectionCallback io ev q)"
proof (cases ev)
  case Ev_PeerStreamStarted
  assume "quic_inv q"
  then show ?thesis by (simp add: Ev_PeerStreamStarted quic_inv_call handle_call_def)
qed (auto simp: quic_inv_def Let_def)

lemma quic_reaches_inv: "quic_reaches io settings q \<Longrightarrow> quic_inv q"
proof (induction rule: quic_reaches.induct)
  case start
  then show ?case by (rule quic_inv_start)
next
  case (initialize q q')
  then show ?case using quic_inv_initialize by blast
next
  case (send q m)
  then show ?case by (simp add: quic_sendMessage_def)
next
  case (receive q during)
  then show ?case by (auto simp: quic_receiveMessage_def Let_def split: list.split)
next
  case (close q)
  then show ?case by (simp add: quic_closeConnection_def quic_inv_def)
next
  case (cancel q)
  then show ?case by (simp add: quic_cancelReceive_def)
next
  case (take q during)
  then show ?case by (auto simp: quic_senderLoop_take_def Let_def split: list.split)
next
  case (transmit q)
  then show ?case by (auto simp: quic_senderLoop_send_def quic_inv_send split: option.split)
next
  case (connection_event q ev)
  then show ?case by (blast intro: quic_inv_connection_event)
next
  case (stream_event q sev)
  then show ?case
    by (cases sev) (auto simp: onMessageDecoded_def quic_inv_call handle_call_def split: option.split)
qed


section \<open>Messages to the server\<close>

text \<open>The bytes the library took for sending.\<close>

fun sent_bytes :: "(quic_call \<times> bool) list \<Rightarrow> bytes list" where
  "sent_bytes [] = []"
| "sent_bytes ((StreamSend bs, True) # calls) = bs # sent_bytes calls"
| "sent_bytes (_ # calls) = sent_bytes calls"

lemma sent_bytes_append: "sent_bytes (a @ b) = sent_bytes a @ sent_bytes b"
  by (induction a rule: sent_bytes.induct) auto

text \<open>One message is sent at most once.\<close>

lemma sendViaQuicStream_sent:
  "sent_bytes (qc_calls (sendViaQuicStream io m q)) = sent_bytes (qc_calls q) @
     (case qi_serialize io m of None \<Rightarrow> [] | Some bs \<Rightarrow>
        if qi_succeeds io (qc_calls q) (StreamOpen (qc_streamMode q)) \<and>
           qi_succeeds io (qc_calls q @ [(StreamOpen (qc_streamMode q), True)]) (StreamSend bs)
        then [bs] else [])"
  by (auto simp: sendViaQuicStream_def qc_call_eq sent_bytes_append Let_def split: option.split)

lemma sendViaQuicStream_keeps [simp]:
  "qc_outboundQueue (sendViaQuicStream io m q) = qc_outboundQueue q"
  "qc_connectionState (sendViaQuicStream io m q) = qc_connectionState q"
  by (auto simp: sendViaQuicStream_def qc_call_eq Let_def split: option.split)

text \<open>\<open>n\<close> rounds of the sender loop during which nothing happens.\<close>

fun quic_sender_rounds :: "quic_io \<Rightarrow> nat \<Rightarrow> quic \<Rightarrow> quic" where
  "quic_sender_rounds io 0 q = q"
| "quic_sender_rounds io (Suc n) q =
     quic_sender_rounds io n (quic_senderLoop_send io (snd (quic_senderLoop_take (\<lambda>q. q) q)))"

definition payloads :: "quic_io \<Rightarrow> external_client_msg list \<Rightarrow> bytes list" where
  "payloads io ms = concat (map (\<lambda>m. case qi_serialize io m of None \<Rightarrow> [] | Some bs \<Rightarrow> [bs]) ms)"

lemma quic_sender_rounds_sent:
  assumes "qc_connectionState q = St_CONNECTED" and "qc_outboundQueue q = ms"
  shows "qc_outboundQueue (quic_sender_rounds io (length ms) q) = [] \<and>
    (\<exists>bs. sent_bytes (qc_calls (quic_sender_rounds io (length ms) q)) = sent_bytes (qc_calls q) @ bs \<and>
       subseq bs (payloads io ms) \<and> ((\<forall>cs c. qi_succeeds io cs c) \<longrightarrow> bs = payloads io ms))"
  using assms
proof (induction ms arbitrary: q)
  case (Cons m ms)
  let ?q = "(sendViaQuicStream io m (q\<lparr>qc_outboundQueue := ms, qc_sending := Some m\<rparr>))\<lparr>qc_sending := None\<rparr>"
  have step: "quic_sender_rounds io (length (m # ms)) q = quic_sender_rounds io (length ms) ?q"
    using Cons.prems by (simp add: quic_senderLoop_take_def quic_senderLoop_send_def)
  obtain bs where ih: "qc_outboundQueue (quic_sender_rounds io (length ms) ?q) = []"
    "sent_bytes (qc_calls (quic_sender_rounds io (length ms) ?q)) = sent_bytes (qc_calls ?q) @ bs"
    "subseq bs (payloads io ms)" "(\<forall>cs c. qi_succeeds io cs c) \<longrightarrow> bs = payloads io ms"
    using Cons.IH [of ?q] Cons.prems by auto
  define b where "b = (case qi_serialize io m of None \<Rightarrow> [] | Some bs \<Rightarrow>
      if qi_succeeds io (qc_calls q) (StreamOpen (qc_streamMode q)) \<and>
         qi_succeeds io (qc_calls q @ [(StreamOpen (qc_streamMode q), True)]) (StreamSend bs)
      then [bs] else [])"
  have "sent_bytes (qc_calls ?q) = sent_bytes (qc_calls q) @ b"
    using sendViaQuicStream_sent [of io m "q\<lparr>qc_outboundQueue := ms, qc_sending := Some m\<rparr>"]
    by (simp add: b_def cong: option.case_cong)
  moreover have "subseq (b @ bs) (payloads io (m # ms))"
    using ih(3) by (auto simp: b_def payloads_def split: option.split)
  moreover have "b @ bs = payloads io (m # ms)" if "\<forall>cs c. qi_succeeds io cs c"
    using ih(4) that by (auto simp: b_def payloads_def split: option.split)
  ultimately show ?case unfolding step using ih(1,2) by auto
qed (auto simp: payloads_def)

text \<open>
  C32: as long as the connection lasts, the sender thread takes the accepted messages from the queue in
  order and hands each to MsQuic at most once: what is sent is a subsequence of the serialised messages,
  all of them if no call of MsQuic fails. A message whose stream cannot be opened or sent is not put
  back and is lost.
\<close>

theorem quic_sends_in_order:
  assumes "qc_connectionState q = St_CONNECTED"
  shows "qc_outboundQueue (quic_sender_rounds io (length (qc_outboundQueue q)) q) = [] \<and>
    (\<exists>bs. sent_bytes (qc_calls (quic_sender_rounds io (length (qc_outboundQueue q)) q)) =
         sent_bytes (qc_calls q) @ bs \<and>
       subseq bs (payloads io (qc_outboundQueue q)) \<and>
       ((\<forall>cs c. qi_succeeds io cs c) \<longrightarrow> bs = payloads io (qc_outboundQueue q)))"
  by (rule quic_sender_rounds_sent [OF assms refl])

section \<open>Messages of the session before\<close>

lemma quic_shutdown_keeps_queues:
  "qc_inboundQueue (quic_connectionCallback io Ev_ShutdownComplete q) = qc_inboundQueue q"
  "qc_outboundQueue (quic_connectionCallback io Ev_ShutdownComplete q) = qc_outboundQueue q"
  "qc_connectionState (quic_connectionCallback io Ev_ShutdownComplete q) = St_NOT_CONNECTED"
  "qc_quic (quic_connectionCallback io Ev_ShutdownComplete q) = qc_quic q"
  by (simp_all add: Let_def)

lemma quic_initialize_keeps_queues:
  assumes "qc_connectionState q = St_NOT_CONNECTED" and "qc_quic q" and "\<forall>cs call. qi_succeeds io cs call"
  shows "\<exists>q'. quic_initializeConnection io q = (Inr (), q') \<and> qc_connectionState q' = St_CONNECTING \<and>
    qc_inboundQueue q' = qc_inboundQueue q \<and> qc_outboundQueue q' = qc_outboundQueue q"
  using assms by (auto simp: quic_initializeConnection_def qc_call_eq Let_def)

text \<open>
  C34: neither the end of a QUIC connection nor the start of the next one clears the queues. A message of
  the old session that nobody received is the first thing the connect sequence of the next session
  receives: unless it happens to be a connect response for the new session id, the attempt
  fails, and it has used up just that one message. The messages that were waiting to be sent
  stay in front of the new connect message.
\<close>

theorem quic_stale_message_fails_connect:
  assumes "codes_ok (env_codes env)" and "env_channel env = quic_channel io during"
    and "xcn_channel xcn = quic_connectionCallback io Ev_ShutdownComplete q" and "qc_quic q"
    and "\<forall>cs call. qi_succeeds io cs call"
    and "qc_inboundQueue q = m # rest"
    and "\<forall>r. m = ES_ConnectResponse r \<longrightarrow>
      xcr_sessionid r \<noteq> xcn_sessionId (xcn_generateSessionId pick xcn)"
  shows "\<exists>xcn' connect. xcn_initializeConnection env pick devices xcn = Inr (NOT_OK (env_codes env), xcn') \<and>
    xcn_state xcn' = St_NOT_CONNECTED \<and> qc_inboundQueue (xcn_channel xcn') = rest \<and>
    qc_outboundQueue (xcn_channel xcn') = qc_outboundQueue q @ [connect]"
proof -
  obtain q1 where q1: "quic_initializeConnection io (xcn_channel xcn) = (Inr (), q1)"
    "qc_connectionState q1 = St_CONNECTING" "qc_inboundQueue q1 = m # rest"
    "qc_outboundQueue q1 = qc_outboundQueue q"
    using quic_initialize_keeps_queues [of "xcn_channel xcn" io] assms(3-6)
    by (auto simp: quic_shutdown_keeps_queues simp del: quic_connectionCallback.simps)
  let ?x = "xcn\<lparr>xcn_channel := q1, xcn_state := St_CONNECTING\<rparr>"
  let ?sid = "xcn_sessionId (xcn_generateSessionId pick xcn)"
  have sid: "xcn_sessionId (xcn_generateSessionId pick ?x) = ?sid" by (simp add: xcn_generateSessionId_def)
  let ?msg = "createExternalClientConnect ?sid (env_company env) (env_vehicleName env) devices"
  let ?q2 = "q1\<lparr>qc_outboundQueue := qc_outboundQueue q1 @ [?msg]\<rparr>"
  have receive: "quic_receiveMessage during ?q2 = (Some m, ?q2\<lparr>qc_inboundQueue := rest\<rparr>)"
    using q1 by (simp add: quic_receiveMessage_def quic_wakes_receiver_def quic_may_receive_def)
  obtain y where y: "xcn_connectMessageHandle env pick devices ?x = (NOT_OK (env_codes env), y)"
    "xcn_channel y = ?q2\<lparr>qc_inboundQueue := rest\<rparr>"
    using assms(2,7) q1(2) receive
    by (cases m) (auto simp: xcn_connectMessageHandle_def xcn_channel_send_eq xcn_channel_receive_eq
        quic_channel_def quic_sendMessage_def sid Let_def xcn_generateSessionId_def)
  have "ch_initializeConnection (env_channel env) (xcn_channel xcn) = (Inr (), q1)"
    using q1(1) assms(2) by (simp add: quic_channel_def)
  from xcn_initializeConnection_refused [OF this y(1)] codes_ok_distinct(1) [OF assms(1)]
  have "xcn_initializeConnection env pick devices xcn =
      Inr (NOT_OK (env_codes env), y\<lparr>xcn_state := St_NOT_CONNECTED\<rparr>)" by auto
  then show ?thesis using y(2) q1(4) by auto
qed

section \<open>A sample session\<close>

text \<open>A library whose calls succeed, and a session that is connected after its handshake.\<close>

definition sample_quic_io :: quic_io where
  "sample_quic_io = \<lparr>qi_succeeds = (\<lambda>_ _. True), qi_serialize = (\<lambda>_. Some [1]), qi_parse = (\<lambda>_. None),
     qi_json = (\<lambda>_. None)\<rparr>"

definition sample_quic :: "external_server_msg list \<Rightarrow> quic" where
  "sample_quic ms = (snd (quic_initializeConnection sample_quic_io
     (QuicCommunication sample_quic_io sample_endpoint)))\<lparr>qc_inboundQueue := ms\<rparr>"

definition sample_quic_connected :: quic where
  "sample_quic_connected = snd (quic_sendMessage (createExternalClientConnect ''s'' ''c'' ''v'' [])
     (quic_connectionCallback sample_quic_io Ev_Connected (snd (quic_initializeConnection sample_quic_io
       (QuicCommunication sample_quic_io sample_endpoint)))))"

lemma sample_quic_defs:
  "qi_succeeds sample_quic_io cs call" "qi_serialize sample_quic_io m = Some [1]"
  by (simp_all add: sample_quic_io_def)

lemma sample_quic_initialized:
  "quic_initializeConnection sample_quic_io (QuicCommunication sample_quic_io sample_endpoint) =
     (Inr (), sample_quic []) \<and> qc_connection (sample_quic ms) \<and> qc_connectionState (sample_quic ms) = St_CONNECTING \<and>
   qc_quic (sample_quic ms) \<and> qc_outboundQueue (sample_quic ms) = []"
  by (simp add: sample_quic_def QuicCommunication_def loadMsQuic_def initRegistration_def initConfiguration_def
      configurationOpen_def configurationLoadCredential_def qc_call_eq quic_initializeConnection_def
      sample_quic_defs Let_def)

lemma sample_quic_connected_reaches: "quic_reaches sample_quic_io sample_endpoint sample_quic_connected"
  unfolding sample_quic_connected_def
  using sample_quic_initialized
  by (intro quic_reaches.send quic_reaches.connection_event quic_reaches.initialize [OF quic_reaches.start])
    auto


theorem quic_sends_in_order_witness:
  "\<exists>bs. sent_bytes (qc_calls (quic_sender_rounds sample_quic_io 1 sample_quic_connected)) = bs @ [[1]]"
proof -
  have "qc_connectionState sample_quic_connected = St_CONNECTED" "qc_outboundQueue sample_quic_connected = [(createExternalClientConnect ''s'' ''c'' ''v'' [])]"
    using sample_quic_initialized by (auto simp: sample_quic_connected_def quic_sendMessage_def)
  then show ?thesis
    using quic_sends_in_order [of sample_quic_connected sample_quic_io]
    by (auto simp: payloads_def sample_quic_defs)
qed

text \<open>A command of the old session is still there when the next one starts.\<close>

theorem quic_stale_message_fails_connect_witness:
  "\<exists>xcn'. xcn_initializeConnection (sample_env (quic_channel sample_quic_io id)) (\<lambda>_. 0) []
      (sample_connection (quic_connectionCallback sample_quic_io Ev_ShutdownComplete
        (sample_quic [ES_Command (sample_command 4)]))) = Inr (- 1, xcn') \<and>
    qc_inboundQueue (xcn_channel xcn') = []"
proof -
  have "qc_inboundQueue (sample_quic [ES_Command (sample_command 4)]) = [ES_Command (sample_command 4)]"
    by (simp add: sample_quic_def)
  then show ?thesis
    using quic_stale_message_fails_connect [of "sample_env (quic_channel sample_quic_io id)" sample_quic_io id
        "sample_connection (quic_connectionCallback sample_quic_io Ev_ShutdownComplete
          (sample_quic [ES_Command (sample_command 4)]))" "sample_quic [ES_Command (sample_command 4)]"
        "ES_Command (sample_command 4)" "[]" "\<lambda>_. 0" "[]"] sample_quic_initialized
    by (auto simp: sample_codes_ok sample_quic_defs simp del: quic_connectionCallback.simps)
qed

end
