(* ===== verification/Mqtt_Channel.thy ===== *)
theory Mqtt_Channel
  imports Decimal Comm_Channel Buffers
begin

text \<open>
  The MQTT channel (MqttCommunication.hpp and .cpp), a layer over the asynchronous client of the Paho
  library. The library is not part of the repository: its client is a value of the type \<open>'p\<close>, and the
  operations the code calls are the record \<open>paho\<close>. A call that throws gives \<open>Inl\<close>; \<open>publish\<close> is taken not
  to throw while the client is connected. Waiting for a token is part of the call that gave it.
\<close>

section \<open>The library's interface\<close>

text \<open>The options of a connection; the files of \<open>ssl_options\<close> are trust store, private key and key store.\<close>

datatype mqtt_version = MQTTVERSION_DEFAULT | MQTTVERSION_3_1 | MQTTVERSION_3_1_1 | MQTTVERSION_5

record connect_options =
  cp_mqtt_version :: mqtt_version
  cp_keep_alive_interval :: nat
  cp_automatic_reconnect :: bool
  cp_connect_timeout :: nat
  cp_max_inflight :: nat
  cp_ssl :: "(string \<times> string \<times> string) option"

record 'p paho =
  pa_create :: "string \<Rightarrow> string \<Rightarrow> 'p"
  pa_start_consuming :: "'p \<Rightarrow> 'p"
  pa_connect :: "connect_options \<Rightarrow> 'p \<Rightarrow> (exn + unit) \<times> 'p"
  pa_subscribe :: "string \<Rightarrow> 'p \<Rightarrow> (exn + unit) \<times> 'p"
  pa_unsubscribe :: "string \<Rightarrow> 'p \<Rightarrow> 'p"
  pa_disconnect :: "'p \<Rightarrow> 'p"
  pa_is_connected :: "'p \<Rightarrow> bool"
  pa_publish :: "string \<Rightarrow> bytes \<Rightarrow> 'p \<Rightarrow> 'p"
  pa_try_consume :: "'p \<Rightarrow> (string \<times> bytes) option \<times> 'p"
  pa_serialize :: "external_client_msg \<Rightarrow> bytes"
  pa_parse :: "bytes \<Rightarrow> external_server_msg option"

section \<open>State\<close>

record 'p mqtt =
  mq_client :: "'p option"
  mq_clientId :: string
  mq_publishTopic :: string
  mq_subscribeTopic :: string
  mq_serverDisconnectTopic :: string
  mq_serverDisconnectPending :: bool
  mq_serverAddress :: string
  mq_connopts :: connect_options
  mq_destroyed :: "'p list"

definition createClientId :: "string \<Rightarrow> string \<Rightarrow> string" where
  "createClientId company vehicleName = company @ ''/'' @ vehicleName"

definition createPublishTopic :: "string \<Rightarrow> string \<Rightarrow> string" where
  "createPublishTopic company vehicleName = createClientId company vehicleName @ ''/module_gateway''"

definition createSubscribeTopic :: "string \<Rightarrow> string \<Rightarrow> string" where
  "createSubscribeTopic company vehicleName = createClientId company vehicleName @ ''/external_server''"

definition createServerDisconnectTopic :: "string \<Rightarrow> string \<Rightarrow> string" where
  "createServerDisconnectTopic company vehicleName =
     createClientId company vehicleName @ ''/external_server_disconnect''"

text \<open>The files for TLS: all three must be set, or the connection stays without it.\<close>

definition mqtt_ssl_files :: "(string \<times> string) list \<Rightarrow> (string \<times> string \<times> string) option" where
  "mqtt_ssl_files protocolSettings =
     (if um_find (=) SSL protocolSettings = Some ''true''
      then (case (um_find (=) CA_FILE protocolSettings, um_find (=) CLIENT_KEY protocolSettings,
                  um_find (=) CLIENT_CERT protocolSettings) of
              (Some ca, Some key, Some cert) \<Rightarrow> Some (ca, key, cert)
            | _ \<Rightarrow> None)
      else None)"

definition mqtt_setProperties ::
  "external_connection_settings \<Rightarrow> string \<Rightarrow> string \<Rightarrow> 'p mqtt \<Rightarrow> 'p mqtt" where
  "mqtt_setProperties settings company vehicleName mq =
     (let address = es_serverIp settings @ '':'' @ to_string (int (es_port settings));
          ssl = mqtt_ssl_files (es_protocolSettings settings)
      in mq\<lparr>mq_publishTopic := createPublishTopic company vehicleName,
            mq_subscribeTopic := createSubscribeTopic company vehicleName,
            mq_serverDisconnectTopic := createServerDisconnectTopic company vehicleName,
            mq_clientId := createClientId company vehicleName,
            mq_serverAddress := (if ssl = None then address else ''ssl://'' @ address),
            mq_connopts := (mq_connopts mq)\<lparr>cp_ssl := ssl\<rparr>\<rparr>)"

definition MqttCommunication :: "external_connection_settings \<Rightarrow> string \<Rightarrow> string \<Rightarrow> 'p mqtt" where
  "MqttCommunication settings company vehicleName =
     mqtt_setProperties settings company vehicleName
       \<lparr>mq_client = None, mq_clientId = [], mq_publishTopic = [], mq_subscribeTopic = [],
        mq_serverDisconnectTopic = [], mq_serverDisconnectPending = False, mq_serverAddress = [],
        mq_connopts = \<lparr>cp_mqtt_version = MQTTVERSION_3_1_1, cp_keep_alive_interval = mqtt_keepalive,
          cp_automatic_reconnect = mqtt_automatic_reconnect, cp_connect_timeout = mqtt_connect_timeout,
          cp_max_inflight = mqtt_max_inflight, cp_ssl = None\<rparr>, mq_destroyed = []\<rparr>"

section \<open>The channel's operations\<close>

definition mqtt_online :: "'p paho \<Rightarrow> 'p mqtt \<Rightarrow> bool" where
  "mqtt_online pa mq \<longleftrightarrow> (case mq_client mq of None \<Rightarrow> False | Some client \<Rightarrow> pa_is_connected pa client)"

text \<open>
  A connected client is unsubscribed and disconnected before it is destroyed; \<open>mq_destroyed\<close> keeps how
  each client was left.
\<close>

definition mqtt_closeConnection :: "'p paho \<Rightarrow> 'p mqtt \<Rightarrow> 'p mqtt" where
  "mqtt_closeConnection pa mq0 =
     (let mq = mq0\<lparr>mq_serverDisconnectPending := False\<rparr>
      in case mq_client mq of
           None \<Rightarrow> mq
         | Some client \<Rightarrow>
             let client = (if pa_is_connected pa client
                   then pa_disconnect pa (pa_unsubscribe pa (mq_serverDisconnectTopic mq)
                          (pa_unsubscribe pa (mq_subscribeTopic mq) client))
                   else client)
             in mq\<lparr>mq_client := None, mq_destroyed := mq_destroyed mq @ [client]\<rparr>)"

text \<open>\<open>connect\<close>: an exception leaves the client as far as it has come.\<close>

definition mqtt_connect :: "'p paho \<Rightarrow> 'p mqtt \<Rightarrow> (exn + unit) \<times> 'p mqtt" where
  "mqtt_connect pa mq =
     (let client = pa_start_consuming pa (pa_create pa (mq_serverAddress mq) (mq_clientId mq));
          (r1, client) = pa_connect pa (mq_connopts mq) client
      in case r1 of
           Inl e \<Rightarrow> (Inl e, mq\<lparr>mq_client := Some client\<rparr>)
         | Inr _ \<Rightarrow>
             let (r2, client) = pa_subscribe pa (mq_subscribeTopic mq) client
             in case r2 of
                  Inl e \<Rightarrow> (Inl e, mq\<lparr>mq_client := Some client\<rparr>)
                | Inr _ \<Rightarrow>
                    let (r3, client) = pa_subscribe pa (mq_serverDisconnectTopic mq) client
                    in (r3, mq\<lparr>mq_client := Some client\<rparr>))"

definition mqtt_initializeConnection :: "'p paho \<Rightarrow> 'p mqtt \<Rightarrow> (exn + unit) \<times> 'p mqtt" where
  "mqtt_initializeConnection pa mq =
     (if mqtt_online pa mq then (Inr (), mq)
      else mqtt_connect pa (if mq_client mq \<noteq> None then mqtt_closeConnection pa mq else mq))"

definition mqtt_sendMessage :: "'p paho \<Rightarrow> external_client_msg \<Rightarrow> 'p mqtt \<Rightarrow> bool \<times> 'p mqtt" where
  "mqtt_sendMessage pa message mq =
     (if \<not> mqtt_online pa mq then (False, mq)
      else (True, mq\<lparr>mq_client := map_option (pa_publish pa (mq_publishTopic mq) (pa_serialize pa message))
              (mq_client mq)\<rparr>))"

definition mqtt_receiveMessage :: "'p paho \<Rightarrow> 'p mqtt \<Rightarrow> external_server_msg option \<times> 'p mqtt" where
  "mqtt_receiveMessage pa mq =
     (case mq_client mq of
        None \<Rightarrow> (None, mq)
      | Some client \<Rightarrow>
          let (msg, client) = (if pa_is_connected pa client then pa_try_consume pa client else (None, client));
              mq = mq\<lparr>mq_client := Some client\<rparr>
          in case msg of
               None \<Rightarrow> (None, mq)
             | Some (topic, payload) \<Rightarrow>
                 if topic = mq_serverDisconnectTopic mq
                 then (None, mq\<lparr>mq_serverDisconnectPending := True\<rparr>)
                 else (pa_parse pa payload, mq))"

definition mqtt_consumeServerDisconnectNotification :: "'p mqtt \<Rightarrow> bool \<times> 'p mqtt" where
  "mqtt_consumeServerDisconnectNotification mq =
     (mq_serverDisconnectPending mq, mq\<lparr>mq_serverDisconnectPending := False\<rparr>)"

definition mqtt_cancelReceive :: "'p mqtt \<Rightarrow> 'p mqtt" where
  "mqtt_cancelReceive mq = mq"

definition mqtt_channel :: "'p paho \<Rightarrow> 'p mqtt channel" where
  "mqtt_channel pa =
     \<lparr>ch_initializeConnection = mqtt_initializeConnection pa,
      ch_sendMessage = mqtt_sendMessage pa,
      ch_receiveMessage = mqtt_receiveMessage pa,
      ch_closeConnection = mqtt_closeConnection pa,
      ch_cancelReceive = mqtt_cancelReceive,
      ch_consumeServerDisconnectNotification = mqtt_consumeServerDisconnectNotification\<rparr>"

text \<open>The channel refuses to send while it has no connected client, and so once it is closed.\<close>

interpretation mqtt: closing_channel "mqtt_channel pa" "mqtt_online pa"
  by unfold_locales
    (simp_all add: mqtt_channel_def mqtt_sendMessage_def mqtt_closeConnection_def mqtt_online_def Let_def
      split: option.split)

end
