(* ===== verification/Mqtt_Channel_Laws.thy ===== *)
theory Mqtt_Channel_Laws
  imports Mqtt_Channel External_Connection_Samples
begin

text \<open>
  The MQTT channel below a connection: the topics a channel is made with stay its topics whatever is
  called on it, and a message on the topic of the server's disconnect notifications ends the receiving
  loop, while one on the topic of the server's messages only does so by what it says.
\<close>

section \<open>The topics\<close>

text \<open>The topics of the vehicle, which are what \<open>MqttCommunication\<close> sets.\<close>

definition mqtt_topics_of :: "string \<Rightarrow> string \<Rightarrow> 'p mqtt \<Rightarrow> bool" where
  "mqtt_topics_of company vehicleName mq \<longleftrightarrow>
     mq_publishTopic mq = createPublishTopic company vehicleName \<and>
     mq_subscribeTopic mq = createSubscribeTopic company vehicleName \<and>
     mq_serverDisconnectTopic mq = createServerDisconnectTopic company vehicleName"

named_theorems topic_simps \<open>an operation of the channel keeps the topics\<close>

lemma MqttCommunication_topics [topic_simps]:
  "mqtt_topics_of company vehicleName (MqttCommunication settings company vehicleName)"
  by (simp add: mqtt_topics_of_def MqttCommunication_def mqtt_setProperties_def Let_def)

lemma mqtt_closeConnection_topics [topic_simps]:
  "mqtt_topics_of company vehicleName (mqtt_closeConnection pa mq) = mqtt_topics_of company vehicleName mq"
  by (simp add: mqtt_topics_of_def mqtt_closeConnection_def Let_def split: option.split)

lemma mqtt_connect_topics [topic_simps]:
  "mqtt_topics_of company vehicleName (snd (mqtt_connect pa mq)) = mqtt_topics_of company vehicleName mq"
  by (simp add: mqtt_topics_of_def mqtt_connect_def Let_def split: prod.split sum.split)

lemma mqtt_initializeConnection_topics [topic_simps]:
  "mqtt_topics_of company vehicleName (snd (mqtt_initializeConnection pa mq)) =
   mqtt_topics_of company vehicleName mq"
  by (simp add: mqtt_initializeConnection_def topic_simps)

lemma mqtt_sendMessage_topics [topic_simps]:
  "mqtt_topics_of company vehicleName (snd (mqtt_sendMessage pa message mq)) =
   mqtt_topics_of company vehicleName mq"
  by (simp add: mqtt_topics_of_def mqtt_sendMessage_def)

lemma mqtt_receiveMessage_topics [topic_simps]:
  "mqtt_topics_of company vehicleName (snd (mqtt_receiveMessage pa mq)) =
   mqtt_topics_of company vehicleName mq"
  by (simp add: mqtt_topics_of_def mqtt_receiveMessage_def Let_def split: option.split prod.split)

lemma topics_differ:
  "createSubscribeTopic company vehicleName \<noteq> createServerDisconnectTopic company vehicleName"
  by (simp add: createSubscribeTopic_def createServerDisconnectTopic_def)

section \<open>A message of the server, or the end of the session\<close>

lemma mqtt_receive_notification:
  assumes "mqtt_topics_of company vehicleName mq" and "mq_client mq = Some client"
    and "pa_is_connected pa client"
    and "pa_try_consume pa client = (Some (createServerDisconnectTopic company vehicleName, payload), client')"
  shows "mqtt_receiveMessage pa mq =
    (None, mq\<lparr>mq_client := Some client', mq_serverDisconnectPending := True\<rparr>)"
  using assms by (simp add: mqtt_receiveMessage_def mqtt_topics_of_def)

lemma mqtt_receive_server_message:
  assumes "mqtt_topics_of company vehicleName mq" and "mq_client mq = Some client"
    and "pa_is_connected pa client"
    and "pa_try_consume pa client = (Some (createSubscribeTopic company vehicleName, payload), client')"
  shows "mqtt_receiveMessage pa mq = (pa_parse pa payload, mq\<lparr>mq_client := Some client'\<rparr>)"
  using assms by (simp add: mqtt_receiveMessage_def mqtt_topics_of_def topics_differ)

lemmas mqtt_round_simps =
  xcn_receive_round_def xcn_channel_receive_def mqtt_channel_def mqtt_consumeServerDisconnectNotification_def
  Let_def pushAndNotify_def

text \<open>
  C35: A disconnect notification over MQTT ends the session, and only it. While a connection listens, a
  message on the vehicle's topic \<open>.../external_server_disconnect\<close> ends the receiving loop whatever its
  payload: one item that asks for no forced reconnect (flag \<open>False\<close>) goes to the reconnect queue, no
  command is queued, and the notification is used up, so that the next session does not see it. A
  message on \<open>.../external_server\<close> whose payload does not parse is dropped and the loop goes on.
\<close>

theorem mqtt_server_disconnect_ends_session:
  assumes "env_channel env = mqtt_channel pa"
    and "mqtt_topics_of company vehicleName (xcn_channel xcn)"
    and "mq_client (xcn_channel xcn) = Some client" and "pa_is_connected pa client"
    and "\<not> mq_serverDisconnectPending (xcn_channel xcn)"
    and "\<not> xcn_stopReceiving xcn" and "xcn_state xcn = St_CONNECTED"
    and "pa_try_consume pa client = (Some (topic, payload), client')"
    and "topic = createServerDisconnectTopic company vehicleName \<or>
         topic = createSubscribeTopic company vehicleName \<and> pa_parse pa payload = None"
  shows "xcn_receive_rounds env (Suc fuel) xcn =
    (let channel = (xcn_channel xcn)\<lparr>mq_client := Some client', mq_serverDisconnectPending := False\<rparr>
     in if topic = createServerDisconnectTopic company vehicleName
        then Inr (xcn\<lparr>xcn_channel := channel, xcn_reconnectQueue := xcn_reconnectQueue xcn @ [False]\<rparr>)
        else xcn_receive_rounds env fuel (xcn\<lparr>xcn_channel := channel\<rparr>))"
proof (cases "topic = createServerDisconnectTopic company vehicleName")
  case True
  have "mqtt_receiveMessage pa (xcn_channel xcn) =
      (None, (xcn_channel xcn)\<lparr>mq_client := Some client', mq_serverDisconnectPending := True\<rparr>)"
    using assms(2-4,8) True by (intro mqtt_receive_notification) auto
  then show ?thesis
    using assms(1,5-7) True by (simp add: mqtt_round_simps)
next
  case False
  have "mqtt_receiveMessage pa (xcn_channel xcn) =
      (pa_parse pa payload, (xcn_channel xcn)\<lparr>mq_client := Some client'\<rparr>)"
    using assms(2-4,8,9) False by (intro mqtt_receive_server_message) auto
  then show ?thesis
    using assms(1,5-7,9) False by (simp add: mqtt_round_simps)
qed

text \<open>A library whose client is connected and holds the messages still to be consumed.\<close>

definition sample_paho :: "(string \<times> bytes) list paho" where
  "sample_paho = \<lparr>pa_create = (\<lambda>_ _. []), pa_start_consuming = id, pa_connect = (\<lambda>_ p. (Inr (), p)),
     pa_subscribe = (\<lambda>_ p. (Inr (), p)), pa_unsubscribe = (\<lambda>_. id), pa_disconnect = id,
     pa_is_connected = (\<lambda>_. True), pa_publish = (\<lambda>_ _. id),
     pa_try_consume = (\<lambda>p. case p of [] \<Rightarrow> (None, []) | m # p \<Rightarrow> (Some m, p)),
     pa_serialize = (\<lambda>_. []), pa_parse = (\<lambda>_. None)\<rparr>"

definition sample_mqtt :: "(string \<times> bytes) list \<Rightarrow> (string \<times> bytes) list mqtt" where
  "sample_mqtt ms = (MqttCommunication sample_endpoint ''bringauto'' ''virtual'')\<lparr>mq_client := Some ms\<rparr>"

theorem mqtt_server_disconnect_ends_session_witness:
  "\<exists>xcn. xcn_receive_rounds (sample_env (mqtt_channel sample_paho)) 9
      ((sample_connection (sample_mqtt [(''bringauto/virtual/external_server_disconnect'', [1])]))
        \<lparr>xcn_state := St_CONNECTED\<rparr>) = Inr xcn \<and>
    xcn_reconnectQueue xcn = [False] \<and> \<not> mq_serverDisconnectPending (xcn_channel xcn)"
proof -
  let ?topic = "createServerDisconnectTopic ''bringauto'' ''virtual''"
  have topic: "?topic = ''bringauto/virtual/external_server_disconnect''"
    by (simp add: createServerDisconnectTopic_def createClientId_def)
  have "mqtt_topics_of ''bringauto'' ''virtual'' (sample_mqtt ms)" "mq_client (sample_mqtt ms) = Some ms"
    "\<not> mq_serverDisconnectPending (sample_mqtt ms)" for ms
    by (simp_all add: sample_mqtt_def mqtt_topics_of_def MqttCommunication_def mqtt_setProperties_def Let_def)
  then show ?thesis
    using mqtt_server_disconnect_ends_session [of "sample_env (mqtt_channel sample_paho)" sample_paho
        "''bringauto''" "''virtual''"
        "(sample_connection (sample_mqtt [(?topic, [1])]))\<lparr>xcn_state := St_CONNECTED\<rparr>"
        "[(?topic, [1])]" ?topic "[1]" "[]" 8]
    by (simp add: topic sample_paho_def sample_connection_def ExternalConnection_def Let_def)
qed

end
