(* ===== verification/Internal_Server_Bounds.thy ===== *)
theory Internal_Server_Bounds
  imports Internal_Server_Framing
begin

text \<open>
  The receive buffer of a connection against a client that sends anything: the server looks at no byte
  of the buffer but the received ones, and stores no more of a message than its header announced.
\<close>

section \<open>Only received bytes are read\<close>

text \<open>
  What holds of a context whatever the client has sent: no more of a message is stored than its header
  announced, and nothing before the header.
\<close>

definition context_sound :: "conn_context \<Rightarrow> bool" where
  "context_sound cx \<longleftrightarrow> unat (cx_completeMessageSize cx) < 2 ^ 32 \<and>
     length (cx_completeMessage cx) \<le> unat (cx_completeMessageSize cx)"

lemma le_nat_bound: "le_nat bs < 256 ^ length bs"
proof (induction bs)
  case (Cons b bs)
  have "unat b < 256" using unsigned_less [of b] by simp
  then show ?case using Cons by simp
qed simp

lemma messageHeader_sound:
  assumes "messageHeader n off cx = (bytesLeft, dataBegin, cx1)" and "context_sound cx"
  shows "context_sound cx1"
proof (cases "cx_completeMessageSize cx = 0")
  case True
  have "le_nat (take header_size (drop off (cx_buffer cx))) < 256 ^ header_size"
    by (rule less_le_trans [OF le_nat_bound]) (simp add: power_increasing)
  then have "unat (of_nat (le_nat (take header_size (drop off (cx_buffer cx)))) :: 64 word) < 2 ^ 32"
    by (subst unat_of_nat64) (simp_all add: header_size_def)
  then show ?thesis
    using assms True by (auto simp: messageHeader_def context_sound_def)
next
  case False
  then show ?thesis using assms by (simp add: messageHeader_def)
qed

lemma messageBody_sound:
  assumes "messageBody bytesLeft dataBegin cx1 = (rest, cx2)" and "context_sound cx1"
  shows "context_sound cx2"
proof -
  let ?size = "cx_completeMessageSize cx1" and ?len = "length (cx_completeMessage cx1)"
  have sound: "unat ?size < 2 ^ 32" "?len \<le> unat ?size" using assms(2) by (simp_all add: context_sound_def)
  have "unat (of_nat ?len :: 64 word) = ?len" using sound by (intro unat_of_nat64) simp
  then have "unat (?size - of_nat ?len) = unat ?size - ?len"
    using sound by (simp add: unat_sub word_le_nat_alt)
  then have "messageBytesLeft bytesLeft cx1 \<le> unat ?size - ?len"
    by (simp add: messageBytesLeft_def)
  then show ?thesis
    using assms(1) sound by (auto simp: messageBody_def Let_def context_sound_def)
qed

text \<open>The steps on a buffer with the same received bytes.\<close>

lemma messageHeader_buffer:
  assumes "messageHeader n off cx = (bytesLeft, dataBegin, cx1)"
    and "\<not> (n < header_size \<and> cx_completeMessageSize cx = 0)"
    and "take n (drop off b) = take n (drop off (cx_buffer cx))"
  shows "messageHeader n off (cx\<lparr>cx_buffer := b\<rparr>) = (bytesLeft, dataBegin, cx1\<lparr>cx_buffer := b\<rparr>) \<and>
    take bytesLeft (drop dataBegin b) = take bytesLeft (drop dataBegin (cx_buffer cx1))"
proof (cases "cx_completeMessageSize cx = 0")
  case True
  then have "header_size \<le> n" using assms(2) by simp
  then have "take header_size (take n xs) = take header_size xs" for xs :: bytes by simp
  then have "take header_size (drop off b) = take header_size (drop off (cx_buffer cx))"
    using assms(3) by metis
  moreover have "take (n - header_size) (drop (off + header_size) b) =
      take (n - header_size) (drop (off + header_size) (cx_buffer cx))"
    using arg_cong [OF assms(3), of "drop header_size"] by (simp add: drop_take add.commute)
  ultimately show ?thesis using assms(1) True by (auto simp: messageHeader_def)
next
  case False
  then show ?thesis using assms by (auto simp: messageHeader_def)
qed

lemma messageBody_buffer:
  assumes "messageBody bytesLeft dataBegin cx1 = (rest, cx2)"
    and "take bytesLeft (drop dataBegin b) = take bytesLeft (drop dataBegin (cx_buffer cx1))"
  shows "messageBody bytesLeft dataBegin (cx1\<lparr>cx_buffer := b\<rparr>) = (rest, cx2\<lparr>cx_buffer := b\<rparr>)"
proof -
  let ?n = "messageBytesLeft bytesLeft cx1"
  have "messageBytesLeft bytesLeft (cx1\<lparr>cx_buffer := b\<rparr>) = ?n" "?n \<le> bytesLeft"
    by (simp_all add: messageBytesLeft_def)
  moreover have "take ?n (drop dataBegin b) = take ?n (drop dataBegin (cx_buffer cx1))"
    using arg_cong [OF assms(2), of "take ?n"] \<open>?n \<le> bytesLeft\<close> by simp
  ultimately show ?thesis using assms(1) by (auto simp: messageBody_def Let_def)
qed

lemma context_sound_reset:
  "context_sound cx \<Longrightarrow> context_sound (cx\<lparr>cx_completeMessage := [], cx_completeMessageSize := 0\<rparr>)"
  by (simp add: context_sound_def)

lemma messageComplete_buffer [simp]: "messageComplete (cx\<lparr>cx_buffer := b\<rparr>) = messageComplete cx"
  by (simp add: messageComplete_def)

lemma reset_buffer [simp]:
  "cx\<lparr>cx_buffer := b, cx_completeMessage := m, cx_completeMessageSize := k\<rparr> =
   cx\<lparr>cx_completeMessage := m, cx_completeMessageSize := k, cx_buffer := b\<rparr>"
  by simp

lemma messageBody_rest_le: "messageBody bytesLeft dataBegin cx = (rest, cx2) \<Longrightarrow> rest \<le> bytesLeft"
  by (auto simp: messageBody_def Let_def)

lemma messageBody_keeps_buffer: "messageBody bytesLeft dataBegin cx = (rest, cx2) \<Longrightarrow> cx_buffer cx2 = cx_buffer cx"
  by (auto simp: messageBody_def Let_def)

lemma received_suffix:
  assumes "take n (drop off b) = take n (drop off b')" and "rest \<le> n"
  shows "take rest (drop (off + (n - rest)) b) = take rest (drop (off + (n - rest)) b')"
proof -
  have "take rest (drop (off + (n - rest)) xs) = drop (n - rest) (take n (drop off xs))" for xs :: "'a list"
    using assms(2) by (simp add: drop_take add.commute)
  then show ?thesis by (simp add: assms(1))
qed

lemma processBufferData_received:
  assumes "context_sound cx" and "length b = length (cx_buffer cx)"
    and "take n (drop off b) = take n (drop off (cx_buffer cx))"
    and "processBufferData handle n off cx st = (ok, cx', st')"
  shows "processBufferData handle n off (cx\<lparr>cx_buffer := b\<rparr>) st = (ok, cx'\<lparr>cx_buffer := b\<rparr>, st') \<and>
    context_sound cx'"
  using assms
proof (induction handle n off cx st arbitrary: ok cx' st' rule: processBufferData.induct)
  case (1 h n off cx s)
  note len = "1.prems"(2) [symmetric]
  show ?case
  proof (cases "off + n > length (cx_buffer cx) \<or> n < header_size \<and> cx_completeMessageSize cx = 0")
    case True
    then have "processBufferData h n off cx s = (False, cx, s)"
      and "processBufferData h n off (cx\<lparr>cx_buffer := b\<rparr>) s = (False, cx\<lparr>cx_buffer := b\<rparr>, s)"
      using len by (subst processBufferData.simps, auto)+
    then show ?thesis using "1.prems"(1,4) by auto
  next
    case False
    then have g: "\<not> off + n > length (cx_buffer cx)" "\<not> (n < header_size \<and> cx_completeMessageSize cx = 0)"
      by auto
    obtain bytesLeft db cx1 where H: "messageHeader n off cx = (bytesLeft, db, cx1)"
      by (cases "messageHeader n off cx") auto
    obtain rest cx2 where B: "messageBody bytesLeft db cx1 = (rest, cx2)"
      by (cases "messageBody bytesLeft db cx1") auto
    obtain ok1 s1 where X: "(if messageComplete cx2 then h (cx_completeMessage cx2) s else (True, s)) = (ok1, s1)"
      by (cases "if messageComplete cx2 then h (cx_completeMessage cx2) s else (True, s)")
    note Hb = messageHeader_buffer [OF H g(2) "1.prems"(3)]
    note Bb = messageBody_buffer [OF B conjunct2 [OF Hb]]
    let ?cx3 = "if messageComplete cx2
      then cx2\<lparr>cx_completeMessage := [], cx_completeMessageSize := 0\<rparr> else cx2"
    have Xb: "(if messageComplete (cx2\<lparr>cx_buffer := b\<rparr>) then h (cx_completeMessage (cx2\<lparr>cx_buffer := b\<rparr>)) s
        else (True, s)) = (ok1, s1)"
      using X by (auto split: if_splits)
    note eq = processBufferData.simps [of h n off cx s, unfolded H B X prod.case]
    note eqb = processBufferData.simps [of h n off "cx\<lparr>cx_buffer := b\<rparr>" s, unfolded conjunct1 [OF Hb] Bb Xb prod.case]
    have sound: "context_sound cx2" "context_sound ?cx3"
      using messageBody_sound [OF B messageHeader_sound [OF H "1.prems"(1)]] context_sound_reset by auto
    have buffer: "cx_buffer ?cx3 = cx_buffer cx"
      using messageBody_keeps_buffer [OF B] messageHeader_bounds(2) [OF H g(2)] by simp
    show ?thesis
    proof (cases "ok1 \<and> rest \<noteq> 0")
      case True
      have "rest \<le> n"
        using messageBody_rest_le [OF B] messageHeader_bounds(3) [OF H g(2)] by simp
      then have suffix: "take rest (drop (off + (n - rest)) b) = take rest (drop (off + (n - rest)) (cx_buffer ?cx3))"
        unfolding buffer using received_suffix "1.prems"(3) by blast
      have "processBufferData h rest (off + (n - rest)) ?cx3 s1 = (ok, cx', s')" if "st' = s'" for s'
        using "1.prems"(4) g eq True that by (simp add: Let_def)
      then have "processBufferData h rest (off + (n - rest)) (?cx3\<lparr>cx_buffer := b\<rparr>) s1 =
          (ok, cx'\<lparr>cx_buffer := b\<rparr>, st') \<and> context_sound cx'"
        using "1.IH" [OF g H [symmetric] HOL.refl B [symmetric] X [symmetric] _ HOL.refl] True sound(2)
          "1.prems"(2) buffer suffix by simp
      then show ?thesis using eqb g len True by (auto simp: Let_def)
    next
      case False
      then show ?thesis
        using "1.prems"(4) g eq eqb len sound by (auto simp: Let_def split: if_splits)
    qed
  qed
qed

lemma fill_buffer_received:
  "take (length c) (drop 0 (c @ drop (length c) b)) = take (length c) (drop 0 (cx_buffer (fill_buffer c cx)))"
  by (simp add: fill_buffer_def)

lemma receive_chunks_received:
  assumes "context_sound cx" and "length b = length (cx_buffer cx)"
    and "receive_chunks handle cs cx st = (ok, cx', st')"
    and "\<forall>c \<in> set cs. length c \<le> length (cx_buffer cx)"
  shows "\<exists>b'. receive_chunks handle cs (cx\<lparr>cx_buffer := b\<rparr>) st = (ok, cx'\<lparr>cx_buffer := b'\<rparr>, st') \<and>
    context_sound cx'"
  using assms
proof (induction handle cs cx st arbitrary: b rule: receive_chunks.induct)
  case (2 handle c cs cx st)
  obtain ok1 cx1 st1 where run: "processBufferData handle (length c) 0 (fill_buffer c cx) st = (ok1, cx1, st1)"
    by (cases "processBufferData handle (length c) 0 (fill_buffer c cx) st") auto
  let ?b = "c @ drop (length c) b"
  have fill: "fill_buffer c (cx\<lparr>cx_buffer := b\<rparr>) = (fill_buffer c cx)\<lparr>cx_buffer := ?b\<rparr>"
    by (simp add: fill_buffer_def)
  have sound: "context_sound (fill_buffer c cx)" using "2.prems"(1) by (simp add: fill_buffer_def context_sound_def)
  have len: "length (cx_buffer (fill_buffer c cx)) = length (cx_buffer cx)"
    using "2.prems"(4) by (simp add: fill_buffer_def)
  have "length ?b = length (cx_buffer (fill_buffer c cx))"
    using "2.prems"(2,4) len by simp
  note one = processBufferData_received [OF sound this fill_buffer_received run]
  have "length (cx_buffer cx1) = length (cx_buffer cx)"
    using cx_buffer_processBufferData [of handle "length c" 0 "fill_buffer c cx" st] run len by simp
  then show ?case
    using one run fill "2.prems"(3,4) "2.IH" [OF run [symmetric], of cx1 st1 ?b] \<open>length ?b = _\<close> len
    by (cases ok1) auto
qed auto

text \<open>
  C12: whatever a client sends, and however it is cut into receives, the server reads no byte of the receive buffer
  that was not received: the outcome, the messages handled and the state they leave are the same for every
  former content of the buffer. And it never stores more of a message than the 32 bit size
  in its header says.
\<close>

theorem received_bytes_only:
  assumes "length (cx_buffer cx) = buffer_length" and "length b = buffer_length"
    and "cx_completeMessageSize cx = 0" and "cx_completeMessage cx = []"
    and "\<forall>c \<in> set cs. length c \<le> buffer_length"
    and "receive_chunks handle cs cx st = (ok, cx', st')"
  shows "(\<exists>b'. receive_chunks handle cs (cx\<lparr>cx_buffer := b\<rparr>) st = (ok, cx'\<lparr>cx_buffer := b'\<rparr>, st')) \<and>
    length (cx_completeMessage cx') \<le> unat (cx_completeMessageSize cx') \<and>
    unat (cx_completeMessageSize cx') < 2 ^ 32"
proof -
  have "context_sound cx" using assms(3,4) by (simp add: context_sound_def)
  from receive_chunks_received [OF this _ assms(6), of b] assms(1,2,5) show ?thesis
    by (auto simp: context_sound_def)
qed

theorem received_bytes_only_witness:
  "\<exists>ok cx' st' b'. receive_chunks (\<lambda>m st. (True, st @ [m])) [[3, 0, 0, 0, 1], [2]] empty_context [] = (ok, cx', st') \<and>
     receive_chunks (\<lambda>m st. (True, st @ [m])) [[3, 0, 0, 0, 1], [2]]
       (empty_context\<lparr>cx_buffer := replicate 1024 7\<rparr>) [] = (ok, cx'\<lparr>cx_buffer := b'\<rparr>, st') \<and>
     length (cx_completeMessage cx') \<le> unat (cx_completeMessageSize cx')"
proof -
  let ?run = "receive_chunks (\<lambda>m st. (True, st @ [m])) [[3, 0, 0, 0, 1], [2]] empty_context []"
  obtain ok cx' st' where run: "?run = (ok, cx', st')" by (cases ?run) auto
  have "length (cx_buffer empty_context) = buffer_length" "cx_completeMessageSize empty_context = 0"
    "cx_completeMessage empty_context = []" "length (replicate 1024 (7 :: u8)) = buffer_length"
    "\<forall>c \<in> set [[3, 0, 0, 0, 1], [2 :: u8]]. length c \<le> buffer_length"
    by (simp_all add: empty_context_def buffer_length_def)
  from received_bytes_only [OF this(1,4,2,3,5) run] run show ?thesis by blast
qed

end
