(* ===== verification/Spec2Isabelle.thy ===== *)
theory Spec2Isabelle
  imports Gateway Removed_Client Client_Waits External_Client_Wait Quic_Channel_Laws Mqtt_Channel_Laws Internal_Server_Bounds
begin

text \<open>
  A model of the BringAuto Module Gateway, the program of src/main.cpp, src/source/bringauto and
  src/include/bringauto. The gateway stands between internal clients (devices, over TCP) and external
  servers (over MQTT or QUIC) and lets modules, loaded as shared libraries or run by a module binary, aggregate the statuses of the devices
  and generate their commands.

  \<^bold>\<open>The parts and how they interact.\<close> The internal server (InternalServer) accepts devices, cuts their byte
  streams into messages and passes them to the module handler; it writes the module handler's answers to
  the connection of the device they are for. The module handler (ModuleHandler) feeds each status to the status aggregator
  of its module, answers it with a command and sends the aggregated statuses to the external client.
  The external client (ExternalClient) sends each over the external connection of its module, and hands the servers'
  commands to the status aggregators. An external connection (ExternalConnection) runs the connect
  sequence and the receiving loop over a communication channel, and keeps what could not be delivered in error aggregators.
  The parts share queues; the settings parser and \<open>main\<close> put them together.

  \<^bold>\<open>The theories.\<close>

  \<^item> Prelude: machine types, exceptions as values of a sum (\<open>exn + 'a\<close> with \<open>bindE\<close>), unordered maps as
    association lists up to a key equality, with their laws in the locale \<open>key_equality\<close>.
  \<^item> Constants, Fleet_Protocol, Device, Buffers, Atomic_Queue: constants, the protocol's messages as
    datatypes and records, DeviceIdentification, Buffer and ProtobufUtils, AtomicQueue and the queue messages.
  \<^item> Library_Handler: the handlers of a module, in process and through a module binary. Module_Loading: how a module is
    loaded, and that the start of a module binary ends.
  \<^item> Device_State, Status_Aggregator, Status_Aggregator_Laws, Status_Aggregator_Spec: the state of a device
    with its timer, the status aggregator, its invariant over all reachable states, and what it promises
    (the statuses and commands of a device as queues, devices independent of each other).
  \<^item> Module_Library, Module_Handler, Module_Handler_Laws: the loaded modules and the module handler.
  \<^item> Error_Aggregator, Sent_Messages: what was not delivered and what was not acknowledged.
  \<^item> Comm_Channel, External_Connection with _Laws and _Samples: the interface to a channel as a record of
    operations, with the contracts \<open>guarded_channel\<close>, \<open>closing_channel\<close> and \<open>mute_channel\<close> as locales, and one connection.
  \<^item> Mqtt_Channel, Quic_Channel and their laws, Quic_Settings: the two real channels, over records of the library
    calls they make; both interpret the contracts of a channel.
  \<^item> Internal_Server with _Framing, _Bounds, _Laws, _Handlers and _Samples: the internal server.
  \<^item> External_Client with _Laws, _Steps, _Routing, _Connect and _Samples: the external client. The locales
    \<open>connection_operation\<close>, \<open>client_relation\<close> and \<open>loop_relation\<close> lift what an operation of a
    connection keeps to the rounds of the client; they are interpreted for the operations of the code.
  \<^item> Decimal, Json, Enum_Utils, Settings, Settings_Parser, Settings_Parser_Laws, Logging: numbers as text, JSON
    values, the settings, their parser and printer, and the logger's wrapper.
  \<^item> Module_Library_Steady, Module_Handler_Steady, External_Connection_Steady, External_Client_Steady: progress and
    preservation when no module handler throws (\<open>steady_handler\<close>): every operation \<open>returns\<close>, with the invariants
    \<open>steady_modules\<close>, \<open>steady_connection\<close> and \<open>steady_client\<close>; the locale \<open>steady_operation\<close> lifts the operations of a
    connection to the client.
  \<^item> Program_Start: \<open>main\<close>. Gateway_Runs: the rounds of the module handler, the external client, the receiving loops and the timers
    in any order (\<open>gateway_step\<close>), on the queues and the library they share. Program_Runs: the whole program
    (\<open>program_reaches\<close>); its state extends the record of the internal server by the gateway, so that the operations of the
    server, which are defined on the record scheme, work on it as they are, and a receive handler waits while the whole program goes on.
    External_Client_Wait: the wait for the forced statuses.
    Gateway and this theory: the way of a command and of a status through all parts. Module_Handler_Answers and Gateway_Session: the
    session of a client with the running program, message by message. Removed_Client: a status that is handled after its
    connection was removed. Client_Waits: a client that is answered although other messages and answers are queued, and an answer that
    comes after its client has given up.

  \<^bold>\<open>How the code is modelled.\<close> A component's state is a record with a field per member of the class, and each method a
  function from the state to its result and the new state; names are the code's, with a prefix per
  class. A throwing operation returns \<open>Inl\<close>. What other threads do is an argument: every operation that
  holds a mutex is one step, a wait is given what arrives while it lasts, and a
  handler that gives up its lock is split there. The endless loops are given by
  their rounds. Properties over all interleavings are proved on step relations: \<open>program_reaches\<close> for the program, \<open>srv_reaches\<close> for the internal server,
  \<open>sa_reachable\<close> for the status aggregator, \<open>xl_reaches\<close> for the external client and \<open>quic_reaches\<close> for the QUIC channel.
  Code outside the repository is a parameter: the modules' functions (\<open>handler\<close>, \<open>module_library\<close>), sockets and
  protobuf encoding (\<open>server_io\<close>), Paho (\<open>paho\<close>), MsQuic (\<open>quic_io\<close>), cxxopts, files and JSON text (\<open>parser_env\<close>).

  \<^bold>\<open>Bounds and fuel.\<close> Message counters, sizes and header bytes are words of their width and wrap. \<open>mh_drain\<close> has
  the number of waiting statuses as its fuel, which its lemmas show to be enough. \<open>answer_rounds\<close> has the number of
  queued messages as its number of rounds, which \<open>waiting_client_answered\<close> shows to be enough. \<open>xcn_receive_rounds\<close> has a number of
  rounds, since the receiving loop ends only when the connection does. The loops of a connect sequence run
  over what arrives in each round, for as many rounds as that list is long. The wait for the forced statuses has no bound
  in the code either; \<open>forced_wait_ends\<close> says when it ends. The start of a module binary (\<open>asy_poll\<close>) needs no fuel: the clock moves on
  between its polls, and the deadline ends them.

  \<^bold>\<open>What is shown.\<close> End to end: a server's command reaches the device, a device's statuses reach the server
  in order and with consecutive counters, a client that comes at any quiet moment of a run gets an answer to each of its messages, a client whose message is
  in turn is answered whatever is queued, an accepted
  configuration starts a gateway that is wired as it says, and
  in no run of the started program does a round of a thread end in an exception. Per component:
  invariants over all runs, the effect of each operation on every branch, refinements of simpler
  descriptions, a round trip of the settings, and the cases in which the code does not do what its comments say; the latter are stated as
  the code behaves.

  \<^bold>\<open>Not modelled.\<close> What a thread does between two steps: threads, signals and the event loop are the interleaving of rounds and handlers,
  and joining a thread is the end of its rounds; durations, which appear only as
  the events they cause; log lines inside the components; the dynamic loader, the process of a module binary and Aeron, which are parameters of the loading;
  TLS parameters; destructors that only free memory.
\<close>

section \<open>From the external server to the device\<close>

text \<open>
  C1: a command that a server sends for a device which wants commands at once passes through the whole
  gateway: one round of the external client's command loop stores it in the status aggregator and
  notifies the module handler, one round of whose forwarding loop lets the module turn it into
  the command \<open>g\<close> for the device's current status, and one round of the internal server's listening loop writes \<open>g\<close>,
  framed, to the connection of that device.
\<close>

theorem server_command_reaches_client:
  assumes "codes_ok c" and "d = device_of_ip (cmd_device cmd)" and "lib = xl_library xl"
    and "um_find num_eq (di_module d) (ml_statusAggregators lib) = Some (h, sa)"
    and "handler_at (di_module d) (ml_moduleLibraryHandlers lib) = Inr h"
    and "lib_isDeviceTypeSupported h (di_deviceType d) = OK c"
    and "lib_forwardCommandOnReceive h (di_deviceType d) = OK c"
    and "um_find device_eq d (sa_devices sa) = Some s" and "ds_externalCommandQueue s = []"
    and "cmd_commanddata cmd \<noteq> []"
    and "bindE (lib_constructBuffer h (length (cmd_commanddata cmd))) (copyCommandToBuffer cmd) = Inr b"
    and "valid_command c h (di_deviceType d) b"
    and "lib_generateCommand h (ds_status s) (ds_status s) b (di_deviceType d) = Inr (OK c, g)"
    and "xl_fromExternalQueue xl = []" and "xl_commandForwardingQueue xl = []"
    and "srv_inv srv" and "cid \<in> set (srv_connectedDevices srv)"
    and "co_deviceId (srv_connections srv cid) = Some d'" and "isSame d d'" and "di_priority d = di_priority d'"
    and "co_open (srv_connections srv cid)" and "\<And>bs. io_write io cid bs = (bs, True)"
    and "\<not> srv_stopped srv" and "srv_toInternalQueue srv = []"
    and "payload = io_serialize io (createInternalServerCommandMessage (convertToIPDevice d) g)"
  shows "\<exists>xl' mh'. xl_handleCommands_round c [cmd] xl = Inr xl' \<and>
    mh_handleCommandForwards_round c (xl_commandForwardingQueue xl') (ModuleHandler (xl_library xl')) = Inr mh' \<and>
    co_written (srv_connections (srv_listenToQueue_round io (mh_toInternalQueue mh') srv) cid) =
      co_written (srv_connections srv cid) @ le_bytes header_size (length payload) @ payload"
proof -
  obtain sa' where u: "sa_update_command c h b d sa = (OK c, sa')"
    and s': "um_find device_eq d (sa_devices sa') = Some (s\<lparr>ds_externalCommandQueue := [b]\<rparr>)"
    using sa_update_command_queued [OF assms(1,6,8,9,12)] by blast
  let ?lib = "lib\<lparr>ml_statusAggregators :=
    um_modify num_eq (di_module d) (\<lambda>_. (h, sa')) (ml_statusAggregators lib)\<rparr>"
  let ?m = "createInternalServerCommandMessage (convertToIPDevice d) g"
  have d: "ip_module (cmd_device cmd) = di_module d" "ip_devicetype (cmd_device cmd) = di_deviceType d"
    by (simp_all add: assms(2))
  let ?in = "xl\<lparr>xl_fromExternalQueue := [cmd]\<rparr>"
  have "xl_handleCommand c cmd ?in = Inr (?in\<lparr>xl_library := ?lib,
      xl_commandForwardingQueue := [makeCommandForward d]\<rparr>)"
    using xl_handleCommand_forwarded [of cmd ?in h sa b c sa'] assms(3-5,7,10,11,15) u
    by (simp add: d assms(2) [symmetric])
  then have one: "xl_handleCommands_round c [cmd] xl = Inr (xl\<lparr>xl_fromExternalQueue := [],
      xl_library := ?lib, xl_commandForwardingQueue := [makeCommandForward d]\<rparr>)"
    using assms(14) by (simp add: xl_handleCommands_round_def waitForValueWithTimeout_def)
  let ?mh = "(ModuleHandler ?lib)\<lparr>mh_commandForwardingQueue := [makeCommandForward d]\<rparr>"
  have "um_find num_eq (di_module d) (mh_statusAggregators ?mh) = Some (h, sa')"
    using assms(4) by (simp add: ModuleHandler_def num.find_modify)
  from mh_handleCommandForward_sends [OF assms(1) this assms(6) s', of b "[]" g] assms(13)
  obtain mh' where "mh_handleCommandForward c d ?mh = Inr mh'"
    "mh_toInternalQueue mh' = [ModuleHandlerMessage False ?m]"
    "mh_commandForwardingQueue mh' = [makeCommandForward d]"
    by (auto simp: ModuleHandler_def)
  then obtain mh'' where two: "mh_handleCommandForwards_round c [makeCommandForward d] (ModuleHandler ?lib) = Inr mh''"
    "mh_toInternalQueue mh'' = [ModuleHandlerMessage False ?m]"
    by (auto simp: mh_handleCommandForwards_round_def waitForValueWithTimeout_def ModuleHandler_def)
  have m: "response_device ?m = convertToIPDevice d" by (simp add: createInternalServerCommandMessage_def)
  have "co_written (srv_connections (srv_listenToQueue_round io [ModuleHandlerMessage False ?m] srv) cid) =
      co_written (srv_connections srv cid) @ le_bytes header_size (length payload) @ payload"
    unfolding assms(25)
    by (rule srv_listen_writes [OF assms(16-18,21,22,23,24)])
      (use assms(19,20) in \<open>simp_all add: m ip_priority_convert\<close>)
  then show ?thesis using one two by auto
qed

text \<open>The sample device on connection 0, with a module that has its commands sent at once.\<close>

definition sample_push_handler :: handler where
  "sample_push_handler = sample_handler\<lparr>lib_forwardCommandOnReceive := \<lambda>_. 0\<rparr>"

definition sample_push_state :: device_state where
  "sample_push_state = (StatusAggregatorDeviceState (srv_sample_device 3) (sample_buffer [0]) (sample_buffer [5]))
     \<lparr>ds_forwardCommandImmediately := True\<rparr>"

definition sample_push_library :: gw_modules where
  "sample_push_library = \<lparr>ml_moduleLibraryHandlers = [(1, Some sample_push_handler)],
     ml_statusAggregators = [(1, sample_push_handler,
       StatusAggregator\<lparr>sa_devices := [(srv_sample_device 3, sample_push_state)]\<rparr>)]\<rparr>"

theorem server_command_reaches_client_witness:
  "\<exists>xl' mh'. xl_handleCommands_round sample_codes
      [\<lparr>cmd_device = convertToIPDevice (srv_sample_device 3), cmd_commanddata = [9]\<rparr>]
      ((sample_client [] [] [])\<lparr>xl_library := sample_push_library\<rparr>) = Inr xl' \<and>
    mh_handleCommandForwards_round sample_codes (xl_commandForwardingQueue xl') (ModuleHandler (xl_library xl')) =
      Inr mh' \<and>
    co_written (srv_connections (srv_listenToQueue_round srv_sample_io (mh_toInternalQueue mh')
      (srv_sample_pair None)) 0) = [1, 0, 0, 0, 5]"
proof -
  let ?cmd = "\<lparr>cmd_device = convertToIPDevice (srv_sample_device 3), cmd_commanddata = [9]\<rparr>"
  let ?xl = "(sample_client [] [] [])\<lparr>xl_library := sample_push_library\<rparr>"
  let ?d = "srv_sample_device 3"
  let ?sa = "StatusAggregator\<lparr>sa_devices := [(?d, sample_push_state)]\<rparr>"
  have d: "di_module ?d = 1" "di_deviceType ?d = 2" "device_eq ?d ?d" "isSame ?d ?d"
    by (simp_all add: srv_sample_device_def srv_sample_ip_def device_of_ip_def device_eq_def isSame_def)
  have h: "lib_isDeviceTypeSupported sample_push_handler 2 = 0" "lib_forwardCommandOnReceive sample_push_handler t = 0"
    "lib_constructBuffer sample_push_handler n = lib_constructBuffer sample_handler n"
    "lib_commandDataValid sample_push_handler = lib_commandDataValid sample_handler"
    "lib_generateCommand sample_push_handler = lib_generateCommand sample_handler" for t n
    by (simp_all add: sample_push_handler_def sample_handler_simps)
  have lib: "um_find num_eq 1 (ml_statusAggregators sample_push_library) = Some (sample_push_handler, ?sa)"
    "handler_at 1 (ml_moduleLibraryHandlers sample_push_library) = Inr sample_push_handler"
    by (simp_all add: sample_push_library_def handler_at_Inr_iff)
  have copy: "bindE (lib_constructBuffer sample_push_handler 1) (copyCommandToBuffer ?cmd) = Inr (sample_buffer [9])"
    by (simp add: h sample_handler_simps copyCommandToBuffer_def memcpy_to_def sample_buffer_def isAllocated_def)
  have queues: "xl_fromExternalQueue ?xl = []" "xl_commandForwardingQueue ?xl = []"
    "\<not> srv_stopped (srv_sample_pair None)" "srv_toInternalQueue (srv_sample_pair None) = []"
    by (simp_all add: sample_client_def srv_sample_pair_def InternalServer_def)
  have "\<exists>xl' mh'. xl_handleCommands_round sample_codes [?cmd] ?xl = Inr xl' \<and>
    mh_handleCommandForwards_round sample_codes (xl_commandForwardingQueue xl') (ModuleHandler (xl_library xl')) =
      Inr mh' \<and>
    co_written (srv_connections (srv_listenToQueue_round srv_sample_io (mh_toInternalQueue mh')
      (srv_sample_pair None)) 0) = co_written (srv_connections (srv_sample_pair None) 0) @
      le_bytes header_size (length [5 :: u8]) @ [5]"
    by (rule server_command_reaches_client [where d = ?d and h = sample_push_handler and sa = ?sa and
        s = sample_push_state and b = "sample_buffer [9]" and g = "sample_buffer [9]" and d' = ?d])
      (use lib copy queues d in \<open>simp_all add: sample_codes_ok h sample_handler_simps sample_push_state_def
        StatusAggregatorDeviceState_def valid_command_def srv_sample_pair_inv del: bindE_eq_Inr_iff\<close>)
  then show ?thesis by (simp add: le_bytes_header)
qed

section \<open>From the device to the external server\<close>

text \<open>
  C2: when a client sends a valid status, the statuses the module handler aggregates from it (oldest
  first) are sent by as many rounds of the external client's loop, each over the connection of the
  module, if it is connected and takes them: in their order, with the session's id and consecutive
  message counters (modulo 2^32), and each is remembered until the server acknowledges it.
\<close>

theorem client_status_reaches_server:
  assumes "codes_ok c" and "d = device_of_ip (st_device status)"
    and "um_find num_eq (di_module d) (mh_statusAggregators mh) = Some (h, sa)"
    and "um_find num_eq (di_module d) (mh_moduleLibraryHandlers mh) = Some (Some h)"
    and "lib_isDeviceTypeSupported h (di_deviceType d) = OK c" and "status_to_buffer h status = Inr b"
    and "lib_statusDataValid h b (di_deviceType d) \<noteq> NOT_OK c"
    and "sa_add_status_to_aggregator c h b d sa = Inr (n, sa1)" and "0 \<le> n"
    and "sa_get_command c h b d empty_buffer sa1 = Inr (rc, cmd, sa2)"
    and "rc = OK c \<or> rc = NO_MESSAGE_AVAILABLE c"
    and "mh_toExternalQueue mh = []" and "mh_moduleLibraryHandlers mh = ml_moduleLibraryHandlers (xl_library xl)"
    and "online cid xl" and "um_find num_eq (di_module d) (xl_externalConnectionMap xl) = Some cid"
    and "xcn_registered d (xl_conn cid xl)"
  shows "\<exists>mh' xl' ss. mh_handleStatus c status mh = Inr mh' \<and>
    xl_rounds c sc (length (mh_toExternalQueue mh')) (xl\<lparr>xl_toExternalQueue := mh_toExternalQueue mh'\<rparr>) = Inr xl' \<and>
    sm_notAckedStatuses (xcn_sent (xl_conn cid xl')) =
      sm_notAckedStatuses (xcn_sent (xl_conn cid xl)) @ map (na_startTimer \<circ> NotAckedStatus) ss \<and>
    map xs_devicestatus ss = map (createDeviceStatus d) (expected_messages c h b d sa) \<and>
    map xs_messagecounter ss =
      map (\<lambda>i. xcn_clientMessageCounter (xl_conn cid xl) + 1 + of_nat i) [0..<length ss] \<and>
    list_all (\<lambda>s. xs_sessionid s = xcn_sessionId (xl_conn cid xl)) ss"
proof -
  have d: "ip_module (st_device status) = di_module d" "ip_devicetype (st_device status) = di_deviceType d"
    "st_device status = convertToIPDevice d"
    by (simp_all add: assms(2))
  let ?ms = "map (status_message False (st_device status)) (expected_messages c h b d sa)"
  obtain mh' where mh': "mh_handleStatus c status mh = Inr mh'" "mh_toExternalQueue mh' = ?ms"
    using mh_handleStatus_answered [of c status mh h sa b d n sa1 rc cmd sa2, OF assms(1) _ _ _ assms(6) _ assms(2,8,9,10,11)]
      assms(3,4,5,7,12) by (auto simp only: d(1,2) append_Nil)
  let ?x = "xl\<lparr>xl_toExternalQueue := ?ms\<rparr>"
  have x: "xl_conn k ?x = xl_conn k xl" "xl_env k ?x = xl_env k xl" for k by (simp_all add: xl_conn_def xl_env_def)
  have status: "devicestatus (icm_message (status_message False (st_device status) e)) = createDeviceStatus d e" for e
    by (simp add: status_message_def createInternalClientStatusMessage_def createDeviceStatus_def d)
  have "online cid ?x" using assms(14) by (simp add: online_def x)
  moreover have "ready_for cid ?x m" if "m \<in> set ?ms" for m
    using that assms(4,13,15,16)
    by (auto simp: ready_for_def status x handler_at_Inr_iff createDeviceStatus_def)
      (simp add: status_message_def)
  ultimately obtain xl' ss where "xl_rounds c sc (length ?ms) ?x = Inr xl'"
    "sm_notAckedStatuses (xcn_sent (xl_conn cid xl')) =
      sm_notAckedStatuses (xcn_sent (xl_conn cid xl)) @ map (na_startTimer \<circ> NotAckedStatus) ss"
    "map xs_devicestatus ss = map (devicestatus \<circ> icm_message) ?ms"
    "map xs_messagecounter ss = map (\<lambda>i. xcn_clientMessageCounter (xl_conn cid xl) + 1 + of_nat i) [0..<length ?ms]"
    "list_all (\<lambda>s. xs_sessionid s = xcn_sessionId (xl_conn cid xl)) ss"
    using xl_rounds_send [of cid ?x ?ms c sc] by (auto simp: x)
  moreover from this have "length ?ms = length ss" by (metis length_map)
  ultimately show ?thesis using mh' status by (intro exI [of _ mh'] exI [of _ xl'] exI [of _ ss]) (simp add: comp_def)
qed

text \<open>A connected connection over a channel that takes every message.\<close>

definition sample_online :: "external_server_msg list external_client" where
  "sample_online = \<lparr>xl_insideConnectSequence = False, xl_externalConnectionMap = [(7, 0)],
     xl_externalConnectionsList = [(sample_env script_channel, (sample_connection [])\<lparr>xcn_state := St_CONNECTED,
       xcn_errorAggregators := [(7, \<lparr>ea_module = Some sample_handler, ea_devices = [(sample_device,
         \<lparr>ea_errorMessage = empty_buffer, ea_lastStatus = empty_buffer\<rparr>)]\<rparr>)]\<rparr>)],
     xl_toExternalQueue = [], xl_fromExternalQueue = [], xl_commandForwardingQueue = [],
     xl_reconnectQueue = [], xl_library = sample_library, xl_timerHandlers = [], xl_stopped = False\<rparr>"

theorem client_status_reaches_server_witness:
  "\<exists>mh' xl' s. mh_handleStatus sample_codes sample_mh_status (sample_mh StatusAggregator) = Inr mh' \<and>
    xl_rounds sample_codes sample_script (length (mh_toExternalQueue mh'))
      (sample_online\<lparr>xl_toExternalQueue := mh_toExternalQueue mh'\<rparr>) = Inr xl' \<and>
    sm_notAckedStatuses (xcn_sent (xl_conn 0 xl')) = [na_startTimer (NotAckedStatus s)] \<and>
    st_statusdata (xs_devicestatus s) = [5] \<and> xs_messagecounter s = 1"
proof -
  have buf: "status_to_buffer sample_handler sample_mh_status = Inr (sample_buffer [5])"
    by (simp add: status_to_buffer_def sample_handler_simps copyStatusToBuffer_def memcpy_to_def
        isEmpty_def sample_buffer_def isAllocated_def sample_mh_status_def)
  obtain sa2 where cmd: "sa_get_command sample_codes sample_handler (sample_buffer [5]) sample_device
      empty_buffer sample_aggregator = Inr (0, sample_buffer [0], sa2)"
    by (simp add: sa_get_command_def sa_getCommandUnlocked_def sa_is_device_type_supported_def
        sample_handler_simps um_at_def sample_aggregator_def ds_consumeCommand_def StatusAggregatorDeviceState_def)
  have d: "sample_device = device_of_ip (st_device sample_mh_status)" by (simp add: sample_mh_status_def)
  have conn: "xl_conn 0 sample_online = (sample_connection [])\<lparr>xcn_state := St_CONNECTED,
       xcn_errorAggregators := [(7, \<lparr>ea_module = Some sample_handler, ea_devices = [(sample_device,
         \<lparr>ea_errorMessage = empty_buffer, ea_lastStatus = empty_buffer\<rparr>)]\<rparr>)]\<rparr>"
    "xl_env 0 sample_online = sample_env script_channel"
    by (simp_all add: sample_online_def xl_conn_def xl_env_def sample_env_def sample_library_def)
  have "online 0 sample_online"
    by (simp add: online_def conn sample_codes_ok xcn_getState_def xcn_drained_def sample_connection_def
        ExternalConnection_def script_channel_def) (simp add: sample_online_def)
  moreover have "xcn_registered sample_device (xl_conn 0 sample_online)"
    by (simp add: xcn_registered_def conn um_contains_def)
  moreover have "expected_messages sample_codes sample_handler (sample_buffer [5]) sample_device StatusAggregator =
      [sample_buffer [5]]"
    by (simp add: expected_messages_def StatusAggregator_def)
  moreover have "um_find num_eq 7 (xl_externalConnectionMap sample_online) = Some 0"
    "ml_moduleLibraryHandlers (xl_library sample_online) = [(7, Some sample_handler)]"
    by (simp_all add: sample_online_def sample_library_def)
  ultimately obtain mh' xl' s where "mh_handleStatus sample_codes sample_mh_status (sample_mh StatusAggregator) = Inr mh'"
    "xl_rounds sample_codes sample_script (length (mh_toExternalQueue mh'))
      (sample_online\<lparr>xl_toExternalQueue := mh_toExternalQueue mh'\<rparr>) = Inr xl'"
    "sm_notAckedStatuses (xcn_sent (xl_conn 0 xl')) =
      sm_notAckedStatuses (xcn_sent (xl_conn 0 sample_online)) @ [na_startTimer (NotAckedStatus s)]"
    "xs_devicestatus s = createDeviceStatus sample_device (sample_buffer [5])"
    "xs_messagecounter s = xcn_clientMessageCounter (xl_conn 0 sample_online) + 1"
    using client_status_reaches_server [OF sample_codes_ok d, of "sample_mh StatusAggregator" sample_handler
        StatusAggregator "sample_buffer [5]" 1 sample_aggregator 0 "sample_buffer [0]" sa2 sample_online 0 sample_script]
      buf cmd sample_add
    by (auto simp: sample_handler_simps)
  then show ?thesis by (auto simp: createDeviceStatus_def conn SentMessagesHandler_def)
qed

end
